(* ===== verification/Prelude.thy ===== *)
theory Prelude
  imports Main "HOL-Library.Product_Lexorder"
begin

text \<open>
  Shared vocabulary of the development: Python exceptions as values, time stamps, JSON
  documents, the SQL statements the repositories issue (as functions on lists of rows), and
  the three interfaces several components implement:

  \<^item> \<open>transition_table\<close>: a table of permitted state changes with absorbing terminal states;
  \<^item> \<open>fenced_store\<close>: rows guarded by a monotone fencing token;
  \<^item> \<open>idempotency_ledger\<close>: a store that answers a repeated request from its first answer.

  Each locale is interpreted on the definitions of the components that provide it.
\<close>

section \<open>Exceptions, results, time\<close>

text \<open>
  A Python call either returns or raises. A call that works on mutable state gives the result
  and the state it leaves behind, because an exception of an in-memory service keeps the
  assignments made before it. \<open>HTTPException\<close> carries the status code and the detail text.
\<close>

datatype pyerr =
    ValueError string
  | LookupError string
  | PermissionError string
  | OverflowError string
  | KeyError string
  | RuntimeError string
  | IntegrityError string
  | Conflict string
  | HTTPException int string

type_synonym 'a result = "pyerr + 'a"
type_synonym ('s, 'a) call = "'s \<Rightarrow> 'a result \<times> 's"
type_synonym uuid = nat
type_synonym instant = int

text \<open>Instants count microseconds since the epoch, the resolution of Python and PostgreSQL.\<close>

definition secs :: "int \<Rightarrow> int" where
  "secs n = n * 1000000"

definition minutes :: "int \<Rightarrow> int" where
  "minutes n = secs (60 * n)"

definition hours :: "int \<Rightarrow> int" where
  "hours n = secs (3600 * n)"

definition days :: "int \<Rightarrow> int" where
  "days n = secs (86400 * n)"

lemmas duration_defs = secs_def minutes_def hours_def days_def

named_theorems sql_defs \<open>definitions of the SQL statements on lists of rows\<close>
named_theorems frame \<open>what an operation leaves unchanged\<close>

definition is_ok :: "'e + 'a \<Rightarrow> bool" where
  "is_ok r = (case r of Inl _ \<Rightarrow> False | Inr _ \<Rightarrow> True)"

lemma is_ok_simps [simp]: "is_ok (Inr a)" "\<not> is_ok (Inl e)"
  by (simp_all add: is_ok_def)

lemma is_ok_iff: "is_ok r \<longleftrightarrow> (\<exists>a. r = Inr a)"
  by (cases r) simp_all

section \<open>JSON documents\<close>

datatype json =
    JNull
  | JBool bool
  | JInt int
  | JStr string
  | JList "json list"
  | JObj "(string \<times> json) list"

section \<open>SQL statements on lists of rows\<close>

text \<open>
  A table is the list of its rows in insertion order. \<open>UPDATE t SET f WHERE p\<close> maps the
  rows, \<open>SELECT ... WHERE p\<close> with \<open>first()\<close> finds one, and \<open>ORDER BY k LIMIT 1\<close> takes a
  row whose key is least (the earliest inserted among equals).
\<close>

definition sql_update :: "('r \<Rightarrow> bool) \<Rightarrow> ('r \<Rightarrow> 'r) \<Rightarrow> 'r list \<Rightarrow> 'r list" where
  [sql_defs]: "sql_update p f t = map (\<lambda>r. if p r then f r else r) t"

definition sql_first :: "('r \<Rightarrow> bool) \<Rightarrow> 'r list \<Rightarrow> 'r option" where
  [sql_defs]: "sql_first p t = find p t"

definition sql_count :: "('r \<Rightarrow> bool) \<Rightarrow> 'r list \<Rightarrow> nat" where
  [sql_defs]: "sql_count p t = length (filter p t)"

definition sql_exists :: "('r \<Rightarrow> bool) \<Rightarrow> 'r list \<Rightarrow> bool" where
  [sql_defs]: "sql_exists p t = list_ex p t"

fun first_by :: "('r \<Rightarrow> 'k::linorder) \<Rightarrow> 'r list \<Rightarrow> 'r option" where
  "first_by k [] = None"
| "first_by k (r # rs) =
     (case first_by k rs of None \<Rightarrow> Some r | Some r' \<Rightarrow> if k r' < k r then Some r' else Some r)"

lemma sql_update_length [simp]: "length (sql_update p f t) = length t"
  by (simp add: sql_update_def)

lemma sql_update_Nil [simp]: "sql_update p f [] = []"
  by (simp add: sql_update_def)

lemma sql_update_Cons [simp]:
  "sql_update p f (r # t) = (if p r then f r else r) # sql_update p f t"
  by (simp add: sql_update_def)

lemma in_sql_update:
  "r \<in> set (sql_update p f t) \<longleftrightarrow> (\<exists>r0\<in>set t. r = (if p r0 then f r0 else r0))"
  by (auto simp: sql_update_def)

lemma sql_update_hit: "r \<in> set t \<Longrightarrow> p r \<Longrightarrow> f r \<in> set (sql_update p f t)"
  by (auto simp: in_sql_update)

lemma sql_update_miss: "r \<in> set t \<Longrightarrow> \<not> p r \<Longrightarrow> r \<in> set (sql_update p f t)"
  by (auto simp: in_sql_update)

lemma sql_update_none: "(\<And>r. r \<in> set t \<Longrightarrow> \<not> p r) \<Longrightarrow> sql_update p f t = t"
  by (simp add: sql_update_def map_idI)

lemma sql_update_keys:
  assumes "\<And>r. p r \<Longrightarrow> k (f r) = k r"
  shows "map k (sql_update p f t) = map k t"
  using assms by (induction t) auto

lemma sql_first_Some: "sql_first p t = Some r \<Longrightarrow> r \<in> set t \<and> p r"
  by (auto simp: sql_first_def find_Some_iff)

lemma sql_first_None: "sql_first p t = None \<longleftrightarrow> (\<forall>r\<in>set t. \<not> p r)"
  by (auto simp: sql_first_def find_None_iff)

lemma sql_exists_iff: "sql_exists p t \<longleftrightarrow> (\<exists>r\<in>set t. p r)"
  by (auto simp: sql_exists_def list_ex_iff)

lemma first_by_None [simp]: "first_by k t = None \<longleftrightarrow> t = []"
  by (cases t) (auto split: option.splits)

lemma first_by_Some:
  "first_by k t = Some r \<Longrightarrow> r \<in> set t \<and> (\<forall>r'\<in>set t. k r \<le> k r')"
proof (induction t arbitrary: r)
  case Nil
  then show ?case by simp
next
  case (Cons x t)
  show ?case
  proof (cases "first_by k t")
    case None
    with Cons.prems show ?thesis by simp
  next
    case (Some y)
    with Cons.IH[of y] have y: "y \<in> set t" "\<forall>r'\<in>set t. k y \<le> k r'" by auto
    show ?thesis
    proof (cases "k y < k x")
      case True
      with Cons.prems Some y show ?thesis by (auto intro: less_imp_le)
    next
      case False
      with Cons.prems Some y show ?thesis by (fastforce simp: not_less)
    qed
  qed
qed

lemma distinct_key_unique:
  assumes "distinct (map k t)" "a \<in> set t" "b \<in> set t" "k a = k b"
  shows "a = b"
  using assms by (metis distinct_map inj_onD)

section \<open>Transition tables\<close>

locale transition_table =
  fixes allowed :: "'st \<Rightarrow> 'st set"
    and terminal :: "'st set"
  assumes terminal_stuck: "t \<in> terminal \<Longrightarrow> allowed t = {}"
begin

lemma terminal_absorbing:
  "(\<lambda>a b. b \<in> allowed a)\<^sup>*\<^sup>* t u \<Longrightarrow> t \<in> terminal \<Longrightarrow> u = t"
  by (erule converse_rtranclpE) (auto simp: terminal_stuck)

lemma terminal_only_last:
  assumes "(\<lambda>a b. b \<in> allowed a)\<^sup>*\<^sup>* s t" "b \<in> allowed t"
  shows "t \<notin> terminal"
  using assms terminal_stuck by auto

end

section \<open>Fenced stores\<close>

text \<open>
  \<open>token s k\<close> is the fencing token of row \<open>k\<close>, \<open>admits s k n\<close> that some operation of a worker
  holding token \<open>n\<close> would be carried out. Once a row's token has passed \<open>n\<close>, the holder of
  \<open>n\<close> is shut out in every later state.
\<close>

locale fenced_store =
  fixes step :: "'s \<Rightarrow> 's \<Rightarrow> bool"
    and token :: "'s \<Rightarrow> 'k \<Rightarrow> int option"
    and admits :: "'s \<Rightarrow> 'k \<Rightarrow> int \<Rightarrow> bool"
  assumes token_mono: "step s s' \<Longrightarrow> token s k = Some n \<Longrightarrow> \<exists>n'. token s' k = Some n' \<and> n \<le> n'"
    and admits_token: "admits s k n \<Longrightarrow> token s k = Some n"
begin

lemma token_mono_star:
  "step\<^sup>*\<^sup>* s s' \<Longrightarrow> token s k = Some n \<Longrightarrow> \<exists>n'. token s' k = Some n' \<and> n \<le> n'"
proof (induction rule: rtranclp_induct)
  case base
  then show ?case by auto
next
  case (step y z)
  then obtain n' where "token y k = Some n'" "n \<le> n'" by blast
  moreover from token_mono[OF step.hyps(2) this(1)]
  obtain n'' where "token z k = Some n''" "n' \<le> n''" by blast
  ultimately show ?case by (auto intro: order_trans)
qed

lemma stale_token_shut_out:
  assumes "step\<^sup>*\<^sup>* s s'" "token s k = Some m" "n < m"
  shows "\<not> admits s' k n"
proof
  assume "admits s' k n"
  then have "token s' k = Some n" by (rule admits_token)
  with token_mono_star[OF assms(1,2)] assms(3) show False by auto
qed

end

section \<open>Idempotency ledgers\<close>

text \<open>
  \<open>submit q s\<close> presents the request \<open>q\<close> under the key \<open>key q\<close> with the digest \<open>digest q\<close>;
  \<open>entry s k\<close> is the digest and the identity of the answer stored for \<open>k\<close>. A new key stores
  its digest and answer, a request under a known key is answered only with the stored answer
  and only if its digest is the stored one, and no submission changes a stored entry.
\<close>

locale idempotency_ledger =
  fixes submit :: "'q \<Rightarrow> 's \<Rightarrow> ('e + 'r) \<times> 's"
    and key :: "'q \<Rightarrow> 'key"
    and digest :: "'q \<Rightarrow> 'digest"
    and entry :: "'s \<Rightarrow> 'key \<Rightarrow> ('digest \<times> 'val) option"
    and answer :: "'r \<Rightarrow> 'val"
  assumes submit_new:
      "entry s (key q) = None \<Longrightarrow> submit q s = (Inr r, s')
       \<Longrightarrow> entry s' (key q) = Some (digest q, answer r)"
    and submit_match:
      "entry s (key q) = Some (d, v) \<Longrightarrow> submit q s = (Inr r, s') \<Longrightarrow> d = digest q \<and> answer r = v"
    and submit_keeps:
      "entry s k = Some e \<Longrightarrow> entry (snd (submit q s)) k = Some e"
begin

text \<open>The state after a sequence of requests.\<close>

primrec submits :: "'q list \<Rightarrow> 's \<Rightarrow> 's" where
  "submits [] s = s"
| "submits (q # qs) s = submits qs (snd (submit q s))"

lemma submits_keep: "entry s k = Some e \<Longrightarrow> entry (submits qs s) k = Some e"
  by (induction qs arbitrary: s) (auto intro: submit_keeps)

lemma conflict_refused:
  "entry s (key q) = Some (d, v) \<Longrightarrow> d \<noteq> digest q \<Longrightarrow> \<not> is_ok (fst (submit q s))"
  using submit_match by (cases "submit q s") (auto simp: is_ok_iff)

lemma stored_after:
  assumes "submit q s = (Inr r, s')"
  shows "entry s' (key q) = Some (digest q, answer r)"
proof (cases "entry s (key q)")
  case None
  then show ?thesis using assms by (rule submit_new)
next
  case (Some e)
  obtain d v where e: "e = (d, v)" by (cases e)
  with Some assms have "d = digest q" "answer r = v" using submit_match by blast+
  moreover have "entry s' (key q) = Some e" using submit_keeps[OF Some, of q] assms by simp
  ultimately show ?thesis using e by simp
qed

theorem first_answer_wins:
  assumes "submit q s = (Inr r, s')"
    and "submit q' (submits qs s') = (Inr r', s'')" "key q' = key q"
  shows "digest q' = digest q \<and> answer r' = answer r"
proof -
  from stored_after[OF assms(1)]
  have "entry (submits qs s') (key q') = Some (digest q, answer r)"
    using assms(3) by (simp add: submits_keep)
  with submit_match assms(2) show ?thesis by metis
qed

end

text \<open>A ledger that also answers every repetition.\<close>

locale replaying_ledger = idempotency_ledger +
  assumes submit_replay: "entry s (key q) = Some (digest q, v) \<Longrightarrow> is_ok (fst (submit q s))"
begin

theorem repetition_answered:
  assumes "submit q s = (Inr r, s')" "key q' = key q" "digest q' = digest q"
  shows "\<exists>r' s''. submit q' (submits qs s') = (Inr r', s'') \<and> answer r' = answer r"
proof -
  have "entry (submits qs s') (key q') = Some (digest q', answer r)"
    using stored_after[OF assms(1)] assms(2,3) by (simp add: submits_keep)
  from submit_replay[OF this] obtain r' s'' where "submit q' (submits qs s') = (Inr r', s'')"
    by (cases "submit q' (submits qs s')") (auto simp: is_ok_iff)
  with first_answer_wins[OF assms(1) this assms(2)] show ?thesis by blast
qed

end

text \<open>A ledger inside a system whose other steps keep the entries too.\<close>

locale shared_ledger = idempotency_ledger +
  fixes step :: "'b \<Rightarrow> 'b \<Rightarrow> bool"
  assumes step_keeps: "step s s' \<Longrightarrow> entry s k = Some e \<Longrightarrow> entry s' k = Some e"
begin

lemma steps_keep: "step\<^sup>*\<^sup>* s s' \<Longrightarrow> entry s k = Some e \<Longrightarrow> entry s' k = Some e"
  by (induction rule: rtranclp_induct) (auto intro: step_keeps)

theorem first_answer_wins_later:
  assumes "submit q s = (Inr r, s1)" "step\<^sup>*\<^sup>* s1 s2"
    and "submit q' s2 = (Inr r', s3)" "key q' = key q"
  shows "digest q' = digest q \<and> answer r' = answer r"
proof -
  from steps_keep[OF assms(2) stored_after[OF assms(1)]]
  have "entry s2 (key q') = Some (digest q, answer r)" using assms(4) by simp
  with submit_match assms(3) show ?thesis by metis
qed

end

end
