(* ===== verification/Python.thy ===== *)
theory Python
  imports Prelude "HOL-Library.Char_ord" "HOL-Library.List_Lexorder" "HOL-Library.Multiset"
begin

text \<open>
  What the sources use of Python's built-ins and standard library. A \<open>str\<close> is a
  \<open>string\<close> whose characters stand for the code points U+0000 to U+00FF, so that
  \<open>len(s.encode())\<close>, \<open>s.lower()\<close> and the escapes of \<open>json.dumps\<close> are computed, not assumed.
  The digest functions of \<open>hashlib\<close> and \<open>hmac\<close> are arguments of the definitions that use them.
\<close>

section \<open>Strings\<close>

definition code :: "char \<Rightarrow> nat" where
  "code c = of_char c"

definition encoded_len :: "string \<Rightarrow> int" where
  "encoded_len s = sum_list (map (\<lambda>c. if code c < 128 then 1 else 2) s)"

definition lower_char :: "char \<Rightarrow> char" where
  "lower_char c =
     (if (65 \<le> code c \<and> code c \<le> 90) \<or> (192 \<le> code c \<and> code c \<le> 222 \<and> code c \<noteq> 215)
      then char_of (code c + 32) else c)"

definition lower :: "string \<Rightarrow> string" where
  "lower s = map lower_char s"

text \<open>
  \<open>s.upper()\<close>; U+00DF becomes two letters, and U+00B5 and U+00FF leave the modelled range, so they
  are kept.
\<close>

definition upper_char :: "char \<Rightarrow> string" where
  "upper_char c =
     (if (97 \<le> code c \<and> code c \<le> 122) \<or> (224 \<le> code c \<and> code c \<le> 254 \<and> code c \<noteq> 247)
      then [char_of (code c - 32)] else if code c = 223 then ''SS'' else [c])"

definition upper :: "string \<Rightarrow> string" where
  "upper s = concat (map upper_char s)"

definition is_digit :: "char \<Rightarrow> bool" where
  "is_digit c \<longleftrightarrow> 48 \<le> code c \<and> code c \<le> 57"

definition is_upper_ascii :: "char \<Rightarrow> bool" where
  "is_upper_ascii c \<longleftrightarrow> 65 \<le> code c \<and> code c \<le> 90"

definition is_lower_ascii :: "char \<Rightarrow> bool" where
  "is_lower_ascii c \<longleftrightarrow> 97 \<le> code c \<and> code c \<le> 122"

definition is_ascii_alnum :: "char \<Rightarrow> bool" where
  "is_ascii_alnum c \<longleftrightarrow> is_digit c \<or> is_upper_ascii c \<or> is_lower_ascii c"

definition is_space :: "char \<Rightarrow> bool" where
  "is_space c \<longleftrightarrow> (9 \<le> code c \<and> code c \<le> 13) \<or> (28 \<le> code c \<and> code c \<le> 32)
                  \<or> code c = 133 \<or> code c = 160"

definition strip :: "string \<Rightarrow> string" where
  "strip s = rev (dropWhile is_space (rev (dropWhile is_space s)))"

definition startswith :: "string \<Rightarrow> string \<Rightarrow> bool" where
  "startswith s p \<longleftrightarrow> take (length p) s = p"

definition endswith :: "string \<Rightarrow> string \<Rightarrow> bool" where
  "endswith s p \<longleftrightarrow> startswith (rev s) (rev p)"

fun contains :: "string \<Rightarrow> string \<Rightarrow> bool" where
  "contains [] p = (p = [])"
| "contains (c # s) p = (startswith (c # s) p \<or> contains s p)"

text \<open>\<open>re.fullmatch("[class]{lo,hi}", s)\<close>.\<close>

definition match_class :: "(char \<Rightarrow> bool) \<Rightarrow> nat \<Rightarrow> nat \<Rightarrow> string \<Rightarrow> bool" where
  "match_class p lo hi s \<longleftrightarrow> lo \<le> length s \<and> length s \<le> hi \<and> list_all p s"

definition one_of :: "string \<Rightarrow> char \<Rightarrow> bool" where
  "one_of cs c \<longleftrightarrow> c \<in> set cs"

text \<open>\<open>x or y\<close> on optional strings: both \<open>None\<close> and the empty string are false.\<close>

definition or_else :: "string option \<Rightarrow> string \<Rightarrow> string" where
  "or_else x y = (case x of None \<Rightarrow> y | Some s \<Rightarrow> if s = [] then y else s)"

section \<open>Printing numbers and identifiers\<close>

definition digit_char :: "nat \<Rightarrow> char" where
  "digit_char d = (if d < 10 then char_of (48 + d) else char_of (87 + d))"

fun str_nat :: "nat \<Rightarrow> string" where
  "str_nat n = (if n < 10 then [digit_char n] else str_nat (n div 10) @ [digit_char (n mod 10)])"

declare str_nat.simps [simp del]

definition str_int :: "int \<Rightarrow> string" where
  "str_int i = (if i < 0 then CHR ''-'' # str_nat (nat (- i)) else str_nat (nat i))"

primrec hex_digits :: "nat \<Rightarrow> nat \<Rightarrow> string" where
  "hex_digits 0 n = []"
| "hex_digits (Suc w) n = hex_digits w (n div 16) @ [digit_char (n mod 16)]"

definition str_uuid :: "uuid \<Rightarrow> string" where
  "str_uuid u =
     (let h = hex_digits 32 u
      in take 8 h @ ''-'' @ take 4 (drop 8 h) @ ''-'' @ take 4 (drop 12 h) @ ''-''
         @ take 4 (drop 16 h) @ ''-'' @ drop 20 h)"

fun read_nat :: "string \<Rightarrow> nat" where
  "read_nat s = foldl (\<lambda>n c. 10 * n + (code c - 48)) 0 s"

lemma code_digit_char: "d < 10 \<Longrightarrow> code (digit_char d) = 48 + d"
  by (simp add: code_def digit_char_def)

lemma read_str_nat: "read_nat (str_nat n) = n"
proof (induction n rule: str_nat.induct)
  case (1 n)
  show ?case
  proof (cases "n < 10")
    case True
    then show ?thesis by (simp add: str_nat.simps[of n] code_digit_char)
  next
    case False
    with 1 show ?thesis by (simp add: str_nat.simps[of n] code_digit_char)
  qed
qed

lemma str_nat_inj: "str_nat m = str_nat n \<Longrightarrow> m = n"
  by (metis read_str_nat)

text \<open>Code equations on integers, which evaluate in binary.\<close>

definition digit_of :: "int \<Rightarrow> char" where
  "digit_of d = ''0123456789abcdef'' ! nat d"

function str_pos :: "int \<Rightarrow> string" where
  "str_pos n = (if n < 10 then [digit_of n] else str_pos (n div 10) @ [digit_of (n mod 10)])"
  by pat_completeness auto
termination by (relation "measure nat") auto

declare str_pos.simps [simp del]

lemma digit_char_code: "d < 16 \<Longrightarrow> digit_char d = digit_of (int d)"
proof -
  assume "d < 16"
  then have "d \<in> set [0..<16]" by simp
  moreover have "list_all (\<lambda>d. digit_char d = digit_of (int d)) [0..<16]" by code_simp
  ultimately show ?thesis by (simp only: list_all_iff)
qed

lemma str_nat_code [code]: "str_nat n = str_pos (int n)"
proof (induction n rule: str_nat.induct)
  case (1 n)
  show ?case
  proof (cases "n < 10")
    case True
    then show ?thesis by (subst str_nat.simps, subst str_pos.simps) (simp add: digit_char_code)
  next
    case False
    have "digit_char (n mod 10) = digit_of (int n mod 10)"
      using digit_char_code[of "n mod 10"] by (simp add: zmod_int)
    with 1[OF False] False show ?thesis
      by (subst str_nat.simps, subst str_pos.simps) (simp add: zdiv_int)
  qed
qed

lemma str_int_code [code]: "str_int i = (if i < 0 then CHR ''-'' # str_pos (- i) else str_pos i)"
  by (simp add: str_int_def str_nat_code)

primrec hex_pos :: "nat \<Rightarrow> int \<Rightarrow> string" where
  "hex_pos 0 n = []"
| "hex_pos (Suc w) n = hex_pos w (n div 16) @ [digit_of (n mod 16)]"

lemma hex_digits_code [code]: "hex_digits w n = hex_pos w (int n)"
proof (induction w arbitrary: n)
  case (Suc w)
  then show ?case using digit_char_code[of "n mod 16"] by (simp add: zmod_int zdiv_int)
qed simp

section \<open>json.dumps\<close>

definition json_escape :: "char \<Rightarrow> string" where
  "json_escape c =
     (if code c = 34 then [char_of (92::nat), c]
      else if code c = 92 then [c, c]
      else if code c = 10 then [char_of (92::nat), CHR ''n'']
      else if code c = 13 then [char_of (92::nat), CHR ''r'']
      else if code c = 9 then [char_of (92::nat), CHR ''t'']
      else if code c = 8 then [char_of (92::nat), CHR ''b'']
      else if code c = 12 then [char_of (92::nat), CHR ''f'']
      else if code c < 32 \<or> 126 < code c then char_of (92::nat) # CHR ''u'' # hex_digits 4 (code c)
      else [c])"

text \<open>With \<open>ensure_ascii=False\<close> only control characters, quotes and backslashes are escaped.\<close>

definition json_escape_utf8 :: "char \<Rightarrow> string" where
  "json_escape_utf8 c = (if 126 < code c then [c] else json_escape c)"

definition json_string :: "(char \<Rightarrow> string) \<Rightarrow> string \<Rightarrow> string" where
  "json_string esc s = CHR 0x22 # concat (map esc s) @ [CHR 0x22]"

fun join :: "string \<Rightarrow> string list \<Rightarrow> string" where
  "join sep [] = []"
| "join sep [x] = x"
| "join sep (x # y # xs) = x @ sep @ join sep (y # xs)"

text \<open>
  \<open>json_print_with esc srt isep ksep\<close> is \<open>json.dumps(value, sort_keys=srt,
  separators=(isep, ksep))\<close> with the escapes \<open>esc\<close> of the chosen \<open>ensure_ascii\<close>.
\<close>

fun json_print_with :: "(char \<Rightarrow> string) \<Rightarrow> bool \<Rightarrow> string \<Rightarrow> string \<Rightarrow> json \<Rightarrow> string" where
  "json_print_with esc srt isep ksep JNull = ''null''"
| "json_print_with esc srt isep ksep (JBool b) = (if b then ''true'' else ''false'')"
| "json_print_with esc srt isep ksep (JInt i) = str_int i"
| "json_print_with esc srt isep ksep (JStr s) = json_string esc s"
| "json_print_with esc srt isep ksep (JList xs) =
     ''['' @ join isep (map (json_print_with esc srt isep ksep) xs) @ '']''"
| "json_print_with esc srt isep ksep (JObj kvs) =
     (let items = map (\<lambda>(k, v). (k, json_print_with esc srt isep ksep v)) kvs;
          items = (if srt then sort_key fst items else items)
      in ''{'' @ join isep (map (\<lambda>(k, v). json_string esc k @ ksep @ v) items) @ ''}'')"

abbreviation json_print :: "bool \<Rightarrow> string \<Rightarrow> string \<Rightarrow> json \<Rightarrow> string" where
  "json_print \<equiv> json_print_with json_escape"

abbreviation json_dumps :: "json \<Rightarrow> string" where
  "json_dumps \<equiv> json_print False '', '' '': ''"

abbreviation json_canonical :: "json \<Rightarrow> string" where
  "json_canonical \<equiv> json_print True '','' '':''"

abbreviation json_canonical_utf8 :: "json \<Rightarrow> string" where
  "json_canonical_utf8 \<equiv> json_print_with json_escape_utf8 True '','' '':''"

text \<open>A canonical dump does not depend on the order in which a dict received its keys.\<close>

lemma sort_key_fst_perm:
  assumes "distinct (map fst xs)" "mset xs = mset ys"
  shows "sort_key fst xs = sort_key fst ys"
proof (rule map_sorted_distinct_set_unique[where f = fst])
  have s: "set xs = set ys" using assms(2) by (rule mset_eq_setD)
  have d: "distinct (map fst ys)"
    using assms by (metis mset_eq_imp_distinct_iff mset_map)
  show "inj_on fst (set (sort_key fst xs) \<union> set (sort_key fst ys))"
    using assms(1) s by (simp add: distinct_map)
  show "sorted (map fst (sort_key fst xs))" "sorted (map fst (sort_key fst ys))" by simp_all
  show "distinct (map fst (sort_key fst xs))" "distinct (map fst (sort_key fst ys))"
    using assms(1) d by (metis mset_eq_imp_distinct_iff mset_map mset_sort)+
  show "set (sort_key fst xs) = set (sort_key fst ys)" using s by simp
qed

lemma json_canonical_key_order:
  assumes "distinct (map fst kvs)" "mset kvs = mset kvs'"
  shows "json_canonical (JObj kvs) = json_canonical (JObj kvs')"
proof -
  let ?p = "\<lambda>(k, v). (k, json_canonical v)"
  have "distinct (map fst (map ?p kvs))"
    using assms(1) by (simp add: case_prod_beta o_def)
  moreover have "mset (map ?p kvs) = mset (map ?p kvs')"
    using assms(2) by simp
  ultimately have "sort_key fst (map ?p kvs) = sort_key fst (map ?p kvs')"
    by (rule sort_key_fst_perm)
  then show ?thesis by (simp only: json_print_with.simps Let_def if_True)
qed

section \<open>dict\<close>

text \<open>\<open>d[k] = v\<close> on a dict that remembers insertion order, as an association list.\<close>

fun dict_set :: "'k \<Rightarrow> 'v \<Rightarrow> ('k \<times> 'v) list \<Rightarrow> ('k \<times> 'v) list" where
  "dict_set k v [] = [(k, v)]"
| "dict_set k v ((k', v') # d) = (if k' = k then (k, v) # d else (k', v') # dict_set k v d)"

lemma dict_set_lookup: "map_of (dict_set k v d) = (map_of d)(k \<mapsto> v)"
  by (induction k v d rule: dict_set.induct) auto

lemma dict_set_keys: "set (map fst (dict_set k v d)) = insert k (set (map fst d))"
  by (induction k v d rule: dict_set.induct) auto

lemma dict_set_items: "(k', v') \<in> set (dict_set k v d) \<Longrightarrow> (k', v') = (k, v) \<or> (k', v') \<in> set d"
  by (induction k v d rule: dict_set.induct) (auto split: if_splits)

lemma dict_set_distinct: "distinct (map fst d) \<Longrightarrow> distinct (map fst (dict_set k v d))"
proof (induction k v d rule: dict_set.induct)
  case (2 k v k' v' d)
  then show ?case using dict_set_keys[of k v d] by auto
qed simp

section \<open>Code equations\<close>

text \<open>Code points compared as integers, which evaluate in binary.\<close>

definition icode :: "char \<Rightarrow> int" where
  "icode c = of_char c"

lemma icode_eq: "icode c = int (code c)"
  by (simp add: icode_def code_def of_nat_of_char)

lemma char_of_int: "char_of (int n) = char_of n"
  by (simp add: char_of_def bit_of_nat_iff_bit)

lemma lower_char_code [code]:
  "lower_char c =
     (let i = icode c
      in if (65 \<le> i \<and> i \<le> 90) \<or> (192 \<le> i \<and> i \<le> 222 \<and> i \<noteq> 215) then char_of (i + 32) else c)"
proof -
  have "char_of (icode c + 32) = char_of (code c + 32)"
    using char_of_int[of "code c + 32"] by (simp add: icode_eq)
  then show ?thesis by (simp add: lower_char_def icode_eq)
qed

lemma upper_char_code [code]:
  "upper_char c =
     (let i = icode c
      in if (97 \<le> i \<and> i \<le> 122) \<or> (224 \<le> i \<and> i \<le> 254 \<and> i \<noteq> 247) then [char_of (i - 32)]
         else if i = 223 then ''SS'' else [c])"
proof -
  have "char_of (icode c - 32) = char_of (code c - 32)" if "32 \<le> code c"
    using char_of_int[of "code c - 32"] that by (simp add: icode_eq of_nat_diff)
  then show ?thesis by (auto simp: upper_char_def icode_eq Let_def)
qed

lemma json_escape_utf8_code [code]:
  "json_escape_utf8 c = (if 126 < icode c then [c] else json_escape c)"
  by (simp add: json_escape_utf8_def icode_eq)

lemma class_codes [code]:
  "is_digit c \<longleftrightarrow> (let i = icode c in 48 \<le> i \<and> i \<le> 57)"
  "is_upper_ascii c \<longleftrightarrow> (let i = icode c in 65 \<le> i \<and> i \<le> 90)"
  "is_lower_ascii c \<longleftrightarrow> (let i = icode c in 97 \<le> i \<and> i \<le> 122)"
  "is_space c \<longleftrightarrow> (let i = icode c in (9 \<le> i \<and> i \<le> 13) \<or> (28 \<le> i \<and> i \<le> 32) \<or> i = 133 \<or> i = 160)"
  "encoded_len s = sum_list (map (\<lambda>c. if icode c < 128 then 1 else 2) s)"
  by (simp_all add: is_digit_def is_upper_ascii_def is_lower_ascii_def is_space_def encoded_len_def icode_eq Let_def)

lemma json_escape_code [code]:
  "json_escape c =
     (let i = icode c
      in if i = 34 then [CHR 0x5C, c]
         else if i = 92 then [c, c]
         else if i = 10 then [CHR 0x5C, CHR ''n'']
         else if i = 13 then [CHR 0x5C, CHR ''r'']
         else if i = 9 then [CHR 0x5C, CHR ''t'']
         else if i = 8 then [CHR 0x5C, CHR ''b'']
         else if i = 12 then [CHR 0x5C, CHR ''f'']
         else if i < 32 \<or> 126 < i then CHR 0x5C # CHR ''u'' # hex_pos 4 i
         else [c])"
proof -
  have "char_of (92::nat) = CHR 0x5C" by code_simp
  then show ?thesis by (simp add: json_escape_def icode_eq hex_digits_code Let_def)
qed

section \<open>datetime\<close>

text \<open>
  A \<open>datetime\<close> either has no time zone, or names an instant. Two aware values are compared
  as instants.
\<close>

datatype datetime = Naive int | Aware instant

fun instant_of :: "datetime \<Rightarrow> instant" where
  "instant_of (Aware t) = t"
| "instant_of (Naive t) = t"

text \<open>
  \<open>isoformat()\<close> of a UTC value: the civil date of a day number (days since 1970-01-01, counted
  in eras of 400 years that start on 1 March), the time of day, and the microseconds when there
  are any.
\<close>

definition civil :: "int \<Rightarrow> int \<times> int \<times> int" where
  "civil day =
     (let z = day + 719468;
          doe = z mod 146097;
          yoe = (doe - doe div 1460 + doe div 36524 - doe div 146096) div 365;
          doy = doe - (365 * yoe + yoe div 4 - yoe div 100);
          mp = (5 * doy + 2) div 153;
          d = doy - (153 * mp + 2) div 5 + 1;
          m = (if mp < 10 then mp + 3 else mp - 9)
      in (yoe + (z div 146097) * 400 + (if m \<le> 2 then 1 else 0), m, d))"

definition zfill :: "nat \<Rightarrow> int \<Rightarrow> string" where
  "zfill w n = (let s = str_int n in replicate (w - length s) (CHR ''0'') @ s)"

definition isoformat :: "instant \<Rightarrow> string" where
  "isoformat t =
     (let (y, m, d) = civil (t div days 1);
          r = t mod days 1;
          us = r mod secs 1
      in zfill 4 y @ ''-'' @ zfill 2 m @ ''-'' @ zfill 2 d @ ''T''
         @ zfill 2 (r div hours 1) @ '':'' @ zfill 2 (r div minutes 1 mod 60) @ '':''
         @ zfill 2 (r div secs 1 mod 60)
         @ (if us = 0 then [] else ''.'' @ zfill 6 us) @ ''+00:00'')"

text \<open>\<open>not x\<close> on an optional string.\<close>

definition falsy :: "string option \<Rightarrow> bool" where
  "falsy x \<longleftrightarrow> (case x of None \<Rightarrow> True | Some s \<Rightarrow> s = [])"

lemma falsy_simps [simp]: "falsy None" "falsy (Some s) \<longleftrightarrow> s = []"
  by (simp_all add: falsy_def)

section \<open>Text of a JSON value\<close>

text \<open>\<open>str(v)\<close> as Python prints the value that \<open>json.loads\<close> made.\<close>

definition printable :: "char \<Rightarrow> bool" where
  "printable c \<longleftrightarrow> 32 \<le> icode c \<and> icode c \<le> 126 \<or> 161 \<le> icode c \<and> icode c \<noteq> 173"

definition repr_char :: "char \<Rightarrow> char \<Rightarrow> string" where
  "repr_char q c =
     (if c = q \<or> c = CHR 0x5C then [CHR 0x5C, c]
      else if icode c = 10 then [CHR 0x5C, CHR ''n'']
      else if icode c = 13 then [CHR 0x5C, CHR ''r'']
      else if icode c = 9 then [CHR 0x5C, CHR ''t'']
      else if printable c then [c]
      else [CHR 0x5C, CHR ''x''] @ hex_digits 2 (code c))"

definition repr_string :: "string \<Rightarrow> string" where
  "repr_string s =
     (let q = (if one_of s (CHR 0x27) \<and> \<not> one_of s (CHR 0x22) then CHR 0x22 else CHR 0x27)
      in q # concat (map (repr_char q) s) @ [q])"

fun py_repr :: "json \<Rightarrow> string" where
  "py_repr JNull = ''None''"
| "py_repr (JBool b) = (if b then ''True'' else ''False'')"
| "py_repr (JInt i) = str_int i"
| "py_repr (JStr s) = repr_string s"
| "py_repr (JList vs) = ''['' @ join '', '' (map py_repr vs) @ '']''"
| "py_repr (JObj kvs) =
     ''{'' @ join '', '' (map (\<lambda>(k, v). repr_string k @ '': '' @ py_repr v) kvs) @ ''}''"

definition py_str :: "json \<Rightarrow> string" where
  "py_str v = (case v of JStr s \<Rightarrow> s | _ \<Rightarrow> py_repr v)"

text \<open>Truth of a JSON value in Python.\<close>

fun truthy :: "json \<Rightarrow> bool" where
  "truthy JNull = False"
| "truthy (JBool b) = b"
| "truthy (JInt i) = (i \<noteq> 0)"
| "truthy (JStr s) = (s \<noteq> [])"
| "truthy (JList vs) = (vs \<noteq> [])"
| "truthy (JObj kvs) = (kvs \<noteq> [])"

end
