(* ===== verification/Ai_Contracts.thy ===== *)
theory Ai_Contracts
  imports Complex_Main Python
begin

text \<open>
  The versioned contracts of AI commands and results (\<open>app/core/ai_contracts.py\<close>): the pydantic
  models with their field constraints, and the validators that run after them. A value of
  \<open>ai_command\<close> is what the constructor receives; \<open>ai_command_validate\<close> is the constructor.
  The serialisation of a command or a result is pydantic's, an argument of the definitions.
\<close>

section \<open>The models\<close>

datatype command_type = CHAT | CODING | CRM | VOICE | EMBEDDINGS

fun command_type_value :: "command_type \<Rightarrow> string" where
  "command_type_value CHAT = ''ai.chat.v1''"
| "command_type_value CODING = ''ai.coding.v1''"
| "command_type_value CRM = ''ai.crm.v1''"
| "command_type_value VOICE = ''ai.voice.v1''"
| "command_type_value EMBEDDINGS = ''ai.embeddings.v1''"

record model_policy =
  mp_profile :: string
  mp_temperature :: rat
  mp_max_tokens :: int

record resource_limits =
  rl_runtime_seconds :: int
  rl_output_bytes :: int
  rl_retry_count :: int
  rl_token_budget :: int

record approval_policy =
  ap_required :: bool
  ap_action_types :: "string list"

datatype callback_policy = Poll | NoCallback

record ai_command =
  ac_command_id :: uuid
  ac_command_type :: command_type
  ac_schema_version :: string
  ac_tenant_id :: uuid
  ac_actor_id :: string
  ac_actor_type :: string
  ac_correlation_id :: string
  ac_idempotency_key :: string
  ac_priority :: int
  ac_requested_at :: datetime
  ac_deadline_at :: datetime
  ac_input :: "(string \<times> json) list"
  ac_model_policy :: model_policy
  ac_resource_limits :: resource_limits
  ac_data_classification :: string
  ac_approval_policy :: approval_policy
  ac_callback_policy :: callback_policy
  ac_metadata :: "(string \<times> string) list"

record ai_result =
  ar_command_id :: uuid
  ar_job_id :: uuid
  ar_status :: string
  ar_result_schema_version :: string
  ar_model_used :: string
  ar_provider_used :: string
  ar_started_at :: instant
  ar_completed_at :: instant
  ar_latency_ms :: int
  ar_token_usage :: "(string \<times> int) list"
  ar_resource_usage :: "(string \<times> json) list"
  ar_output :: "(string \<times> json) list"
  ar_structured_artifacts :: "json list"
  ar_warnings :: "string list"
  ar_policy_decisions :: "string list"
  ar_error :: "(string \<times> string) list option"
  ar_retryability :: string
  ar_audit_reference :: string

section \<open>Field constraints\<close>

definition model_profiles :: "string list" where
  "model_profiles = [''fast-chat'', ''quality-chat'', ''coding-default'', ''coding-large'',
                     ''crm-analysis'', ''voice-summary'', ''embedding-default'']"

definition between :: "int \<Rightarrow> int \<Rightarrow> int \<Rightarrow> bool" where
  "between lo hi x \<longleftrightarrow> lo \<le> x \<and> x \<le> hi"

definition model_policy_fields :: "model_policy \<Rightarrow> bool" where
  "model_policy_fields p \<longleftrightarrow>
     mp_profile p \<in> set model_profiles \<and> 0 \<le> mp_temperature p \<and> mp_temperature p \<le> 1
     \<and> between 1 8192 (mp_max_tokens p)"

definition resource_limits_fields :: "resource_limits \<Rightarrow> bool" where
  "resource_limits_fields r \<longleftrightarrow>
     between 1 600 (rl_runtime_seconds r) \<and> between 1 1048576 (rl_output_bytes r)
     \<and> between 0 5 (rl_retry_count r) \<and> between 1 32768 (rl_token_budget r)"

definition approval_policy_fields :: "approval_policy \<Rightarrow> bool" where
  "approval_policy_fields p \<longleftrightarrow> length (ap_action_types p) \<le> 16"

definition correlation_char :: "char \<Rightarrow> bool" where
  "correlation_char c \<longleftrightarrow> is_ascii_alnum c \<or> one_of ''._:-'' c"

fun timezone_required :: "datetime \<Rightarrow> bool" where
  "timezone_required (Aware _) = True"
| "timezone_required (Naive _) = False"

definition ai_command_fields :: "ai_command \<Rightarrow> bool" where
  "ai_command_fields c \<longleftrightarrow>
     ac_schema_version c = ''1.0''
     \<and> 1 \<le> length (ac_actor_id c) \<and> length (ac_actor_id c) \<le> 128
     \<and> ac_actor_type c \<in> set [''user'', ''service'', ''workflow'']
     \<and> match_class correlation_char 8 128 (ac_correlation_id c)
     \<and> 16 \<le> length (ac_idempotency_key c) \<and> length (ac_idempotency_key c) \<le> 255
     \<and> between 0 9 (ac_priority c)
     \<and> timezone_required (ac_requested_at c) \<and> timezone_required (ac_deadline_at c)
     \<and> model_policy_fields (ac_model_policy c)
     \<and> resource_limits_fields (ac_resource_limits c)
     \<and> ac_data_classification c \<in> set [''public'', ''internal'', ''confidential'', ''synthetic'']
     \<and> approval_policy_fields (ac_approval_policy c)"

section \<open>Model validators\<close>

fun allowed_profiles :: "command_type \<Rightarrow> string list" where
  "allowed_profiles CHAT = [''fast-chat'', ''quality-chat'']"
| "allowed_profiles CODING = [''coding-default'', ''coding-large'']"
| "allowed_profiles CRM = [''crm-analysis'']"
| "allowed_profiles VOICE = [''voice-summary'']"
| "allowed_profiles EMBEDDINGS = [''embedding-default'']"

definition forbidden_inputs :: "string list" where
  "forbidden_inputs = [''shell'', ''command'', ''provider_url'', ''endpoint'', ''credentials'',
                       ''password'', ''token'']"

definition policy_consistency :: "(ai_command \<Rightarrow> string) \<Rightarrow> ai_command \<Rightarrow> ai_command result" where
  "policy_consistency dump c =
     (let requested = instant_of (ac_requested_at c); deadline = instant_of (ac_deadline_at c) in
      if deadline \<le> requested then Inl (ValueError ''deadline must follow requested_at'')
      else if deadline - requested > secs 3600
        then Inl (ValueError ''deadline exceeds one-hour policy'')
      else if mp_profile (ac_model_policy c) \<notin> set (allowed_profiles (ac_command_type c))
        then Inl (ValueError ''unsupported model policy'')
      else if encoded_len (dump c) > 131072
        then Inl (ValueError ''command payload exceeds policy'')
      else if list_ex (\<lambda>(k, v). lower k \<in> set forbidden_inputs) (ac_input c)
        then Inl (ValueError ''privileged input field is forbidden'')
      else if ac_command_type c \<in> {CRM, VOICE} \<and> \<not> ap_required (ac_approval_policy c)
        then Inl (ValueError ''business command proposals require approval'')
      else Inr c)"

definition ai_command_validate :: "(ai_command \<Rightarrow> string) \<Rightarrow> ai_command \<Rightarrow> ai_command result" where
  "ai_command_validate dump c =
     (if ai_command_fields c then policy_consistency dump c else Inl (ValueError ''validation_error''))"

definition ai_result_fields :: "ai_result \<Rightarrow> bool" where
  "ai_result_fields r \<longleftrightarrow>
     ar_status r \<in> set [''SUCCEEDED'', ''FAILED_RETRYABLE'', ''FAILED_FINAL'', ''CANCELLED'']
     \<and> ar_result_schema_version r = ''1.0''
     \<and> 1 \<le> length (ar_model_used r) \<and> length (ar_model_used r) \<le> 128
     \<and> ar_provider_used r \<in> set [''litellm'', ''ollama'', ''openai'', ''mock'']
     \<and> 0 \<le> ar_latency_ms r
     \<and> ar_retryability r \<in> set [''none'', ''retryable'', ''final'']
     \<and> 8 \<le> length (ar_audit_reference r) \<and> length (ar_audit_reference r) \<le> 128"

definition ai_result_validate :: "(ai_result \<Rightarrow> string) \<Rightarrow> ai_result \<Rightarrow> ai_result result" where
  "ai_result_validate dump r =
     (if \<not> ai_result_fields r then Inl (ValueError ''validation_error'')
      else if ar_completed_at r < ar_started_at r then Inl (ValueError ''completion precedes start'')
      else if encoded_len (dump r) > 1048576 then Inl (ValueError ''result exceeds policy'')
      else Inr r)"

section \<open>Job states and the states shown to clients\<close>

datatype ai_state =
    Queued | Available | Leased | Running | Retry_wait | Completed | Failed | Cancel_requested
  | Cancelled | Expired | Dead_letter | Approval_required | Approved | Rejected

fun PUBLIC_STATES :: "ai_state \<Rightarrow> string" where
  "PUBLIC_STATES Queued = ''PENDING''"
| "PUBLIC_STATES Available = ''AVAILABLE''"
| "PUBLIC_STATES Leased = ''LEASED''"
| "PUBLIC_STATES Running = ''RUNNING''"
| "PUBLIC_STATES Retry_wait = ''FAILED_RETRYABLE''"
| "PUBLIC_STATES Completed = ''SUCCEEDED''"
| "PUBLIC_STATES Failed = ''FAILED_FINAL''"
| "PUBLIC_STATES Cancel_requested = ''CANCEL_REQUESTED''"
| "PUBLIC_STATES Cancelled = ''CANCELLED''"
| "PUBLIC_STATES Expired = ''EXPIRED''"
| "PUBLIC_STATES Dead_letter = ''DEAD_LETTERED''"
| "PUBLIC_STATES Approval_required = ''APPROVAL_REQUIRED''"
| "PUBLIC_STATES Approved = ''APPROVED''"
| "PUBLIC_STATES Rejected = ''REJECTED''"

fun state_value :: "ai_state \<Rightarrow> string" where
  "state_value Queued = ''queued''"
| "state_value Available = ''available''"
| "state_value Leased = ''leased''"
| "state_value Running = ''running''"
| "state_value Retry_wait = ''retry_wait''"
| "state_value Completed = ''completed''"
| "state_value Failed = ''failed''"
| "state_value Cancel_requested = ''cancel_requested''"
| "state_value Cancelled = ''cancelled''"
| "state_value Expired = ''expired''"
| "state_value Dead_letter = ''dead_letter''"
| "state_value Approval_required = ''approval_required''"
| "state_value Approved = ''approved''"
| "state_value Rejected = ''rejected''"

section \<open>What validation establishes\<close>

lemma ai_command_validate_Inr:
  "ai_command_validate dump c = Inr c' \<longleftrightarrow>
     c' = c \<and> ai_command_fields c
     \<and> instant_of (ac_requested_at c) < instant_of (ac_deadline_at c)
     \<and> instant_of (ac_deadline_at c) - instant_of (ac_requested_at c) \<le> secs 3600
     \<and> mp_profile (ac_model_policy c) \<in> set (allowed_profiles (ac_command_type c))
     \<and> encoded_len (dump c) \<le> 131072
     \<and> (\<forall>k v. (k, v) \<in> set (ac_input c) \<longrightarrow> lower k \<notin> set forbidden_inputs)
     \<and> (ac_command_type c \<in> {CRM, VOICE} \<longrightarrow> ap_required (ac_approval_policy c))"
  unfolding ai_command_validate_def policy_consistency_def Let_def
  by (auto simp: list_ex_iff not_less)

lemma ai_command_retry_bounds:
  "ai_command_validate dump c = Inr c' \<Longrightarrow>
     0 \<le> rl_retry_count (ac_resource_limits c) \<and> rl_retry_count (ac_resource_limits c) \<le> 5"
  by (simp add: ai_command_validate_Inr ai_command_fields_def resource_limits_fields_def between_def)

lemma allowed_profiles_are_profiles: "set (allowed_profiles t) \<subseteq> set model_profiles"
  by (cases t) (auto simp: model_profiles_def)

lemma PUBLIC_STATES_inj: "inj PUBLIC_STATES"
proof (rule injI)
  fix a b assume "PUBLIC_STATES a = PUBLIC_STATES b"
  then show "a = b" by (cases a; cases b) simp_all
qed

end
