(* ===== verification/Ai_Store.thy ===== *)
theory Ai_Store
  imports Ai_Contracts
begin

text \<open>
  The tables of the AI job platform (migrations 0030, 0031 and 0032) and the statements several
  operations share. A column nothing reads or returns (the surrogate keys of audit, attempt,
  chunk, event and usage rows, \<open>updated_at\<close> of the side tables) is left out. The database is a
  record of tables; each operation of the repositories is one transaction on it.
\<close>

section \<open>Rows\<close>

record ai_conversation =
  cv_id :: uuid
  cv_organization_id :: uuid
  cv_workspace_id :: uuid
  cv_created_by :: string
  cv_title :: string
  cv_status :: string

record ai_message =
  ms_id :: uuid
  ms_conversation_id :: uuid
  ms_organization_id :: uuid
  ms_workspace_id :: uuid
  ms_role :: string
  ms_content :: string
  ms_content_sha256 :: string

record ai_job =
  j_id :: uuid
  j_conversation_id :: "uuid option"
  j_request_message_id :: "uuid option"
  j_organization_id :: uuid
  j_workspace_id :: uuid
  j_requested_by :: string
  j_task_type :: string
  j_project_key :: "string option"
  j_state :: ai_state
  j_idempotency_key :: string
  j_request_sha256 :: string
  j_attempt_count :: int
  j_max_attempts :: int
  j_fencing_token :: int
  j_lease_owner :: "string option"
  j_lease_expires_at :: "instant option"
  j_next_attempt_at :: instant
  j_cancel_requested_at :: "instant option"
  j_completed_at :: "instant option"
  j_failure_code :: "string option"
  j_output_bytes :: int
  j_created_at :: instant
  j_updated_at :: instant
  j_command_type :: "command_type option"
  j_schema_version :: string
  j_actor_id :: "string option"
  j_actor_type :: "string option"
  j_correlation_id :: "string option"
  j_priority :: int
  j_deadline_at :: "instant option"
  j_command_payload :: "ai_command option"
  j_model_profile :: "string option"
  j_resource_limits :: "resource_limits option"
  j_data_classification :: string
  j_approval_policy :: "approval_policy option"
  j_callback_policy :: "callback_policy option"
  j_command_metadata :: "(string \<times> string) list"
  j_version :: int

record ai_chunk =
  ck_job_id :: uuid
  ck_organization_id :: uuid
  ck_workspace_id :: uuid
  ck_sequence :: int
  ck_fencing_token :: int
  ck_content :: string
  ck_content_sha256 :: string

record ai_attempt =
  at_job_id :: uuid
  at_attempt_number :: int
  at_fencing_token :: int
  at_worker_id :: string
  at_state :: ai_state
  at_safe_error_code :: "string option"
  at_finished_at :: "instant option"

record ai_heartbeat =
  hb_worker_id :: string
  hb_service_id :: string
  hb_certificate_serial :: string
  hb_spiffe_id :: string
  hb_last_seen_at :: instant
  hb_current_job_id :: "uuid option"

record ai_registration =
  rg_worker_id :: string
  rg_service_id :: string
  rg_capability_digest :: string
  rg_capabilities :: string
  rg_max_concurrency :: int
  rg_enabled :: bool
  rg_version :: int

record ai_job_result =
  rs_job_id :: uuid
  rs_organization_id :: uuid
  rs_workspace_id :: uuid
  rs_result :: ai_result
  rs_output_sha256 :: string

record ai_event =
  ev_job_id :: uuid
  ev_organization_id :: uuid
  ev_workspace_id :: uuid
  ev_event_type :: string
  ev_state :: ai_state
  ev_sequence :: int
  ev_safe_details :: "(string \<times> json) list"
  ev_correlation_id :: string

record ai_dead_letter =
  dl_job_id :: uuid
  dl_organization_id :: uuid
  dl_workspace_id :: uuid
  dl_safe_error_code :: string
  dl_attempt_count :: int
  dl_payload_sha256 :: string
  dl_final_error_code :: string
  dl_max_attempts :: int
  dl_safe_error_details :: "(string \<times> json) list"
  dl_failed_at :: instant
  dl_task_id :: uuid
  dl_tenant_id :: uuid
  dl_correlation_id :: string
  dl_evidence_hash :: string
  dl_manual_retry_requires_new_approval :: bool
  dl_recovery_status :: string

datatype approval_state = Pending | ApprovedBy | RejectedBy

record ai_approval =
  ax_id :: uuid
  ax_job_id :: uuid
  ax_organization_id :: uuid
  ax_workspace_id :: uuid
  ax_action_type :: "command_type option"
  ax_proposal :: json
  ax_proposal_sha256 :: string
  ax_requested_by :: string
  ax_state :: approval_state
  ax_decided_by_fingerprint :: "string option"
  ax_decision_reason :: "string option"
  ax_decided_at :: "instant option"

record ai_quota =
  qt_organization_id :: uuid
  qt_workspace_id :: uuid
  qt_max_queued :: int
  qt_max_running :: int
  qt_daily_tokens :: int
  qt_max_payload_bytes :: int

record ai_usage =
  us_job_id :: uuid
  us_organization_id :: uuid
  us_workspace_id :: uuid
  us_tokens :: int
  us_compute_units :: int
  us_model_profile :: "string option"
  us_usage_date :: int
  us_created_at :: instant

record ai_audit =
  au_organization_id :: "uuid option"
  au_workspace_id :: "uuid option"
  au_job_id :: "uuid option"
  au_actor_fingerprint :: string
  au_event_type :: string
  au_correlation_id :: string
  au_safe_details :: "(string \<times> json) list"

record ai_db =
  conversations :: "ai_conversation list"
  messages :: "ai_message list"
  jobs :: "ai_job list"
  chunks :: "ai_chunk list"
  attempts :: "ai_attempt list"
  heartbeats :: "ai_heartbeat list"
  registrations :: "ai_registration list"
  results :: "ai_job_result list"
  events :: "ai_event list"
  dead_letters :: "ai_dead_letter list"
  approvals :: "ai_approval list"
  quotas :: "ai_quota list"
  usage :: "ai_usage list"
  audits :: "ai_audit list"

text \<open>
  The arguments that stand for code outside the repository: the digest, and pydantic's
  \<open>model_dump_json\<close> and \<open>model_dump(mode="json")\<close> (the latter already printed canonically).
\<close>

record ai_env =
  sha256 :: "string \<Rightarrow> string"
  dump_json :: "ai_command \<Rightarrow> string"
  payload_json :: "ai_command \<Rightarrow> string"

section \<open>Shared statements\<close>

text \<open>\<open>(CAST(:org AS uuid) IS NULL OR organization_id=:org) AND ...\<close>.\<close>

definition tenant_match :: "uuid option \<Rightarrow> uuid option \<Rightarrow> ai_job \<Rightarrow> bool" where
  "tenant_match org ws j \<longleftrightarrow>
     (org = None \<or> org = Some (j_organization_id j)) \<and> (ws = None \<or> ws = Some (j_workspace_id j))"

definition audit ::
  "ai_env \<Rightarrow> string \<Rightarrow> string \<Rightarrow> string \<Rightarrow> uuid option \<Rightarrow> uuid option \<Rightarrow> uuid option
   \<Rightarrow> (string \<times> json) list \<Rightarrow> ai_db \<Rightarrow> ai_db" where
  "audit env event_type correlation_id actor org ws job details db =
     db\<lparr>audits := audits db @
        [\<lparr>au_organization_id = org, au_workspace_id = ws, au_job_id = job,
          au_actor_fingerprint = sha256 env actor, au_event_type = event_type,
          au_correlation_id = correlation_id, au_safe_details = details\<rparr>]\<rparr>"

definition update_jobs :: "(ai_job \<Rightarrow> bool) \<Rightarrow> (ai_job \<Rightarrow> ai_job) \<Rightarrow> ai_db \<Rightarrow> ai_db" where
  [sql_defs]: "update_jobs p f db = db\<lparr>jobs := sql_update p f (jobs db)\<rparr>"

definition find_job :: "uuid \<Rightarrow> ai_db \<Rightarrow> ai_job option" where
  "find_job i db = sql_first (\<lambda>j. j_id j = i) (jobs db)"

lemma audit_frame [simp]:
  "jobs (audit env e c a org ws job d db) = jobs db"
  "approvals (audit env e c a org ws job d db) = approvals db"
  "dead_letters (audit env e c a org ws job d db) = dead_letters db"
  "attempts (audit env e c a org ws job d db) = attempts db"
  "results (audit env e c a org ws job d db) = results db"
  "chunks (audit env e c a org ws job d db) = chunks db"
  "registrations (audit env e c a org ws job d db) = registrations db"
  "usage (audit env e c a org ws job d db) = usage db"
  by (simp_all add: audit_def)

lemma update_jobs_frame [simp]:
  "jobs (update_jobs p f db) = sql_update p f (jobs db)"
  "approvals (update_jobs p f db) = approvals db"
  "dead_letters (update_jobs p f db) = dead_letters db"
  "attempts (update_jobs p f db) = attempts db"
  "results (update_jobs p f db) = results db"
  "chunks (update_jobs p f db) = chunks db"
  "registrations (update_jobs p f db) = registrations db"
  "usage (update_jobs p f db) = usage db"
  by (simp_all add: update_jobs_def)

end
