(* ===== verification/Ai_Jobs.thy ===== *)
theory Ai_Jobs
  imports Ai_Store
begin

text \<open>
  The transactional job repository (\<open>app/core/ai_jobs.py\<close>): admission of model profiles, job
  creation, claiming under leases with fencing tokens, worker mutations, dead letters and
  recovery. An operation takes the transaction time \<open>now\<close> and the database and gives the result
  and the database after commit or rollback; identifiers drawn with \<open>uuid4()\<close> are arguments.
\<close>

section \<open>Model profiles and admission\<close>

definition WORKER_HARD_SAFETY_CAP :: int where
  "WORKER_HARD_SAFETY_CAP = 2"

definition MODEL_RUNTIME_CLASSES :: "(string \<times> string) list" where
  "MODEL_RUNTIME_CLASSES =
     [(''fast-chat'', ''chat-light''),
      (''crm-analysis'', ''chat-light''),
      (''coding-default'', ''coding-fallback''),
      (''quality-chat'', ''single-admission''),
      (''coding-large'', ''single-admission''),
      (''voice-summary'', ''single-admission''),
      (''embedding-default'', ''unavailable'')]"

definition RUNTIME_CLASS_COMPATIBILITY :: "(string \<times> string list) list" where
  "RUNTIME_CLASS_COMPATIBILITY =
     [(''chat-light'', [''chat-light'']),
      (''coding-fallback'', [''coding-fallback'']),
      (''single-admission'', []),
      (''unavailable'', [])]"

definition runtime_class :: "string option \<Rightarrow> string option" where
  "runtime_class p = map_of MODEL_RUNTIME_CLASSES (case p of None \<Rightarrow> '''' | Some s \<Rightarrow> s)"

definition compatible_profiles :: "string option list \<Rightarrow> string list" where
  "compatible_profiles active_profiles =
     (if active_profiles = [] then map fst MODEL_RUNTIME_CLASSES
      else let active_classes = remdups (map runtime_class active_profiles) in
        case active_classes of
          [Some active_class] \<Rightarrow>
            (let compatible_classes = (case map_of RUNTIME_CLASS_COMPATIBILITY active_class of
                                         None \<Rightarrow> [] | Some cs \<Rightarrow> cs)
             in map fst (filter (\<lambda>(p, c). c \<in> set compatible_classes) MODEL_RUNTIME_CLASSES))
        | _ \<Rightarrow> [])"

definition effective_compatible_profiles ::
  "string option list \<Rightarrow> string list option \<Rightarrow> string list" where
  "effective_compatible_profiles active_profiles requested =
     (let server_allowed = compatible_profiles active_profiles in
      case requested of None \<Rightarrow> server_allowed
      | Some ps \<Rightarrow> filter (\<lambda>p. p \<in> set ps) server_allowed)"

section \<open>Browser jobs\<close>

definition BROWSER_CAPABILITY_PROFILES :: "(string \<times> string) list" where
  "BROWSER_CAPABILITY_PROFILES = [(''chat'', ''fast-chat''), (''coding'', ''coding-default'')]"

definition BROWSER_CAPABILITY_COMMAND_TYPES :: "(string \<times> command_type) list" where
  "BROWSER_CAPABILITY_COMMAND_TYPES = [(''chat'', CHAT), (''coding'', CODING)]"

definition BROWSER_CAPABILITY_MAX_TOKENS :: "(string \<times> int) list" where
  "BROWSER_CAPABILITY_MAX_TOKENS = [(''chat'', 2048), (''coding'', 4096)]"

definition resolve_browser_model_profile :: "string \<Rightarrow> string result" where
  "resolve_browser_model_profile task_type =
     (case map_of BROWSER_CAPABILITY_PROFILES task_type of
        None \<Rightarrow> Inl (ValueError ''unsupported_browser_capability'')
      | Some p \<Rightarrow> if p \<notin> set (map fst MODEL_RUNTIME_CLASSES)
                  then Inl (ValueError ''unsupported_browser_capability'') else Inr p)"

record browser_request =
  br_conversation_id :: uuid
  br_organization_id :: uuid
  br_workspace_id :: uuid
  br_user_id :: string
  br_content :: string
  br_task_type :: string
  br_project_key :: "string option"
  br_idempotency_key :: string
  br_correlation_id :: string
  br_max_attempts :: int

definition build_browser_worker_contract ::
  "ai_env \<Rightarrow> instant \<Rightarrow> uuid \<Rightarrow> browser_request \<Rightarrow> ai_command result" where
  "build_browser_worker_contract env clock job_id r =
     (case resolve_browser_model_profile (br_task_type r) of
        Inl e \<Rightarrow> Inl e
      | Inr profile \<Rightarrow>
        (case (map_of BROWSER_CAPABILITY_COMMAND_TYPES (br_task_type r),
               map_of BROWSER_CAPABILITY_MAX_TOKENS (br_task_type r)) of
           (Some command_type, Some max_tokens) \<Rightarrow>
             ai_command_validate (dump_json env)
               \<lparr>ac_command_id = job_id, ac_command_type = command_type, ac_schema_version = ''1.0'',
                ac_tenant_id = br_organization_id r, ac_actor_id = br_user_id r,
                ac_actor_type = ''user'', ac_correlation_id = br_correlation_id r,
                ac_idempotency_key = br_idempotency_key r, ac_priority = 5,
                ac_requested_at = Aware clock, ac_deadline_at = Aware (clock + minutes 10),
                ac_input = (''text'', JStr (br_content r)) #
                  (case br_project_key r of None \<Rightarrow> [] | Some p \<Rightarrow> [(''project_key'', JStr p)]),
                ac_model_policy = \<lparr>mp_profile = profile, mp_temperature = 1 / 5,
                                   mp_max_tokens = max_tokens\<rparr>,
                ac_resource_limits = \<lparr>rl_runtime_seconds = 300, rl_output_bytes = 262144,
                                      rl_retry_count = br_max_attempts r - 1,
                                      rl_token_budget = max_tokens * 2\<rparr>,
                ac_data_classification = ''internal'',
                ac_approval_policy = \<lparr>ap_required = False, ap_action_types = []\<rparr>,
                ac_callback_policy = Poll,
                ac_metadata = [(''source'', ''ai-console''),
                               (''conversation_id'', str_uuid (br_conversation_id r)),
                               (''capability'', br_task_type r)]\<rparr>
         | _ \<Rightarrow> Inl (ValueError ''unsupported_browser_capability'')))"

definition create_conversation ::
  "ai_env \<Rightarrow> uuid \<Rightarrow> uuid \<Rightarrow> uuid \<Rightarrow> string \<Rightarrow> string \<Rightarrow> string \<Rightarrow> (ai_db, uuid \<times> string) call" where
  "create_conversation env conversation_id org ws user_id title correlation_id db =
     (if conversation_id \<in> set (map cv_id (conversations db))
      then (Inl (IntegrityError ''ai_conversations_pkey''), db)
      else let db1 = db\<lparr>conversations := conversations db @
                 [\<lparr>cv_id = conversation_id, cv_organization_id = org, cv_workspace_id = ws,
                   cv_created_by = user_id, cv_title = title, cv_status = ''active''\<rparr>]\<rparr>
           in (Inr (conversation_id, ''active''),
               audit env ''conversation.created'' correlation_id user_id (Some org) (Some ws) None
                 [(''conversation_id'', JStr (str_uuid conversation_id))] db1))"

record job_ref =
  jr_job_id :: uuid
  jr_message_id :: "uuid option"
  jr_state :: ai_state
  jr_idempotent_replay :: bool

definition find_key :: "uuid \<Rightarrow> uuid \<Rightarrow> string \<Rightarrow> ai_db \<Rightarrow> ai_job option" where
  "find_key org ws key db =
     sql_first (\<lambda>j. j_organization_id j = org \<and> j_workspace_id j = ws \<and> j_idempotency_key j = key)
       (jobs db)"

definition browser_request_hash :: "ai_env \<Rightarrow> browser_request \<Rightarrow> string" where
  "browser_request_hash env r =
     sha256 env (str_uuid (br_conversation_id r) @ [CHR 0x00] @ br_task_type r @ [CHR 0x00]
                 @ or_else (br_project_key r) '''' @ [CHR 0x00] @ br_content r)"

definition job_checks :: "ai_job \<Rightarrow> bool" where
  "job_checks j \<longleftrightarrow> 0 \<le> j_attempt_count j \<and> between 1 10 (j_max_attempts j) \<and> between 0 9 (j_priority j)"

definition insert_job :: "ai_job \<Rightarrow> ai_db \<Rightarrow> ai_db option" where
  "insert_job j db =
     (if job_checks j \<and> j_id j \<notin> set (map j_id (jobs db))
         \<and> find_key (j_organization_id j) (j_workspace_id j) (j_idempotency_key j) db = None
      then Some (db\<lparr>jobs := jobs db @ [j]\<rparr>) else None)"

definition browser_job :: "ai_env \<Rightarrow> instant \<Rightarrow> uuid \<Rightarrow> uuid \<Rightarrow> browser_request \<Rightarrow> string \<Rightarrow> ai_command \<Rightarrow> ai_job" where
  "browser_job env now job_id message_id r profile c =
     \<lparr>j_id = job_id, j_conversation_id = Some (br_conversation_id r),
      j_request_message_id = Some message_id, j_organization_id = br_organization_id r,
      j_workspace_id = br_workspace_id r, j_requested_by = br_user_id r,
      j_task_type = br_task_type r, j_project_key = br_project_key r, j_state = Queued,
      j_idempotency_key = br_idempotency_key r, j_request_sha256 = browser_request_hash env r,
      j_attempt_count = 0, j_max_attempts = br_max_attempts r, j_fencing_token = 0,
      j_lease_owner = None, j_lease_expires_at = None, j_next_attempt_at = now,
      j_cancel_requested_at = None, j_completed_at = None, j_failure_code = None,
      j_output_bytes = 0, j_created_at = now, j_updated_at = now,
      j_command_type = Some (ac_command_type c), j_schema_version = ac_schema_version c,
      j_actor_id = Some (ac_actor_id c), j_actor_type = Some (ac_actor_type c),
      j_correlation_id = Some (ac_correlation_id c), j_priority = ac_priority c,
      j_deadline_at = Some (instant_of (ac_deadline_at c)), j_command_payload = Some c,
      j_model_profile = Some profile, j_resource_limits = Some (ac_resource_limits c),
      j_data_classification = ac_data_classification c,
      j_approval_policy = Some (ac_approval_policy c),
      j_callback_policy = Some (ac_callback_policy c), j_command_metadata = ac_metadata c,
      j_version = 1\<rparr>"

definition create_message_job ::
  "ai_env \<Rightarrow> instant \<Rightarrow> instant \<Rightarrow> uuid \<Rightarrow> uuid \<Rightarrow> browser_request \<Rightarrow> (ai_db, job_ref) call" where
  "create_message_job env now clock message_id job_id r db =
     (case resolve_browser_model_profile (br_task_type r) of
        Inl e \<Rightarrow> (Inl e, db)
      | Inr profile \<Rightarrow>
        (case find_key (br_organization_id r) (br_workspace_id r) (br_idempotency_key r) db of
           Some existing \<Rightarrow>
             if j_request_sha256 existing \<noteq> browser_request_hash env r
             then (Inl (ValueError ''idempotency_conflict''), db)
             else (Inr \<lparr>jr_job_id = j_id existing, jr_message_id = j_request_message_id existing,
                        jr_state = j_state existing, jr_idempotent_replay = True\<rparr>, db)
         | None \<Rightarrow>
             if \<not> sql_exists (\<lambda>c. cv_id c = br_conversation_id r
                                 \<and> cv_organization_id c = br_organization_id r
                                 \<and> cv_workspace_id c = br_workspace_id r
                                 \<and> cv_status c = ''active'') (conversations db)
             then (Inl (LookupError ''conversation_not_found''), db)
             else (case build_browser_worker_contract env clock job_id r of
                 Inl e \<Rightarrow> (Inl e, db)
               | Inr command \<Rightarrow>
                 if message_id \<in> set (map ms_id (messages db))
                 then (Inl (IntegrityError ''ai_messages_pkey''), db)
                 else
                  (let db1 = db\<lparr>messages := messages db @
                        [\<lparr>ms_id = message_id, ms_conversation_id = br_conversation_id r,
                          ms_organization_id = br_organization_id r,
                          ms_workspace_id = br_workspace_id r, ms_role = ''user'',
                          ms_content = br_content r,
                          ms_content_sha256 = sha256 env (br_content r)\<rparr>]\<rparr>
                   in case insert_job (browser_job env now job_id message_id r profile command) db1 of
                        None \<Rightarrow> (Inl (IntegrityError ''ai_generation_jobs''), db)
                      | Some db2 \<Rightarrow>
                          (Inr \<lparr>jr_job_id = job_id, jr_message_id = Some message_id,
                                jr_state = Queued, jr_idempotent_replay = False\<rparr>,
                           audit env ''job.queued'' (br_correlation_id r) (br_user_id r)
                             (Some (br_organization_id r)) (Some (br_workspace_id r)) (Some job_id)
                             [(''task_type'', JStr (br_task_type r)),
                              (''model_profile'', JStr profile)] db2)))))"

section \<open>Claiming\<close>

text \<open>
  \<open>claimable\<close> is the \<open>WHERE\<close> clause of the candidate query; rows another transaction has locked
  (\<open>FOR UPDATE SKIP LOCKED\<close>) are those \<open>locked\<close> holds of.
\<close>

definition claimable ::
  "instant \<Rightarrow> uuid option \<Rightarrow> uuid option \<Rightarrow> string list option \<Rightarrow> ai_job \<Rightarrow> bool" where
  "claimable now org ws profiles j \<longleftrightarrow>
     j_state j \<in> {Queued, Retry_wait} \<and> j_next_attempt_at j \<le> now
     \<and> (case j_model_profile j of None \<Rightarrow> True | Some p \<Rightarrow> p \<in> set model_profiles)
     \<and> (case profiles of None \<Rightarrow> True
        | Some ps \<Rightarrow> (case j_model_profile j of None \<Rightarrow> False | Some p \<Rightarrow> p \<in> set ps))
     \<and> tenant_match org ws j
     \<and> j_cancel_requested_at j = None
     \<and> (case j_deadline_at j of None \<Rightarrow> True | Some d \<Rightarrow> now < d)"

definition claim_candidate ::
  "instant \<Rightarrow> (uuid \<Rightarrow> bool) \<Rightarrow> uuid option \<Rightarrow> uuid option \<Rightarrow> string list option \<Rightarrow> ai_db
   \<Rightarrow> ai_job option" where
  "claim_candidate now locked org ws profiles db =
     first_by (\<lambda>j. (j_priority j, j_created_at j))
       (filter (\<lambda>j. claimable now org ws profiles j \<and> \<not> locked (j_id j)) (jobs db))"

definition lease_job :: "instant \<Rightarrow> string \<Rightarrow> int \<Rightarrow> ai_job \<Rightarrow> ai_job" where
  "lease_job now worker lease_seconds j =
     j\<lparr>j_state := Leased, j_lease_owner := Some worker,
       j_lease_expires_at := Some (now + secs lease_seconds),
       j_fencing_token := j_fencing_token j + 1, j_attempt_count := j_attempt_count j + 1,
       j_updated_at := now\<rparr>"

definition lease_live :: "instant \<Rightarrow> ai_job \<Rightarrow> bool" where
  "lease_live now j \<longleftrightarrow> (case j_lease_expires_at j of None \<Rightarrow> False | Some e \<Rightarrow> now < e)"

definition lease_over :: "instant \<Rightarrow> ai_job \<Rightarrow> bool" where
  "lease_over now j \<longleftrightarrow> (case j_lease_expires_at j of None \<Rightarrow> False | Some e \<Rightarrow> e \<le> now)"

definition active_jobs ::
  "instant \<Rightarrow> string \<Rightarrow> uuid option \<Rightarrow> uuid option \<Rightarrow> ai_db \<Rightarrow> ai_job list" where
  "active_jobs now worker org ws db =
     sort_key (\<lambda>j. (j_created_at j, j_id j))
       (filter (\<lambda>j. j_state j \<in> {Leased, Cancel_requested} \<and> j_lease_owner j = Some worker
                    \<and> lease_live now j \<and> tenant_match org ws j) (jobs db))"

record claimed_job =
  cj_id :: uuid
  cj_conversation_id :: "uuid option"
  cj_organization_id :: uuid
  cj_workspace_id :: uuid
  cj_task_type :: string
  cj_command_type :: "command_type option"
  cj_schema_version :: string
  cj_project_key :: "string option"
  cj_attempt_count :: int
  cj_fencing_token :: int
  cj_lease_expires_at :: "instant option"
  cj_deadline_at :: "instant option"
  cj_command_payload :: "ai_command option"
  cj_model_profile :: "string option"
  cj_resource_limits :: "resource_limits option"
  cj_data_classification :: string
  cj_approval_policy :: "approval_policy option"

definition claim_view :: "ai_job \<Rightarrow> claimed_job" where
  "claim_view j =
     \<lparr>cj_id = j_id j, cj_conversation_id = j_conversation_id j,
      cj_organization_id = j_organization_id j, cj_workspace_id = j_workspace_id j,
      cj_task_type = j_task_type j, cj_command_type = j_command_type j,
      cj_schema_version = j_schema_version j, cj_project_key = j_project_key j,
      cj_attempt_count = j_attempt_count j, cj_fencing_token = j_fencing_token j,
      cj_lease_expires_at = j_lease_expires_at j, cj_deadline_at = j_deadline_at j,
      cj_command_payload = j_command_payload j, cj_model_profile = j_model_profile j,
      cj_resource_limits = j_resource_limits j,
      cj_data_classification = j_data_classification j, cj_approval_policy = j_approval_policy j\<rparr>"

definition profile_names :: "string option list \<Rightarrow> json" where
  "profile_names ps = JList (map JStr (sort (map (\<lambda>p. or_else p ''unknown'') ps)))"

record claim_request =
  cr_worker_id :: string
  cr_lease_seconds :: int
  cr_correlation_id :: string
  cr_organization_id :: "uuid option"
  cr_workspace_id :: "uuid option"
  cr_service_id :: "string option"
  cr_allowed_model_profiles :: "string list option"

text \<open>The profiles of the worker's live leases, or the refusal of the worker.\<close>

definition claim_admission :: "instant \<Rightarrow> claim_request \<Rightarrow> ai_db \<Rightarrow> string option list result" where
  "claim_admission now r db =
     (case cr_service_id r of
        None \<Rightarrow> Inr []
      | Some service \<Rightarrow>
        (case sql_first (\<lambda>g. rg_worker_id g = cr_worker_id r \<and> rg_service_id g = service \<and> rg_enabled g)
                (registrations db) of
           None \<Rightarrow> Inl (PermissionError ''worker_not_enabled'')
         | Some g \<Rightarrow>
             (let active = map j_model_profile (active_jobs now (cr_worker_id r)
                             (cr_organization_id r) (cr_workspace_id r) db) in
              if int (length active) \<ge> min (rg_max_concurrency g) WORKER_HARD_SAFETY_CAP
              then Inl (OverflowError ''worker_concurrency_limit'')
              else Inr active)))"

definition claim_profile_filter :: "claim_request \<Rightarrow> string list \<Rightarrow> string list option" where
  "claim_profile_filter r effective =
     (if cr_service_id r \<noteq> None \<or> cr_allowed_model_profiles r \<noteq> None then Some (sort effective)
      else None)"

definition rejected_details :: "claim_request \<Rightarrow> string option list \<Rightarrow> (string \<times> json) list" where
  "rejected_details r active =
     [(''active_model_profiles'', profile_names active),
      (''effective_allowed_profile_count'', JInt 0),
      (''profile_filter_applied'', JBool (cr_allowed_model_profiles r \<noteq> None)),
      (''concurrency_slot'', JInt (int (length active) + 1)),
      (''worker_id'', JStr (cr_worker_id r))]"

definition claimed_details ::
  "claim_request \<Rightarrow> string option list \<Rightarrow> string list \<Rightarrow> ai_job \<Rightarrow> (string \<times> json) list" where
  "claimed_details r active effective row =
     [(''attempt'', JInt (j_attempt_count row)),
      (''fencing_token'', JInt (j_fencing_token row)),
      (''claimed_model_profile'', case j_model_profile row of None \<Rightarrow> JNull | Some p \<Rightarrow> JStr p),
      (''active_model_profiles'', profile_names active),
      (''effective_compatibility_class'',
         JStr (case j_model_profile row of None \<Rightarrow> ''unknown''
               | Some p \<Rightarrow> (case map_of MODEL_RUNTIME_CLASSES p of
                   None \<Rightarrow> ''unknown'' | Some c \<Rightarrow> c))),
      (''profile_filter_applied'', JBool (cr_allowed_model_profiles r \<noteq> None)),
      (''effective_allowed_profile_count'', JInt (int (length effective))),
      (''concurrency_slot'', JInt (int (length active) + 1)),
      (''worker_id'', JStr (cr_worker_id r))]"

definition invalid_profile_filter :: "string list option \<Rightarrow> bool" where
  "invalid_profile_filter profiles \<longleftrightarrow>
     (case profiles of None \<Rightarrow> False
      | Some ps \<Rightarrow> ps = [] \<or> \<not> set ps \<subseteq> set (map fst MODEL_RUNTIME_CLASSES))"

text \<open>The \<open>UPDATE ... FROM candidate\<close>, the attempt row and the audit event of a claimed job.\<close>

definition grant_lease ::
  "ai_env \<Rightarrow> instant \<Rightarrow> claim_request \<Rightarrow> string option list \<Rightarrow> string list \<Rightarrow> ai_job \<Rightarrow> ai_db \<Rightarrow> ai_db" where
  "grant_lease env now r active effective j db =
     (let worker = cr_worker_id r; row = lease_job now worker (cr_lease_seconds r) j;
          db1 = update_jobs (\<lambda>x. j_id x = j_id j) (lease_job now worker (cr_lease_seconds r)) db;
          db2 = db1\<lparr>attempts := attempts db1 @
                  [\<lparr>at_job_id = j_id row, at_attempt_number = j_attempt_count row,
                    at_fencing_token = j_fencing_token row, at_worker_id = worker,
                    at_state = Leased, at_safe_error_code = None, at_finished_at = None\<rparr>]\<rparr>
      in audit env ''job.claimed'' (cr_correlation_id r) worker
           (Some (j_organization_id row)) (Some (j_workspace_id row)) (Some (j_id row))
           (claimed_details r active effective row) db2)"

definition claim ::
  "ai_env \<Rightarrow> instant \<Rightarrow> (uuid \<Rightarrow> bool) \<Rightarrow> claim_request \<Rightarrow> (ai_db, claimed_job option) call" where
  "claim env now locked r db =
     (if invalid_profile_filter (cr_allowed_model_profiles r)
      then (Inl (ValueError ''invalid_model_profile_filter''), db)
      else case claim_admission now r db of
        Inl e \<Rightarrow> (Inl e, db)
      | Inr active \<Rightarrow>
        (let effective = effective_compatible_profiles active (cr_allowed_model_profiles r);
             org = cr_organization_id r; ws = cr_workspace_id r in
         if effective = [] then
           (Inr None,
            audit env ''job.claim.admission_rejected'' (cr_correlation_id r) (cr_worker_id r) org ws
              None (rejected_details r active) db)
         else case claim_candidate now locked org ws (claim_profile_filter r effective) db of
           None \<Rightarrow> (Inr None, db)
         | Some j \<Rightarrow>
             (Inr (Some (claim_view (lease_job now (cr_worker_id r) (cr_lease_seconds r) j))),
              grant_lease env now r active effective j db)))"

section \<open>Operations of the lease holder\<close>

definition lease_admits ::
  "instant \<Rightarrow> string \<Rightarrow> int \<Rightarrow> uuid option \<Rightarrow> uuid option \<Rightarrow> bool \<Rightarrow> ai_job \<Rightarrow> bool" where
  "lease_admits now worker token org ws allow_cancel j \<longleftrightarrow>
     (j_state j = Leased \<or> (allow_cancel \<and> j_state j = Cancel_requested))
     \<and> j_lease_owner j = Some worker \<and> j_fencing_token j = token \<and> lease_live now j
     \<and> tenant_match org ws j"

definition assert_lease ::
  "instant \<Rightarrow> uuid \<Rightarrow> string \<Rightarrow> int \<Rightarrow> uuid option \<Rightarrow> uuid option \<Rightarrow> bool \<Rightarrow> ai_db \<Rightarrow> ai_job result" where
  "assert_lease now job_id worker token org ws allow_cancel db =
     (case sql_first (\<lambda>j. j_id j = job_id \<and> lease_admits now worker token org ws allow_cancel j)
             (jobs db) of
        None \<Rightarrow> Inl (PermissionError ''stale_or_invalid_lease'')
      | Some j \<Rightarrow> Inr j)"

definition upsert_heartbeat :: "ai_heartbeat \<Rightarrow> ai_heartbeat list \<Rightarrow> ai_heartbeat list" where
  "upsert_heartbeat h hs =
     (if sql_exists (\<lambda>x. hb_worker_id x = hb_worker_id h) hs
      then sql_update (\<lambda>x. hb_worker_id x = hb_worker_id h) (\<lambda>_. h) hs else hs @ [h])"

definition heartbeat ::
  "instant \<Rightarrow> uuid \<Rightarrow> string \<Rightarrow> int \<Rightarrow> int \<Rightarrow> string \<Rightarrow> string \<Rightarrow> string \<Rightarrow> uuid option \<Rightarrow> uuid option
   \<Rightarrow> (ai_db, instant) call" where
  "heartbeat now job_id worker token lease_seconds service serial spiffe org ws db =
     (case assert_lease now job_id worker token org ws True db of
        Inl e \<Rightarrow> (Inl e, db)
      | Inr row \<Rightarrow>
        (let expires = now + secs lease_seconds;
             db1 = update_jobs (\<lambda>j. j_id j = job_id)
                     (\<lambda>j. j\<lparr>j_lease_expires_at := Some expires, j_updated_at := now\<rparr>) db
         in (Inr expires,
             db1\<lparr>heartbeats := upsert_heartbeat
                   \<lparr>hb_worker_id = worker, hb_service_id = service, hb_certificate_serial = serial,
                    hb_spiffe_id = spiffe, hb_last_seen_at = now, hb_current_job_id = Some job_id\<rparr>
                   (heartbeats db1)\<rparr>)))"

definition append_chunk ::
  "ai_env \<Rightarrow> instant \<Rightarrow> uuid \<Rightarrow> string \<Rightarrow> int \<Rightarrow> int \<Rightarrow> string \<Rightarrow> int \<Rightarrow> uuid option \<Rightarrow> uuid option
   \<Rightarrow> (ai_db, bool) call" where
  "append_chunk env now job_id worker token seqno content max_output_bytes org ws db =
     (case assert_lease now job_id worker token org ws False db of
        Inl e \<Rightarrow> (Inl e, db)
      | Inr row \<Rightarrow>
        (let size = encoded_len content in
         if j_output_bytes row + size > max_output_bytes
         then (Inl (OverflowError ''output_limit_exceeded''), db)
         else if sql_exists (\<lambda>c. ck_job_id c = job_id \<and> ck_sequence c = seqno) (chunks db)
         then (Inr False, db)
         else
           (let db1 = db\<lparr>chunks := chunks db @
                  [\<lparr>ck_job_id = job_id, ck_organization_id = j_organization_id row,
                    ck_workspace_id = j_workspace_id row, ck_sequence = seqno,
                    ck_fencing_token = token, ck_content = content,
                    ck_content_sha256 = sha256 env content\<rparr>]\<rparr>
            in (Inr True,
                update_jobs (\<lambda>j. j_id j = job_id)
                  (\<lambda>j. j\<lparr>j_output_bytes := j_output_bytes j + size, j_updated_at := now\<rparr>) db1))))"

section \<open>Finishing an attempt\<close>

definition SAFE_ERROR_DETAIL_FIELDS :: "string list" where
  "SAFE_ERROR_DETAIL_FIELDS = [''category'', ''component'', ''http_status'', ''model_profile'',
                               ''operation'', ''provider'', ''timeout_seconds'']"

definition detail_char :: "char \<Rightarrow> bool" where
  "detail_char c \<longleftrightarrow> is_ascii_alnum c \<or> one_of ''._:/ -'' c"

fun safe_detail :: "json \<Rightarrow> bool" where
  "safe_detail (JStr v) = match_class detail_char 1 128 v"
| "safe_detail (JInt _) = True"
| "safe_detail (JBool _) = True"
| "safe_detail _ = False"

fun sanitize_error_details_from ::
  "(string \<times> json) list \<Rightarrow> (string \<times> json) list \<Rightarrow> (string \<times> json) list" where
  "sanitize_error_details_from safe [] = safe"
| "sanitize_error_details_from safe ((k, v) # details) =
     (if lower k \<in> set SAFE_ERROR_DETAIL_FIELDS \<and> safe_detail v
      then sanitize_error_details_from (dict_set (lower k) v safe) details
      else sanitize_error_details_from safe details)"

definition sanitize_error_details :: "(string \<times> json) list \<Rightarrow> (string \<times> json) list" where
  "sanitize_error_details details = sanitize_error_details_from [] details"

definition finish_state :: "ai_job \<Rightarrow> bool \<Rightarrow> bool \<Rightarrow> ai_state \<Rightarrow> ai_state" where
  "finish_state row failed retryable completion_state =
     (if j_cancel_requested_at row \<noteq> None then Cancelled
      else if \<not> failed then completion_state
      else if retryable \<and> j_attempt_count row < j_max_attempts row then Retry_wait
      else Dead_letter)"

definition retry_delay :: "int \<Rightarrow> int" where
  "retry_delay attempt_count = min 300 (2 ^ nat (min attempt_count 8))"

definition finish_job :: "instant \<Rightarrow> ai_state \<Rightarrow> int \<Rightarrow> string option \<Rightarrow> ai_job \<Rightarrow> ai_job" where
  "finish_job now st delay err j =
     j\<lparr>j_state := st, j_lease_owner := None, j_lease_expires_at := None,
       j_next_attempt_at := (if st = Retry_wait then now + secs delay else j_next_attempt_at j),
       j_failure_code := err,
       j_completed_at := (if st \<in> {Completed, Approval_required, Cancelled, Dead_letter, Failed}
                          then Some now else None),
       j_updated_at := now\<rparr>"

definition update_attempts :: "(ai_attempt \<Rightarrow> bool) \<Rightarrow> (ai_attempt \<Rightarrow> ai_attempt) \<Rightarrow> ai_db \<Rightarrow> ai_db" where
  [sql_defs]: "update_attempts p f db = db\<lparr>attempts := sql_update p f (attempts db)\<rparr>"

text \<open>
  \<open>INSERT ... ON CONFLICT(job_id) DO UPDATE SET ...\<close> of \<open>finish\<close>: an existing row keeps the
  columns the statement does not name.
\<close>

definition upsert_dead_letter :: "ai_dead_letter \<Rightarrow> ai_dead_letter list \<Rightarrow> ai_dead_letter list" where
  "upsert_dead_letter d ds =
     (if sql_exists (\<lambda>x. dl_job_id x = dl_job_id d) ds
      then sql_update (\<lambda>x. dl_job_id x = dl_job_id d)
             (\<lambda>x. x\<lparr>dl_safe_error_code := dl_safe_error_code d,
                    dl_final_error_code := dl_final_error_code d,
                    dl_attempt_count := dl_attempt_count d, dl_max_attempts := dl_max_attempts d,
                    dl_safe_error_details := dl_safe_error_details d,
                    dl_failed_at := dl_failed_at d, dl_correlation_id := dl_correlation_id d,
                    dl_evidence_hash := dl_evidence_hash d,
                    dl_manual_retry_requires_new_approval := True\<rparr>) ds
      else ds @ [d])"

definition finish_dead_letter ::
  "ai_env \<Rightarrow> instant \<Rightarrow> uuid \<Rightarrow> string option \<Rightarrow> string \<Rightarrow> (string \<times> json) list \<Rightarrow> ai_job \<Rightarrow> ai_dead_letter" where
  "finish_dead_letter env now job_id err correlation_id details row =
     (let code = or_else err ''attempts_exhausted'' in
      \<lparr>dl_job_id = job_id, dl_organization_id = j_organization_id row,
       dl_workspace_id = j_workspace_id row, dl_safe_error_code = code,
       dl_attempt_count = j_attempt_count row, dl_payload_sha256 = j_request_sha256 row,
       dl_final_error_code = code, dl_max_attempts = j_max_attempts row,
       dl_safe_error_details = details, dl_failed_at = now, dl_task_id = job_id,
       dl_tenant_id = j_organization_id row, dl_correlation_id = correlation_id,
       dl_evidence_hash = sha256 env (str_uuid job_id @ [CHR 0x00] @ code @ [CHR 0x00]
         @ str_int (j_attempt_count row) @ [CHR 0x00] @ json_dumps (JObj details)),
       dl_manual_retry_requires_new_approval = True, dl_recovery_status = ''pending''\<rparr>)"

definition finish ::
  "ai_env \<Rightarrow> instant \<Rightarrow> uuid \<Rightarrow> string \<Rightarrow> int \<Rightarrow> bool \<Rightarrow> string option \<Rightarrow> bool \<Rightarrow> string \<Rightarrow> ai_state
   \<Rightarrow> (string \<times> json) list option \<Rightarrow> uuid option \<Rightarrow> uuid option \<Rightarrow> (ai_db, ai_state) call" where
  "finish env now job_id worker token failed err retryable correlation_id completion_state
          safe_details org ws db =
     (case assert_lease now job_id worker token org ws True db of
        Inl e \<Rightarrow> (Inl e, db)
      | Inr row \<Rightarrow>
        (let st = finish_state row failed retryable completion_state;
             delay = retry_delay (j_attempt_count row);
             details = sanitize_error_details (case safe_details of None \<Rightarrow> [] | Some d \<Rightarrow> d);
             db1 = update_jobs (\<lambda>j. j_id j = job_id) (finish_job now st delay err) db;
             db2 = update_attempts (\<lambda>a. at_job_id a = job_id \<and> at_fencing_token a = token)
                     (\<lambda>a. a\<lparr>at_state := st, at_safe_error_code := err, at_finished_at := Some now\<rparr>) db1;
             db3 = (if st = Dead_letter then
                      db2\<lparr>dead_letters := upsert_dead_letter
                        (finish_dead_letter env now job_id err correlation_id details row)
                        (dead_letters db2)\<rparr>
                    else db2)
         in (Inr st,
             audit env (''job.'' @ state_value st) correlation_id worker
               (Some (j_organization_id row)) (Some (j_workspace_id row)) (Some job_id)
               [(''safe_error_code'', JStr (or_else err ''''))] db3)))"

section \<open>Reads and duplicate results\<close>

definition completed_result_status ::
  "ai_env \<Rightarrow> uuid \<Rightarrow> uuid \<Rightarrow> uuid \<Rightarrow> ai_result option \<Rightarrow> ai_db \<Rightarrow> ai_state option result" where
  "completed_result_status env job_id org ws res db =
     (case sql_first (\<lambda>j. j_id j = job_id \<and> j_organization_id j = org \<and> j_workspace_id j = ws)
             (jobs db) of
        None \<Rightarrow> Inr None
      | Some j \<Rightarrow>
        if j_state j \<notin> {Completed, Approval_required} then Inr None
        else (case (res, sql_first (\<lambda>r. rs_job_id r = job_id) (results db)) of
            (Some r, Some stored) \<Rightarrow>
              if rs_output_sha256 stored = sha256 env (json_canonical (JObj (ar_output r)))
              then Inr (Some (j_state j))
              else Inl (PermissionError ''duplicate_result_rejected'')
          | _ \<Rightarrow> Inl (PermissionError ''duplicate_result_rejected'')))"

definition get_worker_job :: "uuid \<Rightarrow> uuid \<Rightarrow> uuid \<Rightarrow> ai_db \<Rightarrow> ai_job result" where
  "get_worker_job job_id org ws db =
     (case sql_first (\<lambda>j. j_id j = job_id \<and> j_organization_id j = org \<and> j_workspace_id j = ws)
             (jobs db) of
        None \<Rightarrow> Inl (LookupError ''job_not_found'') | Some j \<Rightarrow> Inr j)"

definition list_dead_letters :: "uuid \<Rightarrow> uuid \<Rightarrow> ai_db \<Rightarrow> ai_dead_letter list" where
  "list_dead_letters org ws db =
     take 100 (sort_key (\<lambda>d. - dl_failed_at d)
       (filter (\<lambda>d. dl_tenant_id d = org \<and> dl_workspace_id d = ws) (dead_letters db)))"

section \<open>Cancellation by the worker\<close>

definition cancel_job_row :: "instant \<Rightarrow> ai_job \<Rightarrow> ai_job" where
  "cancel_job_row now j =
     j\<lparr>j_state := Cancelled, j_lease_owner := None, j_lease_expires_at := None,
       j_completed_at := Some now, j_updated_at := now\<rparr>"

definition worker_cancel ::
  "ai_env \<Rightarrow> instant \<Rightarrow> uuid \<Rightarrow> string \<Rightarrow> int \<Rightarrow> uuid \<Rightarrow> uuid \<Rightarrow> string \<Rightarrow> (ai_db, bool \<times> ai_state) call" where
  "worker_cancel env now job_id worker token org ws correlation_id db =
     (case assert_lease now job_id worker token (Some org) (Some ws) True db of
        Inl e \<Rightarrow>
          if sql_exists (\<lambda>j. j_id j = job_id \<and> j_organization_id j = org \<and> j_workspace_id j = ws
                             \<and> j_state j = Cancelled \<and> j_fencing_token j = token
                             \<and> sql_exists (\<lambda>a. at_job_id a = j_id j \<and> at_fencing_token a = token
                                               \<and> at_worker_id a = worker) (attempts db)) (jobs db)
          then (Inr (True, Cancelled), db) else (Inl e, db)
      | Inr row \<Rightarrow>
          if j_cancel_requested_at row = None then (Inr (False, j_state row), db)
          else
            (let db1 = update_jobs (\<lambda>j. j_id j = job_id) (cancel_job_row now) db;
                 db2 = update_attempts (\<lambda>a. at_job_id a = job_id \<and> at_fencing_token a = token
                                            \<and> at_worker_id a = worker)
                         (\<lambda>a. a\<lparr>at_state := Cancelled, at_finished_at := Some now\<rparr>) db1
             in (Inr (True, Cancelled),
                 audit env ''job.cancelled'' correlation_id worker (Some org) (Some ws) (Some job_id)
                   [] db2)))"

section \<open>Dead letters\<close>

definition retry_job :: "instant \<Rightarrow> ai_job \<Rightarrow> ai_job" where
  "retry_job now j =
     j\<lparr>j_state := Retry_wait, j_max_attempts := j_max_attempts j + 1, j_next_attempt_at := now,
       j_failure_code := None, j_completed_at := None, j_updated_at := now,
       j_version := j_version j + 1\<rparr>"

definition retry_approved :: "uuid \<Rightarrow> uuid \<Rightarrow> uuid \<Rightarrow> uuid \<Rightarrow> ai_db \<Rightarrow> bool" where
  "retry_approved job_id approval_id org ws db \<longleftrightarrow>
     sql_exists (\<lambda>d. dl_job_id d = job_id \<and> dl_tenant_id d = org \<and> dl_workspace_id d = ws
        \<and> dl_manual_retry_requires_new_approval d
        \<and> sql_exists (\<lambda>a. ax_job_id a = dl_job_id d \<and> ax_id a = approval_id
             \<and> ax_state a = ApprovedBy
             \<and> (case ax_decided_at a of None \<Rightarrow> False | Some t \<Rightarrow> dl_failed_at d < t))
            (approvals db)) (dead_letters db)"

definition retry_dead_letter ::
  "ai_env \<Rightarrow> instant \<Rightarrow> uuid \<Rightarrow> uuid \<Rightarrow> uuid \<Rightarrow> uuid \<Rightarrow> string \<Rightarrow> string \<Rightarrow> (ai_db, ai_state) call" where
  "retry_dead_letter env now job_id approval_id org ws actor correlation_id db =
     (if \<not> retry_approved job_id approval_id org ws db
      then (Inl (PermissionError ''new_approval_required''), db)
      else let p = (\<lambda>j. j_id j = job_id \<and> j_state j = Dead_letter \<and> j_max_attempts j < 10) in
        if \<not> sql_exists p (jobs db) then (Inl (LookupError ''dead_letter_not_retryable''), db)
        else
          (let db1 = update_jobs p (retry_job now) db;
               db2 = db1\<lparr>dead_letters := sql_update (\<lambda>d. dl_job_id d = job_id)
                        (\<lambda>d. d\<lparr>dl_recovery_status := ''approved_retry'',
                               dl_manual_retry_requires_new_approval := False\<rparr>) (dead_letters db1)\<rparr>
           in (Inr Retry_wait,
               audit env ''job.dead_letter.retry'' correlation_id actor (Some org) (Some ws)
                 (Some job_id) [(''approval_id'', JStr (str_uuid approval_id))] db2)))"

section \<open>Recovery\<close>

definition deadline_open :: "instant \<Rightarrow> ai_job \<Rightarrow> bool" where
  "deadline_open now j \<longleftrightarrow> (case j_deadline_at j of None \<Rightarrow> True | Some d \<Rightarrow> now < d)"

definition recover_cancelled :: "ai_env \<Rightarrow> instant \<Rightarrow> ai_job \<Rightarrow> ai_db \<Rightarrow> ai_db" where
  "recover_cancelled env now row db =
     audit env ''job.cancelled'' (or_else (j_correlation_id row) ''lease-recovery'')
       ''lease-recovery'' (Some (j_organization_id row)) (Some (j_workspace_id row))
       (Some (j_id row)) [(''reason'', JStr ''cancel_lease_expired'')]
       (update_attempts (\<lambda>a. at_job_id a = j_id row \<and> at_fencing_token a = j_fencing_token row)
          (\<lambda>a. a\<lparr>at_state := Cancelled, at_finished_at := Some now\<rparr>) db)"

definition recover_dead_letter :: "ai_env \<Rightarrow> instant \<Rightarrow> ai_job \<Rightarrow> ai_db \<Rightarrow> ai_db" where
  "recover_dead_letter env now row db =
     (if sql_exists (\<lambda>d. dl_job_id d = j_id row) (dead_letters db) then db
      else db\<lparr>dead_letters := dead_letters db @
        [\<lparr>dl_job_id = j_id row, dl_organization_id = j_organization_id row,
          dl_workspace_id = j_workspace_id row, dl_safe_error_code = ''lease_expired'',
          dl_attempt_count = j_attempt_count row, dl_payload_sha256 = j_request_sha256 row,
          dl_final_error_code = ''lease_expired'', dl_max_attempts = j_max_attempts row,
          dl_safe_error_details = [], dl_failed_at = now, dl_task_id = j_id row,
          dl_tenant_id = j_organization_id row,
          dl_correlation_id = or_else (j_correlation_id row) ''lease-recovery'',
          dl_evidence_hash = sha256 env (str_uuid (j_id row) @ '':lease_expired:''
                               @ str_int (j_attempt_count row)),
          dl_manual_retry_requires_new_approval = True, dl_recovery_status = ''pending''\<rparr>]\<rparr>)"

definition recover_cancel_due :: "instant \<Rightarrow> uuid option \<Rightarrow> uuid option \<Rightarrow> ai_job \<Rightarrow> bool" where
  "recover_cancel_due now org ws j \<longleftrightarrow>
     j_state j = Cancel_requested \<and> lease_over now j \<and> tenant_match org ws j"

definition recover_retry_due :: "instant \<Rightarrow> uuid option \<Rightarrow> uuid option \<Rightarrow> ai_job \<Rightarrow> bool" where
  "recover_retry_due now org ws j \<longleftrightarrow>
     j_state j = Leased \<and> lease_over now j \<and> j_attempt_count j < j_max_attempts j
     \<and> deadline_open now j \<and> tenant_match org ws j"

definition recover_dead_due :: "instant \<Rightarrow> uuid option \<Rightarrow> uuid option \<Rightarrow> ai_job \<Rightarrow> bool" where
  "recover_dead_due now org ws j \<longleftrightarrow>
     j_state j = Leased \<and> lease_over now j \<and> j_attempt_count j \<ge> j_max_attempts j
     \<and> deadline_open now j \<and> tenant_match org ws j"

definition requeue_job :: "instant \<Rightarrow> ai_job \<Rightarrow> ai_job" where
  "requeue_job now j =
     j\<lparr>j_state := Retry_wait, j_lease_owner := None, j_lease_expires_at := None,
       j_next_attempt_at := now, j_updated_at := now\<rparr>"

definition dead_letter_job :: "instant \<Rightarrow> ai_job \<Rightarrow> ai_job" where
  "dead_letter_job now j =
     j\<lparr>j_state := Dead_letter, j_lease_owner := None, j_lease_expires_at := None,
       j_failure_code := Some ''lease_expired'', j_completed_at := Some now, j_updated_at := now\<rparr>"

definition recover_expired ::
  "ai_env \<Rightarrow> instant \<Rightarrow> uuid option \<Rightarrow> uuid option \<Rightarrow> (ai_db, nat \<times> nat) call" where
  "recover_expired env now org ws db =
     (let cancelled_rows = filter (recover_cancel_due now org ws) (jobs db);
          db1 = update_jobs (recover_cancel_due now org ws) (cancel_job_row now) db;
          db2 = fold (recover_cancelled env now) cancelled_rows db1;
          retried = sql_count (recover_retry_due now org ws) (jobs db2);
          db3 = update_jobs (recover_retry_due now org ws) (requeue_job now) db2;
          dead_rows = filter (recover_dead_due now org ws) (jobs db3);
          db4 = update_jobs (recover_dead_due now org ws) (dead_letter_job now) db3;
          db5 = fold (recover_dead_letter env now) dead_rows db4
      in (Inr (retried, length dead_rows), db5))"

definition expire_due :: "instant \<Rightarrow> uuid option \<Rightarrow> uuid option \<Rightarrow> ai_job \<Rightarrow> bool" where
  "expire_due now org ws j \<longleftrightarrow>
     j_state j \<in> {Queued, Retry_wait, Leased}
     \<and> (case j_deadline_at j of None \<Rightarrow> False | Some d \<Rightarrow> d \<le> now) \<and> tenant_match org ws j"

definition expire_job :: "instant \<Rightarrow> ai_job \<Rightarrow> ai_job" where
  "expire_job now j =
     j\<lparr>j_state := Expired, j_lease_owner := None, j_lease_expires_at := None,
       j_failure_code := Some ''deadline_expired'', j_completed_at := Some now, j_updated_at := now\<rparr>"

definition expire_deadlines :: "instant \<Rightarrow> uuid option \<Rightarrow> uuid option \<Rightarrow> (ai_db, nat) call" where
  "expire_deadlines now org ws db =
     (Inr (sql_count (expire_due now org ws) (jobs db)),
      update_jobs (expire_due now org ws) (expire_job now) db)"

end
