(* ===== verification/Ai_Orchestration.thy ===== *)
theory Ai_Orchestration
  imports Ai_Jobs
begin

text \<open>
  The command repository on the same tables (\<open>app/core/ai_orchestration.py\<close>): submission under
  quotas, events, reads, cancellation, approval decisions and stored results, with the handlers
  of \<open>app/api/v1/ai_commands.py\<close> and the console's \<open>cancel\<close> (\<open>app/api/v1/ai_console.py\<close>).
\<close>

section \<open>Submission\<close>

record ai_settings =
  ai_default_max_queued_per_tenant :: int
  ai_daily_token_quota :: int
  ai_global_emergency_limit :: int
  ai_job_lease_seconds :: int
  ai_job_max_output_bytes :: int
  ai_job_max_attempts :: int
  ai_job_max_context_bytes :: int
  ai_submissions_enabled :: bool
  ai_orchestration_enabled :: bool
  ai_worker_claims_enabled :: bool
  ai_worker_certificate_serial :: string
  ai_worker_spiffe_id :: string

definition record_event ::
  "uuid \<Rightarrow> uuid \<Rightarrow> uuid \<Rightarrow> string \<Rightarrow> ai_state \<Rightarrow> string \<Rightarrow> (string \<times> json) list \<Rightarrow> ai_db \<Rightarrow> ai_db" where
  "record_event job_id tenant ws event_type st correlation_id details db =
     (let sequences = map ev_sequence (filter (\<lambda>e. ev_job_id e = job_id) (events db));
          nxt = (if sequences = [] then 0 else Max (set sequences)) + 1
      in db\<lparr>events := events db @
           [\<lparr>ev_job_id = job_id, ev_organization_id = tenant, ev_workspace_id = ws,
             ev_event_type = event_type, ev_state = st, ev_sequence = nxt,
             ev_safe_details = details, ev_correlation_id = correlation_id\<rparr>]\<rparr>)"

definition command_job :: "ai_env \<Rightarrow> instant \<Rightarrow> uuid \<Rightarrow> ai_command \<Rightarrow> ai_job" where
  "command_job env now ws c =
     \<lparr>j_id = ac_command_id c, j_conversation_id = None, j_request_message_id = None,
      j_organization_id = ac_tenant_id c, j_workspace_id = ws, j_requested_by = ac_actor_id c,
      j_task_type = command_type_value (ac_command_type c), j_project_key = None,
      j_state = Queued, j_idempotency_key = ac_idempotency_key c,
      j_request_sha256 = sha256 env (payload_json env c), j_attempt_count = 0,
      j_max_attempts = rl_retry_count (ac_resource_limits c) + 1, j_fencing_token = 0,
      j_lease_owner = None, j_lease_expires_at = None, j_next_attempt_at = now,
      j_cancel_requested_at = None, j_completed_at = None, j_failure_code = None,
      j_output_bytes = 0, j_created_at = now, j_updated_at = now,
      j_command_type = Some (ac_command_type c), j_schema_version = ac_schema_version c,
      j_actor_id = Some (ac_actor_id c), j_actor_type = Some (ac_actor_type c),
      j_correlation_id = Some (ac_correlation_id c), j_priority = ac_priority c,
      j_deadline_at = Some (instant_of (ac_deadline_at c)), j_command_payload = Some c,
      j_model_profile = Some (mp_profile (ac_model_policy c)),
      j_resource_limits = Some (ac_resource_limits c),
      j_data_classification = ac_data_classification c,
      j_approval_policy = Some (ac_approval_policy c),
      j_callback_policy = Some (ac_callback_policy c), j_command_metadata = ac_metadata c,
      j_version = 1\<rparr>"

record submit_ref =
  sr_job_id :: uuid
  sr_status :: string
  sr_idempotent_replay :: bool

definition find_quota :: "uuid \<Rightarrow> uuid \<Rightarrow> ai_db \<Rightarrow> ai_quota option" where
  "find_quota tenant ws db =
     sql_first (\<lambda>q. qt_organization_id q = tenant \<and> qt_workspace_id q = ws) (quotas db)"

definition tenant_queued :: "uuid \<Rightarrow> uuid \<Rightarrow> ai_db \<Rightarrow> int" where
  "tenant_queued tenant ws db =
     int (sql_count (\<lambda>j. j_organization_id j = tenant \<and> j_workspace_id j = ws
            \<and> j_state j \<in> {Queued, Available, Retry_wait, Approval_required}) (jobs db))"

definition tokens_used :: "uuid \<Rightarrow> uuid \<Rightarrow> int \<Rightarrow> ai_db \<Rightarrow> int" where
  "tokens_used tenant ws today db =
     sum_list (map us_tokens (filter (\<lambda>u. us_organization_id u = tenant \<and> us_workspace_id u = ws
                                          \<and> us_usage_date u = today) (usage db)))"

definition jobs_active :: "ai_db \<Rightarrow> int" where
  "jobs_active db =
     int (sql_count (\<lambda>j. j_state j \<in> {Queued, Available, Leased, Running, Retry_wait}) (jobs db))"

text \<open>The quota checks of \<open>submit\<close>, in order; the first that fails is raised.\<close>

definition quota_check ::
  "ai_env \<Rightarrow> ai_settings \<Rightarrow> int \<Rightarrow> ai_command \<Rightarrow> uuid \<Rightarrow> ai_db \<Rightarrow> pyerr option" where
  "quota_check env cfg today c ws db =
     (let tenant = ac_tenant_id c; quota = find_quota tenant ws db;
          max_queued = (case quota of None \<Rightarrow> ai_default_max_queued_per_tenant cfg
                        | Some q \<Rightarrow> qt_max_queued q);
          daily = (case quota of None \<Rightarrow> ai_daily_token_quota cfg | Some q \<Rightarrow> qt_daily_tokens q) in
      if tenant_queued tenant ws db \<ge> max_queued
      then Some (OverflowError ''tenant_queue_quota_exceeded'')
      else if (case quota of None \<Rightarrow> False
               | Some q \<Rightarrow> encoded_len (payload_json env c) > qt_max_payload_bytes q)
      then Some (OverflowError ''tenant_payload_quota_exceeded'')
      else if tokens_used tenant ws today db + rl_token_budget (ac_resource_limits c) > daily
      then Some (OverflowError ''daily_token_quota_exceeded'')
      else if ai_global_emergency_limit cfg > 0 \<and> jobs_active db \<ge> ai_global_emergency_limit cfg
      then Some (OverflowError ''global_emergency_limit'')
      else None)"

definition submit ::
  "ai_env \<Rightarrow> ai_settings \<Rightarrow> instant \<Rightarrow> int \<Rightarrow> ai_command \<Rightarrow> uuid \<Rightarrow> (ai_db, submit_ref) call" where
  "submit env cfg now today c ws db =
     (case find_key (ac_tenant_id c) ws (ac_idempotency_key c) db of
        Some existing \<Rightarrow>
          if j_request_sha256 existing \<noteq> sha256 env (payload_json env c)
          then (Inl (ValueError ''idempotency_conflict''), db)
          else (Inr \<lparr>sr_job_id = j_id existing, sr_status = PUBLIC_STATES (j_state existing),
                     sr_idempotent_replay = True\<rparr>, db)
      | None \<Rightarrow>
          if ac_command_id c \<in> set (map j_id (jobs db))
          then (Inl (ValueError ''command_id_conflict''), db)
          else (case quota_check env cfg today c ws db of
              Some e \<Rightarrow> (Inl e, db)
            | None \<Rightarrow>
              (case insert_job (command_job env now ws c) db of
                 None \<Rightarrow> (Inl (IntegrityError ''ai_generation_jobs''), db)
               | Some db1 \<Rightarrow>
                 (Inr \<lparr>sr_job_id = ac_command_id c, sr_status = ''PENDING'',
                       sr_idempotent_replay = False\<rparr>,
                  record_event (ac_command_id c) (ac_tenant_id c) ws ''command.submitted'' Queued
                    (ac_correlation_id c) [] db1))))"

section \<open>Reads\<close>

definition find_scoped :: "uuid \<Rightarrow> uuid \<Rightarrow> uuid \<Rightarrow> ai_db \<Rightarrow> ai_job option" where
  "find_scoped job_id tenant ws db =
     sql_first (\<lambda>j. j_id j = job_id \<and> j_organization_id j = tenant \<and> j_workspace_id j = ws) (jobs db)"

definition get_command :: "uuid \<Rightarrow> uuid \<Rightarrow> uuid \<Rightarrow> ai_db \<Rightarrow> (ai_job \<times> string) result" where
  "get_command job_id tenant ws db =
     (case find_scoped job_id tenant ws db of
        None \<Rightarrow> Inl (LookupError ''command_not_found'')
      | Some j \<Rightarrow> Inr (j, PUBLIC_STATES (j_state j)))"

definition get_result :: "uuid \<Rightarrow> uuid \<Rightarrow> uuid \<Rightarrow> ai_db \<Rightarrow> ai_job_result result" where
  "get_result job_id tenant ws db =
     (case sql_first (\<lambda>r. rs_job_id r = job_id \<and> rs_organization_id r = tenant
                          \<and> rs_workspace_id r = ws) (results db) of
        Some r \<Rightarrow> Inr r
      | None \<Rightarrow> (case get_command job_id tenant ws db of
                   Inl e \<Rightarrow> Inl e | Inr _ \<Rightarrow> Inl (LookupError ''result_not_ready'')))"

section \<open>Cancellation\<close>

definition cancel_command_row :: "instant \<Rightarrow> ai_job \<Rightarrow> ai_job" where
  "cancel_command_row now j =
     (let idle = j_state j \<in> {Queued, Available, Retry_wait, Approval_required} in
      j\<lparr>j_cancel_requested_at := (case j_cancel_requested_at j of None \<Rightarrow> Some now | Some t \<Rightarrow> Some t),
        j_state := (if idle then Cancelled else Cancel_requested),
        j_completed_at := (if idle then Some now else j_completed_at j),
        j_updated_at := now, j_version := j_version j + 1\<rparr>)"

definition cancel_command ::
  "instant \<Rightarrow> uuid \<Rightarrow> uuid \<Rightarrow> uuid \<Rightarrow> string \<Rightarrow> (ai_db, string) call" where
  "cancel_command now job_id tenant ws correlation_id db =
     (let p = (\<lambda>j. j_id j = job_id \<and> j_organization_id j = tenant \<and> j_workspace_id j = ws
                  \<and> j_state j \<notin> {Completed, Failed, Cancelled, Expired, Dead_letter, Rejected}) in
      case sql_first p (jobs db) of
        None \<Rightarrow> (Inl (LookupError ''active_command_not_found''), db)
      | Some j \<Rightarrow>
        (let st = j_state (cancel_command_row now j) in
         (Inr (PUBLIC_STATES st),
          record_event job_id tenant ws ''command.cancellation_requested'' st correlation_id []
            (update_jobs p (cancel_command_row now) db))))"

definition console_cancel_row :: "instant \<Rightarrow> ai_job \<Rightarrow> ai_job" where
  "console_cancel_row now j =
     (let idle = j_state j \<in> {Queued, Retry_wait} in
      j\<lparr>j_cancel_requested_at := (case j_cancel_requested_at j of None \<Rightarrow> Some now | Some t \<Rightarrow> Some t),
        j_state := (if idle then Cancelled else j_state j),
        j_completed_at := (if idle then Some now else j_completed_at j), j_updated_at := now\<rparr>)"

definition console_cancel ::
  "ai_env \<Rightarrow> instant \<Rightarrow> uuid \<Rightarrow> uuid \<Rightarrow> uuid \<Rightarrow> string \<Rightarrow> string \<Rightarrow> (ai_db, ai_state) call" where
  "console_cancel env now job_id org ws user_id correlation_id db =
     (let p = (\<lambda>j. j_id j = job_id \<and> j_organization_id j = org \<and> j_workspace_id j = ws
                  \<and> j_state j \<notin> {Completed, Failed, Cancelled, Dead_letter}) in
      case sql_first p (jobs db) of
        None \<Rightarrow> (Inl (HTTPException 404 ''active job not found''), db)
      | Some j \<Rightarrow>
        (Inr (j_state (console_cancel_row now j)),
         audit env ''job.cancellation_requested'' correlation_id user_id (Some org) (Some ws)
           (Some job_id) [] (update_jobs p (console_cancel_row now) db)))"

section \<open>Decisions and results\<close>

definition decide ::
  "ai_env \<Rightarrow> instant \<Rightarrow> uuid \<Rightarrow> uuid \<Rightarrow> uuid \<Rightarrow> string \<Rightarrow> string \<Rightarrow> bool \<Rightarrow> string \<Rightarrow> (ai_db, string) call" where
  "decide env now job_id tenant ws actor_id correlation_id approved reason db =
     (let st = (if approved then Approved else Rejected);
          p = (\<lambda>a. ax_job_id a = job_id \<and> ax_organization_id a = tenant \<and> ax_workspace_id a = ws
                  \<and> ax_state a = Pending) in
      if \<not> sql_exists p (approvals db) then (Inl (LookupError ''pending_approval_not_found''), db)
      else
        (let db1 = db\<lparr>approvals := sql_update p
               (\<lambda>a. a\<lparr>ax_state := (if approved then ApprovedBy else RejectedBy),
                      ax_decided_by_fingerprint := Some (sha256 env actor_id),
                      ax_decision_reason := Some reason, ax_decided_at := Some now\<rparr>)
               (approvals db)\<rparr>;
             db2 = update_jobs (\<lambda>j. j_id j = job_id)
               (\<lambda>j. j\<lparr>j_state := st, j_updated_at := now, j_version := j_version j + 1\<rparr>) db1
         in (Inr (PUBLIC_STATES st),
             record_event job_id tenant ws (''approval.'' @ state_value st) st correlation_id
               [(''reason_present'', JBool (reason \<noteq> []))] db2)))"

text \<open>
  \<open>store_result\<close> runs inside the transaction of its caller. \<open>job\<close> is the row the caller read;
  the console's own worker passes the claimed view, which has no actor.
\<close>

record result_target =
  rt_id :: uuid
  rt_organization_id :: uuid
  rt_workspace_id :: uuid
  rt_command_type :: "command_type option"
  rt_model_profile :: "string option"
  rt_approval_policy :: "approval_policy option"
  rt_actor_id :: "string option"

definition target_of_job :: "ai_job \<Rightarrow> result_target" where
  "target_of_job j =
     \<lparr>rt_id = j_id j, rt_organization_id = j_organization_id j, rt_workspace_id = j_workspace_id j,
      rt_command_type = j_command_type j, rt_model_profile = j_model_profile j,
      rt_approval_policy = j_approval_policy j, rt_actor_id = j_actor_id j\<rparr>"

definition target_of_claim :: "claimed_job \<Rightarrow> result_target" where
  "target_of_claim c =
     \<lparr>rt_id = cj_id c, rt_organization_id = cj_organization_id c,
      rt_workspace_id = cj_workspace_id c, rt_command_type = cj_command_type c,
      rt_model_profile = cj_model_profile c, rt_approval_policy = cj_approval_policy c,
      rt_actor_id = None\<rparr>"

definition approval_needed :: "result_target \<Rightarrow> bool" where
  "approval_needed t \<longleftrightarrow> (case rt_approval_policy t of None \<Rightarrow> False | Some p \<Rightarrow> ap_required p)"

definition store_result ::
  "ai_env \<Rightarrow> instant \<Rightarrow> int \<Rightarrow> uuid \<Rightarrow> result_target \<Rightarrow> ai_result \<Rightarrow> (ai_db, ai_state) call" where
  "store_result env now today approval_id t res db =
     (if rt_model_profile t = None then (Inl (IntegrityError ''ai_usage_ledger.model_profile''), db)
      else
       (let db1 = (if sql_exists (\<lambda>r. rs_job_id r = rt_id t) (results db) then db
               else db\<lparr>results := results db @
                 [\<lparr>rs_job_id = rt_id t, rs_organization_id = rt_organization_id t,
                   rs_workspace_id = rt_workspace_id t, rs_result = res,
                   rs_output_sha256 = sha256 env (json_canonical (JObj (ar_output res)))\<rparr>]\<rparr>);
            db2 = (if sql_exists (\<lambda>u. us_job_id u = rt_id t) (usage db1) then db1
               else db1\<lparr>usage := usage db1 @
                 [\<lparr>us_job_id = rt_id t, us_organization_id = rt_organization_id t,
                   us_workspace_id = rt_workspace_id t,
                   us_tokens = sum_list (map snd (ar_token_usage res)),
                   us_compute_units = max 1 (ar_latency_ms res div 1000),
                   us_model_profile = rt_model_profile t, us_usage_date = today,
                   us_created_at = now\<rparr>]\<rparr>);
            proposal = JObj [(''output'', JObj (ar_output res)),
                             (''structured_artifacts'', JList (ar_structured_artifacts res))];
            db3 = (if \<not> approval_needed t
                      \<or> sql_exists (\<lambda>a. ax_job_id a = rt_id t \<or> ax_id a = approval_id) (approvals db2)
               then db2
               else db2\<lparr>approvals := approvals db2 @
                 [\<lparr>ax_id = approval_id, ax_job_id = rt_id t,
                   ax_organization_id = rt_organization_id t, ax_workspace_id = rt_workspace_id t,
                   ax_action_type = rt_command_type t, ax_proposal = proposal,
                   ax_proposal_sha256 = sha256 env (json_canonical proposal),
                   ax_requested_by = or_else (rt_actor_id t) ''system'', ax_state = Pending,
                   ax_decided_by_fingerprint = None, ax_decision_reason = None,
                   ax_decided_at = None\<rparr>]\<rparr>)
        in (Inr (if approval_needed t then Approval_required else Completed), db3)))"

end
