(* ===== verification/Ai_Worker.thy ===== *)
theory Ai_Worker
  imports Ai_Orchestration
begin

text \<open>
  The handlers workers and consoles call: the polling contract
  (\<open>app/api/internal/ai_jobs.py\<close>), the command and console routes
  (\<open>app/api/v1/ai_commands.py\<close>, \<open>app/api/v1/ai_console.py\<close>) and the database work of the
  OpenAI worker (\<open>app/workers/openai_jobs.py\<close>). A handler turns the repository's exceptions
  into HTTP errors; authentication has produced the principal.
\<close>

section \<open>Principals and error mapping\<close>

record worker_principal =
  wp_service_id :: string
  wp_worker_id :: string
  wp_tenant_id :: uuid
  wp_workspace_id :: uuid
  wp_correlation_id :: string

record tenant_subject =
  ts_organization_id :: uuid
  ts_workspace_id :: uuid
  ts_user_id :: string
  ts_roles :: "string list"

definition exc_text :: "pyerr \<Rightarrow> string" where
  "exc_text e = (case e of ValueError m \<Rightarrow> m | LookupError m \<Rightarrow> m | PermissionError m \<Rightarrow> m
     | OverflowError m \<Rightarrow> m | KeyError m \<Rightarrow> m | RuntimeError m \<Rightarrow> m | IntegrityError m \<Rightarrow> m
     | Conflict m \<Rightarrow> m | HTTPException c m \<Rightarrow> m)"

definition map_err :: "(pyerr \<Rightarrow> pyerr) \<Rightarrow> 'a result \<times> 's \<Rightarrow> 'a result \<times> 's" where
  "map_err f rs = (case fst rs of Inl e \<Rightarrow> (Inl (f e), snd rs) | Inr a \<Rightarrow> (Inr a, snd rs))"

fun permission_as :: "int \<Rightarrow> pyerr \<Rightarrow> pyerr" where
  "permission_as status (PermissionError m) = HTTPException status m"
| "permission_as status e = e"

fun claim_error :: "pyerr \<Rightarrow> pyerr" where
  "claim_error (PermissionError m) = HTTPException 403 m"
| "claim_error (OverflowError m) = HTTPException 409 m"
| "claim_error (ValueError m) = HTTPException 400 m"
| "claim_error e = e"

fun chunk_error :: "pyerr \<Rightarrow> pyerr" where
  "chunk_error (PermissionError m) = HTTPException 409 m"
| "chunk_error (OverflowError m) = HTTPException 413 m"
| "chunk_error e = e"

fun retry_error :: "pyerr \<Rightarrow> pyerr" where
  "retry_error (PermissionError m) = HTTPException 409 m"
| "retry_error (LookupError m) = HTTPException 409 m"
| "retry_error e = e"

section \<open>The polling contract\<close>

definition claim_job ::
  "ai_env \<Rightarrow> ai_settings \<Rightarrow> instant \<Rightarrow> (uuid \<Rightarrow> bool) \<Rightarrow> string \<Rightarrow> string list option \<Rightarrow> worker_principal
   \<Rightarrow> (ai_db, claimed_job option) call" where
  "claim_job env cfg now locked body_worker profiles p db =
     (if \<not> ai_worker_claims_enabled cfg
      then (Inl (HTTPException 503 ''AI worker claims are disabled''), db)
      else
       (let org = Some (wp_tenant_id p); ws = Some (wp_workspace_id p);
            db1 = snd (expire_deadlines now org ws db);
            db2 = snd (recover_expired env now org ws db1) in
        if body_worker \<noteq> wp_worker_id p then (Inl (HTTPException 401 ''authentication denied''), db2)
        else map_err claim_error
          (claim env now locked
             \<lparr>cr_worker_id = wp_worker_id p, cr_lease_seconds = ai_job_lease_seconds cfg,
              cr_correlation_id = wp_correlation_id p, cr_organization_id = org,
              cr_workspace_id = ws, cr_service_id = Some (wp_service_id p),
              cr_allowed_model_profiles = profiles\<rparr> db2)))"

definition job_heartbeat ::
  "ai_settings \<Rightarrow> instant \<Rightarrow> uuid \<Rightarrow> string \<Rightarrow> int \<Rightarrow> worker_principal \<Rightarrow> (ai_db, instant) call" where
  "job_heartbeat cfg now job_id body_worker token p db =
     (if body_worker \<noteq> wp_worker_id p then (Inl (HTTPException 401 ''authentication denied''), db)
      else map_err (permission_as 409)
        (heartbeat now job_id body_worker token (ai_job_lease_seconds cfg) (wp_service_id p)
           (ai_worker_certificate_serial cfg) (ai_worker_spiffe_id cfg)
           (Some (wp_tenant_id p)) (Some (wp_workspace_id p)) db))"

definition job_chunk ::
  "ai_env \<Rightarrow> ai_settings \<Rightarrow> instant \<Rightarrow> uuid \<Rightarrow> string \<Rightarrow> int \<Rightarrow> int \<Rightarrow> string \<Rightarrow> worker_principal
   \<Rightarrow> (ai_db, bool) call" where
  "job_chunk env cfg now job_id body_worker token seqno content p db =
     (if body_worker \<noteq> wp_worker_id p then (Inl (HTTPException 401 ''authentication denied''), db)
      else map_err chunk_error
        (append_chunk env now job_id body_worker token seqno content (ai_job_max_output_bytes cfg)
           (Some (wp_tenant_id p)) (Some (wp_workspace_id p)) db))"

definition finish_handler ::
  "ai_env \<Rightarrow> instant \<Rightarrow> uuid \<Rightarrow> string \<Rightarrow> int \<Rightarrow> bool \<Rightarrow> string option \<Rightarrow> bool
   \<Rightarrow> (string \<times> json) list option \<Rightarrow> worker_principal \<Rightarrow> (ai_db, ai_state) call" where
  "finish_handler env now job_id body_worker token failed err retryable details p db =
     (if body_worker \<noteq> wp_worker_id p then (Inl (HTTPException 401 ''authentication denied''), db)
      else map_err (permission_as 409)
        (finish env now job_id body_worker token failed err retryable (wp_correlation_id p)
           Completed details (Some (wp_tenant_id p)) (Some (wp_workspace_id p)) db))"

definition fail_job ::
  "ai_env \<Rightarrow> instant \<Rightarrow> uuid \<Rightarrow> string \<Rightarrow> int \<Rightarrow> string \<Rightarrow> bool \<Rightarrow> (string \<times> json) list
   \<Rightarrow> worker_principal \<Rightarrow> (ai_db, ai_state) call" where
  "fail_job env now job_id body_worker token error_code retryable details p =
     finish_handler env now job_id body_worker token True (Some error_code) retryable (Some details) p"

definition release_job ::
  "ai_env \<Rightarrow> instant \<Rightarrow> uuid \<Rightarrow> string \<Rightarrow> int \<Rightarrow> worker_principal \<Rightarrow> (ai_db, ai_state) call" where
  "release_job env now job_id body_worker token p =
     finish_handler env now job_id body_worker token True (Some ''worker_released'') True None p"

text \<open>
  \<open>complete_job\<close> stores the result and finishes the attempt in one transaction: when \<open>finish\<close>
  refuses the lease nothing is committed. The flag of the answer says whether the call
  repeated an accepted completion.
\<close>

definition complete_with ::
  "ai_env \<Rightarrow> instant \<Rightarrow> int \<Rightarrow> uuid \<Rightarrow> result_target \<Rightarrow> ai_result \<Rightarrow> string \<Rightarrow> int \<Rightarrow> string
   \<Rightarrow> uuid option \<Rightarrow> uuid option \<Rightarrow> (ai_db, ai_state) call" where
  "complete_with env now today approval_id t res worker token correlation_id org ws db =
     (case store_result env now today approval_id t res db of
        (Inl e, _) \<Rightarrow> (Inl e, db)
      | (Inr completion_state, db1) \<Rightarrow>
        (case finish env now (rt_id t) worker token False None False correlation_id
                completion_state None org ws db1 of
           (Inl e, _) \<Rightarrow> (Inl e, db)
         | (Inr st, db2) \<Rightarrow> (Inr st, db2)))"

definition complete_job ::
  "ai_env \<Rightarrow> instant \<Rightarrow> int \<Rightarrow> uuid \<Rightarrow> uuid \<Rightarrow> string \<Rightarrow> int \<Rightarrow> ai_result option \<Rightarrow> worker_principal
   \<Rightarrow> (ai_db, ai_state \<times> bool) call" where
  "complete_job env now today approval_id job_id body_worker token res p db =
     (let org = wp_tenant_id p; ws = wp_workspace_id p in
      if body_worker \<noteq> wp_worker_id p then (Inl (HTTPException 401 ''authentication denied''), db)
      else case completed_result_status env job_id org ws res db of
        Inl e \<Rightarrow> (Inl (permission_as 409 e), db)
      | Inr (Some st) \<Rightarrow> (Inr (st, True), db)
      | Inr None \<Rightarrow>
        (case res of
           None \<Rightarrow>
             (case map_err (permission_as 409)
                     (finish env now job_id body_worker token False None False (wp_correlation_id p)
                        Completed None (Some org) (Some ws) db) of
                (Inl e, db') \<Rightarrow> (Inl e, db') | (Inr st, db') \<Rightarrow> (Inr (st, False), db'))
         | Some r \<Rightarrow>
             if ar_job_id r \<noteq> job_id \<or> ar_command_id r \<noteq> job_id
             then (Inl (HTTPException 409 ''result reference mismatch''), db)
             else (case assert_lease now job_id body_worker token (Some org) (Some ws) False db of
                 Inl e \<Rightarrow> (Inl (permission_as 409 e), db)
               | Inr job \<Rightarrow>
                 (case map_err (permission_as 409)
                         (complete_with env now today approval_id (target_of_job job) r body_worker
                            token (wp_correlation_id p) (Some org) (Some ws) db) of
                    (Inl e, db') \<Rightarrow> (Inl e, db') | (Inr st, db') \<Rightarrow> (Inr (st, False), db')))))"

definition cancel_job ::
  "ai_env \<Rightarrow> instant \<Rightarrow> uuid \<Rightarrow> string \<Rightarrow> int \<Rightarrow> worker_principal \<Rightarrow> (ai_db, bool \<times> ai_state) call" where
  "cancel_job env now job_id body_worker token p db =
     (if body_worker \<noteq> wp_worker_id p then (Inl (HTTPException 401 ''authentication denied''), db)
      else map_err (permission_as 409)
        (worker_cancel env now job_id (wp_worker_id p) token (wp_tenant_id p) (wp_workspace_id p)
           (wp_correlation_id p) db))"

definition retry_dead_letter_handler ::
  "ai_env \<Rightarrow> instant \<Rightarrow> uuid \<Rightarrow> uuid \<Rightarrow> worker_principal \<Rightarrow> (ai_db, ai_state) call" where
  "retry_dead_letter_handler env now job_id approval_id p db =
     map_err retry_error
       (retry_dead_letter env now job_id approval_id (wp_tenant_id p) (wp_workspace_id p)
          (wp_worker_id p) (wp_correlation_id p) db)"

definition cancellation_check ::
  "instant \<Rightarrow> uuid \<Rightarrow> string \<Rightarrow> int \<Rightarrow> worker_principal \<Rightarrow> ai_db \<Rightarrow> bool result" where
  "cancellation_check now job_id body_worker token p db =
     (if body_worker \<noteq> wp_worker_id p then Inl (HTTPException 401 ''authentication denied'')
      else case assert_lease now job_id body_worker token (Some (wp_tenant_id p))
                  (Some (wp_workspace_id p)) True db of
        Inl e \<Rightarrow> Inl (permission_as 409 e)
      | Inr row \<Rightarrow> Inr (j_cancel_requested_at row \<noteq> None))"

definition register_worker ::
  "ai_env \<Rightarrow> string \<Rightarrow> (string \<times> json) list \<Rightarrow> int \<Rightarrow> worker_principal \<Rightarrow> (ai_db, string) call" where
  "register_worker env body_worker capabilities max_concurrency p db =
     (if body_worker \<noteq> wp_worker_id p then (Inl (HTTPException 401 ''authentication denied''), db)
      else
       (let canonical = json_canonical (JObj capabilities); digest = sha256 env canonical;
            q = (\<lambda>g. rg_worker_id g = body_worker)
        in (Inr digest,
            db\<lparr>registrations :=
              (if sql_exists q (registrations db) then
                 sql_update q (\<lambda>g. g\<lparr>rg_service_id := wp_service_id p,
                     rg_capability_digest := digest, rg_capabilities := canonical,
                     rg_max_concurrency := max_concurrency, rg_version := rg_version g + 1\<rparr>)
                   (registrations db)
               else registrations db @
                 [\<lparr>rg_worker_id = body_worker, rg_service_id = wp_service_id p,
                   rg_capability_digest = digest, rg_capabilities = canonical,
                   rg_max_concurrency = max_concurrency, rg_enabled = False, rg_version = 1\<rparr>])\<rparr>)))"

definition worker_heartbeat ::
  "ai_settings \<Rightarrow> instant \<Rightarrow> string \<Rightarrow> uuid option \<Rightarrow> worker_principal \<Rightarrow> (ai_db, bool) call" where
  "worker_heartbeat cfg now body_worker current_job p db =
     (if body_worker \<noteq> wp_worker_id p then (Inl (HTTPException 401 ''authentication denied''), db)
      else (Inr (ai_worker_claims_enabled cfg),
            db\<lparr>heartbeats := upsert_heartbeat
              \<lparr>hb_worker_id = body_worker, hb_service_id = wp_service_id p,
               hb_certificate_serial = ai_worker_certificate_serial cfg,
               hb_spiffe_id = ai_worker_spiffe_id cfg, hb_last_seen_at = now,
               hb_current_job_id = current_job\<rparr> (heartbeats db)\<rparr>))"

section \<open>Command and console routes\<close>

fun submit_error :: "pyerr \<Rightarrow> pyerr" where
  "submit_error (ValueError m) = HTTPException 409 m"
| "submit_error (OverflowError m) = HTTPException 429 m"
| "submit_error e = e"

definition submit_command ::
  "ai_env \<Rightarrow> ai_settings \<Rightarrow> instant \<Rightarrow> int \<Rightarrow> ai_command \<Rightarrow> tenant_subject \<Rightarrow> (ai_db, submit_ref) call" where
  "submit_command env cfg now today c s db =
     (if \<not> ai_submissions_enabled cfg \<or> \<not> ai_orchestration_enabled cfg
      then (Inl (HTTPException 503 ''AI_TEMPORARILY_UNAVAILABLE''), db)
      else if ac_tenant_id c \<noteq> ts_organization_id s \<or> ac_actor_id c \<noteq> ts_user_id s
      then (Inl (HTTPException 403 ''tenant or actor mismatch''), db)
      else map_err submit_error (submit env cfg now today c (ts_workspace_id s) db))"

definition decision_handler ::
  "ai_env \<Rightarrow> instant \<Rightarrow> uuid \<Rightarrow> string \<Rightarrow> tenant_subject \<Rightarrow> string \<Rightarrow> bool \<Rightarrow> (ai_db, string) call" where
  "decision_handler env now command_id reason s correlation_id approved db =
     (if \<not> list_ex (\<lambda>r. r \<in> set [''codestra_ai_approver'', ''codestra_admin'']) (ts_roles s)
      then (Inl (HTTPException 403 ''approver role required''), db)
      else map_err (\<lambda>e. case e of LookupError _ \<Rightarrow> HTTPException 404 ''pending approval not found''
                                | _ \<Rightarrow> e)
        (decide env now command_id (ts_organization_id s) (ts_workspace_id s) (ts_user_id s)
           correlation_id approved reason db))"

fun message_error :: "pyerr \<Rightarrow> pyerr" where
  "message_error (LookupError m) = HTTPException 404 ''conversation not found''"
| "message_error (ValueError m) =
     (if m = ''unsupported_browser_capability'' then HTTPException 422 ''unsupported AI capability''
      else HTTPException 409 ''idempotency conflict'')"
| "message_error e = e"

text \<open>\<open>project_allowlist\<close> is the setting split at commas, stripped, without empty items.\<close>

definition create_message ::
  "ai_env \<Rightarrow> ai_settings \<Rightarrow> string list \<Rightarrow> instant \<Rightarrow> instant \<Rightarrow> uuid \<Rightarrow> uuid \<Rightarrow> uuid \<Rightarrow> string \<Rightarrow> string
   \<Rightarrow> string option \<Rightarrow> string \<Rightarrow> tenant_subject \<Rightarrow> string \<Rightarrow> (ai_db, job_ref) call" where
  "create_message env cfg project_allowlist now clock message_id job_id conversation_id content
                  task_type project_key idempotency_key s correlation_id db =
     (if \<not> ai_submissions_enabled cfg
      then (Inl (HTTPException 503 ''AI_TEMPORARILY_UNAVAILABLE''), db)
      else if \<not> (1 \<le> length correlation_id \<and> length correlation_id \<le> 128)
      then (Inl (HTTPException 400 ''invalid correlation ID''), db)
      else if encoded_len content > ai_job_max_context_bytes cfg
      then (Inl (HTTPException 413 ''context limit exceeded''), db)
      else if task_type = ''coding''
              \<and> \<not> list_ex (\<lambda>r. r \<in> set [''codestra_ai_developer'', ''codestra_admin'']) (ts_roles s)
      then (Inl (HTTPException 403 ''coding role required''), db)
      else if task_type = ''coding''
              \<and> (case project_key of None \<Rightarrow> True | Some k \<Rightarrow> k = [] \<or> k \<notin> set project_allowlist)
      then (Inl (HTTPException 403 ''project is not approved''), db)
      else map_err message_error
        (create_message_job env now clock message_id job_id
           \<lparr>br_conversation_id = conversation_id, br_organization_id = ts_organization_id s,
            br_workspace_id = ts_workspace_id s, br_user_id = ts_user_id s, br_content = content,
            br_task_type = task_type, br_project_key = project_key,
            br_idempotency_key = idempotency_key, br_correlation_id = correlation_id,
            br_max_attempts = ai_job_max_attempts cfg\<rparr> db))"

section \<open>The OpenAI worker\<close>

definition OPENAI_PROFILES :: "string list" where
  "OPENAI_PROFILES = [''fast-chat'', ''quality-chat'', ''coding-default'', ''coding-large'']"

definition PRICE_MICRO_USD_PER_TOKEN :: "(string \<times> int \<times> int) list" where
  "PRICE_MICRO_USD_PER_TOKEN = [(''gpt-5.6-terra'', 2, 12), (''gpt-5.6-sol'', 5, 30)]"

definition estimated_cost :: "string \<Rightarrow> int \<Rightarrow> int \<Rightarrow> int result" where
  "estimated_cost model input_tokens output_tokens =
     (case map_of PRICE_MICRO_USD_PER_TOKEN model of
        None \<Rightarrow> Inl (RuntimeError ''provider_price_policy_missing'')
      | Some (i, o') \<Rightarrow> Inr (input_tokens * i + output_tokens * o'))"

definition usage_in_last_day ::
  "instant \<Rightarrow> uuid \<Rightarrow> uuid \<Rightarrow> string \<Rightarrow> string option \<Rightarrow> ai_db \<Rightarrow> int \<times> int" where
  "usage_in_last_day now org ws requested_by project db =
     (let rows = [(u, j). u \<leftarrow> usage db, j \<leftarrow> jobs db, j_id j = us_job_id u,
                   us_created_at u \<ge> now - days 1, j_organization_id j = org, j_workspace_id j = ws];
          total = (\<lambda>p. sum_list (map (\<lambda>(u, j). us_tokens u) (filter p rows)))
      in (total (\<lambda>(u, j). j_requested_by j = requested_by),
          total (\<lambda>(u, j). project \<noteq> None \<and> j_project_key j = project)))"

definition renew_lease :: "instant \<Rightarrow> int \<Rightarrow> uuid \<Rightarrow> string \<Rightarrow> int \<Rightarrow> (ai_db, unit) call" where
  "renew_lease now lease_seconds job_id worker token db =
     (let p = (\<lambda>j. j_id j = job_id \<and> j_lease_owner j = Some worker \<and> j_fencing_token j = token
                  \<and> j_state j \<in> {Leased, Cancel_requested} \<and> lease_live now j) in
      (if sql_exists p (jobs db) then Inr () else Inl (RuntimeError ''provider_lease_lost''),
       update_jobs p (\<lambda>j. j\<lparr>j_lease_expires_at := Some (now + secs lease_seconds),
                            j_updated_at := now\<rparr>) db))"

definition openai_complete ::
  "ai_env \<Rightarrow> instant \<Rightarrow> int \<Rightarrow> uuid \<Rightarrow> claimed_job \<Rightarrow> ai_result \<Rightarrow> string \<Rightarrow> string
   \<Rightarrow> (ai_db, ai_state) call" where
  "openai_complete env now today approval_id job res worker correlation_id db =
     complete_with env now today approval_id (target_of_claim job) res worker (cj_fencing_token job)
       correlation_id None None db"

end
