(* ===== verification/Ai_Safety.thy ===== *)
theory Ai_Safety
  imports Ai_Worker
begin

text \<open>
  The AI job platform as a transition system: every transaction of the repositories and
  handlers is a step, and the invariants of its tables hold in every state reached from an
  empty database. The section on fencing interprets \<open>fenced_store\<close> on these steps.
\<close>

section \<open>Transactions as steps\<close>

inductive ai_step :: "ai_env \<Rightarrow> ai_settings \<Rightarrow> ai_db \<Rightarrow> ai_db \<Rightarrow> bool" for env cfg where
  conversation: "ai_step env cfg db (snd (create_conversation env cid org ws user title corr db))"
| message: "ai_step env cfg db (snd (create_message_job env now clock mid jid r db))"
| command: "ai_command_validate (dump_json env) c = Inr c \<Longrightarrow>
    ai_step env cfg db (snd (submit env cfg now today c ws' db))"
| claiming: "ai_step env cfg db (snd (claim env now locked cr db))"
| beat: "ai_step env cfg db (snd (heartbeat now jid w tok ls sid serial spiffe orgo wso db))"
| chunk: "ai_step env cfg db (snd (append_chunk env now jid w tok seqno content limit orgo wso db))"
| finishing: "ai_step env cfg db
    (snd (finish env now jid w tok failed err retryable corr Completed details orgo wso db))"
| completing: "ai_step env cfg db (snd (complete_job env now today aid jid w tok res p db))"
| completing_openai: "ai_step env cfg db (snd (openai_complete env now today aid cj r' w corr db))"
| cancelling_worker: "ai_step env cfg db (snd (worker_cancel env now jid w tok org ws corr db))"
| cancelling: "ai_step env cfg db (snd (cancel_command now jid org ws corr db))"
| cancelling_console: "ai_step env cfg db (snd (console_cancel env now jid org ws user corr db))"
| deciding: "ai_step env cfg db (snd (decide env now jid org ws user corr ok reason db))"
| retrying: "ai_step env cfg db (snd (retry_dead_letter env now jid aid org ws user corr db))"
| recovering: "ai_step env cfg db (snd (recover_expired env now orgo wso db))"
| expiring: "ai_step env cfg db (snd (expire_deadlines now orgo wso db))"
| renewing: "ai_step env cfg db (snd (renew_lease now ls jid w tok db))"
| registering: "ai_step env cfg db (snd (register_worker env w caps conc p db))"
| beat_worker: "ai_step env cfg db (snd (worker_heartbeat cfg now w cur p db))"
| operator: "ai_step env cfg db (db\<lparr>registrations := regs, quotas := qs\<rparr>)"

definition empty_db :: ai_db where
  "empty_db = \<lparr>conversations = [], messages = [], jobs = [], chunks = [], attempts = [],
     heartbeats = [], registrations = [], results = [], events = [], dead_letters = [],
     approvals = [], quotas = [], usage = [], audits = []\<rparr>"

definition ai_reachable :: "ai_env \<Rightarrow> ai_settings \<Rightarrow> ai_db \<Rightarrow> bool" where
  "ai_reachable env cfg db \<longleftrightarrow> (ai_step env cfg)\<^sup>*\<^sup>* empty_db db"

section \<open>The invariant\<close>

definition job_ok :: "ai_job \<Rightarrow> bool" where
  "job_ok j \<longleftrightarrow>
     0 \<le> j_attempt_count j \<and> j_attempt_count j \<le> j_max_attempts j
     \<and> 1 \<le> j_max_attempts j \<and> j_max_attempts j \<le> 10
     \<and> j_fencing_token j = j_attempt_count j
     \<and> j_state j \<notin> {Available, Running, Failed}
     \<and> (j_state j \<in> {Queued, Retry_wait} \<longrightarrow> j_attempt_count j < j_max_attempts j)
     \<and> (j_state j = Leased \<longrightarrow> j_lease_owner j \<noteq> None)
     \<and> (j_state j \<notin> {Leased, Cancel_requested} \<longrightarrow> j_lease_owner j = None)
     \<and> (j_lease_owner j = None \<longleftrightarrow> j_lease_expires_at j = None)"

text \<open>The states a job may have once its result awaits or has received a decision.\<close>

fun decided_state :: "approval_state \<Rightarrow> ai_state \<Rightarrow> bool" where
  "decided_state Pending st \<longleftrightarrow> st \<in> {Approval_required, Cancelled}"
| "decided_state ApprovedBy st \<longleftrightarrow> st \<in> {Approved, Cancel_requested}"
| "decided_state RejectedBy st \<longleftrightarrow> st = Rejected"

definition approval_ok :: "ai_job list \<Rightarrow> ai_approval \<Rightarrow> bool" where
  "approval_ok js a \<longleftrightarrow>
     (\<exists>j\<in>set js. j_id j = ax_job_id a \<and> j_lease_owner j = None
        \<and> decided_state (ax_state a) (j_state j))"

definition ai_inv :: "ai_db \<Rightarrow> bool" where
  "ai_inv db \<longleftrightarrow>
     distinct (map j_id (jobs db))
     \<and> (\<forall>j\<in>set (jobs db). job_ok j)
     \<and> distinct (map ax_job_id (approvals db))
     \<and> (\<forall>a\<in>set (approvals db). approval_ok (jobs db) a)
     \<and> (\<forall>j\<in>set (jobs db). j_state j = Dead_letter \<longrightarrow> j_id j \<in> set (map dl_job_id (dead_letters db)))"

text \<open>What one step may do to a row, whatever the step.\<close>

definition row_step :: "ai_job \<Rightarrow> ai_job \<Rightarrow> bool" where
  "row_step j j' \<longleftrightarrow>
     j_id j' = j_id j \<and> j_organization_id j' = j_organization_id j
     \<and> j_workspace_id j' = j_workspace_id j \<and> j_idempotency_key j' = j_idempotency_key j
     \<and> j_request_sha256 j' = j_request_sha256 j \<and> j_command_payload j' = j_command_payload j
     \<and> j_fencing_token j \<le> j_fencing_token j'
     \<and> (j_state j \<in> {Completed, Expired, Rejected, Dead_letter} \<longrightarrow> j_state j' = j_state j)"

definition evolves :: "ai_db \<Rightarrow> ai_db \<Rightarrow> bool" where
  "evolves db db' \<longleftrightarrow>
     (\<exists>g new. jobs db' = map g (jobs db) @ new \<and> (\<forall>j\<in>set (jobs db). row_step j (g j)))"

definition undecided :: "ai_job \<Rightarrow> bool" where
  "undecided j \<longleftrightarrow> j_lease_owner j \<noteq> None
     \<or> j_state j \<in> {Queued, Leased, Retry_wait, Completed, Expired, Dead_letter}"

definition decision_kept :: "ai_job \<Rightarrow> ai_job \<Rightarrow> bool" where
  "decision_kept j j' \<longleftrightarrow> undecided j \<or>
     (j_lease_owner j' = None \<and> (\<forall>a. decided_state a (j_state j) \<longrightarrow> decided_state a (j_state j')))"

lemma row_step_refl [simp]: "row_step j j"
  by (simp add: row_step_def)

lemma evolves_same: "jobs db' = jobs db \<Longrightarrow> evolves db db'"
  unfolding evolves_def by (intro exI[of _ id] exI[of _ "[]"]) simp

lemma evolves_append: "jobs db' = jobs db @ new \<Longrightarrow> evolves db db'"
  unfolding evolves_def by (intro exI[of _ id] exI[of _ new]) simp

lemma evolves_update:
  assumes "jobs db' = sql_update p f (jobs db)"
    and "\<And>j. j \<in> set (jobs db) \<Longrightarrow> p j \<Longrightarrow> row_step j (f j)"
  shows "evolves db db'"
  unfolding evolves_def
  by (rule exI[of _ "\<lambda>j. if p j then f j else j"], rule exI[of _ "[]"])
     (use assms in \<open>simp add: sql_update_def\<close>)

lemma row_step_trans: "row_step a b \<Longrightarrow> row_step b c \<Longrightarrow> row_step a c"
  by (auto simp: row_step_def)

lemma evolves_trans:
  assumes "evolves a b" "evolves b c"
  shows "evolves a c"
proof -
  from assms(1) obtain g n where g: "jobs b = map g (jobs a) @ n" "\<forall>j\<in>set (jobs a). row_step j (g j)"
    by (auto simp: evolves_def)
  from assms(2) obtain h m where h: "jobs c = map h (jobs b) @ m" "\<forall>j\<in>set (jobs b). row_step j (h j)"
    by (auto simp: evolves_def)
  have "jobs c = map (h \<circ> g) (jobs a) @ (map h n @ m)" using g(1) h(1) by simp
  moreover have "\<forall>j\<in>set (jobs a). row_step j ((h \<circ> g) j)"
    using g h by (auto intro: row_step_trans)
  ultimately show ?thesis unfolding evolves_def by blast
qed

text \<open>An \<open>UPDATE\<close> keeps the invariant when each changed row does.\<close>

lemma decided_imp_not_undecided:
  "j_lease_owner j = None \<Longrightarrow> decided_state a (j_state j) \<Longrightarrow> \<not> undecided j"
  by (cases a) (auto simp: undecided_def)

lemma approval_ok_update:
  assumes "approval_ok js a"
    and "\<And>j. j \<in> set js \<Longrightarrow> p j \<Longrightarrow> j_id (f j) = j_id j \<and> decision_kept j (f j)"
  shows "approval_ok (sql_update p f js) a"
proof -
  from assms(1) obtain j where j: "j \<in> set js" "j_id j = ax_job_id a" "j_lease_owner j = None"
    "decided_state (ax_state a) (j_state j)" by (auto simp: approval_ok_def)
  let ?j = "if p j then f j else j"
  have "?j \<in> set (sql_update p f js)" using j(1) by (auto simp: in_sql_update)
  moreover have "j_id ?j = ax_job_id a \<and> j_lease_owner ?j = None \<and> decided_state (ax_state a) (j_state ?j)"
    using j assms(2)[OF j(1)] decided_imp_not_undecided[OF j(3,4)] by (auto simp: decision_kept_def)
  ultimately show ?thesis unfolding approval_ok_def by blast
qed

lemma ai_inv_update:
  assumes inv: "ai_inv db"
    and jobs': "jobs db' = sql_update p f (jobs db)"
    and appr': "approvals db' = approvals db"
    and dl: "set (map dl_job_id (dead_letters db)) \<subseteq> set (map dl_job_id (dead_letters db'))"
    and row: "\<And>j. j \<in> set (jobs db) \<Longrightarrow> p j \<Longrightarrow> job_ok j \<Longrightarrow>
                j_id (f j) = j_id j \<and> job_ok (f j) \<and> decision_kept j (f j)
                \<and> (j_state (f j) = Dead_letter \<longrightarrow> j_state j = Dead_letter
                    \<or> j_id j \<in> set (map dl_job_id (dead_letters db')))"
  shows "ai_inv db'"
proof -
  have ok: "\<forall>j\<in>set (jobs db). job_ok j" using inv by (simp add: ai_inv_def)
  have "map j_id (jobs db') = map j_id (jobs db)"
    using row ok by (auto simp: jobs' sql_update_def)
  then have "distinct (map j_id (jobs db'))" using inv by (simp add: ai_inv_def)
  moreover have "\<forall>j\<in>set (jobs db'). job_ok j"
    using row ok by (auto simp: jobs' in_sql_update)
  moreover have "\<forall>a\<in>set (approvals db'). approval_ok (jobs db') a"
    using inv row ok unfolding jobs' appr' ai_inv_def by (blast intro: approval_ok_update)
  moreover have "\<forall>j\<in>set (jobs db'). j_state j = Dead_letter \<longrightarrow> j_id j \<in> set (map dl_job_id (dead_letters db'))"
  proof (intro ballI impI)
    fix j assume "j \<in> set (jobs db')" and dead: "j_state j = Dead_letter"
    then obtain j0 where j0: "j0 \<in> set (jobs db)" "j = (if p j0 then f j0 else j0)"
      by (auto simp: jobs' in_sql_update)
    have old: "j_state j0 = Dead_letter \<Longrightarrow> j_id j0 \<in> set (map dl_job_id (dead_letters db'))"
      using inv j0(1) dl unfolding ai_inv_def by blast
    show "j_id j \<in> set (map dl_job_id (dead_letters db'))"
      using row[OF j0(1)] ok j0 dead old by (cases "p j0") auto
  qed
  moreover have "distinct (map ax_job_id (approvals db'))"
    using inv unfolding appr' ai_inv_def by blast
  ultimately show ?thesis by (simp add: ai_inv_def)
qed

lemma ai_inv_frame:
  assumes "ai_inv db" "jobs db' = jobs db" "approvals db' = approvals db"
    "dead_letters db' = dead_letters db"
  shows "ai_inv db'"
  using assms by (simp add: ai_inv_def)

section \<open>Each transaction keeps the invariant\<close>

lemma ai_inv_job_ok: "ai_inv db \<Longrightarrow> j \<in> set (jobs db) \<Longrightarrow> job_ok j"
  by (simp add: ai_inv_def)

lemma ai_inv_unique: "ai_inv db \<Longrightarrow> a \<in> set (jobs db) \<Longrightarrow> b \<in> set (jobs db) \<Longrightarrow> j_id a = j_id b \<Longrightarrow> a = b"
  unfolding ai_inv_def using distinct_key_unique[of j_id "jobs db"] by blast

lemma assert_lease_Inr:
  "assert_lease now jid w tok org ws ac db = Inr row \<Longrightarrow>
     row \<in> set (jobs db) \<and> j_id row = jid \<and> lease_admits now w tok org ws ac row"
  by (auto simp: assert_lease_def dest!: sql_first_Some split: option.splits)

lemma lease_admits_facts:
  "lease_admits now w tok org ws ac j \<Longrightarrow>
     j_state j \<in> {Leased, Cancel_requested} \<and> j_lease_owner j = Some w \<and> j_fencing_token j = tok
     \<and> lease_live now j \<and> undecided j"
  by (auto simp: lease_admits_def undecided_def)

lemmas row_change_defs = job_ok_def row_step_def decision_kept_def undecided_def

text \<open>The transactions that leave the three tables alone.\<close>

lemma create_conversation_frame:
  "jobs (snd (create_conversation env cid org ws user title corr db)) = jobs db"
  "approvals (snd (create_conversation env cid org ws user title corr db)) = approvals db"
  "dead_letters (snd (create_conversation env cid org ws user title corr db)) = dead_letters db"
  by (simp_all add: create_conversation_def Let_def)

lemma register_worker_frame:
  "jobs (snd (register_worker env w caps conc p db)) = jobs db"
  "approvals (snd (register_worker env w caps conc p db)) = approvals db"
  "dead_letters (snd (register_worker env w caps conc p db)) = dead_letters db"
  by (simp_all add: register_worker_def Let_def)

lemma worker_heartbeat_frame:
  "jobs (snd (worker_heartbeat cfg now w cur p db)) = jobs db"
  "approvals (snd (worker_heartbeat cfg now w cur p db)) = approvals db"
  "dead_letters (snd (worker_heartbeat cfg now w cur p db)) = dead_letters db"
  by (simp_all add: worker_heartbeat_def)

lemma record_event_frame [simp]:
  "jobs (record_event jid org ws e st corr d db) = jobs db"
  "approvals (record_event jid org ws e st corr d db) = approvals db"
  "dead_letters (record_event jid org ws e st corr d db) = dead_letters db"
  by (simp_all add: record_event_def Let_def)

lemma update_attempts_frame [simp]:
  "jobs (update_attempts p f db) = jobs db"
  "approvals (update_attempts p f db) = approvals db"
  "dead_letters (update_attempts p f db) = dead_letters db"
  by (simp_all add: update_attempts_def)

text \<open>Insertion of a job.\<close>

lemma ai_inv_insert:
  assumes "ai_inv db" "insert_job j db = Some db'" "job_ok j" "j_state j \<noteq> Dead_letter"
  shows "ai_inv db' \<and> jobs db' = jobs db @ [j]"
proof -
  have db': "db' = db\<lparr>jobs := jobs db @ [j]\<rparr>" and new: "j_id j \<notin> set (map j_id (jobs db))"
    using assms(2) by (auto simp: insert_job_def split: if_splits)
  show ?thesis using assms(1,3,4) new unfolding ai_inv_def db'
    by (auto simp: approval_ok_def)
qed

lemma ai_inv_cong:
  "jobs db' = jobs db \<Longrightarrow> approvals db' = approvals db \<Longrightarrow> dead_letters db' = dead_letters db
   \<Longrightarrow> ai_inv db' = ai_inv db"
  by (simp add: ai_inv_def)

lemma ai_inv_side_tables [simp]:
  "ai_inv (audit env e c a org ws job d db) = ai_inv db"
  "ai_inv (record_event jid org' ws' e st corr d db) = ai_inv db"
  "ai_inv (update_attempts p f db) = ai_inv db"
  by (rule ai_inv_cong; simp)+

lemma create_message_job_inv:
  assumes "ai_inv db"
  shows "ai_inv (snd (create_message_job env now clock mid jid r db))
         \<and> evolves db (snd (create_message_job env now clock mid jid r db))"
proof -
  have bounds: "1 \<le> br_max_attempts r \<and> br_max_attempts r \<le> 6"
    if "build_browser_worker_contract env clock jid r = Inr c" for c
    using that by (auto simp: build_browser_worker_contract_def dest!: ai_command_retry_bounds
        split: sum.splits option.splits)
  have ok: "job_ok (browser_job env now jid mid r pr c)"
    if "build_browser_worker_contract env clock jid r = Inr c" for c pr
    using bounds[OF that] by (simp add: job_ok_def browser_job_def)
  have st: "j_state (browser_job env now jid mid r pr c) \<noteq> Dead_letter" for c pr
    by (simp add: browser_job_def)
  let ?m = "\<lambda>db. db\<lparr>messages := messages db @
                        [\<lparr>ms_id = mid, ms_conversation_id = br_conversation_id r,
                          ms_organization_id = br_organization_id r,
                          ms_workspace_id = br_workspace_id r, ms_role = ''user'',
                          ms_content = br_content r,
                          ms_content_sha256 = sha256 env (br_content r)\<rparr>]\<rparr>"
  have m: "ai_inv (?m db)" using assms by (rule ai_inv_frame) simp_all
  show ?thesis
    unfolding create_message_job_def Let_def
    using assms ai_inv_insert[OF m _ ok st]
    by (auto split: sum.splits option.splits intro!: evolves_same evolves_append
        intro: ai_inv_frame)
qed

lemma submit_inv:
  assumes "ai_inv db" "ai_command_validate (dump_json env) c = Inr c"
  shows "ai_inv (snd (submit env cfg now today c ws db)) \<and> evolves db (snd (submit env cfg now today c ws db))"
proof -
  have ok: "job_ok (command_job env now ws c)"
    using ai_command_retry_bounds[OF assms(2)] by (simp add: job_ok_def command_job_def)
  have st: "j_state (command_job env now ws c) \<noteq> Dead_letter" by (simp add: command_job_def)
  show ?thesis
    unfolding submit_def
    using assms(1) ai_inv_insert[OF assms(1) _ ok st]
    by (auto split: option.splits intro!: evolves_same evolves_append intro: ai_inv_frame)
qed

text \<open>An update of several rows, and of the one row with a given identifier.\<close>

definition row_change :: "ai_db \<Rightarrow> ai_job \<Rightarrow> ai_job \<Rightarrow> bool" where
  "row_change db' j j' \<longleftrightarrow>
     job_ok j' \<and> decision_kept j j' \<and> row_step j j'
     \<and> (j_state j' = Dead_letter \<longrightarrow> j_state j = Dead_letter
          \<or> j_id j \<in> set (map dl_job_id (dead_letters db')))"

lemma update_step:
  assumes "ai_inv db"
    and "jobs db' = sql_update p f (jobs db)" "approvals db' = approvals db"
    and "set (map dl_job_id (dead_letters db)) \<subseteq> set (map dl_job_id (dead_letters db'))"
    and row: "\<And>j. j \<in> set (jobs db) \<Longrightarrow> p j \<Longrightarrow> job_ok j \<Longrightarrow> row_change db' j (f j)"
  shows "ai_inv db' \<and> evolves db db'"
proof
  show "ai_inv db'"
    by (rule ai_inv_update[OF assms(1-4)]) (use row in \<open>auto simp: row_change_def row_step_def\<close>)
  show "evolves db db'"
    by (rule evolves_update[OF assms(2)])
       (use row ai_inv_job_ok[OF assms(1)] in \<open>auto simp: row_change_def\<close>)
qed

lemma update_row_step:
  assumes inv: "ai_inv db" and j: "j \<in> set (jobs db)" "j_id j = jid"
    and jobs': "jobs db' = sql_update (\<lambda>x. j_id x = jid) f (jobs db)"
    and rest: "approvals db' = approvals db"
      "set (map dl_job_id (dead_letters db)) \<subseteq> set (map dl_job_id (dead_letters db'))"
    and row: "job_ok j \<Longrightarrow> row_change db' j (f j)"
  shows "ai_inv db' \<and> evolves db db'"
proof (rule update_step[OF inv jobs' rest])
  fix x assume x: "x \<in> set (jobs db)" "j_id x = jid" "job_ok x"
  then have "x = j" using ai_inv_unique[OF inv x(1) j(1)] j(2) by simp
  with x row show "row_change db' x (f x)" by simp
qed

lemmas row_change_intro = row_change_def row_change_defs

text \<open>Claiming.\<close>

lemma claim_candidate_Some:
  assumes "claim_candidate now locked org ws ps db = Some j"
  shows "j \<in> set (jobs db) \<and> claimable now org ws ps j \<and> \<not> locked (j_id j)"
  using first_by_Some[OF assms[unfolded claim_candidate_def]] by simp

lemma grant_lease_frame [simp]:
  "jobs (grant_lease env now r act eff j db) =
     sql_update (\<lambda>x. j_id x = j_id j) (lease_job now (cr_worker_id r) (cr_lease_seconds r)) (jobs db)"
  "approvals (grant_lease env now r act eff j db) = approvals db"
  "dead_letters (grant_lease env now r act eff j db) = dead_letters db"
  by (simp_all add: grant_lease_def Let_def)

lemma claim_effect:
  assumes "claim env now locked r db = (res, db')"
  shows "approvals db' = approvals db \<and> dead_letters db' = dead_letters db
    \<and> (jobs db' = jobs db \<or>
       (\<exists>ps j. claim_candidate now locked (cr_organization_id r) (cr_workspace_id r) ps db = Some j
          \<and> res = Inr (Some (claim_view (lease_job now (cr_worker_id r) (cr_lease_seconds r) j)))
          \<and> jobs db' = sql_update (\<lambda>x. j_id x = j_id j)
              (lease_job now (cr_worker_id r) (cr_lease_seconds r)) (jobs db)))"
proof (cases "\<exists>active j. claim_admission now r db = Inr active
    \<and> \<not> invalid_profile_filter (cr_allowed_model_profiles r)
    \<and> effective_compatible_profiles active (cr_allowed_model_profiles r) \<noteq> []
    \<and> claim_candidate now locked (cr_organization_id r) (cr_workspace_id r) (claim_profile_filter r
        (effective_compatible_profiles active (cr_allowed_model_profiles r))) db = Some j")
  case True
  then obtain active j where c: "claim_admission now r db = Inr active"
    "\<not> invalid_profile_filter (cr_allowed_model_profiles r)"
    "effective_compatible_profiles active (cr_allowed_model_profiles r) \<noteq> []"
    "claim_candidate now locked (cr_organization_id r) (cr_workspace_id r) (claim_profile_filter r
        (effective_compatible_profiles active (cr_allowed_model_profiles r))) db = Some j"
    by blast
  let ?eff = "effective_compatible_profiles active (cr_allowed_model_profiles r)"
  have "res = Inr (Some (claim_view (lease_job now (cr_worker_id r) (cr_lease_seconds r) j)))"
    "db' = grant_lease env now r active ?eff j db"
    using assms c by (simp_all add: claim_def Let_def)
  with c(4) show ?thesis
    by (intro conjI disjI2 exI[of _ "claim_profile_filter r ?eff"] exI[of _ j]) simp_all
next
  case False
  with assms show ?thesis
    unfolding claim_def Let_def by (auto split: sum.splits option.splits if_splits)
qed

lemma claim_granted:
  assumes "claim env now locked r db = (Inr (Some c), db')"
  obtains active j where "claim_admission now r db = Inr active"
    "claim_candidate now locked (cr_organization_id r) (cr_workspace_id r) (claim_profile_filter r
       (effective_compatible_profiles active (cr_allowed_model_profiles r))) db = Some j"
    "c = claim_view (lease_job now (cr_worker_id r) (cr_lease_seconds r) j)"
    "jobs db' = sql_update (\<lambda>x. j_id x = j_id j)
       (lease_job now (cr_worker_id r) (cr_lease_seconds r)) (jobs db)"
  using assms unfolding claim_def Let_def
  by (auto split: sum.splits option.splits if_splits)

lemma claim_inv:
  assumes "ai_inv db"
  shows "ai_inv (snd (claim env now locked r db)) \<and> evolves db (snd (claim env now locked r db))"
proof -
  obtain res db' where cl: "claim env now locked r db = (res, db')"
    by (cases "claim env now locked r db")
  note e = claim_effect[OF cl]
  have rest: "approvals db' = approvals db" "dead_letters db' = dead_letters db" using e by simp_all
  consider "jobs db' = jobs db"
    | ps j where "claim_candidate now locked (cr_organization_id r) (cr_workspace_id r) ps db = Some j"
      "jobs db' = sql_update (\<lambda>x. j_id x = j_id j)
         (lease_job now (cr_worker_id r) (cr_lease_seconds r)) (jobs db)"
    using e by blast
  then have "ai_inv db' \<and> evolves db db'"
  proof cases
    case 1
    with rest assms show ?thesis by (simp add: evolves_same ai_inv_cong[of db' db])
  next
    case 2
    note c = claim_candidate_Some[OF 2(1)]
    show ?thesis
      by (rule update_row_step[OF assms c[THEN conjunct1] refl 2(2) rest(1)])
         (use c in \<open>auto simp: rest claimable_def lease_job_def row_change_intro\<close>)
  qed
  with cl show ?thesis by simp
qed

text \<open>Operations of the lease holder.\<close>

lemma heartbeat_inv:
  assumes "ai_inv db"
  shows "ai_inv (snd (heartbeat now jid w tok ls sid serial spiffe org ws db))
         \<and> evolves db (snd (heartbeat now jid w tok ls sid serial spiffe org ws db))"
proof (cases "assert_lease now jid w tok org ws True db")
  case (Inl e)
  with assms show ?thesis by (simp add: heartbeat_def evolves_same)
next
  case (Inr row)
  note f = assert_lease_Inr[OF Inr]
  show ?thesis
    by (rule update_row_step[OF assms f[THEN conjunct1] f[THEN conjunct2, THEN conjunct1],
          where f = "\<lambda>j. j\<lparr>j_lease_expires_at := Some (now + secs ls), j_updated_at := now\<rparr>"])
       (use Inr f lease_admits_facts[of now w tok org ws True row] in
         \<open>auto simp: heartbeat_def Let_def row_change_intro\<close>)
qed

lemma append_chunk_effect:
  assumes "append_chunk env now jid w tok sq ct mx org ws db = (res, db')"
  shows "approvals db' = approvals db \<and> dead_letters db' = dead_letters db
    \<and> (if res = Inr True
       then \<exists>row. assert_lease now jid w tok org ws False db = Inr row
              \<and> j_output_bytes row + encoded_len ct \<le> mx
              \<and> jobs db' = sql_update (\<lambda>j. j_id j = jid)
                  (\<lambda>j. j\<lparr>j_output_bytes := j_output_bytes j + encoded_len ct, j_updated_at := now\<rparr>) (jobs db)
       else jobs db' = jobs db)"
  using assms unfolding append_chunk_def
  by (cases "assert_lease now jid w tok org ws False db") (auto simp: Let_def split: if_splits)

lemma append_chunk_inv:
  assumes "ai_inv db"
  shows "ai_inv (snd (append_chunk env now jid w tok sq ct mx org ws db))
         \<and> evolves db (snd (append_chunk env now jid w tok sq ct mx org ws db))"
proof -
  obtain res db' where ap: "append_chunk env now jid w tok sq ct mx org ws db = (res, db')"
    by (cases "append_chunk env now jid w tok sq ct mx org ws db")
  note e = append_chunk_effect[OF ap]
  have "ai_inv db' \<and> evolves db db'"
  proof (cases "res = Inr True")
    case False
    with e assms show ?thesis by (simp add: evolves_same ai_inv_cong[of db' db])
  next
    case True
    with e obtain row where Inr: "assert_lease now jid w tok org ws False db = Inr row"
      and jobs': "jobs db' = sql_update (\<lambda>j. j_id j = jid)
         (\<lambda>j. j\<lparr>j_output_bytes := j_output_bytes j + encoded_len ct, j_updated_at := now\<rparr>) (jobs db)"
      and rest: "approvals db' = approvals db" "dead_letters db' = dead_letters db" by auto
    note f = assert_lease_Inr[OF Inr]
    show ?thesis
      by (rule update_row_step[OF assms f[THEN conjunct1] f[THEN conjunct2, THEN conjunct1] jobs' rest(1)])
         (use f lease_admits_facts[of now w tok org ws False row] in \<open>auto simp: rest row_change_intro\<close>)
  qed
  with ap show ?thesis by simp
qed

lemma renew_lease_inv:
  assumes "ai_inv db"
  shows "ai_inv (snd (renew_lease now ls jid w tok db)) \<and> evolves db (snd (renew_lease now ls jid w tok db))"
  by (rule update_step[OF assms, where p = "\<lambda>j. j_id j = jid \<and> j_lease_owner j = Some w
          \<and> j_fencing_token j = tok \<and> j_state j \<in> {Leased, Cancel_requested} \<and> lease_live now j"
        and f = "\<lambda>j. j\<lparr>j_lease_expires_at := Some (now + secs ls), j_updated_at := now\<rparr>"])
     (auto simp: renew_lease_def Let_def row_change_intro)

lemma upsert_dead_letter_ids:
  "set (map dl_job_id (upsert_dead_letter d ds)) = insert (dl_job_id d) (set (map dl_job_id ds))"
proof (cases "sql_exists (\<lambda>x. dl_job_id x = dl_job_id d) ds")
  case True
  then have "dl_job_id d \<in> set (map dl_job_id ds)" 
    unfolding sql_exists_iff by (metis image_eqI list.set_map)
  moreover have "map dl_job_id (upsert_dead_letter d ds) = map dl_job_id ds"
    unfolding upsert_dead_letter_def if_P[OF True] by (rule sql_update_keys) simp
  ultimately show ?thesis by (metis insert_absorb)
next
  case False
  then show ?thesis by (simp add: upsert_dead_letter_def)
qed

lemma finish_effect:
  assumes "assert_lease now jid w tok org ws True db = Inr row"
    and "finish env now jid w tok failed err retryable corr cs det org ws db = (r, db')"
  shows "r = Inr (finish_state row failed retryable cs)"
    "jobs db' = sql_update (\<lambda>j. j_id j = jid)
       (finish_job now (finish_state row failed retryable cs) (retry_delay (j_attempt_count row)) err) (jobs db)"
    "approvals db' = approvals db"
    "set (map dl_job_id (dead_letters db')) =
       (if finish_state row failed retryable cs = Dead_letter then insert jid else id)
         (set (map dl_job_id (dead_letters db)))"
proof -
  have i: "dl_job_id (finish_dead_letter env now jid err corr d row) = jid" for d
    by (simp add: finish_dead_letter_def Let_def)
  note ids = upsert_dead_letter_ids[unfolded list.set_map]
  note fin = assms(2)[unfolded finish_def Let_def assms(1), simplified, THEN conjunct2, symmetric]
  show "r = Inr (finish_state row failed retryable cs)"
    using assms by (simp add: finish_def Let_def)
  show "jobs db' = sql_update (\<lambda>j. j_id j = jid)
      (finish_job now (finish_state row failed retryable cs) (retry_delay (j_attempt_count row)) err) (jobs db)"
    "approvals db' = approvals db"
    unfolding fin by simp_all
  show "set (map dl_job_id (dead_letters db')) =
       (if finish_state row failed retryable cs = Dead_letter then insert jid else id)
         (set (map dl_job_id (dead_letters db)))"
    unfolding fin by (simp add: ids i)
qed

text \<open>A leased row that lets go of its lease.\<close>

lemma release_row_change:
  assumes "job_ok row" "j_lease_owner row \<noteq> None" "j_state row \<in> {Leased, Cancel_requested}"
    and "j_id row' = j_id row" "j_organization_id row' = j_organization_id row"
      "j_workspace_id row' = j_workspace_id row" "j_idempotency_key row' = j_idempotency_key row"
      "j_request_sha256 row' = j_request_sha256 row" "j_command_payload row' = j_command_payload row"
      "j_fencing_token row' = j_fencing_token row" "j_attempt_count row' = j_attempt_count row"
      "j_max_attempts row' = j_max_attempts row"
      "j_lease_owner row' = None" "j_lease_expires_at row' = None"
    and "j_state row' \<in> {Cancelled, Completed, Approval_required, Retry_wait, Dead_letter, Expired}"
    and "j_state row' = Retry_wait \<Longrightarrow> j_attempt_count row < j_max_attempts row"
    and "j_state row' = Dead_letter \<Longrightarrow> j_id row \<in> set (map dl_job_id (dead_letters db'))"
  shows "row_change db' row row'"
proof -
  have "undecided row" using assms(2) by (simp add: undecided_def)
  then have "decision_kept row row'" by (simp add: decision_kept_def)
  moreover have "row_step row row'" using assms(3-10) by (auto simp: row_step_def)
  moreover have "job_ok row'"
    using assms(15) by (elim insertE emptyE) (use assms(1,10-14,16) in \<open>simp_all add: job_ok_def\<close>)
  ultimately show ?thesis using assms(17) by (simp add: row_change_def)
qed

lemma finish_state_cases:
  assumes "cs \<in> {Completed, Approval_required}"
  shows "finish_state row failed retryable cs
           \<in> {Cancelled, Completed, Approval_required, Retry_wait, Dead_letter, Expired}"
    "finish_state row failed retryable cs = Retry_wait \<Longrightarrow> j_attempt_count row < j_max_attempts row"
  using assms by (auto simp: finish_state_def split: if_splits)

lemma finish_row_ok:
  assumes "lease_admits now w tok org ws True row" "job_ok row" "cs \<in> {Completed, Approval_required}"
    "finish_state row failed retryable cs = Dead_letter \<Longrightarrow> j_id row \<in> set (map dl_job_id (dead_letters db'))"
  shows "row_change db' row (finish_job now (finish_state row failed retryable cs) delay err row)"
  using lease_admits_facts[OF assms(1)] finish_state_cases[OF assms(3)] assms(2,4)
  by (intro release_row_change) (simp_all add: finish_job_def)

lemma finish_inv:
  assumes "ai_inv db" "cs \<in> {Completed, Approval_required}"
  shows "ai_inv (snd (finish env now jid w tok failed err retryable corr cs det org ws db))
         \<and> evolves db (snd (finish env now jid w tok failed err retryable corr cs det org ws db))"
proof (cases "assert_lease now jid w tok org ws True db")
  case (Inl e)
  with assms show ?thesis by (simp add: finish_def evolves_same)
next
  case (Inr row)
  obtain r db' where fin: "finish env now jid w tok failed err retryable corr cs det org ws db = (r, db')"
    by (cases "finish env now jid w tok failed err retryable corr cs det org ws db")
  note e = finish_effect[OF Inr fin] and f = assert_lease_Inr[OF Inr]
  have "ai_inv db' \<and> evolves db db'"
  proof (rule update_row_step[OF assms(1) f[THEN conjunct1] f[THEN conjunct2, THEN conjunct1] e(2,3)])
    show "set (map dl_job_id (dead_letters db)) \<subseteq> set (map dl_job_id (dead_letters db'))"
      unfolding e(4) by auto
    show "job_ok row \<Longrightarrow> row_change db' row (finish_job now (finish_state row failed retryable cs)
            (retry_delay (j_attempt_count row)) err row)"
      using f assms(2) by (intro finish_row_ok[of now w tok org ws]) (simp_all add: e(4)[unfolded list.set_map])
  qed
  with fin show ?thesis by simp
qed

text \<open>Cancellation.\<close>

lemma cancel_row_ok:
  assumes "lease_admits now' w tok org ws True row" "job_ok row"
  shows "row_change db' row (cancel_job_row now row)"
  using lease_admits_facts[OF assms(1)] assms(2)
  by (intro release_row_change) (simp_all add: cancel_job_row_def)

lemma worker_cancel_inv:
  assumes "ai_inv db"
  shows "ai_inv (snd (worker_cancel env now jid w tok org ws corr db))
         \<and> evolves db (snd (worker_cancel env now jid w tok org ws corr db))"
proof (cases "assert_lease now jid w tok (Some org) (Some ws) True db")
  case (Inl e)
  with assms show ?thesis by (simp add: worker_cancel_def evolves_same)
next
  case (Inr row)
  note f = assert_lease_Inr[OF Inr]
  show ?thesis
  proof (cases "j_cancel_requested_at row = None")
    case True
    with Inr assms show ?thesis by (simp add: worker_cancel_def evolves_same)
  next
    case False
    show ?thesis
      by (rule update_row_step[OF assms f[THEN conjunct1] f[THEN conjunct2, THEN conjunct1],
            where f = "cancel_job_row now"])
         (use Inr f False cancel_row_ok in \<open>auto simp: worker_cancel_def Let_def\<close>)
  qed
qed

lemma cancel_command_row_ok:
  assumes "job_ok j" "j_state j \<notin> {Completed, Failed, Cancelled, Expired, Dead_letter, Rejected}"
  shows "row_change db' j (cancel_command_row now j)"
proof -
  have st: "j_state j \<in> {Queued, Leased, Retry_wait, Cancel_requested, Approval_required, Approved}"
    using assms by (cases "j_state j") (auto simp: job_ok_def)
  have dk: "decision_kept j (cancel_command_row now j)"
    using st assms(1)
    by (elim insertE emptyE) (auto simp: decision_kept_def undecided_def cancel_command_row_def job_ok_def
        elim: decided_state.elims)
  have rs: "row_step j (cancel_command_row now j)"
    using st by (auto simp: row_step_def cancel_command_row_def Let_def)
  have "job_ok (cancel_command_row now j)"
    using st by (elim insertE emptyE) (use assms(1) in \<open>auto simp: job_ok_def cancel_command_row_def\<close>)
  moreover have "j_state (cancel_command_row now j) \<noteq> Dead_letter"
    by (simp add: cancel_command_row_def Let_def)
  ultimately show ?thesis using dk rs by (simp add: row_change_def)
qed

lemma cancel_command_inv:
  assumes "ai_inv db"
  shows "ai_inv (snd (cancel_command now jid org ws corr db))
         \<and> evolves db (snd (cancel_command now jid org ws corr db))"
proof (cases "sql_first (\<lambda>j. j_id j = jid \<and> j_organization_id j = org \<and> j_workspace_id j = ws
    \<and> j_state j \<notin> {Completed, Failed, Cancelled, Expired, Dead_letter, Rejected}) (jobs db)")
  case None
  with assms show ?thesis by (simp add: cancel_command_def evolves_same)
next
  case (Some j)
  show ?thesis
    by (rule update_step[OF assms, where f = "cancel_command_row now" and p = "\<lambda>j. j_id j = jid
          \<and> j_organization_id j = org \<and> j_workspace_id j = ws
          \<and> j_state j \<notin> {Completed, Failed, Cancelled, Expired, Dead_letter, Rejected}"])
       (use Some cancel_command_row_ok in \<open>simp_all add: cancel_command_def Let_def\<close>)
qed

lemma console_cancel_row_ok:
  assumes "job_ok j" "j_state j \<notin> {Completed, Failed, Cancelled, Dead_letter}"
  shows "row_change db' j (console_cancel_row now j)"
proof (cases "j_state j \<in> {Queued, Retry_wait}")
  case True
  then show ?thesis
    using assms by (auto simp: row_change_intro console_cancel_row_def Let_def)
next
  case False
  then have c: "j_state (console_cancel_row now j) = j_state j" "j_lease_owner (console_cancel_row now j) = j_lease_owner j"
    "j_lease_expires_at (console_cancel_row now j) = j_lease_expires_at j"
    "j_attempt_count (console_cancel_row now j) = j_attempt_count j"
    "j_max_attempts (console_cancel_row now j) = j_max_attempts j"
    "j_fencing_token (console_cancel_row now j) = j_fencing_token j"
    by (simp_all add: console_cancel_row_def Let_def)
  have "row_step j (console_cancel_row now j)"
    using False by (simp add: row_step_def console_cancel_row_def Let_def)
  moreover have "job_ok (console_cancel_row now j)" using assms(1) unfolding job_ok_def c .
  ultimately show ?thesis
    using assms(2) by (auto simp: row_change_def decision_kept_def undecided_def c)
qed

lemma console_cancel_inv:
  assumes "ai_inv db"
  shows "ai_inv (snd (console_cancel env now jid org ws user corr db))
         \<and> evolves db (snd (console_cancel env now jid org ws user corr db))"
proof (cases "sql_first (\<lambda>j. j_id j = jid \<and> j_organization_id j = org \<and> j_workspace_id j = ws
    \<and> j_state j \<notin> {Completed, Failed, Cancelled, Dead_letter}) (jobs db)")
  case None
  with assms show ?thesis by (simp add: console_cancel_def evolves_same)
next
  case (Some j)
  show ?thesis
    by (rule update_step[OF assms, where f = "console_cancel_row now" and p = "\<lambda>j. j_id j = jid
          \<and> j_organization_id j = org \<and> j_workspace_id j = ws
          \<and> j_state j \<notin> {Completed, Failed, Cancelled, Dead_letter}"])
       (use Some console_cancel_row_ok in \<open>simp_all add: console_cancel_def Let_def\<close>)
qed

text \<open>Recovery.\<close>

lemma recover_cancelled_fold [simp]:
  "jobs (fold (recover_cancelled env now) rows db) = jobs db"
  "approvals (fold (recover_cancelled env now) rows db) = approvals db"
  "dead_letters (fold (recover_cancelled env now) rows db) = dead_letters db"
  by (induction rows arbitrary: db) (simp_all add: recover_cancelled_def)

lemma recover_dead_letter_fold [simp]:
  "jobs (fold (recover_dead_letter env now) rows db) = jobs db"
  "approvals (fold (recover_dead_letter env now) rows db) = approvals db"
  by (induction rows arbitrary: db) (simp_all add: recover_dead_letter_def)

lemma recover_dead_letter_ids:
  "set (map dl_job_id (dead_letters (fold (recover_dead_letter env now) rows db))) =
     set (map j_id rows) \<union> set (map dl_job_id (dead_letters db))"
proof (induction rows arbitrary: db)
  case (Cons row rows)
  have "set (map dl_job_id (dead_letters (recover_dead_letter env now row db))) =
          insert (j_id row) (set (map dl_job_id (dead_letters db)))"
    unfolding recover_dead_letter_def sql_exists_iff
    by (cases "\<exists>d\<in>set (dead_letters db). dl_job_id d = j_id row") (auto simp: image_iff eq_commute)
  with Cons show ?case by simp
qed simp

lemma lease_over_owner: "job_ok j \<Longrightarrow> lease_over now j \<Longrightarrow> j_lease_owner j \<noteq> None"
  by (auto simp: job_ok_def lease_over_def split: option.splits)

lemma recover_expired_inv:
  assumes "ai_inv db"
  shows "ai_inv (snd (recover_expired env now org ws db)) \<and> evolves db (snd (recover_expired env now org ws db))"
proof -
  let ?c = "recover_cancel_due now org ws" and ?r = "recover_retry_due now org ws"
    and ?d = "recover_dead_due now org ws"
  define db2 where "db2 = fold (recover_cancelled env now) (filter ?c (jobs db))
    (update_jobs ?c (cancel_job_row now) db)"
  define db3 where "db3 = update_jobs ?r (requeue_job now) db2"
  define db5 where "db5 = fold (recover_dead_letter env now) (filter ?d (jobs db3))
    (update_jobs ?d (dead_letter_job now) db3)"
  have "ai_inv db2 \<and> evolves db db2"
  proof (rule update_step[OF assms, where p = ?c and f = "cancel_job_row now"])
    fix j assume "j \<in> set (jobs db)" "?c j" "job_ok j"
    then show "row_change db2 j (cancel_job_row now j)"
      by (intro release_row_change)
         (auto simp: recover_cancel_due_def cancel_job_row_def dest: lease_over_owner)
  qed (simp_all add: db2_def)
  then have 2: "ai_inv db2" "evolves db db2" by simp_all
  have "ai_inv db3 \<and> evolves db2 db3"
  proof (rule update_step[OF 2(1), where p = ?r and f = "requeue_job now"])
    fix j assume "j \<in> set (jobs db2)" "?r j" "job_ok j"
    then show "row_change db3 j (requeue_job now j)"
      by (intro release_row_change)
         (auto simp: recover_retry_due_def requeue_job_def dest: lease_over_owner)
  qed (simp_all add: db3_def)
  then have 3: "ai_inv db3" "evolves db2 db3" by simp_all
  have "ai_inv db5 \<and> evolves db3 db5"
  proof (rule update_step[OF 3(1), where p = ?d and f = "dead_letter_job now"])
    have ids: "set (map dl_job_id (dead_letters db5)) =
        set (map j_id (filter ?d (jobs db3))) \<union> set (map dl_job_id (dead_letters db3))"
      unfolding db5_def recover_dead_letter_ids by simp
    then show "set (map dl_job_id (dead_letters db3)) \<subseteq> set (map dl_job_id (dead_letters db5))" by simp
    fix j assume "j \<in> set (jobs db3)" "?d j" "job_ok j"
    moreover then have "j_id j \<in> set (map dl_job_id (dead_letters db5))" unfolding ids by simp
    ultimately show "row_change db5 j (dead_letter_job now j)"
      by (intro release_row_change)
         (auto simp: recover_dead_due_def dead_letter_job_def dest: lease_over_owner)
  qed (simp_all add: db5_def)
  moreover have "snd (recover_expired env now org ws db) = db5"
    by (simp add: recover_expired_def Let_def db2_def db3_def db5_def)
  ultimately show ?thesis using 2 3 evolves_trans by metis
qed

lemma expire_row_ok:
  assumes "job_ok j" "j_state j \<in> {Queued, Retry_wait, Leased}"
  shows "row_change db' j (expire_job now j)"
  using assms(2) by (elim insertE emptyE)
    (use assms(1) in \<open>auto simp: row_change_intro expire_job_def\<close>)

lemma expire_deadlines_inv:
  assumes "ai_inv db"
  shows "ai_inv (snd (expire_deadlines now org ws db)) \<and> evolves db (snd (expire_deadlines now org ws db))"
  by (rule update_step[OF assms, where p = "expire_due now org ws" and f = "expire_job now"])
     (auto simp: expire_deadlines_def expire_due_def intro: expire_row_ok)

text \<open>The retry of a dead letter is refused in every state that satisfies the invariant.\<close>

lemma retry_dead_letter_refused:
  assumes "ai_inv db"
  shows "\<exists>e. retry_dead_letter env now jid aid org ws actor corr db = (Inl e, db)"
proof (cases "retry_approved jid aid org ws db")
  case False
  then show ?thesis by (simp add: retry_dead_letter_def)
next
  case True
  then obtain a where a: "a \<in> set (approvals db)" "ax_job_id a = jid" "ax_state a = ApprovedBy"
    by (auto simp: retry_approved_def sql_exists_iff)
  with assms have "approval_ok (jobs db) a" by (simp add: ai_inv_def)
  with a obtain j where j: "j \<in> set (jobs db)" "j_id j = jid" "j_state j \<in> {Approved, Cancel_requested}"
    by (auto simp: approval_ok_def)
  have "\<not> sql_exists (\<lambda>j. j_id j = jid \<and> j_state j = Dead_letter \<and> j_max_attempts j < 10) (jobs db)"
  proof
    assume "sql_exists (\<lambda>j. j_id j = jid \<and> j_state j = Dead_letter \<and> j_max_attempts j < 10) (jobs db)"
    then obtain x where "x \<in> set (jobs db)" "j_id x = jid" "j_state x = Dead_letter"
      by (auto simp: sql_exists_iff)
    with ai_inv_unique[OF assms j(1)] j(2,3) show False by force
  qed
  with True show ?thesis by (simp add: retry_dead_letter_def Let_def)
qed

text \<open>Decisions.\<close>

lemma approval_ok_after_decision:
  assumes "approval_ok js b" "ax_job_id b \<noteq> jid"
  shows "approval_ok (sql_update (\<lambda>j. j_id j = jid) f js) b"
proof -
  from assms(1) obtain j where "j \<in> set js" "j_id j = ax_job_id b" "j_lease_owner j = None"
    "decided_state (ax_state b) (j_state j)" by (auto simp: approval_ok_def)
  with assms(2) show ?thesis
    unfolding approval_ok_def by (intro bexI[of _ j] sql_update_miss) auto
qed

lemma decide_effect:
  assumes "sql_exists (\<lambda>a. ax_job_id a = jid \<and> ax_organization_id a = org \<and> ax_workspace_id a = ws
             \<and> ax_state a = Pending) (approvals db)"
    and "db' = snd (decide env now jid org ws actor corr ok reason db)"
  shows "jobs db' = sql_update (\<lambda>j. j_id j = jid) (\<lambda>j. j\<lparr>j_state := if ok then Approved else Rejected,
           j_updated_at := now, j_version := j_version j + 1\<rparr>) (jobs db)"
    "approvals db' = sql_update (\<lambda>a. ax_job_id a = jid \<and> ax_organization_id a = org
         \<and> ax_workspace_id a = ws \<and> ax_state a = Pending)
       (\<lambda>a. a\<lparr>ax_state := (if ok then ApprovedBy else RejectedBy),
          ax_decided_by_fingerprint := Some (sha256 env actor),
          ax_decision_reason := Some reason, ax_decided_at := Some now\<rparr>) (approvals db)"
    "dead_letters db' = dead_letters db"
  using assms by (simp_all add: decide_def Let_def)

lemma decided_job:
  assumes "ai_inv db" "a \<in> set (approvals db)" "ax_state a = Pending"
  obtains j where "j \<in> set (jobs db)" "j_id j = ax_job_id a" "j_lease_owner j = None"
    "j_state j \<in> {Approval_required, Cancelled}"
proof -
  from assms have "approval_ok (jobs db) a" by (simp add: ai_inv_def)
  with assms(3) that show ?thesis by (auto simp: approval_ok_def)
qed

lemma decide_approvals_ok:
  assumes inv: "ai_inv db" and a: "a \<in> set (approvals db)" "ax_job_id a = jid" "ax_state a = Pending"
    and j: "j \<in> set (jobs db)" "j_id j = jid" "j_lease_owner j = None"
    and f: "j_id (f j) = jid" "j_lease_owner (f j) = None" "decided_state st (j_state (f j))"
    and g: "\<And>a. ax_job_id (g a) = ax_job_id a" "\<And>a. ax_state (g a) = st"
    and p: "p a" "\<And>a. p a \<Longrightarrow> ax_job_id a = jid"
    and b: "b \<in> set (sql_update p g (approvals db))"
  shows "approval_ok (sql_update (\<lambda>j. j_id j = jid) f (jobs db)) b"
proof -
  from b obtain b0 where b0: "b0 \<in> set (approvals db)" "b = (if p b0 then g b0 else b0)"
    by (auto simp: in_sql_update)
  show ?thesis
  proof (cases "ax_job_id b0 = jid")
    case True
    have "distinct (map ax_job_id (approvals db))" using inv by (simp add: ai_inv_def)
    then have "b0 = a" using distinct_key_unique b0(1) a(1,2) True by metis
    then have "b = g a" using b0(2) p(1) by simp
    moreover have "f j \<in> set (sql_update (\<lambda>j. j_id j = jid) f (jobs db))"
      using j(1,2) by (rule sql_update_hit)
    ultimately show ?thesis using f g a(2) by (auto simp: approval_ok_def)
  next
    case False
    then have "b = b0" using b0(2) p(2) by auto
    moreover have "approval_ok (jobs db) b0" using inv b0(1) by (simp add: ai_inv_def)
    ultimately show ?thesis using False by (simp add: approval_ok_after_decision)
  qed
qed

lemma decide_inv:
  assumes "ai_inv db"
  shows "ai_inv (snd (decide env now jid org ws actor corr ok reason db))
         \<and> evolves db (snd (decide env now jid org ws actor corr ok reason db))"
proof -
  let ?p = "\<lambda>a. ax_job_id a = jid \<and> ax_organization_id a = org \<and> ax_workspace_id a = ws \<and> ax_state a = Pending"
  define db' where "db' = snd (decide env now jid org ws actor corr ok reason db)"
  show ?thesis
  proof (cases "sql_exists ?p (approvals db)")
    case False
    with assms show ?thesis by (simp add: decide_def evolves_same)
  next
    case True
    then obtain a where a: "a \<in> set (approvals db)" "?p a" by (auto simp: sql_exists_iff)
    note e = decide_effect[OF True db'_def]
    obtain j where j: "j \<in> set (jobs db)" "j_id j = jid" "j_lease_owner j = None"
      "j_state j \<in> {Approval_required, Cancelled}"
      using decided_job[OF assms a(1)] a(2) by metis
    have uniq: "x = j" if "x \<in> set (jobs db)" "j_id x = jid" for x
      using ai_inv_unique[OF assms that(1) j(1)] that(2) j(2) by simp
    have d: "distinct (map ax_job_id (approvals db))" "distinct (map j_id (jobs db))"
      using assms by (simp_all add: ai_inv_def)
    have okj: "job_ok (j\<lparr>j_state := if ok then Approved else Rejected, j_updated_at := now,
                         j_version := j_version j + 1\<rparr>)"
      using ai_inv_job_ok[OF assms j(1)] j(3) by (auto simp: job_ok_def)
    have "evolves db db'"
      by (rule evolves_update[OF e(1)]) (use uniq j(4) in \<open>auto simp: row_step_def\<close>)
    moreover have "ai_inv db'"
      unfolding ai_inv_def
    proof (intro conjI ballI impI)
      show "distinct (map j_id (jobs db'))" unfolding e(1) using d(2) by (subst sql_update_keys) simp_all
      show "distinct (map ax_job_id (approvals db'))"
        unfolding e(2) using d(1) by (subst sql_update_keys) simp_all
      show "job_ok x" if "x \<in> set (jobs db')" for x
      proof -
        from that obtain x0 where "x0 \<in> set (jobs db)" "x = (if j_id x0 = jid
            then x0\<lparr>j_state := if ok then Approved else Rejected, j_updated_at := now,
                    j_version := j_version x0 + 1\<rparr> else x0)"
          unfolding e(1) in_sql_update by blast
        with uniq okj ai_inv_job_ok[OF assms] show ?thesis by (cases "j_id x0 = jid") simp_all
      qed
      show "j_id x \<in> set (map dl_job_id (dead_letters db'))"
        if "x \<in> set (jobs db')" "j_state x = Dead_letter" for x
        using that assms unfolding e(1,3) in_sql_update ai_inv_def by (auto split: if_splits)
      show "approval_ok (jobs db') b" if "b \<in> set (approvals db')" for b
        unfolding e(1)
        by (rule decide_approvals_ok[OF assms a(1) _ _ j(1-3) _ _ _ _ _ _ _ that[unfolded e(2)]])
           (use a(2) j in \<open>auto split: if_splits\<close>)
    qed
    ultimately show ?thesis by (simp add: db'_def)
  qed
qed

text \<open>Completion: the result is stored and the attempt finished in one transaction.\<close>

lemma store_result_effect:
  assumes "store_result env now today aid t r db = (Inr cs, db1)"
  shows "jobs db1 = jobs db" "dead_letters db1 = dead_letters db"
    "cs = (if approval_needed t then Approval_required else Completed)"
    "approvals db1 = approvals db \<or>
       (approval_needed t \<and> (\<forall>a\<in>set (approvals db). ax_job_id a \<noteq> rt_id t)
        \<and> (\<exists>a. approvals db1 = approvals db @ [a] \<and> ax_job_id a = rt_id t \<and> ax_state a = Pending))"
proof -
  show "jobs db1 = jobs db" "dead_letters db1 = dead_letters db"
    "cs = (if approval_needed t then Approval_required else Completed)"
    using assms by (auto simp: store_result_def Let_def split: if_splits)
  show "approvals db1 = approvals db \<or>
       (approval_needed t \<and> (\<forall>a\<in>set (approvals db). ax_job_id a \<noteq> rt_id t)
        \<and> (\<exists>a. approvals db1 = approvals db @ [a] \<and> ax_job_id a = rt_id t \<and> ax_state a = Pending))"
    using assms by (auto simp: store_result_def Let_def sql_exists_iff split: if_splits)
qed

lemma assert_lease_cong:
  "jobs db1 = jobs db \<Longrightarrow> assert_lease now jid w tok org ws ac db1 = assert_lease now jid w tok org ws ac db"
  by (simp add: assert_lease_def)

lemma ai_inv_add_approval:
  assumes "ai_inv db" "ax_state a = Pending" "\<forall>b\<in>set (approvals db). ax_job_id b \<noteq> ax_job_id a"
    and "j \<in> set (jobs db)" "j_id j = ax_job_id a" "j_lease_owner j = None"
      "j_state j \<in> {Approval_required, Cancelled}"
    and "jobs db' = jobs db" "dead_letters db' = dead_letters db" "approvals db' = approvals db @ [a]"
  shows "ai_inv db'"
proof -
  have "approval_ok (jobs db) a"
    unfolding approval_ok_def using assms(2,4-7) by (intro bexI[of _ j]) auto
  moreover have "ax_job_id a \<notin> ax_job_id ` set (approvals db)" using assms(3) by auto
  ultimately show ?thesis using assms(1,8-10) by (simp add: ai_inv_def)
qed

lemma complete_with_inv:
  assumes inv: "ai_inv db"
  shows "ai_inv (snd (complete_with env now today aid t r w tok corr org ws db))
         \<and> evolves db (snd (complete_with env now today aid t r w tok corr org ws db))"
proof (cases "fst (complete_with env now today aid t r w tok corr org ws db)")
  case (Inl e)
  then have "snd (complete_with env now today aid t r w tok corr org ws db) = db"
    by (auto simp: complete_with_def split: prod.splits sum.splits)
  with inv show ?thesis by (simp add: evolves_same)
next
  case (Inr st)
  then obtain cs db1 where sr: "store_result env now today aid t r db = (Inr cs, db1)"
    by (auto simp: complete_with_def split: prod.splits sum.splits)
  from Inr sr obtain db2 where fin: "finish env now (rt_id t) w tok False None False corr cs None org ws db1 = (Inr st, db2)"
    by (auto simp: complete_with_def split: prod.splits sum.splits)
  have res: "snd (complete_with env now today aid t r w tok corr org ws db) = db2"
    using sr fin by (simp add: complete_with_def)
  note e = store_result_effect[OF sr]
  from fin obtain row where al: "assert_lease now (rt_id t) w tok org ws True db1 = Inr row"
    by (cases "assert_lease now (rt_id t) w tok org ws True db1") (auto simp: finish_def)
  note f = finish_effect[OF al fin]
    and a = assert_lease_Inr[OF al[unfolded assert_lease_cong[OF e(1)]]]
  have cs: "cs \<in> {Completed, Approval_required}" using e(3) by simp
  let ?db = "db2\<lparr>approvals := approvals db\<rparr>"
  let ?row = "finish_job now (finish_state row False False cs) (retry_delay (j_attempt_count row)) None row"
  have jobs': "jobs ?db = sql_update (\<lambda>j. j_id j = rt_id t) (finish_job now (finish_state row False False cs)
      (retry_delay (j_attempt_count row)) None) (jobs db)" using f(2) e(1) by simp
  have step: "ai_inv ?db \<and> evolves db ?db"
  proof (rule update_row_step[OF inv a[THEN conjunct1] a[THEN conjunct2, THEN conjunct1] jobs'])
    show "set (map dl_job_id (dead_letters db)) \<subseteq> set (map dl_job_id (dead_letters ?db))"
      using f(4) e(2) by auto
    show "job_ok row \<Longrightarrow> row_change ?db row ?row"
      using a cs by (intro finish_row_ok[of now w tok org ws])
        (auto simp: finish_state_def split: if_splits)
  qed simp
  have hit: "?row \<in> set (jobs ?db)" unfolding jobs'
    by (rule sql_update_hit) (use a in auto)
  have "ai_inv db2"
  proof (cases "approvals db1 = approvals db")
    case True
    with f(3) have "approvals db2 = approvals db" by simp
    with step show ?thesis by (simp add: ai_inv_cong[of ?db db2])
  next
    case False
    with e(4) obtain ap where ap: "approvals db1 = approvals db @ [ap]" "ax_job_id ap = rt_id t"
      "ax_state ap = Pending" "approval_needed t" "\<forall>b\<in>set (approvals db). ax_job_id b \<noteq> rt_id t" by auto
    show ?thesis
      by (rule ai_inv_add_approval[OF step[THEN conjunct1] ap(3) _ hit])
         (use ap e(3) a f(3) in \<open>auto simp: finish_job_def finish_state_def\<close>)
  qed
  moreover have "evolves db db2" using step by (simp add: evolves_def)
  ultimately show ?thesis using res by simp
qed

lemma snd_map_err [simp]: "snd (map_err f x) = snd x"
  by (simp add: map_err_def split: sum.splits)

lemma complete_job_effect:
  "snd (complete_job env now today aid jid w tok res p db) = db
   \<or> snd (complete_job env now today aid jid w tok res p db) =
       snd (finish env now jid w tok False None False (wp_correlation_id p) Completed None
              (Some (wp_tenant_id p)) (Some (wp_workspace_id p)) db)
   \<or> (\<exists>t r. snd (complete_job env now today aid jid w tok res p db) =
       snd (complete_with env now today aid t r w tok (wp_correlation_id p)
              (Some (wp_tenant_id p)) (Some (wp_workspace_id p)) db))"
proof -
  have cp: "snd (case x of (Inl e, d) \<Rightarrow> (Inl e, d) | (Inr s, d) \<Rightarrow> (Inr (s, False), d)) = snd x"
    for x :: "ai_state result \<times> ai_db"
    by (simp split: prod.splits sum.splits)
  show ?thesis
    unfolding complete_job_def Let_def
    by (cases "completed_result_status env jid (wp_tenant_id p) (wp_workspace_id p) res db";
        cases "assert_lease now jid w tok (Some (wp_tenant_id p)) (Some (wp_workspace_id p)) False db";
        cases res) (auto simp: cp split: option.splits, blast)
qed

lemma complete_job_inv:
  assumes "ai_inv db"
  shows "ai_inv (snd (complete_job env now today aid jid w tok res p db))
         \<and> evolves db (snd (complete_job env now today aid jid w tok res p db))"
  using complete_job_effect[of env now today aid jid w tok res p db]
  by (elim disjE exE) (simp_all only: assms evolves_same simp_thms finish_inv[OF assms]
      complete_with_inv[OF assms] insert_iff)

section \<open>Every reachable state\<close>

lemmas step_inv = create_message_job_inv submit_inv claim_inv heartbeat_inv append_chunk_inv
  complete_job_inv worker_cancel_inv cancel_command_inv console_cancel_inv decide_inv
  recover_expired_inv expire_deadlines_inv renew_lease_inv

theorem ai_step_inv: "ai_step env cfg db db' \<Longrightarrow> ai_inv db \<Longrightarrow> ai_inv db' \<and> evolves db db'"
proof (induction rule: ai_step.induct)
  case (conversation db cid org ws user title corr)
  then show ?case
    by (simp add: ai_inv_cong[OF create_conversation_frame] evolves_same create_conversation_frame)
next
  case (finishing db now jid w tok failed err retryable corr details orgo wso)
  then show ?case by (simp add: finish_inv)
next
  case (completing_openai db now today aid cj r' w corr)
  then show ?case by (simp add: openai_complete_def complete_with_inv)
next
  case (retrying db now jid aid org ws user corr)
  then obtain e where "retry_dead_letter env now jid aid org ws user corr db = (Inl e, db)"
    using retry_dead_letter_refused by blast
  with retrying show ?case by (simp add: evolves_same)
next
  case (registering db w caps conc p)
  then show ?case
    by (simp add: ai_inv_cong[OF register_worker_frame] evolves_same register_worker_frame)
next
  case (beat_worker db now w cur p)
  then show ?case
    by (simp add: ai_inv_cong[OF worker_heartbeat_frame] evolves_same worker_heartbeat_frame)
next
  case (operator db regs qs)
  then show ?case by (simp add: ai_inv_def evolves_same)
qed (simp_all add: step_inv)

lemma ai_inv_empty: "ai_inv empty_db"
  by (simp add: ai_inv_def empty_db_def)

lemma ai_steps_inv:
  "(ai_step env cfg)\<^sup>*\<^sup>* db db' \<Longrightarrow> ai_inv db \<Longrightarrow> ai_inv db' \<and> evolves db db'"
proof (induction rule: rtranclp_induct)
  case base
  then show ?case by (simp add: evolves_same)
next
  case (step y z)
  then show ?case using ai_step_inv evolves_trans by blast
qed

lemma reachable_inv: "ai_reachable env cfg db \<Longrightarrow> ai_inv db"
  using ai_steps_inv ai_inv_empty by (auto simp: ai_reachable_def)

section \<open>Fencing\<close>

definition ai_token :: "ai_db \<Rightarrow> uuid \<Rightarrow> int option" where
  "ai_token db k = map_option j_fencing_token (find_job k db)"

definition ai_admits :: "ai_db \<Rightarrow> uuid \<Rightarrow> int \<Rightarrow> bool" where
  "ai_admits db k n \<longleftrightarrow>
     ai_inv db \<and> (\<exists>now w org ws ac row. assert_lease now k w n org ws ac db = Inr row)"

lemma find_job_unique: "ai_inv db \<Longrightarrow> j \<in> set (jobs db) \<Longrightarrow> find_job (j_id j) db = Some j"
proof -
  assume inv: "ai_inv db" and j: "j \<in> set (jobs db)"
  then obtain x where x: "find_job (j_id j) db = Some x"
    by (cases "find_job (j_id j) db") (auto simp: find_job_def sql_first_None)
  with inv j show ?thesis
    using sql_first_Some[of "\<lambda>y. j_id y = j_id j" "jobs db" x] ai_inv_unique[of db x j]
    by (simp add: find_job_def)
qed

lemma find_job_Some: "find_job k db = Some j \<Longrightarrow> j \<in> set (jobs db) \<and> j_id j = k"
  by (auto simp: find_job_def dest: sql_first_Some)

lemma sql_first_map_append:
  assumes "sql_first p t = Some r" "\<And>x. x \<in> set t \<Longrightarrow> p (g x) = p x"
  shows "sql_first p (map g t @ new) = Some (g r)"
  using assms unfolding sql_first_def by (induction t) (auto split: if_splits)

lemma evolves_find_job:
  assumes "evolves db db'" "find_job k db = Some j"
  obtains j' where "find_job k db' = Some j'" "row_step j j'"
proof -
  from assms(1) obtain g new where g: "jobs db' = map g (jobs db) @ new" "\<forall>x\<in>set (jobs db). row_step x (g x)"
    by (auto simp: evolves_def)
  have "find_job k db' = Some (g j)"
    unfolding find_job_def g(1)
    by (rule sql_first_map_append) (use assms(2) g(2) in \<open>auto simp: find_job_def row_step_def\<close>)
  moreover have "row_step j (g j)" using g(2) find_job_Some[OF assms(2)] by blast
  ultimately show thesis by (rule that)
qed

interpretation ai_fence: fenced_store "\<lambda>s s'. ai_inv s \<and> ai_step env cfg s s'" ai_token ai_admits
  for env cfg
proof (unfold_locales, goal_cases)
  case (1 s s' k n)
  then have ev: "evolves s s'" using ai_step_inv by blast
  from 1 obtain j where j: "find_job k s = Some j" "j_fencing_token j = n" by (auto simp: ai_token_def)
  from evolves_find_job[OF ev j(1)] obtain j' where "find_job k s' = Some j'" "row_step j j'" .
  with j(2) show ?case by (auto simp: ai_token_def row_step_def)
next
  case (2 s k n)
  then obtain now w org ws ac row where al: "assert_lease now k w n org ws ac s = Inr row" and inv: "ai_inv s"
    by (auto simp: ai_admits_def)
  from assert_lease_Inr[OF al] lease_admits_facts
  have "row \<in> set (jobs s)" "j_id row = k" "j_fencing_token row = n" by blast+
  with find_job_unique[OF inv] show ?case by (auto simp: ai_token_def)
qed

lemma claim_token:
  assumes "ai_inv db" "claim env now locked r db = (Inr (Some c), db')"
  shows "ai_token db' (cj_id c) = Some (cj_fencing_token c)"
proof -
  from assms(2) obtain active j where c: "claim_candidate now locked (cr_organization_id r)
       (cr_workspace_id r) (claim_profile_filter r
       (effective_compatible_profiles active (cr_allowed_model_profiles r))) db = Some j"
    "c = claim_view (lease_job now (cr_worker_id r) (cr_lease_seconds r) j)"
    "jobs db' = sql_update (\<lambda>x. j_id x = j_id j)
       (lease_job now (cr_worker_id r) (cr_lease_seconds r)) (jobs db)"
    by (rule claim_granted)
  let ?j = "lease_job now (cr_worker_id r) (cr_lease_seconds r) j"
  have "?j \<in> set (jobs db')"
    unfolding c(3) using claim_candidate_Some[OF c(1)] by (intro sql_update_hit) simp_all
  moreover have "ai_inv db'" using claim_inv[OF assms(1), of env now locked r] assms(2) by simp
  ultimately have "find_job (j_id ?j) db' = Some ?j" by (rule find_job_unique[rotated])
  then show ?thesis by (simp add: ai_token_def c(2) claim_view_def)
qed

lemma steps_with_inv:
  assumes "(ai_step env cfg)\<^sup>*\<^sup>* db db'" "ai_inv db"
  shows "(\<lambda>s s'. ai_inv s \<and> ai_step env cfg s s')\<^sup>*\<^sup>* db db'"
  using assms
proof (induction rule: rtranclp_induct)
  case (step y z)
  then have "ai_inv y" using ai_steps_inv by blast
  with step show ?case by (simp add: rtranclp.rtrancl_into_rtrancl)
qed simp

lemma assert_lease_Inl:
  "(\<exists>row. assert_lease now k w n org ws ac db = Inr row)
   \<or> assert_lease now k w n org ws ac db = Inl (PermissionError ''stale_or_invalid_lease'')"
  by (simp add: assert_lease_def split: option.splits)

section \<open>Submission ledgers\<close>

text \<open>Both ways to create a job answer a repeated idempotency key from the stored row.\<close>

definition key_entry :: "ai_db \<Rightarrow> uuid \<times> uuid \<times> string \<Rightarrow> (string \<times> uuid) option" where
  "key_entry db k = map_option (\<lambda>j. (j_request_sha256 j, j_id j))
     (find_key (fst k) (fst (snd k)) (snd (snd k)) db)"

lemma evolves_key_entry:
  assumes "evolves db db'" "key_entry db k = Some e"
  shows "key_entry db' k = Some e"
proof -
  from assms(2) obtain j where j: "find_key (fst k) (fst (snd k)) (snd (snd k)) db = Some j"
    "e = (j_request_sha256 j, j_id j)" by (auto simp: key_entry_def)
  from assms(1) obtain g new where g: "jobs db' = map g (jobs db) @ new" "\<forall>x\<in>set (jobs db). row_step x (g x)"
    by (auto simp: evolves_def)
  have "find_key (fst k) (fst (snd k)) (snd (snd k)) db' = Some (g j)"
    unfolding find_key_def g(1)
    by (rule sql_first_map_append) (use j(1) g(2) in \<open>auto simp: find_key_def row_step_def\<close>)
  moreover have "row_step j (g j)"
    using g(2) j(1) by (auto simp: find_key_def dest!: sql_first_Some)
  ultimately show ?thesis using j(2) by (simp add: key_entry_def row_step_def)
qed

lemma sql_first_append: "sql_first p (t @ u) = (case sql_first p t of None \<Rightarrow> sql_first p u | Some r \<Rightarrow> Some r)"
  unfolding sql_first_def by (induction t) auto

lemma insert_job_entry:
  assumes "insert_job j db = Some db'"
  shows "key_entry db' (j_organization_id j, j_workspace_id j, j_idempotency_key j) =
           Some (j_request_sha256 j, j_id j)"
    "key_entry db k = Some e \<Longrightarrow> key_entry db' k = Some e"
  using assms unfolding insert_job_def
  by (auto simp: key_entry_def find_key_def sql_first_append split: if_splits option.splits)
     (simp_all add: sql_first_def)

lemma key_entry_cong: "jobs db' = jobs db \<Longrightarrow> key_entry db' = key_entry db"
  by (simp add: key_entry_def find_key_def fun_eq_iff)

lemma key_entry_event: "key_entry (record_event jid org ws e st corr d db) = key_entry db"
  by (rule key_entry_cong) simp

type_synonym submission = "instant \<times> int \<times> ai_command \<times> uuid"

definition submission_key :: "submission \<Rightarrow> uuid \<times> uuid \<times> string" where
  "submission_key q = (case q of (now, today, c, ws) \<Rightarrow> (ac_tenant_id c, ws, ac_idempotency_key c))"

definition submission_digest :: "ai_env \<Rightarrow> submission \<Rightarrow> string" where
  "submission_digest env q = (case q of (now, today, c, ws) \<Rightarrow> sha256 env (payload_json env c))"

definition submit_q :: "ai_env \<Rightarrow> ai_settings \<Rightarrow> submission \<Rightarrow> (ai_db, submit_ref) call" where
  "submit_q env cfg q = (case q of (now, today, c, ws) \<Rightarrow> submit env cfg now today c ws)"

lemma submit_known:
  assumes "find_key (ac_tenant_id c) ws (ac_idempotency_key c) db = Some j"
  shows "submit env cfg now today c ws db =
     (if j_request_sha256 j \<noteq> sha256 env (payload_json env c) then (Inl (ValueError ''idempotency_conflict''), db)
      else (Inr \<lparr>sr_job_id = j_id j, sr_status = PUBLIC_STATES (j_state j), sr_idempotent_replay = True\<rparr>, db))"
  using assms by (simp add: submit_def)

lemma submit_fresh:
  assumes "find_key (ac_tenant_id c) ws (ac_idempotency_key c) db = None"
    "submit env cfg now today c ws db = (Inr r, db')"
  obtains db1 where "insert_job (command_job env now ws c) db = Some db1" "jobs db' = jobs db1"
    "sr_job_id r = ac_command_id c"
  using assms by (auto simp: submit_def split: if_splits option.splits)

lemma submit_entry_kept:
  assumes "key_entry db k = Some e"
  shows "key_entry (snd (submit env cfg now today c ws db)) k = Some e"
  using assms insert_job_entry(2)[of "command_job env now ws c" db]
  by (auto simp: submit_def key_entry_event split: option.splits)

interpretation ai_ledger: replaying_ledger "submit_q env cfg" submission_key "submission_digest env"
  key_entry sr_job_id for env cfg
proof (unfold_locales, goal_cases)
  case (1 s q r s')
  obtain now today c ws where q: "q = (now, today, c, ws)" by (cases q)
  from 1 q have "find_key (ac_tenant_id c) ws (ac_idempotency_key c) s = None"
    "submit env cfg now today c ws s = (Inr r, s')"
    by (auto simp: submission_key_def submit_q_def key_entry_def)
  then obtain db1 where f: "insert_job (command_job env now ws c) s = Some db1" "jobs s' = jobs db1"
    "sr_job_id r = ac_command_id c" by (rule submit_fresh)
  have "key_entry s' = key_entry db1" using f(2) by (rule key_entry_cong)
  with insert_job_entry(1)[OF f(1)] f(3) show ?case
    by (simp add: q submission_key_def submission_digest_def command_job_def)
next
  case (2 s q d v r s')
  then show ?case
    by (cases q) (auto simp: submission_key_def submission_digest_def submit_q_def key_entry_def
        submit_known split: if_splits)
next
  case (3 s k e q)
  then show ?case by (cases q) (simp add: submit_q_def submit_entry_kept)
next
  case (4 s q v)
  then show ?case
    by (cases q) (auto simp: submission_key_def submission_digest_def submit_q_def key_entry_def submit_known)
qed

interpretation ai_shared: shared_ledger "submit_q env cfg" submission_key "submission_digest env"
  key_entry sr_job_id "\<lambda>s s'. ai_inv s \<and> ai_step env cfg s s'" for env cfg
proof unfold_locales
  fix s s' k e
  assume "ai_inv s \<and> ai_step env cfg s s'" "key_entry s k = Some e"
  then show "key_entry s' k = Some e" using ai_step_inv evolves_key_entry by blast
qed

end
