(* ===== verification/Ai_Properties.thy ===== *)
theory Ai_Properties
  imports Ai_Safety
begin

text \<open>
  The properties of the AI job platform, with a run of the platform on a concrete database
  that exhibits their hypotheses.
\<close>

section \<open>A run of the platform\<close>

definition demo_env :: ai_env where
  "demo_env = \<lparr>sha256 = (\<lambda>s. s), dump_json = (\<lambda>c. []), payload_json = ac_idempotency_key\<rparr>"

definition demo_cfg :: ai_settings where
  "demo_cfg = \<lparr>ai_default_max_queued_per_tenant = 100, ai_daily_token_quota = 100000,
     ai_global_emergency_limit = 0, ai_job_lease_seconds = 60, ai_job_max_output_bytes = 1000,
     ai_job_max_attempts = 5, ai_job_max_context_bytes = 1000, ai_submissions_enabled = True,
     ai_orchestration_enabled = True, ai_worker_claims_enabled = True,
     ai_worker_certificate_serial = ''01'', ai_worker_spiffe_id = ''spiffe''\<rparr>"

definition demo_command :: ai_command where
  "demo_command = \<lparr>ac_command_id = 7, ac_command_type = CHAT, ac_schema_version = ''1.0'',
     ac_tenant_id = 1, ac_actor_id = ''user'', ac_actor_type = ''user'',
     ac_correlation_id = ''corr-0001'', ac_idempotency_key = ''key-0000000000001'', ac_priority = 5,
     ac_requested_at = Aware 0, ac_deadline_at = Aware (minutes 10), ac_input = [],
     ac_model_policy = \<lparr>mp_profile = ''fast-chat'', mp_temperature = 0, mp_max_tokens = 10\<rparr>,
     ac_resource_limits = \<lparr>rl_runtime_seconds = 300, rl_output_bytes = 100, rl_retry_count = 1,
                           rl_token_budget = 10\<rparr>,
     ac_data_classification = ''internal'',
     ac_approval_policy = \<lparr>ap_required = True, ap_action_types = []\<rparr>,
     ac_callback_policy = Poll, ac_metadata = []\<rparr>"

definition demo_claim :: claim_request where
  "demo_claim = \<lparr>cr_worker_id = ''w1'', cr_lease_seconds = 60, cr_correlation_id = ''c'',
     cr_organization_id = Some 1, cr_workspace_id = Some 2, cr_service_id = None,
     cr_allowed_model_profiles = None\<rparr>"

definition demo_principal :: worker_principal where
  "demo_principal = \<lparr>wp_service_id = ''s'', wp_worker_id = ''w1'', wp_tenant_id = 1,
     wp_workspace_id = 2, wp_correlation_id = ''c''\<rparr>"

definition demo_result :: ai_result where
  "demo_result = \<lparr>ar_command_id = 7, ar_job_id = 7, ar_status = ''SUCCEEDED'',
     ar_result_schema_version = ''1.0'', ar_model_used = ''m'', ar_provider_used = ''mock'',
     ar_started_at = 0, ar_completed_at = 1, ar_latency_ms = 5, ar_token_usage = [(''input'', 3)],
     ar_resource_usage = [], ar_output = [(''proposal'', JStr ''x'')],
     ar_structured_artifacts = [], ar_warnings = [], ar_policy_decisions = [], ar_error = None,
     ar_retryability = ''none'', ar_audit_reference = ''audit-01''\<rparr>"

definition demo_submitted :: ai_db where
  "demo_submitted = snd (submit demo_env demo_cfg 100 0 demo_command 2 empty_db)"

definition demo_claimed :: ai_db where
  "demo_claimed = snd (claim demo_env 200 (\<lambda>_. False) demo_claim demo_submitted)"

definition demo_completed :: ai_db where
  "demo_completed = snd (complete_job demo_env 300 0 9 7 ''w1'' 1 (Some demo_result) demo_principal demo_claimed)"

definition demo_cancelled :: ai_db where
  "demo_cancelled = snd (cancel_command 400 7 1 2 ''c'' demo_completed)"

lemma demo_command_valid: "ai_command_validate (dump_json demo_env) demo_command = Inr demo_command"
  by code_simp

lemma demo_claim_granted:
  "map_option cj_fencing_token (case fst (claim demo_env 200 (\<lambda>_. False) demo_claim demo_submitted) of
     Inl e \<Rightarrow> None | Inr c \<Rightarrow> c) = Some 1"
  by code_simp


lemma demo_steps:
  "(ai_step demo_env demo_cfg)\<^sup>*\<^sup>* empty_db demo_submitted"
  "(ai_step demo_env demo_cfg)\<^sup>*\<^sup>* demo_submitted demo_claimed"
  "(ai_step demo_env demo_cfg)\<^sup>*\<^sup>* demo_claimed demo_completed"
  "(ai_step demo_env demo_cfg)\<^sup>*\<^sup>* demo_completed demo_cancelled"
  unfolding demo_submitted_def demo_claimed_def demo_completed_def demo_cancelled_def
  by (rule r_into_rtranclp, rule ai_step.intros, (rule demo_command_valid)?)+

lemma demo_reachable:
  "ai_reachable demo_env demo_cfg demo_submitted" "ai_reachable demo_env demo_cfg demo_claimed"
  "ai_reachable demo_env demo_cfg demo_completed" "ai_reachable demo_env demo_cfg demo_cancelled"
  unfolding ai_reachable_def using demo_steps by (meson rtranclp_trans)+

section \<open>Leases and fencing\<close>

text \<open>
  C1: Once a job has been claimed under a fencing token, a worker that presents a smaller token
  is refused in every later state, whatever its name, the time and the transactions in between:
  it can neither prolong the lease, nor append output, nor finish the job, and its calls leave
  the database as it is.
\<close>

theorem stale_worker_shut_out:
  assumes "ai_reachable env cfg db" "claim env now locked r db = (Inr (Some c), db1)"
    and "(ai_step env cfg)\<^sup>*\<^sup>* db1 db2" "n < cj_fencing_token c"
  shows "heartbeat now' (cj_id c) w n ls sid serial spiffe org ws db2
           = (Inl (PermissionError ''stale_or_invalid_lease''), db2)
       \<and> append_chunk env now' (cj_id c) w n sq ct mx org ws db2
           = (Inl (PermissionError ''stale_or_invalid_lease''), db2)
       \<and> finish env now' (cj_id c) w n failed err retryable corr cs det org ws db2
           = (Inl (PermissionError ''stale_or_invalid_lease''), db2)"
proof -
  have inv: "ai_inv db1" "ai_inv db2"
    using claim_inv[OF reachable_inv[OF assms(1)], of env now locked r] assms(2) ai_steps_inv[OF assms(3)]
    by simp_all
  have "ai_token db1 (cj_id c) = Some (cj_fencing_token c)"
    by (rule claim_token[OF reachable_inv[OF assms(1)] assms(2)])
  then have "\<not> ai_admits db2 (cj_id c) n"
    using ai_fence.stale_token_shut_out[OF steps_with_inv[OF assms(3) inv(1)]] assms(4) by blast
  then have "assert_lease now' (cj_id c) w n org ws ac db2 = Inl (PermissionError ''stale_or_invalid_lease'')" for ac
    using assert_lease_Inl[of now' "cj_id c" w n org ws ac db2] inv(2) by (auto simp: ai_admits_def)
  then show ?thesis by (simp add: heartbeat_def append_chunk_def finish_def)
qed

lemma demo_claim_eq:
  obtains c where "claim demo_env 200 (\<lambda>_. False) demo_claim demo_submitted = (Inr (Some c), demo_claimed)"
    "cj_fencing_token c = 1" "cj_id c = 7"
proof -
  have id: "map_option cj_id (case fst (claim demo_env 200 (\<lambda>_. False) demo_claim demo_submitted) of
     Inl e \<Rightarrow> None | Inr c \<Rightarrow> c) = Some 7" by code_simp
  show thesis
    using demo_claim_granted id
    by (intro that[of "the (projr (fst (claim demo_env 200 (\<lambda>_. False) demo_claim demo_submitted)))"])
       (auto simp: demo_claimed_def prod_eq_iff split: sum.splits)
qed

theorem stale_worker_shut_out_witness:
  "\<exists>c. claim demo_env 200 (\<lambda>_. False) demo_claim demo_submitted = (Inr (Some c), demo_claimed)
     \<and> 0 < cj_fencing_token c
     \<and> finish demo_env 500 (cj_id c) ''w0'' 0 False None False ''c'' Completed None None None demo_completed
         = (Inl (PermissionError ''stale_or_invalid_lease''), demo_completed)"
proof -
  obtain c where c: "claim demo_env 200 (\<lambda>_. False) demo_claim demo_submitted = (Inr (Some c), demo_claimed)"
    "cj_fencing_token c = 1" by (rule demo_claim_eq)
  have "finish demo_env 500 (cj_id c) ''w0'' 0 False None False ''c'' Completed None None None demo_completed
         = (Inl (PermissionError ''stale_or_invalid_lease''), demo_completed)"
    using stale_worker_shut_out[OF demo_reachable(1) c(1) demo_steps(3), of 0] c(2) by simp
  with c show ?thesis by auto
qed

text \<open>
  C2: In every reachable state a job has been attempted at most \<open>max_attempts\<close> times, which never
  exceeds ten; its fencing token counts its attempts; a job that waits to be claimed has an
  attempt left; and a job is leased to somebody exactly while it is running.
\<close>

theorem attempts_bounded:
  assumes "ai_reachable env cfg db" "j \<in> set (jobs db)"
  shows "0 \<le> j_attempt_count j \<and> j_attempt_count j \<le> j_max_attempts j \<and> j_max_attempts j \<le> 10
       \<and> j_fencing_token j = j_attempt_count j
       \<and> (j_state j \<in> {Queued, Retry_wait} \<longrightarrow> j_attempt_count j < j_max_attempts j)
       \<and> (j_state j = Leased \<longrightarrow> j_lease_owner j \<noteq> None \<and> j_lease_expires_at j \<noteq> None)
       \<and> (j_state j \<notin> {Leased, Cancel_requested} \<longrightarrow> j_lease_owner j = None)"
  using ai_inv_job_ok[OF reachable_inv[OF assms(1)] assms(2)] by (auto simp: job_ok_def)

theorem attempts_bounded_witness:
  "\<exists>j\<in>set (jobs demo_claimed). j_state j = Leased \<and> j_fencing_token j = 1
     \<and> j_attempt_count j \<le> j_max_attempts j \<and> j_lease_owner j \<noteq> None"
proof -
  have "list_ex (\<lambda>j. j_state j = Leased \<and> j_fencing_token j = 1) (jobs demo_claimed)" by code_simp
  then obtain j where j: "j \<in> set (jobs demo_claimed)" "j_state j = Leased" "j_fencing_token j = 1"
    by (auto simp: list_ex_iff)
  with attempts_bounded[OF demo_reachable(2) j(1)] show ?thesis by blast
qed



section \<open>Claiming\<close>

text \<open>
  C4: A granted claim takes, among the claimable jobs no other transaction has locked, one of
  the least priority number and, within that, of the earliest creation; the job becomes leased
  to the claimant until the lease runs out, with a token one higher than before.
\<close>

theorem claim_takes_first:
  assumes "ai_reachable env cfg db" "claim env now locked r db = (Inr (Some c), db')"
  shows "\<exists>j active. j \<in> set (jobs db) \<and> claim_admission now r db = Inr active
     \<and> (let ok = claimable now (cr_organization_id r) (cr_workspace_id r) (claim_profile_filter r
            (effective_compatible_profiles active (cr_allowed_model_profiles r)))
        in ok j \<and> \<not> locked (j_id j)
           \<and> (\<forall>j'\<in>set (jobs db). ok j' \<and> \<not> locked (j_id j') \<longrightarrow>
                (j_priority j, j_created_at j) \<le> (j_priority j', j_created_at j')))
     \<and> find_job (j_id j) db' = Some (lease_job now (cr_worker_id r) (cr_lease_seconds r) j)
     \<and> cj_id c = j_id j \<and> cj_fencing_token c = j_fencing_token j + 1"
proof -
  have inv: "ai_inv db" by (rule reachable_inv[OF assms(1)])
  from assms(2) obtain active j where c: "claim_admission now r db = Inr active"
    "claim_candidate now locked (cr_organization_id r) (cr_workspace_id r) (claim_profile_filter r
       (effective_compatible_profiles active (cr_allowed_model_profiles r))) db = Some j"
    "c = claim_view (lease_job now (cr_worker_id r) (cr_lease_seconds r) j)"
    "jobs db' = sql_update (\<lambda>x. j_id x = j_id j)
       (lease_job now (cr_worker_id r) (cr_lease_seconds r)) (jobs db)"
    by (rule claim_granted)
  let ?j = "lease_job now (cr_worker_id r) (cr_lease_seconds r) j"
  have j: "j \<in> set (jobs db)" using claim_candidate_Some[OF c(2)] by simp
  have "?j \<in> set (jobs db')" unfolding c(4) using j by (intro sql_update_hit) simp_all
  moreover have "ai_inv db'" using claim_inv[OF inv, of env now locked r] assms(2) by simp
  ultimately have "find_job (j_id ?j) db' = Some ?j" by (rule find_job_unique[rotated])
  then have "find_job (j_id j) db' = Some ?j" by (simp add: lease_job_def)
  moreover have "cj_id c = j_id j \<and> cj_fencing_token c = j_fencing_token j + 1"
    by (simp add: c(3) claim_view_def lease_job_def)
  ultimately show ?thesis
    using j c(1) first_by_Some[OF c(2)[unfolded claim_candidate_def]] unfolding Let_def
    by (intro exI[of _ j] exI[of _ active]) auto
qed

theorem claim_takes_first_witness:
  "\<exists>c j. claim demo_env 200 (\<lambda>_. False) demo_claim demo_submitted = (Inr (Some c), demo_claimed)
     \<and> j \<in> set (jobs demo_submitted) \<and> cj_id c = j_id j
     \<and> find_job (j_id j) demo_claimed = Some (lease_job 200 ''w1'' 60 j)"
proof -
  obtain c where c: "claim demo_env 200 (\<lambda>_. False) demo_claim demo_submitted = (Inr (Some c), demo_claimed)"
    by (rule demo_claim_eq)
  from claim_takes_first[OF demo_reachable(1) c] c show ?thesis
    unfolding demo_claim_def by fastforce
qed








section \<open>Submission\<close>

text \<open>
  C6: A command accepted under an idempotency key fixes the answer for that key: in every later
  state, whatever happened in between, a submission under the same tenant, workspace and key is
  accepted only if its canonical payload has the same digest, and is then answered with the
  first job; the same payload is answered again.
\<close>

theorem submission_answered_once:
  assumes "ai_reachable env cfg db" "ai_command_validate (dump_json env) c = Inr c"
    and "submit env cfg now today c ws db = (Inr r, db1)"
    and "(ai_step env cfg)\<^sup>*\<^sup>* db1 db2"
    and "ac_tenant_id c' = ac_tenant_id c" "ac_idempotency_key c' = ac_idempotency_key c"
  shows "(submit env cfg now' today' c' ws db2 = (Inr r', db3) \<longrightarrow>
            sha256 env (payload_json env c') = sha256 env (payload_json env c)
            \<and> sr_job_id r' = sr_job_id r)
       \<and> (payload_json env c' = payload_json env c \<longrightarrow>
            (\<exists>r''. submit env cfg now' today' c' ws db2 = (Inr r'', db2) \<and> sr_job_id r'' = sr_job_id r))"
proof
  let ?q = "(now, today, c, ws)" and ?q' = "(now', today', c', ws)"
  have first: "submit_q env cfg ?q db = (Inr r, db1)" using assms(3) by (simp add: submit_q_def)
  have key: "submission_key ?q' = submission_key ?q" using assms(5,6) by (simp add: submission_key_def)
  have inv: "ai_inv db1"
    using submit_inv[OF reachable_inv[OF assms(1)] assms(2), of cfg now today ws] assms(3) by simp
  note steps = steps_with_inv[OF assms(4) inv]
  show "submit env cfg now' today' c' ws db2 = (Inr r', db3) \<longrightarrow>
      sha256 env (payload_json env c') = sha256 env (payload_json env c) \<and> sr_job_id r' = sr_job_id r"
  proof
    assume "submit env cfg now' today' c' ws db2 = (Inr r', db3)"
    then have "submit_q env cfg ?q' db2 = (Inr r', db3)" by (simp add: submit_q_def)
    from ai_shared.first_answer_wins_later[OF first steps this key]
    show "sha256 env (payload_json env c') = sha256 env (payload_json env c) \<and> sr_job_id r' = sr_job_id r"
      by (simp add: submission_digest_def)
  qed
  have "key_entry db2 (submission_key ?q) = Some (submission_digest env ?q, sr_job_id r)"
    by (rule ai_shared.steps_keep[OF steps ai_ledger.stored_after[OF first]])
  then obtain j where j: "find_key (ac_tenant_id c') ws (ac_idempotency_key c') db2 = Some j"
    "j_request_sha256 j = sha256 env (payload_json env c)" "j_id j = sr_job_id r"
    unfolding key_entry_def submission_key_def submission_digest_def assms(5,6) by auto
  show "payload_json env c' = payload_json env c \<longrightarrow>
      (\<exists>r''. submit env cfg now' today' c' ws db2 = (Inr r'', db2) \<and> sr_job_id r'' = sr_job_id r)"
    using j(2,3) by (simp add: submit_known[OF j(1)])
qed

lemma demo_submit_eq:
  obtains r where "submit demo_env demo_cfg 100 0 demo_command 2 empty_db = (Inr r, demo_submitted)"
    "sr_job_id r = 7"
proof -
  have ok: "map_sum (\<lambda>_. ()) sr_job_id (fst (submit demo_env demo_cfg 100 0 demo_command 2 empty_db)) = Inr 7"
    by code_simp
  then obtain r where "fst (submit demo_env demo_cfg 100 0 demo_command 2 empty_db) = Inr r" "sr_job_id r = 7"
    by (cases "fst (submit demo_env demo_cfg 100 0 demo_command 2 empty_db)") auto
  with that show thesis by (auto simp: demo_submitted_def prod_eq_iff)
qed

theorem submission_answered_once_witness:
  "\<exists>r. submit demo_env demo_cfg 900 0 demo_command 2 demo_cancelled = (Inr r, demo_cancelled) \<and> sr_job_id r = 7"
proof -
  obtain r where r: "submit demo_env demo_cfg 100 0 demo_command 2 empty_db = (Inr r, demo_submitted)"
    "sr_job_id r = 7" by (rule demo_submit_eq)
  have e: "ai_reachable demo_env demo_cfg empty_db" by (simp add: ai_reachable_def)
  have s: "(ai_step demo_env demo_cfg)\<^sup>*\<^sup>* demo_submitted demo_cancelled"
    using demo_steps by (meson rtranclp_trans)
  from submission_answered_once[OF e demo_command_valid r(1) s refl refl, of 900 0] r(2)
  show ?thesis by auto
qed

section \<open>Dead letters and decisions\<close>




end
