(* ===== verification/Tts_Jobs.thy ===== *)
theory Tts_Jobs
  imports Python
begin

text \<open>
  Durable text-to-speech jobs (\<open>app/core/tts_jobs.py\<close> on the table of migration 0033). The
  provider must not be asked twice for one job, so a job whose provider request has started is
  never queued again: it streams, completes, is cancelled or ends with an ambiguous outcome.
\<close>

section \<open>The table\<close>

datatype tts_state = TQueued | TClaimed | TProvider_starting | TStreaming | TCompleted | TFailed
  | TCancelled | TAmbiguous_provider_outcome

record tts_request =
  tq_organization_id :: uuid
  tq_workspace_id :: uuid
  tq_requested_by :: string
  tq_project_key :: string
  tq_voice_alias :: string
  tq_model_alias :: string
  tq_output_profile :: string
  tq_idempotency_key :: string
  tq_correlation_id :: string
  tq_request_sha256 :: string
  tq_character_count :: int

record tts_job =
  t_id :: uuid
  t_request :: tts_request
  t_state :: tts_state
  t_attempt_count :: int
  t_max_attempts :: int
  t_fencing_token :: int
  t_lease_owner :: "string option"
  t_lease_expires_at :: "instant option"
  t_provider_request_started_at :: "instant option"
  t_first_chunk_at :: "instant option"
  t_completed_at :: "instant option"
  t_cancellation_at :: "instant option"
  t_chunk_count :: int
  t_audio_bytes :: int
  t_failure_class :: "string option"
  t_created_at :: instant
  t_updated_at :: instant

type_synonym tts_db = "tts_job list"

definition tts_lease_live :: "instant \<Rightarrow> tts_job \<Rightarrow> bool" where
  "tts_lease_live now j \<longleftrightarrow> (case t_lease_expires_at j of None \<Rightarrow> False | Some e \<Rightarrow> now < e)"

definition tts_lease_over :: "instant \<Rightarrow> tts_job \<Rightarrow> bool" where
  "tts_lease_over now j \<longleftrightarrow> (case t_lease_expires_at j of None \<Rightarrow> False | Some e \<Rightarrow> e \<le> now)"

section \<open>Submission\<close>

definition tts_request_checks :: "tts_request \<Rightarrow> bool" where
  "tts_request_checks q \<longleftrightarrow>
     1 \<le> tq_character_count q \<and> tq_character_count q \<le> 1000
     \<and> match_class (\<lambda>c. is_digit c \<or> one_of ''abcdef'' c) 64 64 (tq_request_sha256 q)"

definition tts_key :: "tts_request \<Rightarrow> uuid \<times> uuid \<times> string \<times> string \<times> string" where
  "tts_key q = (tq_organization_id q, tq_workspace_id q, tq_project_key q, tq_requested_by q,
                tq_idempotency_key q)"

definition tts_new :: "instant \<Rightarrow> uuid \<Rightarrow> tts_request \<Rightarrow> tts_job" where
  "tts_new now job_id q =
     \<lparr>t_id = job_id, t_request = q, t_state = TQueued, t_attempt_count = 0, t_max_attempts = 2,
      t_fencing_token = 0, t_lease_owner = None, t_lease_expires_at = None,
      t_provider_request_started_at = None, t_first_chunk_at = None, t_completed_at = None,
      t_cancellation_at = None, t_chunk_count = 0, t_audio_bytes = 0, t_failure_class = None,
      t_created_at = now, t_updated_at = now\<rparr>"

record tts_ref =
  tr_id :: uuid
  tr_state :: tts_state
  tr_created :: bool

definition tts_submit :: "instant \<Rightarrow> uuid \<Rightarrow> tts_request \<Rightarrow> (tts_db, tts_ref) call" where
  "tts_submit now job_id q db =
     (if \<not> tts_request_checks q then (Inl (IntegrityError ''tts_generation_jobs''), db)
      else case sql_first (\<lambda>j. tts_key (t_request j) = tts_key q) db of
        Some row \<Rightarrow>
          if tq_request_sha256 (t_request row) \<noteq> tq_request_sha256 q
          then (Inl (ValueError ''tts_idempotency_conflict''), db)
          else (Inr \<lparr>tr_id = t_id row, tr_state = t_state row, tr_created = (t_id row = job_id)\<rparr>, db)
      | None \<Rightarrow>
          if job_id \<in> set (map t_id db) then (Inl (IntegrityError ''tts_generation_jobs_pkey''), db)
          else (Inr \<lparr>tr_id = job_id, tr_state = TQueued, tr_created = True\<rparr>,
                db @ [tts_new now job_id q]))"

section \<open>Claiming\<close>

definition tts_lease :: "instant \<Rightarrow> string \<Rightarrow> int \<Rightarrow> tts_job \<Rightarrow> tts_job" where
  "tts_lease now worker lease_seconds j =
     j\<lparr>t_state := TClaimed, t_lease_owner := Some worker,
       t_lease_expires_at := Some (now + secs lease_seconds),
       t_attempt_count := t_attempt_count j + 1, t_fencing_token := t_fencing_token j + 1,
       t_updated_at := now\<rparr>"

definition tts_claimable :: "tts_job \<Rightarrow> bool" where
  "tts_claimable j \<longleftrightarrow> t_state j = TQueued \<and> t_cancellation_at j = None"

definition tts_claim ::
  "instant \<Rightarrow> (uuid \<Rightarrow> bool) \<Rightarrow> string \<Rightarrow> int \<Rightarrow> (tts_db, tts_job option) call" where
  "tts_claim now locked worker lease_seconds db =
     (case first_by (\<lambda>j. (t_created_at j, t_id j)) (filter (\<lambda>j. tts_claimable j \<and> \<not> locked (t_id j)) db) of
        None \<Rightarrow> (Inr None, db)
      | Some j \<Rightarrow> (Inr (Some (tts_lease now worker lease_seconds j)),
                   sql_update (\<lambda>x. t_id x = t_id j) (tts_lease now worker lease_seconds) db))"

definition tts_claim_exact ::
  "instant \<Rightarrow> uuid \<Rightarrow> string \<Rightarrow> int \<Rightarrow> (tts_db, tts_job option) call" where
  "tts_claim_exact now job_id worker lease_seconds db =
     (let p = (\<lambda>j. t_id j = job_id \<and> tts_claimable j) in
      (Inr (map_option (tts_lease now worker lease_seconds) (sql_first p db)),
       sql_update p (tts_lease now worker lease_seconds) db))"

section \<open>Operations of the lease holder\<close>

definition tts_holds :: "string \<Rightarrow> int \<Rightarrow> tts_job \<Rightarrow> bool" where
  "tts_holds worker token j \<longleftrightarrow> t_lease_owner j = Some worker \<and> t_fencing_token j = token"

definition tts_in_flight :: "tts_job \<Rightarrow> bool" where
  "tts_in_flight j \<longleftrightarrow> t_state j \<in> {TProvider_starting, TStreaming}"

definition mark_provider_started :: "instant \<Rightarrow> uuid \<Rightarrow> string \<Rightarrow> int \<Rightarrow> (tts_db, unit) call" where
  "mark_provider_started now job_id worker token db =
     (let p = (\<lambda>j. t_id j = job_id \<and> t_state j = TClaimed \<and> tts_holds worker token j
                  \<and> tts_lease_live now j \<and> t_cancellation_at j = None) in
      (if sql_exists p db then Inr () else Inl (PermissionError ''tts_stale_or_cancelled_lease''),
       sql_update p (\<lambda>j. j\<lparr>t_state := TProvider_starting,
         t_provider_request_started_at := Some now, t_updated_at := now\<rparr>) db))"

definition tts_chunk_due :: "instant \<Rightarrow> uuid \<Rightarrow> string \<Rightarrow> int \<Rightarrow> tts_job \<Rightarrow> bool" where
  "tts_chunk_due now job_id worker token j \<longleftrightarrow>
     t_id j = job_id \<and> tts_in_flight j \<and> tts_holds worker token j
     \<and> tts_lease_live now j \<and> t_cancellation_at j = None"

definition tts_chunk_row :: "instant \<Rightarrow> int \<Rightarrow> tts_job \<Rightarrow> tts_job" where
  "tts_chunk_row now nbytes j =
     j\<lparr>t_state := TStreaming,
       t_first_chunk_at := (case t_first_chunk_at j of None \<Rightarrow> Some now | Some t \<Rightarrow> Some t),
       t_chunk_count := t_chunk_count j + 1, t_audio_bytes := t_audio_bytes j + nbytes,
       t_lease_expires_at := Some (now + secs 60), t_updated_at := now\<rparr>"

definition record_chunk :: "instant \<Rightarrow> uuid \<Rightarrow> string \<Rightarrow> int \<Rightarrow> int \<Rightarrow> (tts_db, unit) call" where
  "record_chunk now job_id worker token nbytes db =
     (let p = tts_chunk_due now job_id worker token in
      if sql_exists (\<lambda>j. p j \<and> t_audio_bytes j + nbytes < 0) db
      then (Inl (IntegrityError ''ck_tts_counts''), db)
      else (if sql_exists p db then Inr () else Inl (PermissionError ''tts_stale_or_cancelled_lease''),
            sql_update p (tts_chunk_row now nbytes) db))"

definition tts_complete :: "instant \<Rightarrow> uuid \<Rightarrow> string \<Rightarrow> int \<Rightarrow> (tts_db, bool) call" where
  "tts_complete now job_id worker token db =
     (let p = (\<lambda>j. t_id j = job_id \<and> t_state j = TStreaming \<and> tts_holds worker token j
                  \<and> t_first_chunk_at j \<noteq> None \<and> t_cancellation_at j = None) in
      (Inr (sql_exists p db),
       sql_update p (\<lambda>j. j\<lparr>t_state := TCompleted, t_completed_at := Some now,
         t_lease_owner := None, t_lease_expires_at := None, t_updated_at := now\<rparr>) db))"

definition mark_ambiguous :: "instant \<Rightarrow> uuid \<Rightarrow> string \<Rightarrow> int \<Rightarrow> string \<Rightarrow> (tts_db, bool) call" where
  "mark_ambiguous now job_id worker token failure_class db =
     (let p = (\<lambda>j. t_id j = job_id \<and> tts_in_flight j \<and> tts_holds worker token j) in
      (Inr (sql_exists p db),
       sql_update p (\<lambda>j. j\<lparr>t_state := TAmbiguous_provider_outcome,
         t_failure_class := Some (take 128 failure_class),
         t_lease_owner := None, t_lease_expires_at := None, t_updated_at := now\<rparr>) db))"

definition mark_cancelled_streaming :: "instant \<Rightarrow> uuid \<Rightarrow> string \<Rightarrow> int \<Rightarrow> (tts_db, bool) call" where
  "mark_cancelled_streaming now job_id worker token db =
     (let p = (\<lambda>j. t_id j = job_id \<and> tts_in_flight j \<and> tts_holds worker token j) in
      (Inr (sql_exists p db),
       sql_update p (\<lambda>j. j\<lparr>t_state := TCancelled,
         t_cancellation_at := (case t_cancellation_at j of None \<Rightarrow> Some now | Some t \<Rightarrow> Some t),
         t_lease_owner := None, t_lease_expires_at := None, t_updated_at := now\<rparr>) db))"

section \<open>Cancellation, recovery, status\<close>


definition tts_scoped :: "uuid \<Rightarrow> uuid \<Rightarrow> uuid \<Rightarrow> string \<Rightarrow> tts_job \<Rightarrow> bool" where
  "tts_scoped job_id org ws user j \<longleftrightarrow>
     t_id j = job_id \<and> tq_organization_id (t_request j) = org
     \<and> tq_workspace_id (t_request j) = ws \<and> tq_requested_by (t_request j) = user"

definition tts_cancel :: "instant \<Rightarrow> uuid \<Rightarrow> uuid \<Rightarrow> uuid \<Rightarrow> string \<Rightarrow> (tts_db, tts_state) call" where
  "tts_cancel now job_id org ws user db =
     (let p = (\<lambda>j. tts_scoped job_id org ws user j
                  \<and> t_state j \<notin> {TCompleted, TFailed, TCancelled, TAmbiguous_provider_outcome}) in
      (if sql_exists p db then Inr TCancelled else Inl (LookupError ''tts_job_not_found_or_terminal''),
       sql_update p (\<lambda>j. j\<lparr>t_cancellation_at := Some now, t_state := TCancelled,
         t_lease_owner := None, t_lease_expires_at := None, t_updated_at := now\<rparr>) db))"

definition tts_requeue_due :: "instant \<Rightarrow> tts_job \<Rightarrow> bool" where
  "tts_requeue_due now j \<longleftrightarrow> t_state j = TClaimed \<and> tts_lease_over now j
     \<and> t_provider_request_started_at j = None \<and> t_cancellation_at j = None"

definition tts_ambiguous_due :: "instant \<Rightarrow> tts_job \<Rightarrow> bool" where
  "tts_ambiguous_due now j \<longleftrightarrow> tts_in_flight j \<and> tts_lease_over now j"

definition tts_requeue_row :: "instant \<Rightarrow> tts_job \<Rightarrow> tts_job" where
  "tts_requeue_row now j =
     j\<lparr>t_state := TQueued, t_lease_owner := None, t_lease_expires_at := None, t_updated_at := now\<rparr>"

definition tts_ambiguous_row :: "instant \<Rightarrow> tts_job \<Rightarrow> tts_job" where
  "tts_ambiguous_row now j =
     j\<lparr>t_state := TAmbiguous_provider_outcome, t_lease_owner := None, t_lease_expires_at := None,
       t_failure_class := Some ''TTS_AMBIGUOUS_PROVIDER_OUTCOME'', t_updated_at := now\<rparr>"

definition tts_recover_expired :: "instant \<Rightarrow> (tts_db, nat \<times> nat) call" where
  "tts_recover_expired now db =
     (let db1 = sql_update (tts_requeue_due now) (tts_requeue_row now) db;
          db2 = sql_update (tts_ambiguous_due now) (tts_ambiguous_row now) db1
      in (Inr (sql_count (tts_requeue_due now) db, sql_count (tts_ambiguous_due now) db1), db2))"

definition tts_status :: "uuid \<Rightarrow> uuid \<Rightarrow> uuid \<Rightarrow> string \<Rightarrow> tts_db \<Rightarrow> tts_job result" where
  "tts_status job_id org ws user db =
     (case sql_first (tts_scoped job_id org ws user) db of
        None \<Rightarrow> Inl (LookupError ''tts_job_not_found'') | Some j \<Rightarrow> Inr j)"

section \<open>Transactions as steps\<close>

inductive tts_step :: "tts_db \<Rightarrow> tts_db \<Rightarrow> bool" where
  submitting: "tts_step db (snd (tts_submit now i q db))"
| claiming: "tts_step db (snd (tts_claim now locked w ls db))"
| claiming_exact: "tts_step db (snd (tts_claim_exact now i w ls db))"
| starting: "tts_step db (snd (mark_provider_started now i w tok db))"
| chunking: "tts_step db (snd (record_chunk now i w tok nbytes db))"
| completing: "tts_step db (snd (tts_complete now i w tok db))"
| failing: "tts_step db (snd (mark_ambiguous now i w tok f db))"
| stopping: "tts_step db (snd (mark_cancelled_streaming now i w tok db))"
| cancelling: "tts_step db (snd (tts_cancel now i org ws user db))"
| recovering: "tts_step db (snd (tts_recover_expired now db))"

text \<open>
  The specification of a job's life: the transitions a transaction may make, with four terminal
  states. Every transaction is shown to move each row along it or to leave its state alone.
\<close>

fun tts_allowed :: "tts_state \<Rightarrow> tts_state set" where
  "tts_allowed TQueued = {TClaimed, TCancelled}"
| "tts_allowed TClaimed = {TQueued, TProvider_starting, TCancelled}"
| "tts_allowed TProvider_starting = {TStreaming, TAmbiguous_provider_outcome, TCancelled}"
| "tts_allowed TStreaming = {TCompleted, TAmbiguous_provider_outcome, TCancelled}"
| "tts_allowed _ = {}"


definition tts_ok :: "tts_job \<Rightarrow> bool" where
  "tts_ok j \<longleftrightarrow>
     (t_state j \<in> {TQueued, TClaimed} \<longrightarrow> t_provider_request_started_at j = None)
     \<and> (tts_in_flight j \<longrightarrow> t_provider_request_started_at j \<noteq> None)
     \<and> (t_state j \<in> {TClaimed, TProvider_starting, TStreaming} \<longleftrightarrow> t_lease_owner j \<noteq> None)
     \<and> (t_lease_owner j = None \<longleftrightarrow> t_lease_expires_at j = None)
     \<and> (t_state j = TStreaming \<longrightarrow> t_first_chunk_at j \<noteq> None)
     \<and> 0 \<le> t_chunk_count j \<and> 0 \<le> t_audio_bytes j \<and> t_fencing_token j = t_attempt_count j"

definition tts_inv :: "tts_db \<Rightarrow> bool" where
  "tts_inv db \<longleftrightarrow> distinct (map t_id db) \<and> list_all tts_ok db"

definition tts_row_step :: "tts_job \<Rightarrow> tts_job \<Rightarrow> bool" where
  "tts_row_step j j' \<longleftrightarrow>
     t_id j' = t_id j \<and> t_request j' = t_request j \<and> t_fencing_token j \<le> t_fencing_token j'
     \<and> (t_state j' = t_state j \<or> t_state j' \<in> tts_allowed (t_state j))
     \<and> (t_provider_request_started_at j \<noteq> None \<longrightarrow>
          t_provider_request_started_at j' = t_provider_request_started_at j)"

definition tts_evolves :: "tts_db \<Rightarrow> tts_db \<Rightarrow> bool" where
  "tts_evolves db db' \<longleftrightarrow>
     (\<exists>g new. db' = map g db @ new \<and> (\<forall>j\<in>set db. (tts_row_step)\<^sup>*\<^sup>* j (g j)))"

text \<open>One \<open>UPDATE\<close> whose changed rows keep the row invariant.\<close>

lemma tts_update:
  assumes "tts_inv db" "\<And>j. j \<in> set db \<Longrightarrow> p j \<Longrightarrow> tts_ok j \<Longrightarrow> tts_ok (f j) \<and> tts_row_step j (f j)"
  shows "tts_inv (sql_update p f db) \<and> tts_evolves db (sql_update p f db)"
proof
  have ok: "\<forall>j\<in>set db. tts_ok j" using assms(1) by (simp add: tts_inv_def list_all_iff)
  have "map t_id (sql_update p f db) = map t_id db"
    using assms(2) ok by (auto simp: sql_update_def tts_row_step_def)
  then show "tts_inv (sql_update p f db)"
    using assms ok by (auto simp: tts_inv_def list_all_iff in_sql_update)
  show "tts_evolves db (sql_update p f db)"
    unfolding tts_evolves_def
    by (rule exI[of _ "\<lambda>j. if p j then f j else j"], rule exI[of _ "[]"])
       (use assms(2) ok in \<open>auto simp: sql_update_def\<close>)
qed

lemma tts_evolves_refl: "tts_evolves db db"
  unfolding tts_evolves_def by (intro exI[of _ id] exI[of _ "[]"]) simp

lemma tts_evolves_trans:
  assumes "tts_evolves a b" "tts_evolves b c"
  shows "tts_evolves a c"
proof -
  from assms(1) obtain g n where g: "b = map g a @ n" "\<forall>j\<in>set a. tts_row_step\<^sup>*\<^sup>* j (g j)"
    by (auto simp: tts_evolves_def)
  from assms(2) obtain h m where h: "c = map h b @ m" "\<forall>j\<in>set b. tts_row_step\<^sup>*\<^sup>* j (h j)"
    by (auto simp: tts_evolves_def)
  have "c = map (h \<circ> g) a @ (map h n @ m)" using g(1) h(1) by simp
  moreover have "\<forall>j\<in>set a. tts_row_step\<^sup>*\<^sup>* j ((h \<circ> g) j)"
    using g h by (auto intro: rtranclp_trans)
  ultimately show ?thesis unfolding tts_evolves_def by blast
qed

lemmas tts_row_defs = tts_ok_def tts_row_step_def tts_in_flight_def

lemma tts_cancel_row_ok:
  assumes "tts_ok j" "t_state j \<notin> {TCompleted, TFailed, TCancelled, TAmbiguous_provider_outcome}"
  shows "tts_ok (j\<lparr>t_cancellation_at := Some now, t_state := TCancelled, t_lease_owner := None,
                   t_lease_expires_at := None, t_updated_at := now\<rparr>)
       \<and> tts_row_step j (j\<lparr>t_cancellation_at := Some now, t_state := TCancelled, t_lease_owner := None,
                   t_lease_expires_at := None, t_updated_at := now\<rparr>)"
  using assms by (cases "t_state j") (simp_all add: tts_row_defs)

lemma tts_step_inv: "tts_step db db' \<Longrightarrow> tts_inv db \<Longrightarrow> tts_inv db' \<and> tts_evolves db db'"
proof (induction rule: tts_step.induct)
  case (submitting db now i q)
  have app: "tts_inv (db @ [tts_new now i q]) \<and> tts_evolves db (db @ [tts_new now i q])" if "i \<notin> set (map t_id db)"
  proof
    show "tts_inv (db @ [tts_new now i q])"
      using submitting that by (simp add: tts_inv_def tts_new_def tts_row_defs)
    show "tts_evolves db (db @ [tts_new now i q])"
      unfolding tts_evolves_def by (intro exI[of _ id] exI[of _ "[tts_new now i q]"]) simp
  qed
  show ?case
    using submitting app by (auto simp: tts_submit_def tts_evolves_refl split: option.splits)
next
  case (claiming db now locked w ls)
  show ?case
  proof (cases "first_by (\<lambda>j. (t_created_at j, t_id j)) (filter (\<lambda>j. tts_claimable j \<and> \<not> locked (t_id j)) db)")
    case None
    with claiming show ?thesis by (simp add: tts_claim_def tts_evolves_refl)
  next
    case (Some j)
    note j = first_by_Some[OF Some]
    have d: "distinct (map t_id db)" using claiming by (simp add: tts_inv_def)
    have uniq: "x = j" if "x \<in> set db" "t_id x = t_id j" for x
      using distinct_key_unique[OF d that(1) _ that(2)] j by simp
    have "tts_inv (sql_update (\<lambda>x. t_id x = t_id j) (tts_lease now w ls) db)
      \<and> tts_evolves db (sql_update (\<lambda>x. t_id x = t_id j) (tts_lease now w ls) db)"
      by (rule tts_update[OF claiming])
         (use j uniq in \<open>auto dest!: uniq simp: tts_claimable_def tts_lease_def tts_row_defs\<close>)
    with Some show ?thesis by (simp add: tts_claim_def)
  qed
next
  case (claiming_exact db now i w ls)
  then show ?case unfolding tts_claim_exact_def Let_def snd_conv
    by (rule tts_update) (auto simp: tts_claimable_def tts_lease_def tts_row_defs)
next
  case (starting db now i w tok)
  then show ?case unfolding mark_provider_started_def Let_def snd_conv
    by (rule tts_update) (auto simp: tts_holds_def tts_row_defs)
next
  case (chunking db now i w tok nbytes)
  show ?case
  proof (cases "sql_exists (\<lambda>j. tts_chunk_due now i w tok j \<and> t_audio_bytes j + nbytes < 0) db")
    case True
    with chunking show ?thesis by (simp add: record_chunk_def tts_evolves_refl)
  next
    case False
    have "tts_inv (sql_update (tts_chunk_due now i w tok) (tts_chunk_row now nbytes) db)
      \<and> tts_evolves db (sql_update (tts_chunk_due now i w tok) (tts_chunk_row now nbytes) db)"
      by (rule tts_update[OF chunking])
         (use False in \<open>auto simp: sql_exists_iff tts_chunk_due_def tts_chunk_row_def tts_row_defs
            not_less split: option.splits\<close>)
    with False show ?thesis by (simp add: record_chunk_def Let_def)
  qed
next
  case (completing db now i w tok)
  then show ?case unfolding tts_complete_def Let_def snd_conv
    by (rule tts_update) (auto simp: tts_row_defs)
next
  case (failing db now i w tok f)
  then show ?case unfolding mark_ambiguous_def Let_def snd_conv
    by (rule tts_update) (auto simp: tts_row_defs)
next
  case (stopping db now i w tok)
  then show ?case unfolding mark_cancelled_streaming_def Let_def snd_conv
    by (rule tts_update) (auto simp: tts_row_defs)
next
  case (cancelling db now i org ws user)
  then show ?case unfolding tts_cancel_def Let_def snd_conv
    by (rule tts_update) (rule tts_cancel_row_ok, simp_all)
next
  case (recovering db now)
  let ?db1 = "sql_update (tts_requeue_due now) (tts_requeue_row now) db"
  let ?db2 = "sql_update (tts_ambiguous_due now) (tts_ambiguous_row now) ?db1"
  have 1: "tts_inv ?db1 \<and> tts_evolves db ?db1"
    by (rule tts_update[OF recovering]) (auto simp: tts_requeue_due_def tts_requeue_row_def tts_row_defs)
  have 2: "tts_inv ?db2 \<and> tts_evolves ?db1 ?db2"
    by (rule tts_update[OF 1[THEN conjunct1]]) (auto simp: tts_ambiguous_due_def tts_ambiguous_row_def tts_row_defs)
  from 1 2 have "tts_inv ?db2 \<and> tts_evolves db ?db2" using tts_evolves_trans by metis
  then show ?case by (simp add: tts_recover_expired_def Let_def)
qed

lemma tts_steps_inv: "tts_step\<^sup>*\<^sup>* db db' \<Longrightarrow> tts_inv db \<Longrightarrow> tts_inv db' \<and> tts_evolves db db'"
proof (induction rule: rtranclp_induct)
  case base
  then show ?case by (simp add: tts_evolves_refl)
next
  case (step y z)
  then show ?case using tts_step_inv tts_evolves_trans by blast
qed

lemma tts_inv_empty: "tts_inv []"
  by (simp add: tts_inv_def)

lemma tts_row_steps_id: "tts_row_step\<^sup>*\<^sup>* j j' \<Longrightarrow> t_id j' = t_id j \<and> t_request j' = t_request j
     \<and> t_fencing_token j \<le> t_fencing_token j'
     \<and> (t_provider_request_started_at j \<noteq> None \<longrightarrow> t_provider_request_started_at j' = t_provider_request_started_at j)"
  by (induction rule: rtranclp_induct) (auto simp: tts_row_step_def)


lemma tts_evolves_row:
  assumes "tts_evolves db db'" "tts_inv db'" "j \<in> set db" "j' \<in> set db'" "t_id j' = t_id j"
  shows "tts_row_step\<^sup>*\<^sup>* j j'"
proof -
  from assms(1) obtain g new where g: "db' = map g db @ new" "\<forall>j\<in>set db. tts_row_step\<^sup>*\<^sup>* j (g j)"
    by (auto simp: tts_evolves_def)
  have "g j \<in> set db'" using assms(3) g(1) by simp
  moreover have "t_id (g j) = t_id j" using g(2) assms(3) tts_row_steps_id by blast
  moreover have "distinct (map t_id db')" using assms(2) by (simp add: tts_inv_def)
  ultimately have "g j = j'" using distinct_key_unique assms(4,5) by metis
  with g(2) assms(3) show ?thesis by auto
qed

section \<open>Fencing and idempotency\<close>









definition tts_entry ::
  "tts_db \<Rightarrow> uuid \<times> uuid \<times> string \<times> string \<times> string \<Rightarrow> (string \<times> uuid) option" where
  "tts_entry db k = map_option (\<lambda>j. (tq_request_sha256 (t_request j), t_id j))
     (sql_first (\<lambda>j. tts_key (t_request j) = k) db)"

definition tts_submit_q :: "instant \<times> uuid \<times> tts_request \<Rightarrow> (tts_db, tts_ref) call" where
  "tts_submit_q q = (case q of (now, i, r) \<Rightarrow> tts_submit now i r)"

lemma sql_first_append_Some: "sql_first p t = Some r \<Longrightarrow> sql_first p (t @ u) = Some r"
  unfolding sql_first_def by (induction t) auto

lemma sql_first_append_None: "sql_first p t = None \<Longrightarrow> sql_first p (t @ u) = sql_first p u"
  unfolding sql_first_def by (induction t) (auto split: if_splits)

interpretation tts_ledger: idempotency_ledger tts_submit_q "\<lambda>q. tts_key (snd (snd q))"
  "\<lambda>q. tq_request_sha256 (snd (snd q))" tts_entry tr_id
proof (unfold_locales, goal_cases)
  case (1 s q r s')
  then show ?case
    by (cases q) (auto simp: tts_submit_q_def tts_submit_def tts_entry_def sql_first_append_None
        tts_new_def split: if_splits option.splits; simp add: sql_first_def)
next
  case (2 s q d v r s')
  then show ?case
    by (cases q) (auto simp: tts_submit_q_def tts_submit_def tts_entry_def split: if_splits)
next
  case (3 s k e q)
  then show ?case
    by (cases q) (auto simp: tts_submit_q_def tts_submit_def tts_entry_def sql_first_append_Some
        split: option.splits)
qed

section \<open>Properties\<close>

definition tts_reachable :: "tts_db \<Rightarrow> bool" where
  "tts_reachable db \<longleftrightarrow> tts_step\<^sup>*\<^sup>* [] db"

lemma tts_reachable_inv: "tts_reachable db \<Longrightarrow> tts_inv db"
  using tts_steps_inv tts_inv_empty by (auto simp: tts_reachable_def)

text \<open>
  C9: The provider is asked at most once for a job: once a job's provider request has started,
  the job is never queued or claimed again, its start time never changes, and it stays with the
  same request; so no later claim can return it.
\<close>

theorem tts_provider_asked_once:
  assumes "tts_reachable db" "tts_step\<^sup>*\<^sup>* db db'" "j \<in> set db" "j' \<in> set db'" "t_id j' = t_id j"
    and "t_provider_request_started_at j \<noteq> None"
  shows "t_provider_request_started_at j' = t_provider_request_started_at j
       \<and> t_state j' \<notin> {TQueued, TClaimed} \<and> \<not> tts_claimable j'"
proof -
  have inv: "tts_inv db'" "tts_evolves db db'"
    using tts_steps_inv[OF assms(2) tts_reachable_inv[OF assms(1)]] by simp_all
  have "t_provider_request_started_at j' = t_provider_request_started_at j"
    using tts_row_steps_id[OF tts_evolves_row[OF inv(2,1) assms(3-5)]] assms(6) by simp
  moreover have "tts_ok j'" using inv(1) assms(4) by (simp add: tts_inv_def list_all_iff)
  ultimately show ?thesis using assms(6) by (auto simp: tts_ok_def tts_claimable_def)
qed



section \<open>A run\<close>

definition demo_tts :: tts_request where
  "demo_tts = \<lparr>tq_organization_id = 1, tq_workspace_id = 2, tq_requested_by = ''u'',
     tq_project_key = ''p'', tq_voice_alias = ''v'', tq_model_alias = ''m'', tq_output_profile = ''o'',
     tq_idempotency_key = ''k'', tq_correlation_id = ''c'', tq_request_sha256 = replicate 64 (CHR ''a''),
     tq_character_count = 5\<rparr>"

definition demo_tts_queued :: "int \<Rightarrow> int \<Rightarrow> tts_job" where
  "demo_tts_queued n u = (tts_new 0 1 demo_tts)\<lparr>t_attempt_count := n, t_fencing_token := n, t_updated_at := u\<rparr>"

definition demo_tts_claimed :: tts_db where
  "demo_tts_claimed = snd (tts_claim_exact 0 1 ''w'' 60 [demo_tts_queued 0 0])"

definition demo_tts_started :: tts_db where
  "demo_tts_started = snd (mark_provider_started 1 1 ''w'' 1 demo_tts_claimed)"

definition demo_tts_streaming :: tts_db where
  "demo_tts_streaming = snd (record_chunk 2 1 ''w'' 1 10 demo_tts_started)"

definition demo_tts_cancelled :: tts_db where
  "demo_tts_cancelled = snd (tts_cancel 3 1 1 2 ''u'' demo_tts_streaming)"

lemma demo_tts_submit: "snd (tts_submit 0 1 demo_tts []) = [demo_tts_queued 0 0]"
proof -
  have "tts_request_checks demo_tts" by code_simp
  then show ?thesis by (simp add: tts_submit_def sql_first_def demo_tts_queued_def tts_new_def)
qed

lemma demo_tts_steps:
  "tts_step\<^sup>*\<^sup>* [] [demo_tts_queued 0 0]" "tts_step\<^sup>*\<^sup>* [demo_tts_queued 0 0] demo_tts_claimed"
  "tts_step\<^sup>*\<^sup>* demo_tts_claimed demo_tts_started" "tts_step\<^sup>*\<^sup>* demo_tts_started demo_tts_streaming"
  "tts_step\<^sup>*\<^sup>* demo_tts_streaming demo_tts_cancelled"
  unfolding demo_tts_submit[symmetric] demo_tts_claimed_def demo_tts_started_def demo_tts_streaming_def
    demo_tts_cancelled_def
  by (rule r_into_rtranclp, rule tts_step.intros)+

lemma demo_tts_reachable:
  "tts_reachable demo_tts_claimed" "tts_reachable demo_tts_started" "tts_reachable demo_tts_streaming"
  "tts_reachable demo_tts_cancelled"
  unfolding tts_reachable_def using demo_tts_steps by (meson rtranclp_trans)+

lemma demo_tts_rows:
  "map (\<lambda>j. (t_id j, t_state j, t_provider_request_started_at j)) demo_tts_started = [(1, TProvider_starting, Some 1)]"
  "map (\<lambda>j. (t_id j, t_state j, t_provider_request_started_at j)) demo_tts_cancelled = [(1, TCancelled, Some 1)]"
  by code_simp+

lemma demo_tts_pair:
  obtains j j' where "demo_tts_started = [j]" "demo_tts_cancelled = [j']" "t_id j = t_id j'"
    "t_state j = TProvider_starting" "t_state j' = TCancelled" "t_provider_request_started_at j = Some 1"
  using demo_tts_rows by (auto simp: map_eq_Cons_conv)

theorem tts_provider_asked_once_witness:
  "\<exists>j\<in>set demo_tts_started. \<exists>j'\<in>set demo_tts_cancelled. t_provider_request_started_at j \<noteq> None
     \<and> t_provider_request_started_at j' = t_provider_request_started_at j \<and> \<not> tts_claimable j'"
proof -
  obtain j j' where j: "demo_tts_started = [j]" "demo_tts_cancelled = [j']" "t_id j = t_id j'"
    "t_provider_request_started_at j = Some 1" by (rule demo_tts_pair)
  have "tts_step\<^sup>*\<^sup>* demo_tts_started demo_tts_cancelled" using demo_tts_steps by (meson rtranclp_trans)
  moreover have m: "j \<in> set demo_tts_started" "j' \<in> set demo_tts_cancelled" unfolding j(1,2) by simp_all
  ultimately show ?thesis
    using tts_provider_asked_once[OF demo_tts_reachable(2) _ m] j(3-) by (intro bexI[OF _ m(1)] bexI[OF _ m(2)]) auto
qed





end
