(* ===== verification/Callbacks.thy ===== *)
theory Callbacks
  imports Python
begin

text \<open>
  The callback registry: the aggregate rules of \<open>app/core/callbacks.py\<close>, the row-level security
  context of \<open>app/core/callback_rls.py\<close> and migration 0052, the endpoints of
  \<open>app/api/v1/callbacks.py\<close>, the scheduler \<open>app/callback_scheduler.py\<close> and the popup worker
  \<open>app/workers/callback_realtime.py\<close>, on the tables \<open>callback_record\<close>, \<open>callback_event\<close> and
  \<open>callback_delivery\<close>. Callbacks are identified by their primary key; the surrogate keys of
  events and deliveries, which no statement reads, are left out.
\<close>

section \<open>Aggregate rules\<close>

datatype cb_state = CB_DRAFT | CB_SCHEDULED | CB_REMINDER_PENDING | CB_READY | CB_DUE
  | CB_IN_PROGRESS | CB_SNOOZED | CB_RESCHEDULED | CB_MISSED | CB_ESCALATED | CB_FAILED
  | CB_BLOCKED_COMPLIANCE | CB_COMPLETED | CB_CANCELLED

definition CB_TERMINAL :: "cb_state set" where
  "CB_TERMINAL = {CB_COMPLETED, CB_CANCELLED}"

fun CB_TRANSITIONS :: "cb_state \<Rightarrow> cb_state set" where
  "CB_TRANSITIONS CB_DRAFT = {CB_SCHEDULED, CB_CANCELLED, CB_BLOCKED_COMPLIANCE}"
| "CB_TRANSITIONS CB_SCHEDULED = {CB_REMINDER_PENDING, CB_READY, CB_DUE, CB_SNOOZED,
     CB_RESCHEDULED, CB_CANCELLED, CB_BLOCKED_COMPLIANCE}"
| "CB_TRANSITIONS CB_REMINDER_PENDING = {CB_READY, CB_DUE, CB_SNOOZED, CB_RESCHEDULED,
     CB_CANCELLED, CB_FAILED}"
| "CB_TRANSITIONS CB_READY = {CB_DUE, CB_SNOOZED, CB_RESCHEDULED, CB_CANCELLED}"
| "CB_TRANSITIONS CB_DUE = {CB_IN_PROGRESS, CB_SNOOZED, CB_RESCHEDULED, CB_MISSED, CB_CANCELLED}"
| "CB_TRANSITIONS CB_IN_PROGRESS = {CB_COMPLETED, CB_FAILED, CB_RESCHEDULED}"
| "CB_TRANSITIONS CB_SNOOZED = {CB_REMINDER_PENDING, CB_READY, CB_DUE, CB_RESCHEDULED,
     CB_CANCELLED}"
| "CB_TRANSITIONS CB_RESCHEDULED = {CB_REMINDER_PENDING, CB_READY, CB_DUE, CB_SNOOZED,
     CB_CANCELLED}"
| "CB_TRANSITIONS CB_MISSED = {CB_ESCALATED, CB_IN_PROGRESS, CB_RESCHEDULED, CB_CANCELLED}"
| "CB_TRANSITIONS CB_ESCALATED = {CB_IN_PROGRESS, CB_RESCHEDULED, CB_CANCELLED, CB_FAILED}"
| "CB_TRANSITIONS CB_FAILED = {CB_SCHEDULED, CB_CANCELLED}"
| "CB_TRANSITIONS CB_BLOCKED_COMPLIANCE = {CB_SCHEDULED, CB_CANCELLED}"
| "CB_TRANSITIONS CB_COMPLETED = {}"
| "CB_TRANSITIONS CB_CANCELLED = {}"

fun cb_name :: "cb_state \<Rightarrow> string" where
  "cb_name CB_DRAFT = ''DRAFT''"
| "cb_name CB_SCHEDULED = ''SCHEDULED''"
| "cb_name CB_REMINDER_PENDING = ''REMINDER_PENDING''"
| "cb_name CB_READY = ''READY''"
| "cb_name CB_DUE = ''DUE''"
| "cb_name CB_IN_PROGRESS = ''IN_PROGRESS''"
| "cb_name CB_SNOOZED = ''SNOOZED''"
| "cb_name CB_RESCHEDULED = ''RESCHEDULED''"
| "cb_name CB_MISSED = ''MISSED''"
| "cb_name CB_ESCALATED = ''ESCALATED''"
| "cb_name CB_FAILED = ''FAILED''"
| "cb_name CB_BLOCKED_COMPLIANCE = ''BLOCKED_COMPLIANCE''"
| "cb_name CB_COMPLETED = ''COMPLETED''"
| "cb_name CB_CANCELLED = ''CANCELLED''"

definition normalized_phone :: "string \<Rightarrow> string result" where
  "normalized_phone v =
     (let r = CHR ''+'' # filter is_digit v
      in if \<not> (8 \<le> length r \<and> length r \<le> 16) then Inl (ValueError ''invalid phone number'')
         else Inr r)"

text \<open>
  A \<open>datetime\<close> with its own offset, as the request gives it: the instant and the offset from
  UTC. \<open>zone name\<close> is the offset function of \<open>ZoneInfo(name)\<close>, or \<open>None\<close> when there is no such
  zone.
\<close>

datatype offset_time = No_offset int | Offset instant int

type_synonym zones = "string \<Rightarrow> (instant \<Rightarrow> int) option"

definition canonical_time :: "zones \<Rightarrow> offset_time \<Rightarrow> string \<Rightarrow> instant result" where
  "canonical_time zone v timezone =
     (case zone timezone of
        None \<Rightarrow> Inl (ValueError ''unknown customer timezone'')
      | Some utcoffset \<Rightarrow>
          (case v of
             No_offset _ \<Rightarrow> Inl (ValueError ''scheduled_at must include UTC offset'')
           | Offset t off \<Rightarrow>
               if utcoffset t \<noteq> off
               then Inl (ValueError ''scheduled_at offset does not match customer_timezone'')
               else Inr t))"

definition reminders :: "instant \<Rightarrow> instant \<times> instant \<times> instant" where
  "reminders scheduled_at =
     (scheduled_at - hours 24, scheduled_at - hours 1, scheduled_at - minutes 15)"

record compliance =
  consent :: bool
  dnc :: bool
  suppressed :: bool
  within_calling_hours :: bool
  campaign_allowed :: bool

definition compliance_state :: "compliance \<Rightarrow> cb_state \<times> (string \<times> bool) list" where
  "compliance_state c =
     (let checks = [(''consent'', consent c), (''dnc_clear'', \<not> dnc c),
                    (''suppression_clear'', \<not> suppressed c),
                    (''calling_hours'', within_calling_hours c),
                    (''campaign_allowed'', campaign_allowed c)]
      in (if list_all snd checks then CB_SCHEDULED else CB_BLOCKED_COMPLIANCE, checks))"

definition cb_transition :: "cb_state \<Rightarrow> cb_state \<Rightarrow> unit result" where
  "cb_transition current target =
     (if target \<notin> CB_TRANSITIONS current
      then Inl (Conflict (''invalid callback transition '' @ cb_name current @ '' -> '' @ cb_name target))
      else Inr ())"

section \<open>Tables\<close>

record cb_record =
  r_id :: uuid
  r_tenant_id :: string
  r_campaign_id :: string
  r_contact_id :: "string option"
  r_lead_id :: "string option"
  r_opportunity_id :: "string option"
  r_original_call_id :: "string option"
  r_original_linkedid :: "string option"
  r_assigned_agent_id :: "string option"
  r_assigned_user_id :: "string option"
  r_assigned_team_id :: "string option"
  r_supervisor_id :: "string option"
  r_phone_number :: string
  r_normalized_phone :: string
  r_scheduled_at :: instant
  r_customer_timezone :: string
  r_priority :: string
  r_reason :: string
  r_notes :: string
  r_state :: cb_state
  r_desired_state :: cb_state
  r_actual_state :: cb_state
  r_reminder_email_enabled :: bool
  r_reminder_popup_enabled :: bool
  r_email_reminder_1_at :: "instant option"
  r_email_reminder_2_at :: "instant option"
  r_popup_reminder_at :: "instant option"
  r_attempt_count :: int
  r_max_attempts :: int
  r_last_attempt_at :: "instant option"
  r_next_attempt_at :: "instant option"
  r_completed_at :: "instant option"
  r_cancelled_at :: "instant option"
  r_completion_disposition :: "string option"
  r_completion_notes :: "string option"
  r_correlation_id :: string
  r_idempotency_key :: string
  r_request_hash :: string
  r_version :: int
  r_sync_state :: string
  r_compliance_json :: "(string \<times> bool) list"
  r_context_json :: "(string \<times> json) list"
  r_created_by :: string
  r_created_at :: instant
  r_updated_at :: instant

record cb_event =
  e_callback_id :: uuid
  e_tenant_id :: string
  e_campaign_id :: string
  e_event_type :: string
  e_version :: int
  e_idempotency_key :: string
  e_correlation_id :: string
  e_actor_id :: string
  e_payload_json :: "(string \<times> json) list"
  e_occurred_at :: instant

datatype cb_channel = CH_EMAIL | CH_POPUP

datatype cb_status = DL_QUEUED | DL_RETRY_PENDING | DL_ACCEPTED | DL_DELIVERED | DL_BOUNCED
  | DL_FAILED | DL_STALE_CANCELLED

record cb_delivery =
  d_callback_id :: uuid
  d_callback_version :: int
  d_channel :: cb_channel
  d_stage :: string
  d_idempotency_key :: string
  d_status :: cb_status
  d_message_id :: "uuid option"
  d_provider_message_id :: "string option"
  d_attempt_count :: nat
  d_last_error_code :: "string option"
  d_next_attempt_at :: "instant option"

text \<open>The rows of \<open>notification_command\<close> that the callback endpoints insert.\<close>

record cb_command =
  nc_id :: uuid
  nc_schema_version :: string
  nc_command_id :: string
  nc_command_type :: string
  nc_idempotency_key :: string
  nc_correlation_id :: string
  nc_causation_id :: string
  nc_organization_id :: string
  nc_business_unit_id :: string
  nc_campaign_id :: string
  nc_lead_id :: "string option"
  nc_customer_id :: string
  nc_channel :: string
  nc_template_id :: string
  nc_template_version :: int
  nc_sender_profile_id :: string
  nc_destination_token :: string
  nc_destination_classification :: string
  nc_consent_evidence_id :: string
  nc_suppression_version :: string
  nc_policy_version :: string
  nc_policy_hash :: string
  nc_requested_by :: string
  nc_approved_by :: string
  nc_requested_at :: instant
  nc_not_before :: "instant option"
  nc_expires_at :: instant
  nc_timezone :: string
  nc_quiet_hours_policy :: string
  nc_rate_limit_bucket :: string
  nc_cost_limit_bucket :: string
  nc_pii_classification :: string
  nc_payload_hash :: string
  nc_template_variables :: string
  nc_status :: string
  nc_version :: int
  nc_attempt_count :: int

record cb_db =
  records :: "cb_record list"
  events :: "cb_event list"
  deliveries :: "cb_delivery list"
  commands :: "cb_command list"

definition cb_empty :: cb_db where
  "cb_empty = \<lparr>records = [], events = [], deliveries = [], commands = []\<rparr>"

text \<open>The keys and checks PostgreSQL enforces on each table.\<close>

definition record_constraints :: "cb_record list \<Rightarrow> bool" where
  "record_constraints t \<longleftrightarrow>
     distinct (map r_id t) \<and> distinct (map (\<lambda>r. (r_tenant_id r, r_idempotency_key r)) t)
     \<and> list_all (\<lambda>r. (r_assigned_agent_id r \<noteq> None \<or> r_assigned_team_id r \<noteq> None)
                     \<and> 1 \<le> r_version r \<and> 0 \<le> r_attempt_count r \<and> 1 \<le> r_max_attempts r) t"

definition event_constraints :: "cb_event list \<Rightarrow> bool" where
  "event_constraints t \<longleftrightarrow>
     distinct (map (\<lambda>e. (e_callback_id e, e_version e, e_event_type e)) t)
     \<and> distinct (map (\<lambda>e. (e_tenant_id e, e_idempotency_key e)) t)"

definition delivery_constraints :: "cb_delivery list \<Rightarrow> bool" where
  "delivery_constraints t \<longleftrightarrow>
     distinct (map d_idempotency_key t)
     \<and> distinct (map (\<lambda>d. (d_callback_id d, d_callback_version d, d_channel d, d_stage d)) t)"

definition cb_constraints :: "cb_db \<Rightarrow> bool" where
  "cb_constraints db \<longleftrightarrow>
     record_constraints (records db) \<and> event_constraints (events db)
     \<and> delivery_constraints (deliveries db)"

text \<open>A transaction that violates a constraint leaves the database as it was.\<close>

definition cb_commit :: "cb_db \<Rightarrow> cb_db \<Rightarrow> 'a \<Rightarrow> 'a result \<times> cb_db" where
  "cb_commit db db' a =
     (if cb_constraints db' then (Inr a, db') else (Inl (IntegrityError ''callback''), db))"

section \<open>Row-level security\<close>

datatype cb_role = R_owner | R_call_center_admin | R_campaign_manager | R_supervisor | R_qa
  | R_agent | R_service | R_scheduler

record cb_principal =
  p_actor :: string
  p_tenant :: string
  p_campaigns :: "string list"
  p_role :: cb_role
  p_teams :: "string list"

text \<open>
  The settings of the transaction. The campaigns and the teams are joined with commas into one
  setting and split again by the policy, so a name that contains a comma counts as its parts.
\<close>

record cb_ctx =
  cx_tenant :: string
  cx_campaigns :: string
  cx_actor :: string
  cx_role :: cb_role
  cx_teams :: string

fun split_comma :: "string \<Rightarrow> string list" where
  "split_comma [] = [[]]"
| "split_comma (c # s) =
     (if c = CHR '','' then [] # split_comma s
      else case split_comma s of [] \<Rightarrow> [[c]] | w # ws \<Rightarrow> (c # w) # ws)"

text \<open>\<open>string_to_array(NULLIF(setting, ''), ',')\<close>; no element is equal to any of \<open>NULL\<close>.\<close>

definition setting_array :: "string \<Rightarrow> string list" where
  "setting_array s = (if s = [] then [] else split_comma s)"

definition set_callback_rls_context ::
  "string \<Rightarrow> string list \<Rightarrow> string \<Rightarrow> cb_role \<Rightarrow> string list \<Rightarrow> cb_ctx result" where
  "set_callback_rls_context tenant campaign_ids actor role team_ids =
     (let campaigns = sort (remdups (filter (\<lambda>v. v \<noteq> []) campaign_ids));
          teams = sort (remdups (filter (\<lambda>v. v \<noteq> []) team_ids))
      in if tenant = [] \<or> campaigns = [] \<or> actor = []
         then Inl (ValueError ''complete callback RLS context is required'')
         else Inr \<lparr>cx_tenant = tenant, cx_campaigns = join '','' campaigns, cx_actor = actor,
                   cx_role = role, cx_teams = join '','' teams\<rparr>)"

definition callback_scope :: "cb_ctx \<Rightarrow> cb_record \<Rightarrow> bool" where
  "callback_scope x r \<longleftrightarrow>
     r_tenant_id r = cx_tenant x
     \<and> r_campaign_id r \<in> set (setting_array (cx_campaigns x))
     \<and> (cx_role x \<in> {R_service, R_scheduler, R_supervisor, R_campaign_manager,
                     R_call_center_admin, R_owner, R_qa}
        \<or> r_assigned_agent_id r = Some (cx_actor x)
        \<or> r_assigned_user_id r = Some (cx_actor x)
        \<or> (case r_assigned_team_id r of None \<Rightarrow> False
            | Some t \<Rightarrow> t \<in> set (setting_array (cx_teams x))))"

definition event_scope :: "cb_ctx \<Rightarrow> cb_event \<Rightarrow> bool" where
  "event_scope x e \<longleftrightarrow> e_tenant_id e = cx_tenant x"

text \<open>The delivery policy looks up the record, and sees it only through the record policy.\<close>

definition delivery_scope :: "cb_ctx \<Rightarrow> cb_db \<Rightarrow> cb_delivery \<Rightarrow> bool" where
  "delivery_scope x db d \<longleftrightarrow>
     sql_exists (\<lambda>r. callback_scope x r \<and> r_id r = d_callback_id d \<and> r_tenant_id r = cx_tenant x)
       (records db)"

section \<open>Identity and request bodies\<close>

text \<open>
  \<open>validate\<close> stands for the token check of \<open>KeycloakValidator\<close>: the claims of a token it
  accepts for a scope. An absent claim is \<open>None\<close>.
\<close>

record cb_claims =
  cl_roles :: "string list"
  cl_tenant_id :: "string option"
  cl_campaigns :: "string list"
  cl_preferred_username :: "string option"
  cl_sub :: "string option"
  cl_teams :: "string list"

definition principal_roles :: "(string \<times> cb_role) list" where
  "principal_roles =
     [(''owner'', R_owner), (''call_center_admin'', R_call_center_admin),
      (''campaign_manager'', R_campaign_manager), (''supervisor'', R_supervisor), (''qa'', R_qa),
      (''agent'', R_agent), (''service'', R_service)]"

definition principal ::
  "(string \<Rightarrow> string \<Rightarrow> cb_claims option) \<Rightarrow> bool \<Rightarrow> bool \<Rightarrow> string \<Rightarrow> cb_principal result" where
  "principal validate configured is_get authorization =
     (if \<not> startswith authorization ''Bearer ''
      then Inl (HTTPException 401 ''callback bearer identity required'')
      else
        case validate (if is_get then ''callbacks.read'' else ''callbacks.write'') (drop 7 authorization) of
          None \<Rightarrow> Inl (HTTPException (if configured then 403 else 503)
                                  ''callback identity validation failed'')
        | Some claims \<Rightarrow>
            (let role = map_option snd (find (\<lambda>v. fst v \<in> set (cl_roles claims)) principal_roles);
                 tenant = (case cl_tenant_id claims of None \<Rightarrow> [] | Some t \<Rightarrow> t)
             in case role of
                  None \<Rightarrow> Inl (HTTPException 403 ''scoped callback identity required'')
                | Some r \<Rightarrow>
                    if tenant = [] \<or> cl_campaigns claims = []
                    then Inl (HTTPException 403 ''scoped callback identity required'')
                    else Inr \<lparr>p_actor = (if falsy (cl_preferred_username claims)
                                         then case cl_sub claims of None \<Rightarrow> ''None'' | Some s \<Rightarrow> s
                                         else the (cl_preferred_username claims)),
                              p_tenant = tenant, p_campaigns = cl_campaigns claims, p_role = r,
                              p_teams = cl_teams claims\<rparr>))"

record create_callback =
  b_tenant_id :: string
  b_campaign_id :: string
  b_contact_id :: "string option"
  b_lead_id :: "string option"
  b_opportunity_id :: "string option"
  b_original_call_id :: "string option"
  b_original_linkedid :: "string option"
  b_assigned_agent_id :: "string option"
  b_assigned_user_id :: "string option"
  b_reminder_recipient_token :: "string option"
  b_assigned_team_id :: "string option"
  b_supervisor_id :: "string option"
  b_phone_number :: string
  b_scheduled_at :: offset_time
  b_customer_timezone :: string
  b_priority :: string
  b_reason :: string
  b_notes :: string
  b_reminder_email_enabled :: bool
  b_reminder_popup_enabled :: bool
  b_max_attempts :: int
  b_compliance :: compliance
  b_customer_context :: "(string \<times> json) list"

text \<open>The field constraints of \<open>CreateCallback\<close> on the stripped strings, and its validator.\<close>

definition length_in :: "int \<Rightarrow> int \<Rightarrow> string \<Rightarrow> bool" where
  "length_in lo hi s \<longleftrightarrow> lo \<le> int (length s) \<and> int (length s) \<le> hi"

definition optional :: "('a \<Rightarrow> bool) \<Rightarrow> 'a option \<Rightarrow> bool" where
  "optional p x \<longleftrightarrow> (case x of None \<Rightarrow> True | Some a \<Rightarrow> p a)"

definition create_valid :: "create_callback \<Rightarrow> bool" where
  "create_valid b \<longleftrightarrow>
     length_in 1 128 (b_tenant_id b) \<and> length_in 1 128 (b_campaign_id b)
     \<and> (case b_reminder_recipient_token b of None \<Rightarrow> True
        | Some t \<Rightarrow> startswith t ''identity://''
            \<and> match_class (\<lambda>c. is_ascii_alnum c \<or> one_of ''._:/-'' c) 8 240 (drop 11 t))
     \<and> length_in 7 32 (b_phone_number b) \<and> length_in 1 64 (b_customer_timezone b)
     \<and> b_priority b \<in> {''LOW'', ''NORMAL'', ''HIGH'', ''URGENT''}
     \<and> length_in 1 256 (b_reason b) \<and> length_in 0 8000 (b_notes b)
     \<and> 1 \<le> b_max_attempts b \<and> b_max_attempts b \<le> 20
     \<and> \<not> (falsy (b_assigned_agent_id b) \<and> falsy (b_assigned_team_id b))"

record cb_change =
  h_expected_version :: int
  h_scheduled_at :: "offset_time option"
  h_customer_timezone :: "string option"
  h_assigned_agent_id :: "string option"
  h_assigned_team_id :: "string option"
  h_reason :: "string option"
  h_notes :: "string option"
  h_completion_disposition :: "string option"
  h_completion_notes :: "string option"
  h_snooze_minutes :: "int option"

definition change_valid :: "cb_change \<Rightarrow> bool" where
  "change_valid h \<longleftrightarrow>
     1 \<le> h_expected_version h
     \<and> optional (length_in 0 256) (h_reason h) \<and> optional (length_in 0 8000) (h_notes h)
     \<and> optional (length_in 0 64) (h_completion_disposition h)
     \<and> optional (length_in 0 8000) (h_completion_notes h)
     \<and> optional (\<lambda>m. 5 \<le> m \<and> m \<le> 1440) (h_snooze_minutes h)"

record cb_delivery_result =
  dr_callback_version :: int
  dr_channel :: cb_channel
  dr_stage :: string
  dr_status :: cb_status
  dr_message_id :: "uuid option"
  dr_provider_message_id :: "string option"
  dr_error_code :: "string option"

definition delivery_result_valid :: "cb_delivery_result \<Rightarrow> bool" where
  "delivery_result_valid b \<longleftrightarrow>
     1 \<le> dr_callback_version b \<and> length_in 1 32 (dr_stage b)
     \<and> dr_status b \<in> {DL_QUEUED, DL_ACCEPTED, DL_DELIVERED, DL_BOUNCED, DL_FAILED}
     \<and> optional (length_in 0 128) (dr_provider_message_id b)
     \<and> optional (length_in 0 64) (dr_error_code b)"

text \<open>
  What the endpoints take from outside: the digest, \<open>model_dump(mode="json")\<close> of a body, the
  time zone database, and the settings of the email reminders.
\<close>

record cb_env =
  cbe_sha256 :: "string \<Rightarrow> string"
  cbe_dump :: "create_callback \<Rightarrow> json"
  cbe_zone :: zones
  cbe_email_command_enabled :: bool
  cbe_email_sender_profile_id :: string
  cbe_email_template_id :: string
  cbe_email_policy_hash :: string

definition cb_hash :: "cb_env \<Rightarrow> create_callback \<Rightarrow> string" where
  "cb_hash env b = cbe_sha256 env (json_canonical (cbe_dump env b))"

section \<open>Endpoints: shared steps\<close>

definition cb_scope :: "cb_principal \<Rightarrow> string \<Rightarrow> string \<Rightarrow> bool" where
  "cb_scope p tenant campaign \<longleftrightarrow> tenant = p_tenant p \<and> campaign \<in> set (p_campaigns p)"

record cb_view =
  v_id :: string
  v_tenant_id :: string
  v_campaign_id :: string
  v_assigned_agent_id :: "string option"
  v_assigned_user_id :: "string option"
  v_assigned_team_id :: "string option"
  v_scheduled_at :: instant
  v_customer_timezone :: string
  v_priority :: string
  v_reason :: string
  v_notes :: string
  v_state :: cb_state
  v_version :: int
  v_correlation_id :: string
  v_completion_disposition :: "string option"
  v_completion_notes :: "string option"
  v_customer_context :: "(string \<times> json) list"

definition view :: "cb_record \<Rightarrow> cb_view" where
  "view r =
     \<lparr>v_id = str_uuid (r_id r), v_tenant_id = r_tenant_id r, v_campaign_id = r_campaign_id r,
      v_assigned_agent_id = r_assigned_agent_id r, v_assigned_user_id = r_assigned_user_id r,
      v_assigned_team_id = r_assigned_team_id r, v_scheduled_at = r_scheduled_at r,
      v_customer_timezone = r_customer_timezone r, v_priority = r_priority r,
      v_reason = r_reason r, v_notes = r_notes r, v_state = r_state r, v_version = r_version r,
      v_correlation_id = r_correlation_id r,
      v_completion_disposition = r_completion_disposition r,
      v_completion_notes = r_completion_notes r, v_customer_context = r_context_json r\<rparr>"

definition tenant_context :: "cb_principal \<Rightarrow> cb_ctx result" where
  "tenant_context p =
     set_callback_rls_context (p_tenant p) (p_campaigns p) (p_actor p) (p_role p) (p_teams p)"

definition assigned_to :: "cb_principal \<Rightarrow> cb_record \<Rightarrow> bool" where
  "assigned_to p r \<longleftrightarrow>
     r_assigned_agent_id r = Some (p_actor p)
     \<or> (case r_assigned_team_id r of None \<Rightarrow> False | Some t \<Rightarrow> t \<in> set (p_teams p))"

definition cb_load :: "cb_ctx \<Rightarrow> cb_principal \<Rightarrow> uuid \<Rightarrow> cb_db \<Rightarrow> cb_record result" where
  "cb_load x p callback_id db =
     (case sql_first (\<lambda>r. callback_scope x r \<and> r_id r = callback_id) (records db) of
        None \<Rightarrow> Inl (HTTPException 404 ''callback not found'')
      | Some r \<Rightarrow>
          if \<not> cb_scope p (r_tenant_id r) (r_campaign_id r)
          then Inl (HTTPException 403 ''callback scope denied'')
          else if p_role p = R_agent \<and> \<not> assigned_to p r
          then Inl (HTTPException 403 ''callback assignment denied'')
          else Inr r)"

definition cb_event_of ::
  "instant \<Rightarrow> cb_record \<Rightarrow> string \<Rightarrow> string \<Rightarrow> string \<Rightarrow> (string \<times> json) list \<Rightarrow> string
   \<Rightarrow> cb_event" where
  "cb_event_of now r kind key actor payload correlation =
     \<lparr>e_callback_id = r_id r, e_tenant_id = r_tenant_id r, e_campaign_id = r_campaign_id r,
      e_event_type = kind, e_version = r_version r, e_idempotency_key = key,
      e_correlation_id = correlation, e_actor_id = actor, e_payload_json = payload,
      e_occurred_at = now\<rparr>"

definition cb_delivery_of ::
  "cb_record \<Rightarrow> cb_channel \<Rightarrow> string \<Rightarrow> string \<Rightarrow> uuid option \<Rightarrow> instant option \<Rightarrow> cb_delivery" where
  "cb_delivery_of r channel stage key message_id next_attempt_at =
     \<lparr>d_callback_id = r_id r, d_callback_version = r_version r, d_channel = channel,
      d_stage = stage, d_idempotency_key = key, d_status = DL_QUEUED, d_message_id = message_id,
      d_provider_message_id = None, d_attempt_count = 0, d_last_error_code = None,
      d_next_attempt_at = next_attempt_at\<rparr>"

text \<open>The keys \<open>callback:{id}:v{version}:...\<close>.\<close>

definition cb_key :: "cb_record \<Rightarrow> string \<Rightarrow> string" where
  "cb_key r suffix =
     ''callback:'' @ str_uuid (r_id r) @ '':v'' @ str_int (r_version r) @ '':'' @ suffix"

definition opt_json :: "string option \<Rightarrow> json" where
  "opt_json x = (case x of None \<Rightarrow> JNull | Some s \<Rightarrow> JStr s)"

section \<open>Creating a callback\<close>

definition email_variables :: "cb_record \<Rightarrow> (string \<times> json) list" where
  "email_variables r =
     [(''callback_uuid'', JStr (str_uuid (r_id r))), (''callback_version'', JInt (r_version r)),
      (''tenant'', JStr (r_tenant_id r)), (''campaign'', JStr (r_campaign_id r)),
      (''assigned_agent'', opt_json (r_assigned_agent_id r)),
      (''scheduled_at'', JStr (isoformat (r_scheduled_at r))),
      (''customer_timezone'', JStr (r_customer_timezone r)), (''reason'', JStr (r_reason r)),
      (''correlation_id'', JStr (r_correlation_id r))]"

definition email_command ::
  "cb_env \<Rightarrow> instant \<Rightarrow> cb_record \<Rightarrow> string \<Rightarrow> cb_principal \<Rightarrow> string \<Rightarrow> uuid \<Rightarrow> instant option
   \<Rightarrow> cb_command" where
  "email_command env now r destination p idempotency notification_id not_before =
     \<lparr>nc_id = notification_id, nc_schema_version = ''codestra.notification.v1'',
      nc_command_id = ''callback-email-'' @ str_uuid notification_id,
      nc_command_type = ''email.send'', nc_idempotency_key = idempotency,
      nc_correlation_id = r_correlation_id r, nc_causation_id = str_uuid (r_id r),
      nc_organization_id = r_tenant_id r, nc_business_unit_id = r_tenant_id r,
      nc_campaign_id = r_campaign_id r, nc_lead_id = r_lead_id r,
      nc_customer_id = or_else (r_contact_id r) ''INTERNAL'', nc_channel = ''EMAIL'',
      nc_template_id = cbe_email_template_id env, nc_template_version = 1,
      nc_sender_profile_id = cbe_email_sender_profile_id env, nc_destination_token = destination,
      nc_destination_classification = ''INTERNAL_AGENT'',
      nc_consent_evidence_id = ''callback:'' @ str_uuid (r_id r) @ '':compliance'',
      nc_suppression_version = ''callback-v1'', nc_policy_version = ''callback-v1'',
      nc_policy_hash = cbe_email_policy_hash env, nc_requested_by = p_actor p,
      nc_approved_by = p_actor p, nc_requested_at = now, nc_not_before = not_before,
      nc_expires_at = r_scheduled_at r + hours 1, nc_timezone = r_customer_timezone r,
      nc_quiet_hours_policy = ''internal-agent'', nc_rate_limit_bucket = ''callback-email-cod'',
      nc_cost_limit_bucket = ''callback-email-cod'', nc_pii_classification = ''INTERNAL_OPERATIONAL'',
      nc_payload_hash = cbe_sha256 env (json_canonical (JObj (email_variables r))),
      nc_template_variables = json_print False '','' '':'' (JObj (email_variables r)), nc_status = ''REQUESTED'',
      nc_version = 1, nc_attempt_count = 0\<rparr>"

definition queue_email_command ::
  "cb_env \<Rightarrow> instant \<Rightarrow> uuid \<times> uuid \<Rightarrow> cb_record \<Rightarrow> create_callback \<Rightarrow> cb_principal
   \<Rightarrow> (cb_db, unit) call" where
  "queue_email_command env now ids r b p db =
     (if \<not> r_reminder_email_enabled r \<or> \<not> cbe_email_command_enabled env then (Inr (), db)
      else if falsy (b_reminder_recipient_token b)
      then (Inl (HTTPException 422 ''internal reminder recipient identity required''), db)
      else if cbe_email_sender_profile_id env = [] \<or> length (cbe_email_policy_hash env) \<noteq> 64
      then (Inl (HTTPException 503 ''COD callback email identity is not configured''), db)
      else
        let dest = the (b_reminder_recipient_token b);
            k1 = cb_key r ''email:reminder_24h''; k2 = cb_key r ''email:reminder_1h'';
            t1 = r_email_reminder_1_at r; t2 = r_email_reminder_2_at r
        in (Inr (),
            db\<lparr>commands := commands db @ [email_command env now r dest p k1 (fst ids) t1,
                                          email_command env now r dest p k2 (snd ids) t2],
               deliveries := deliveries db
                 @ [cb_delivery_of r CH_EMAIL ''REMINDER_24H'' k1 (Some (fst ids)) t1,
                    cb_delivery_of r CH_EMAIL ''REMINDER_1H'' k2 (Some (snd ids)) t2]\<rparr>))"

definition new_record ::
  "instant \<Rightarrow> uuid \<Rightarrow> cb_principal \<Rightarrow> string \<Rightarrow> string \<Rightarrow> string \<Rightarrow> create_callback \<Rightarrow> instant
   \<Rightarrow> string \<Rightarrow> cb_record" where
  "new_record now rid p key correlation digest b scheduled phone =
     (let (state, checks) = compliance_state (b_compliance b);
          (r1, r2, pop) = reminders scheduled
      in \<lparr>r_id = rid, r_tenant_id = b_tenant_id b, r_campaign_id = b_campaign_id b,
          r_contact_id = b_contact_id b, r_lead_id = b_lead_id b,
          r_opportunity_id = b_opportunity_id b, r_original_call_id = b_original_call_id b,
          r_original_linkedid = b_original_linkedid b,
          r_assigned_agent_id = b_assigned_agent_id b, r_assigned_user_id = b_assigned_user_id b,
          r_assigned_team_id = b_assigned_team_id b, r_supervisor_id = b_supervisor_id b,
          r_phone_number = b_phone_number b, r_normalized_phone = phone,
          r_scheduled_at = scheduled, r_customer_timezone = b_customer_timezone b,
          r_priority = b_priority b, r_reason = b_reason b, r_notes = b_notes b,
          r_state = state, r_desired_state = state, r_actual_state = state,
          r_reminder_email_enabled = b_reminder_email_enabled b,
          r_reminder_popup_enabled = b_reminder_popup_enabled b,
          r_email_reminder_1_at = Some r1, r_email_reminder_2_at = Some r2,
          r_popup_reminder_at = Some pop, r_attempt_count = 0,
          r_max_attempts = b_max_attempts b, r_last_attempt_at = None,
          r_next_attempt_at = Some r1, r_completed_at = None, r_cancelled_at = None,
          r_completion_disposition = None, r_completion_notes = None,
          r_correlation_id = correlation, r_idempotency_key = key, r_request_hash = digest,
          r_version = 1, r_sync_state = ''PENDING'', r_compliance_json = checks,
          r_context_json = b_customer_context b, r_created_by = p_actor p,
          r_created_at = now, r_updated_at = now\<rparr>)"

fun exc_text :: "pyerr \<Rightarrow> string" where
  "exc_text (ValueError m) = m"
| "exc_text (Conflict m) = m"
| "exc_text _ = []"

record cb_create =
  cq_now :: instant
  cq_id :: uuid
  cq_notifications :: "uuid \<times> uuid"
  cq_principal :: cb_principal
  cq_key :: string
  cq_correlation :: string
  cq_body :: create_callback

definition create_schedule :: "cb_env \<Rightarrow> create_callback \<Rightarrow> (instant \<times> string) result" where
  "create_schedule env b =
     (case canonical_time (cbe_zone env) (b_scheduled_at b) (b_customer_timezone b) of
        Inl e \<Rightarrow> Inl (HTTPException 422 (exc_text e))
      | Inr scheduled \<Rightarrow>
          (case normalized_phone (b_phone_number b) of
             Inl e \<Rightarrow> Inl (HTTPException 422 (exc_text e))
           | Inr phone \<Rightarrow> Inr (scheduled, phone)))"

text \<open>The part of \<open>create\<close> from \<open>db.add(row)\<close> to the commit.\<close>

definition create_insert :: "cb_env \<Rightarrow> cb_ctx \<Rightarrow> cb_create \<Rightarrow> cb_record \<Rightarrow> (cb_db, cb_record) call" where
  "create_insert env x q r db =
     (if \<not> callback_scope x r then (Inl (RuntimeError ''row-level security policy''), db)
      else if \<not> record_constraints (records db @ [r])
      then (Inl (HTTPException 409 ''callback identity conflict''), db)
      else
        let ev = cb_event_of (cq_now q) r ''callback.created'' (cq_key q @ '':created'')
                   (p_actor (cq_principal q))
                   [(''state'', JStr (cb_name (r_state r))),
                    (''scheduled_at'', JStr (isoformat (r_scheduled_at r)))] (cq_correlation q);
            db1 = db\<lparr>records := records db @ [r], events := events db @ [ev]\<rparr>
        in case queue_email_command env (cq_now q) (cq_notifications q) r (cq_body q)
                  (cq_principal q) db1 of
             (Inl e, _) \<Rightarrow> (Inl e, db)
           | (Inr _, db2) \<Rightarrow>
               let db3 = (if r_reminder_popup_enabled r
                          then db2\<lparr>deliveries := deliveries db2
                                 @ [cb_delivery_of r CH_POPUP ''WARNING_15M'' (cb_key r ''popup:warning-15m'')
                                      None (r_popup_reminder_at r)]\<rparr>
                          else db2)
               in if cb_constraints db3 then (Inr r, db3)
                  else (Inl (HTTPException 409 ''callback event identity conflict''), db))"

definition create :: "cb_env \<Rightarrow> cb_create \<Rightarrow> (cb_db, cb_record) call" where
  "create env q db =
     (let p = cq_principal q; b = cq_body q; digest = cb_hash env b in
      if \<not> create_valid b then (Inl (HTTPException 422 ''validation error''), db)
      else if \<not> cb_scope p (b_tenant_id b) (b_campaign_id b)
      then (Inl (HTTPException 403 ''callback scope denied''), db)
      else case tenant_context p of
        Inl e \<Rightarrow> (Inl e, db)
      | Inr x \<Rightarrow>
          (case sql_first (\<lambda>r. callback_scope x r \<and> r_tenant_id r = p_tenant p
                              \<and> r_idempotency_key r = cq_key q) (records db) of
             Some prior \<Rightarrow>
               if r_request_hash prior \<noteq> digest
               then (Inl (HTTPException 409 ''idempotency payload conflict''), db)
               else (Inr prior, db)
           | None \<Rightarrow>
               (case create_schedule env b of
                  Inl e \<Rightarrow> (Inl e, db)
                | Inr (scheduled, phone) \<Rightarrow>
                    create_insert env x q
                      (new_record (cq_now q) (cq_id q) p (cq_key q) (cq_correlation q) digest b
                         scheduled phone) db)))"

text \<open>The response body of \<open>create\<close> is the view of the record.\<close>

definition create_response :: "cb_env \<Rightarrow> cb_create \<Rightarrow> (cb_db, cb_view) call" where
  "create_response env q db =
     (case create env q db of (Inl e, db') \<Rightarrow> (Inl e, db') | (Inr r, db') \<Rightarrow> (Inr (view r), db'))"

section \<open>Changing a callback\<close>

datatype cb_target = T_SNOOZED | T_RESCHEDULED | T_CANCELLED | T_COMPLETED | T_IN_PROGRESS
  | T_REASSIGNED | T_UPDATED

fun target_state :: "cb_target \<Rightarrow> cb_state option" where
  "target_state T_SNOOZED = Some CB_SNOOZED"
| "target_state T_RESCHEDULED = Some CB_RESCHEDULED"
| "target_state T_CANCELLED = Some CB_CANCELLED"
| "target_state T_COMPLETED = Some CB_COMPLETED"
| "target_state T_IN_PROGRESS = Some CB_IN_PROGRESS"
| "target_state T_REASSIGNED = None"
| "target_state T_UPDATED = None"

fun target_event :: "cb_target \<Rightarrow> string" where
  "target_event T_SNOOZED = ''callback.snoozed''"
| "target_event T_RESCHEDULED = ''callback.rescheduled''"
| "target_event T_CANCELLED = ''callback.cancelled''"
| "target_event T_COMPLETED = ''callback.completed''"
| "target_event T_IN_PROGRESS = ''callback.in_progress''"
| "target_event T_REASSIGNED = ''callback.reassigned''"
| "target_event T_UPDATED = ''callback.updated''"

definition reassign_check :: "cb_principal \<Rightarrow> cb_target \<Rightarrow> cb_change \<Rightarrow> unit result" where
  "reassign_check p target h =
     (if target \<noteq> T_REASSIGNED then Inr ()
      else if p_role p \<notin> {R_supervisor, R_campaign_manager, R_call_center_admin, R_owner}
      then Inl (HTTPException 403 ''reassignment role denied'')
      else if h_assigned_agent_id h = None \<and> h_assigned_team_id h = None
      then Inl (HTTPException 422 ''new agent or team is required'')
      else if (case h_assigned_team_id h of None \<Rightarrow> False
               | Some t \<Rightarrow> p_role p = R_supervisor \<and> t \<notin> set (p_teams p))
      then Inl (HTTPException 403 ''reassignment team scope denied'')
      else Inr ())"

definition mutate_schedule ::
  "cb_env \<Rightarrow> instant \<Rightarrow> cb_target \<Rightarrow> cb_change \<Rightarrow> cb_record \<Rightarrow> cb_record result" where
  "mutate_schedule env now target h r =
     (case target of
        T_SNOOZED \<Rightarrow>
          Inr (r\<lparr>r_scheduled_at := now + minutes (case h_snooze_minutes h of None \<Rightarrow> 5 | Some m \<Rightarrow> m)\<rparr>)
      | T_RESCHEDULED \<Rightarrow>
          (case h_scheduled_at h of
             None \<Rightarrow> Inl (HTTPException 422 ''schedule and timezone required'')
           | Some v \<Rightarrow>
               if falsy (h_customer_timezone h)
               then Inl (HTTPException 422 ''schedule and timezone required'')
               else case canonical_time (cbe_zone env) v (the (h_customer_timezone h)) of
                 Inl e \<Rightarrow> Inl (HTTPException 422 (exc_text e))
               | Inr t \<Rightarrow> Inr (r\<lparr>r_scheduled_at := t,
                                r_customer_timezone := the (h_customer_timezone h)\<rparr>))
      | _ \<Rightarrow> Inr r)"

definition mutate_transition :: "cb_target \<Rightarrow> cb_record \<Rightarrow> unit result" where
  "mutate_transition target r =
     (case target_state target of
        None \<Rightarrow> Inr ()
      | Some s \<Rightarrow> (case cb_transition (r_state r) s of
                     Inl e \<Rightarrow> Inl (HTTPException 409 (exc_text e)) | Inr _ \<Rightarrow> Inr ()))"

definition mutate_assign :: "cb_target \<Rightarrow> cb_change \<Rightarrow> cb_record \<Rightarrow> cb_record" where
  "mutate_assign target h r =
     (let r1 = (case h_assigned_agent_id h of None \<Rightarrow> r
                | Some a \<Rightarrow>
                    (let r' = r\<lparr>r_assigned_agent_id := Some a\<rparr>
                     in if target = T_REASSIGNED then r'\<lparr>r_assigned_team_id := h_assigned_team_id h\<rparr>
                        else r'))
      in case h_assigned_team_id h of None \<Rightarrow> r1
         | Some t \<Rightarrow>
             (let r' = r1\<lparr>r_assigned_team_id := Some t\<rparr>
              in if target = T_REASSIGNED \<and> h_assigned_agent_id h = None
                 then r'\<lparr>r_assigned_agent_id := None\<rparr> else r'))"

definition mutate_texts :: "cb_change \<Rightarrow> cb_record \<Rightarrow> cb_record" where
  "mutate_texts h r =
     r\<lparr>r_notes := (case h_notes h of None \<Rightarrow> r_notes r | Some n \<Rightarrow> n),
       r_reason := (case h_reason h of None \<Rightarrow> r_reason r | Some n \<Rightarrow> n)\<rparr>"

definition mutate_reminders :: "cb_target \<Rightarrow> cb_record \<Rightarrow> cb_record" where
  "mutate_reminders target r =
     (if target \<in> {T_SNOOZED, T_RESCHEDULED}
      then let (r1, r2, pop) = reminders (r_scheduled_at r)
           in r\<lparr>r_email_reminder_1_at := Some r1, r_email_reminder_2_at := Some r2,
                r_popup_reminder_at := Some pop\<rparr>
      else r)"

definition mutate_close :: "instant \<Rightarrow> cb_target \<Rightarrow> cb_change \<Rightarrow> cb_record \<Rightarrow> cb_record" where
  "mutate_close now target h r =
     (if target = T_COMPLETED
      then r\<lparr>r_completed_at := Some now, r_completion_disposition := h_completion_disposition h,
             r_completion_notes := h_completion_notes h\<rparr>
      else if target = T_CANCELLED then r\<lparr>r_cancelled_at := Some now\<rparr> else r)"

definition mutate_finish :: "instant \<Rightarrow> cb_target \<Rightarrow> cb_record \<Rightarrow> cb_record" where
  "mutate_finish now target r =
     (let effective = (case target_state target of None \<Rightarrow> r_state r | Some s \<Rightarrow> s)
      in r\<lparr>r_state := effective, r_desired_state := effective, r_actual_state := effective,
           r_version := r_version r + 1, r_sync_state := ''PENDING'', r_updated_at := now\<rparr>)"

definition cb_pending :: "cb_delivery \<Rightarrow> bool" where
  "cb_pending d \<longleftrightarrow> d_status d \<in> {DL_QUEUED, DL_RETRY_PENDING}"

definition cancel_delivery :: "cb_delivery \<Rightarrow> cb_delivery" where
  "cancel_delivery d = d\<lparr>d_status := DL_STALE_CANCELLED, d_next_attempt_at := None\<rparr>"

definition cancel_stale ::
  "cb_ctx \<Rightarrow> cb_target \<Rightarrow> int \<Rightarrow> uuid \<Rightarrow> cb_db \<Rightarrow> cb_delivery list" where
  "cancel_stale x target expected rid db =
     (if target \<in> {T_SNOOZED, T_RESCHEDULED, T_REASSIGNED, T_COMPLETED, T_CANCELLED}
      then sql_update (\<lambda>d. delivery_scope x db d \<and> d_callback_id d = rid
                          \<and> d_callback_version d \<le> expected \<and> cb_pending d) cancel_delivery
             (deliveries db)
      else deliveries db)"

definition assignment_json :: "cb_record \<Rightarrow> json" where
  "assignment_json r =
     JObj [(''agent_id'', opt_json (r_assigned_agent_id r)), (''team_id'', opt_json (r_assigned_team_id r))]"

definition mutate_payload :: "cb_target \<Rightarrow> cb_change \<Rightarrow> cb_record \<Rightarrow> cb_record \<Rightarrow> (string \<times> json) list" where
  "mutate_payload target h old r =
     [(''from_version'', JInt (h_expected_version h)), (''state'', JStr (cb_name (r_state r)))]
     @ (if target = T_REASSIGNED
        then [(''previous_assignment'', assignment_json old), (''new_assignment'', assignment_json r)]
        else [])"

record cb_mutation =
  mq_now :: instant
  mq_callback_id :: uuid
  mq_target :: cb_target
  mq_change :: cb_change
  mq_key :: string
  mq_correlation :: string
  mq_principal :: cb_principal

text \<open>The part of \<open>mutate\<close> after the schedule and the transition have been accepted.\<close>

definition mutate_store :: "cb_ctx \<Rightarrow> cb_mutation \<Rightarrow> cb_record \<Rightarrow> cb_record \<Rightarrow> (cb_db, cb_record) call" where
  "mutate_store x q old r0 db =
     (let target = mq_target q; h = mq_change q; now = mq_now q; r1 = mutate_assign target h r0 in
      if falsy (r_assigned_agent_id r1) \<and> falsy (r_assigned_team_id r1)
      then (Inl (HTTPException 422 ''callback cannot be orphaned''), db)
      else
        let r = mutate_finish now target (mutate_close now target h
                  (mutate_reminders target (mutate_texts h r1)));
            ev = cb_event_of now r (target_event target) (mq_key q) (p_actor (mq_principal q))
                   (mutate_payload target h old r) (mq_correlation q)
        in if \<not> callback_scope x r then (Inl (RuntimeError ''row-level security policy''), db)
           else cb_commit db
                  (db\<lparr>records := sql_update (\<lambda>a. r_id a = r_id old) (\<lambda>_. r) (records db),
                      events := events db @ [ev],
                      deliveries := cancel_stale x target (h_expected_version h) (r_id old) db\<rparr>) r)"

definition mutate :: "cb_env \<Rightarrow> cb_mutation \<Rightarrow> (cb_db, cb_record) call" where
  "mutate env q db =
     (let p = mq_principal q; h = mq_change q; target = mq_target q in
      if \<not> change_valid h then (Inl (HTTPException 422 ''validation error''), db)
      else case tenant_context p of
        Inl e \<Rightarrow> (Inl e, db)
      | Inr x \<Rightarrow>
      (case cb_load x p (mq_callback_id q) db of
        Inl e \<Rightarrow> (Inl e, db)
      | Inr r \<Rightarrow>
          if sql_exists (\<lambda>e. event_scope x e \<and> e_tenant_id e = p_tenant p
                            \<and> e_idempotency_key e = mq_key q) (events db)
          then (Inr r, db)
          else if r_version r \<noteq> h_expected_version h
          then (Inl (HTTPException 409 ''stale callback version''), db)
          else case reassign_check p target h of
            Inl e \<Rightarrow> (Inl e, db)
          | Inr _ \<Rightarrow>
          (case mutate_schedule env (mq_now q) target h r of
            Inl e \<Rightarrow> (Inl e, db)
          | Inr r0 \<Rightarrow>
          (case mutate_transition target r of
            Inl e \<Rightarrow> (Inl e, db)
          | Inr _ \<Rightarrow> mutate_store x q r r0 db))))"

section \<open>Delivery results and queries\<close>

definition result_row :: "instant \<Rightarrow> cb_delivery_result \<Rightarrow> cb_delivery \<Rightarrow> cb_delivery" where
  "result_row now b d =
     (let d1 = d\<lparr>d_status := dr_status b, d_message_id := dr_message_id b,
                 d_provider_message_id := dr_provider_message_id b,
                 d_last_error_code := dr_error_code b\<rparr>
      in if dr_status b = DL_FAILED
         then d1\<lparr>d_attempt_count := d_attempt_count d + 1,
                 d_next_attempt_at := Some (now + minutes (min 60 (2 ^ (d_attempt_count d + 1))))\<rparr>
         else d1\<lparr>d_next_attempt_at := None\<rparr>)"

definition result_match :: "cb_ctx \<Rightarrow> cb_db \<Rightarrow> uuid \<Rightarrow> cb_delivery_result \<Rightarrow> cb_delivery \<Rightarrow> bool" where
  "result_match x db callback_id b d \<longleftrightarrow>
     delivery_scope x db d \<and> d_callback_id d = callback_id
     \<and> d_callback_version d = dr_callback_version b \<and> d_channel d = dr_channel b
     \<and> d_stage d = dr_stage b"

definition callback_result ::
  "instant \<Rightarrow> uuid \<Rightarrow> cb_delivery_result \<Rightarrow> cb_principal \<Rightarrow> (cb_db, int \<times> cb_status) call" where
  "callback_result now callback_id b p db =
     (if \<not> delivery_result_valid b then (Inl (HTTPException 422 ''validation error''), db)
      else if p_role p \<noteq> R_service then (Inl (HTTPException 403 ''service identity required''), db)
      else case tenant_context p of
        Inl e \<Rightarrow> (Inl e, db)
      | Inr x \<Rightarrow>
      (case cb_load x p callback_id db of
        Inl e \<Rightarrow> (Inl e, db)
      | Inr r \<Rightarrow>
          if dr_callback_version b \<noteq> r_version r
          then (Inl (HTTPException 409 ''stale callback delivery result''), db)
          else if \<not> sql_exists (result_match x db callback_id b) (deliveries db)
          then (Inl (HTTPException 404 ''callback delivery not found''), db)
          else (Inr (r_version r, dr_status b),
                db\<lparr>deliveries := sql_update (result_match x db callback_id b) (result_row now b)
                                  (deliveries db)\<rparr>)))"

definition get_callback :: "uuid \<Rightarrow> cb_principal \<Rightarrow> cb_db \<Rightarrow> cb_view result" where
  "get_callback callback_id p db =
     (case tenant_context p of
        Inl e \<Rightarrow> Inl e
      | Inr x \<Rightarrow> (case cb_load x p callback_id db of Inl e \<Rightarrow> Inl e | Inr r \<Rightarrow> Inr (view r)))"

text \<open>The rows a list endpoint may return: the policy, the principal's scope, the assignment.\<close>

definition listed :: "cb_ctx \<Rightarrow> cb_principal \<Rightarrow> cb_record \<Rightarrow> bool" where
  "listed x p r \<longleftrightarrow>
     callback_scope x r \<and> r_tenant_id r = p_tenant p \<and> r_campaign_id r \<in> set (p_campaigns p)
     \<and> (p_role p = R_agent \<longrightarrow> assigned_to p r)"

definition due_callbacks :: "cb_principal \<Rightarrow> cb_db \<Rightarrow> cb_view list result" where
  "due_callbacks p db =
     (case tenant_context p of
        Inl e \<Rightarrow> Inl e
      | Inr x \<Rightarrow>
          Inr (map view (take 100 (sort_key r_scheduled_at
            (filter (\<lambda>r. listed x p r \<and> r_state r \<in> {CB_DUE, CB_MISSED, CB_ESCALATED}) (records db))))))"

text \<open>
  \<open>ORDER BY priority DESC, scheduled_at\<close>: a stable sort by time, then by descending text.
\<close>

definition sort_desc :: "('a \<Rightarrow> 'k::linorder) \<Rightarrow> 'a list \<Rightarrow> 'a list" where
  "sort_desc k xs = rev (sort_key k (rev xs))"

definition queue :: "string list \<Rightarrow> instant option \<Rightarrow> cb_principal \<Rightarrow> cb_db \<Rightarrow> cb_view list result" where
  "queue states due_before p db =
     (case tenant_context p of
        Inl e \<Rightarrow> Inl e
      | Inr x \<Rightarrow>
          Inr (map view (take 500 (sort_desc r_priority (sort_key r_scheduled_at
            (filter (\<lambda>r. listed x p r
                 \<and> (states = [] \<or> cb_name (r_state r) \<in> set states)
                 \<and> (case due_before of None \<Rightarrow> True | Some t \<Rightarrow> r_scheduled_at r \<le> t)) (records db)))))))"

section \<open>Dashboards\<close>

definition dash_rows :: "cb_ctx \<Rightarrow> cb_principal \<Rightarrow> cb_db \<Rightarrow> cb_record list" where
  "dash_rows x p db =
     take 5000 (filter (\<lambda>r. callback_scope x r \<and> r_tenant_id r = p_tenant p
                            \<and> r_campaign_id r \<in> set (p_campaigns p)) (records db))"

text \<open>\<open>d[k] = d[k] + n\<close> for a dict of counters, 0 when absent.\<close>

definition bump :: "string \<Rightarrow> int \<Rightarrow> (string \<times> int) list \<Rightarrow> (string \<times> int) list" where
  "bump k n d = dict_set k ((case map_of d k of None \<Rightarrow> 0 | Some v \<Rightarrow> v) + n) d"

definition bump_if :: "bool \<Rightarrow> string \<Rightarrow> int \<Rightarrow> (string \<times> int) list \<Rightarrow> (string \<times> int) list" where
  "bump_if b k n d = (if b then bump k n d else d)"

definition overdue :: "instant \<Rightarrow> cb_record \<Rightarrow> bool" where
  "overdue now r \<longleftrightarrow> r_scheduled_at r < now \<and> r_state r \<notin> {CB_COMPLETED, CB_CANCELLED}"

definition state_names :: "string list" where
  "state_names = [''TODAY'', ''UPCOMING'', ''DUE'', ''MISSED'', ''OVERDUE'', ''ESCALATED'', ''COMPLETED'']"

definition count_states :: "instant \<Rightarrow> cb_record \<Rightarrow> (string \<times> int) list \<Rightarrow> (string \<times> int) list" where
  "count_states now r d =
     bump_if (r_scheduled_at r < now
              \<and> r_state r \<in> {CB_SCHEDULED, CB_REMINDER_PENDING, CB_READY, CB_DUE}) ''OVERDUE'' 1
       (bump_if (cb_name (r_state r) \<in> set state_names) (cb_name (r_state r)) 1
         (bump_if (now < r_scheduled_at r \<and> r_state r \<notin> {CB_COMPLETED, CB_CANCELLED}) ''UPCOMING'' 1
           (bump_if (r_scheduled_at r div days 1 = now div days 1) ''TODAY'' 1 d)))"

definition agent_key :: "cb_record \<Rightarrow> string" where
  "agent_key r =
     (if falsy (r_assigned_agent_id r)
      then ''team:'' @ (case r_assigned_team_id r of None \<Rightarrow> ''None'' | Some t \<Rightarrow> t)
      else the (r_assigned_agent_id r))"

definition agent_zero :: "(string \<times> int) list" where
  "agent_zero = [(''scheduled'', 0), (''completed'', 0), (''missed'', 0), (''overdue'', 0),
                 (''lateness'', 0)]"

definition count_agent :: "instant \<Rightarrow> cb_record \<Rightarrow> (string \<times> int) list \<Rightarrow> (string \<times> int) list" where
  "count_agent now r d =
     bump ''lateness'' (case r_completed_at r of None \<Rightarrow> 0 | Some t \<Rightarrow> max 0 (t - r_scheduled_at r))
       (bump_if (overdue now r) ''overdue'' 1
         (bump_if (r_state r \<in> {CB_MISSED, CB_ESCALATED}) ''missed'' 1
           (bump_if (r_state r = CB_COMPLETED) ''completed'' 1
             (bump ''scheduled'' 1 d))))"

text \<open>\<open>d.setdefault(k, zero)\<close> followed by an update of the entry.\<close>

definition at_key :: "string \<Rightarrow> 'v \<Rightarrow> ('v \<Rightarrow> 'v) \<Rightarrow> (string \<times> 'v) list \<Rightarrow> (string \<times> 'v) list" where
  "at_key k zero f d = dict_set k (f (case map_of d k of None \<Rightarrow> zero | Some v \<Rightarrow> v)) d"

text \<open>
  The lateness of an agent is kept in microseconds, and the completion rate and the average
  lateness are the quotients of the counters returned here.
\<close>

definition supervisor_dashboard ::
  "instant \<Rightarrow> cb_principal \<Rightarrow> cb_db
   \<Rightarrow> ((string \<times> int) list \<times> (string \<times> (string \<times> int) list) list) result" where
  "supervisor_dashboard now p db =
     (if p_role p \<notin> {R_supervisor, R_campaign_manager, R_call_center_admin, R_owner}
      then Inl (HTTPException 403 ''supervisor callback visibility denied'')
      else case tenant_context p of
        Inl e \<Rightarrow> Inl e
      | Inr x \<Rightarrow>
          Inr (fold (count_states now) (dash_rows x p db) (map (\<lambda>k. (k, 0)) state_names),
               fold (\<lambda>r. at_key (agent_key r) agent_zero (count_agent now r)) (dash_rows x p db) []))"

definition campaign_keys :: "string list" where
  "campaign_keys = [''scheduled'', ''due'', ''completed'', ''missed'', ''cancelled'', ''rescheduled'', ''escalated'']"

definition count_campaign ::
  "instant \<Rightarrow> cb_record \<Rightarrow> (string \<times> int) list \<times> (string \<times> int) list
   \<Rightarrow> (string \<times> int) list \<times> (string \<times> int) list" where
  "count_campaign now r = (\<lambda>(counts, outcomes).
     let state = lower (cb_name (r_state r)) in
     (bump_if (overdue now r) ''overdue'' 1
        (if state \<in> set campaign_keys then bump state 1 counts else bump ''scheduled'' 1 counts),
      bump_if (\<not> falsy (r_completion_disposition r)) (the (r_completion_disposition r)) 1 outcomes))"

definition campaign_dashboard ::
  "instant \<Rightarrow> cb_principal \<Rightarrow> cb_db
   \<Rightarrow> (string \<times> (string \<times> int) list \<times> (string \<times> int) list) list result" where
  "campaign_dashboard now p db =
     (if p_role p \<notin> {R_supervisor, R_campaign_manager, R_call_center_admin, R_owner}
      then Inl (HTTPException 403 ''campaign callback visibility denied'')
      else case tenant_context p of
        Inl e \<Rightarrow> Inl e
      | Inr x \<Rightarrow>
          Inr (fold (\<lambda>r. at_key (r_campaign_id r)
                       (map (\<lambda>k. (k, 0)) (campaign_keys @ [''overdue'']), []) (count_campaign now r))
                 (dash_rows x p db) []))"

section \<open>The scheduler\<close>

text \<open>
  Each job of the scheduler selects the rows of one tenant and campaign, moves every selected row
  to the next state with its version raised, and inserts one event and the popup deliveries of
  that version; \<open>sched_apply\<close> is that loop. Rows another transaction has locked are skipped.
\<close>

definition sched_row :: "instant \<Rightarrow> cb_state \<Rightarrow> bool \<Rightarrow> cb_record \<Rightarrow> cb_record" where
  "sched_row now s pending r =
     r\<lparr>r_state := s, r_desired_state := s, r_actual_state := s, r_version := r_version r + 1,
       r_sync_state := (if pending then ''PENDING'' else r_sync_state r), r_updated_at := now\<rparr>"

definition sched_apply ::
  "(cb_record \<Rightarrow> cb_record) \<Rightarrow> (cb_record \<Rightarrow> cb_record \<Rightarrow> cb_event)
   \<Rightarrow> (cb_record \<Rightarrow> cb_delivery list) \<Rightarrow> cb_record list \<Rightarrow> cb_db \<Rightarrow> cb_db" where
  "sched_apply f ev dl rows db =
     db\<lparr>records := sql_update (\<lambda>r. r_id r \<in> set (map r_id rows)) f (records db),
        events := events db @ map (\<lambda>r. ev r (f r)) rows,
        deliveries := deliveries db
          @ concat (map (\<lambda>r. if r_reminder_popup_enabled r then dl (f r) else []) rows)\<rparr>"

definition claim_due_ready :: "instant \<Rightarrow> string \<Rightarrow> string \<Rightarrow> cb_record \<Rightarrow> bool" where
  "claim_due_ready now tenant campaign r \<longleftrightarrow>
     r_state r \<in> {CB_SCHEDULED, CB_REMINDER_PENDING, CB_READY, CB_SNOOZED, CB_RESCHEDULED}
     \<and> r_scheduled_at r \<le> now \<and> r_tenant_id r = tenant \<and> r_campaign_id r = campaign"

definition due_event :: "instant \<Rightarrow> string \<Rightarrow> cb_record \<Rightarrow> cb_record \<Rightarrow> cb_event" where
  "due_event now worker old r =
     cb_event_of now r ''callback.due'' (cb_key r ''due'') worker
       [(''previous_state'', JStr (cb_name (r_state old)))] (r_correlation_id r)"

definition due_deliveries :: "instant \<Rightarrow> cb_record \<Rightarrow> cb_delivery list" where
  "due_deliveries now r =
     [cb_delivery_of r CH_POPUP ''DUE'' (cb_key r ''popup:due'') None (Some now),
      cb_delivery_of r CH_POPUP ''AGENT_REMINDER_10M'' (cb_key r ''popup:agent-reminder'') None
        (Some (now + minutes 10))]"

definition claim_due ::
  "instant \<Rightarrow> (uuid \<Rightarrow> bool) \<Rightarrow> string \<Rightarrow> nat \<Rightarrow> string \<Rightarrow> string \<Rightarrow> (cb_db, cb_record list) call" where
  "claim_due now locked worker limit tenant campaign db =
     (if tenant = [] \<or> campaign = []
      then (Inl (ValueError ''tenant_id and campaign_id are required for callback scheduler RLS''), db)
      else case set_callback_rls_context tenant [campaign] worker R_scheduler [] of
        Inl e \<Rightarrow> (Inl e, db)
      | Inr x \<Rightarrow>
          let rows = take limit (sort_key r_scheduled_at (filter (\<lambda>r. callback_scope x r
                       \<and> claim_due_ready now tenant campaign r \<and> \<not> locked (r_id r)) (records db)));
              f = sched_row now CB_DUE True
          in cb_commit db (sched_apply f (due_event now worker) (due_deliveries now) rows db)
               (map f rows))"

definition missed_event :: "instant \<Rightarrow> string \<Rightarrow> int \<Rightarrow> cb_record \<Rightarrow> cb_record \<Rightarrow> cb_event" where
  "missed_event now worker grace old r =
     cb_event_of now r ''callback.missed'' (cb_key r ''missed'') worker
       [(''grace_minutes'', JInt grace)] (r_correlation_id r)"

definition mark_missed ::
  "instant \<Rightarrow> (uuid \<Rightarrow> bool) \<Rightarrow> string \<Rightarrow> int \<Rightarrow> string \<Rightarrow> string \<Rightarrow> (cb_db, nat) call" where
  "mark_missed now locked worker grace tenant campaign db =
     (if tenant = [] \<or> campaign = []
      then (Inl (ValueError ''tenant_id and campaign_id are required for missed detection RLS''), db)
      else case set_callback_rls_context tenant [campaign] worker R_scheduler [] of
        Inl e \<Rightarrow> (Inl e, db)
      | Inr x \<Rightarrow>
          let rows = filter (\<lambda>r. callback_scope x r \<and> r_state r = CB_DUE
                       \<and> r_scheduled_at r \<le> now - minutes grace \<and> r_tenant_id r = tenant
                       \<and> r_campaign_id r = campaign \<and> \<not> locked (r_id r)) (records db)
          in cb_commit db
               (sched_apply (sched_row now CB_MISSED False) (missed_event now worker grace)
                  (\<lambda>r. [cb_delivery_of r CH_POPUP ''MISSED'' (cb_key r ''popup:missed'') None (Some now)])
                  rows db) (length rows))"

definition escalated_event :: "instant \<Rightarrow> string \<Rightarrow> int \<Rightarrow> cb_record \<Rightarrow> cb_record \<Rightarrow> cb_event" where
  "escalated_event now worker m old r =
     cb_event_of now r ''callback.escalated'' (cb_key r ''escalated'') worker
       [(''escalation_minutes'', JInt m)] (r_correlation_id r)"

definition escalate_missed ::
  "instant \<Rightarrow> (uuid \<Rightarrow> bool) \<Rightarrow> string \<Rightarrow> int \<Rightarrow> string \<Rightarrow> string \<Rightarrow> (cb_db, nat) call" where
  "escalate_missed now locked worker m tenant campaign db =
     (if tenant = [] \<or> campaign = []
      then (Inl (ValueError ''tenant_id and campaign_id are required for escalation RLS''), db)
      else case set_callback_rls_context tenant [campaign] worker R_scheduler [] of
        Inl e \<Rightarrow> (Inl e, db)
      | Inr x \<Rightarrow>
          let rows = filter (\<lambda>r. callback_scope x r \<and> r_state r = CB_MISSED
                       \<and> r_scheduled_at r \<le> now - minutes m \<and> r_campaign_id r = campaign
                       \<and> \<not> locked (r_id r)) (records db)
          in cb_commit db
               (sched_apply (sched_row now CB_ESCALATED False) (escalated_event now worker m)
                  (\<lambda>r. [cb_delivery_of r CH_POPUP ''ESCALATED'' (cb_key r ''popup:escalated'') None (Some now)])
                  rows db) (length rows))"

record cb_report =
  orphan_assignments :: nat
  missing_current_version_events :: nat
  stale_deliveries_cancelled :: nat
  terminal_future_deliveries_cancelled :: nat

text \<open>\<open>callback_delivery JOIN callback_record\<close>: a delivery has one record.\<close>

definition joined :: "cb_ctx \<Rightarrow> (cb_delivery \<Rightarrow> cb_record \<Rightarrow> bool) \<Rightarrow> cb_db \<Rightarrow> cb_delivery \<Rightarrow> bool" where
  "joined x p db d \<longleftrightarrow>
     delivery_scope x db d
     \<and> sql_exists (\<lambda>r. callback_scope x r \<and> r_id r = d_callback_id d \<and> p d r) (records db)"

definition reconcile :: "string \<Rightarrow> string \<Rightarrow> (cb_db, cb_report) call" where
  "reconcile tenant campaign db =
     (if tenant = [] \<or> campaign = []
      then (Inl (ValueError ''tenant_id and campaign_id are required for callback reconciliation RLS''), db)
      else case set_callback_rls_context tenant [campaign] ''callback-reconciler'' R_scheduler [] of
        Inl e \<Rightarrow> (Inl e, db)
      | Inr x \<Rightarrow>
          let scope = (\<lambda>r. callback_scope x r \<and> r_tenant_id r = tenant \<and> r_campaign_id r = campaign);
              orphan = sql_count (\<lambda>r. scope r \<and> r_assigned_agent_id r = None
                                     \<and> r_assigned_team_id r = None) (records db);
              missing_outbox = sql_count (\<lambda>r. scope r
                   \<and> \<not> sql_exists (\<lambda>e. event_scope x e \<and> e_callback_id e = r_id r
                                       \<and> e_version e = r_version r) (events db)) (records db);
              completed_future = joined x (\<lambda>d r. scope r \<and> r_state r \<in> CB_TERMINAL \<and> cb_pending d) db;
              stale = joined x (\<lambda>d r. d_callback_version d < r_version r \<and> cb_pending d) db
          in (Inr \<lparr>orphan_assignments = orphan, missing_current_version_events = missing_outbox,
                   stale_deliveries_cancelled = sql_count stale (deliveries db),
                   terminal_future_deliveries_cancelled = sql_count completed_future (deliveries db)\<rparr>,
              db\<lparr>deliveries := sql_update (\<lambda>d. stale d \<or> completed_future d) cancel_delivery
                               (deliveries db)\<rparr>))"

section \<open>The popup worker\<close>

definition STAGE_EVENTS :: "(string \<times> string) list" where
  "STAGE_EVENTS =
     [(''WARNING'', ''callback.warning''), (''WARNING_15M'', ''callback.warning''),
      (''DUE'', ''callback.due''), (''MISSED'', ''callback.missed''),
      (''ESCALATED'', ''callback.escalated''), (''CANCELLED'', ''callback.cancelled''),
      (''COMPLETED'', ''callback.completed''), (''RESCHEDULED'', ''callback.rescheduled'')]"

text \<open>\<open>str.isdigit\<close> also holds of the superscripts U+00B2, U+00B3 and U+00B9.\<close>

definition py_isdigit :: "char \<Rightarrow> bool" where
  "py_isdigit c \<longleftrightarrow> is_digit c \<or> code c \<in> {178, 179, 185}"

definition masked_phone :: "string \<Rightarrow> string" where
  "masked_phone v =
     (let digits = filter py_isdigit v
      in if digits = [] then [] else ''***'' @ drop (length digits - 4) digits)"

definition popup_document :: "instant \<Rightarrow> cb_delivery \<Rightarrow> cb_record \<Rightarrow> json result" where
  "popup_document now d r =
     (case map_of STAGE_EVENTS (upper (d_stage d)) of
        None \<Rightarrow> Inl (ValueError ''unsupported callback delivery stage'')
      | Some event_type \<Rightarrow>
          if falsy (r_assigned_user_id r) \<or> falsy (r_assigned_agent_id r)
          then Inl (ValueError ''callback realtime target is incomplete'')
          else Inr (JObj
            [(''event_id'', JStr (d_idempotency_key d)), (''schema_version'', JStr ''1.0''),
             (''type'', JStr event_type), (''correlation_id'', JStr (r_correlation_id r)),
             (''timestamp'', JStr (isoformat now)), (''tenant_id'', JStr (r_tenant_id r)),
             (''business_unit_id'', JStr (r_tenant_id r)), (''campaign_id'', JStr (r_campaign_id r)),
             (''user_id'', opt_json (r_assigned_user_id r)),
             (''agent_id'', opt_json (r_assigned_agent_id r)),
             (''call_id'', opt_json (r_original_call_id r)), (''sequence'', JInt (r_version r)),
             (''payload'', JObj
               [(''callback_id'', JStr (str_uuid (r_id r))),
                (''callback_version'', JInt (r_version r)), (''state'', JStr (cb_name (r_state r))),
                (''scheduled_at'', JStr (isoformat (r_scheduled_at r))),
                (''customer_timezone'', JStr (r_customer_timezone r)),
                (''priority'', JStr (r_priority r)), (''reason'', JStr (r_reason r)),
                (''phone_masked'', JStr (masked_phone (r_phone_number r))),
                (''customer_context'', JObj (r_context_json r))])]))"

text \<open>
  What the gateway answers to one document: the event is accepted, the request fails with one of
  the exceptions the loop handles, or another exception ends the run before its commit.
\<close>

datatype gateway_reply = Gw_accepted | Gw_failed | Gw_raises string

record popup_counts =
  delivered :: nat
  retried :: nat
  stale_popups :: nat

definition popup_delivered :: "cb_delivery \<Rightarrow> cb_delivery" where
  "popup_delivered d =
     d\<lparr>d_status := DL_DELIVERED, d_provider_message_id := Some (d_idempotency_key d),
       d_next_attempt_at := None\<rparr>"

definition popup_retry :: "instant \<Rightarrow> cb_delivery \<Rightarrow> cb_delivery" where
  "popup_retry now d =
     d\<lparr>d_attempt_count := d_attempt_count d + 1, d_status := DL_RETRY_PENDING,
       d_last_error_code := Some ''WEBSOCKET_DELIVERY_FAILED'',
       d_next_attempt_at := Some (now + secs (min 300 (2 ^ min (d_attempt_count d + 1) 8)))\<rparr>"

definition popup_one ::
  "(json \<Rightarrow> gateway_reply) \<Rightarrow> instant \<Rightarrow> cb_delivery \<Rightarrow> cb_record \<Rightarrow> cb_delivery result" where
  "popup_one gateway now d r =
     (if d_callback_version d \<noteq> r_version r then Inr (cancel_delivery d)
      else case popup_document now d r of
        Inl _ \<Rightarrow> Inr (popup_retry now d)
      | Inr doc \<Rightarrow>
          (case gateway doc of
             Gw_accepted \<Rightarrow> Inr (popup_delivered d)
           | Gw_failed \<Rightarrow> Inr (popup_retry now d)
           | Gw_raises m \<Rightarrow> Inl (RuntimeError m)))"

fun popup_loop ::
  "(json \<Rightarrow> gateway_reply) \<Rightarrow> instant \<Rightarrow> (cb_delivery \<times> cb_record) list
   \<Rightarrow> cb_delivery list \<Rightarrow> popup_counts \<Rightarrow> (cb_delivery list \<times> popup_counts) result" where
  "popup_loop gateway now [] t n = Inr (t, n)"
| "popup_loop gateway now ((d, r) # rows) t n =
     (case popup_one gateway now d r of
        Inl e \<Rightarrow> Inl e
      | Inr d' \<Rightarrow>
          popup_loop gateway now rows
            (sql_update (\<lambda>a. d_idempotency_key a = d_idempotency_key d) (\<lambda>_. d') t)
            (case d_status d' of
               DL_STALE_CANCELLED \<Rightarrow> n\<lparr>stale_popups := stale_popups n + 1\<rparr>
             | DL_DELIVERED \<Rightarrow> n\<lparr>delivered := delivered n + 1\<rparr>
             | _ \<Rightarrow> n\<lparr>retried := retried n + 1\<rparr>))"

definition popup_due :: "instant \<Rightarrow> cb_delivery \<Rightarrow> bool" where
  "popup_due now d \<longleftrightarrow>
     d_channel d = CH_POPUP \<and> cb_pending d
     \<and> (case d_next_attempt_at d of None \<Rightarrow> False | Some t \<Rightarrow> t \<le> now)"

definition popup_rows ::
  "instant \<Rightarrow> (uuid \<Rightarrow> bool) \<Rightarrow> cb_ctx \<Rightarrow> string \<Rightarrow> string \<Rightarrow> cb_db \<Rightarrow> (cb_delivery \<times> cb_record) list" where
  "popup_rows now locked x tenant campaign db =
     concat (map (\<lambda>d. map (Pair d) (filter (\<lambda>r. callback_scope x r \<and> r_id r = d_callback_id d
                  \<and> r_tenant_id r = tenant \<and> r_campaign_id r = campaign \<and> \<not> locked (r_id r)) (records db)))
       (filter (\<lambda>d. delivery_scope x db d \<and> popup_due now d) (deliveries db)))"

definition deliver_callback_popups ::
  "(json \<Rightarrow> gateway_reply) \<Rightarrow> instant \<Rightarrow> (uuid \<Rightarrow> bool) \<Rightarrow> string \<Rightarrow> string \<Rightarrow> string \<Rightarrow> nat
   \<Rightarrow> (cb_db, popup_counts) call" where
  "deliver_callback_popups gateway now locked tenant campaign token_text limit db =
     (if tenant = [] \<or> campaign = []
      then (Inl (ValueError ''callback delivery requires tenant and campaign allowlists''), db)
      else if strip token_text = [] then (Inl (ValueError ''WebSocket gateway token is empty''), db)
      else case set_callback_rls_context tenant [campaign] ''callback-realtime-worker'' R_service [] of
        Inl e \<Rightarrow> (Inl e, db)
      | Inr x \<Rightarrow>
          let rows = take limit (sort_key (\<lambda>(d, r). the (d_next_attempt_at d))
                       (popup_rows now locked x tenant campaign db))
          in case popup_loop gateway now rows (deliveries db)
                    \<lparr>delivered = 0, retried = 0, stale_popups = 0\<rparr> of
               Inl e \<Rightarrow> (Inl e, db)
             | Inr (t, n) \<Rightarrow> (Inr n, db\<lparr>deliveries := t\<rparr>))"

end
