(* ===== verification/Callback_Safety.thy ===== *)
theory Callback_Safety
  imports Callbacks
begin

text \<open>
  What the transactions on the callback tables keep, whichever of them run and in whichever
  order: every version of a callback has exactly one event, states move along the table of
  permitted transitions, a finished callback has no reminder left to send, and no transaction
  touches a callback outside the tenant and the campaigns of its caller.
\<close>

section \<open>Transactions\<close>

text \<open>\<open>cb_acts env t cs db db'\<close>: a caller for tenant \<open>t\<close> and campaigns \<open>cs\<close> runs a transaction.\<close>

inductive cb_acts :: "cb_env \<Rightarrow> string \<Rightarrow> string list \<Rightarrow> cb_db \<Rightarrow> cb_db \<Rightarrow> bool"
  for env :: cb_env where
  act_create: "cb_acts env (p_tenant (cq_principal q)) (p_campaigns (cq_principal q)) db
                 (snd (create env q db))"
| act_mutate: "cb_acts env (p_tenant (mq_principal q)) (p_campaigns (mq_principal q)) db
                 (snd (mutate env q db))"
| act_result: "cb_acts env (p_tenant p) (p_campaigns p) db (snd (callback_result now i b p db))"
| act_claim_due: "cb_acts env t [c] db (snd (claim_due now locked worker limit t c db))"
| act_mark_missed: "cb_acts env t [c] db (snd (mark_missed now locked worker grace t c db))"
| act_escalate: "cb_acts env t [c] db (snd (escalate_missed now locked worker m t c db))"
| act_reconcile: "cb_acts env t [c] db (snd (reconcile t c db))"
| act_deliver: "cb_acts env t [c] db (snd (deliver_callback_popups gateway now locked t c tok limit db))"

definition cb_step :: "cb_env \<Rightarrow> cb_db \<Rightarrow> cb_db \<Rightarrow> bool" where
  "cb_step env db db' \<longleftrightarrow> (\<exists>t cs. cb_acts env t cs db db')"

definition cb_reachable :: "cb_env \<Rightarrow> cb_db \<Rightarrow> bool" where
  "cb_reachable env db \<longleftrightarrow> (cb_step env)\<^sup>*\<^sup>* cb_empty db"

section \<open>The invariant\<close>

definition versions :: "uuid \<Rightarrow> cb_event list \<Rightarrow> int list" where
  "versions i t = map e_version (filter (\<lambda>e. e_callback_id e = i) t)"

definition delivery_ok :: "cb_record \<Rightarrow> cb_delivery \<Rightarrow> bool" where
  "delivery_ok r d \<longleftrightarrow>
     d_callback_version d \<le> r_version r
     \<and> (r_state r \<in> CB_TERMINAL \<longrightarrow> \<not> cb_pending d \<and> d_callback_version d < r_version r)"

definition record_ok :: "cb_event list \<Rightarrow> cb_delivery list \<Rightarrow> cb_record \<Rightarrow> bool" where
  "record_ok evs dls r \<longleftrightarrow>
     \<not> (falsy (r_assigned_agent_id r) \<and> falsy (r_assigned_team_id r))
     \<and> r_desired_state r = r_state r \<and> r_actual_state r = r_state r
     \<and> 1 \<le> r_version r \<and> versions (r_id r) evs = [1..r_version r]
     \<and> (\<forall>e\<in>set evs. e_callback_id e = r_id r \<longrightarrow> e_tenant_id e = r_tenant_id r)
     \<and> (\<forall>d\<in>set dls. d_callback_id d = r_id r \<longrightarrow> delivery_ok r d)"

definition cb_inv :: "cb_db \<Rightarrow> bool" where
  "cb_inv db \<longleftrightarrow>
     cb_constraints db
     \<and> (\<forall>r\<in>set (records db). record_ok (events db) (deliveries db) r)
     \<and> (\<forall>e\<in>set (events db). e_callback_id e \<in> r_id ` set (records db))
     \<and> (\<forall>d\<in>set (deliveries db). d_callback_id d \<in> r_id ` set (records db))"

text \<open>How one transaction changes a row.\<close>

definition row_moved :: "cb_record \<Rightarrow> cb_record \<Rightarrow> bool" where
  "row_moved r r' \<longleftrightarrow>
     r_id r' = r_id r \<and> r_tenant_id r' = r_tenant_id r \<and> r_campaign_id r' = r_campaign_id r
     \<and> r_idempotency_key r' = r_idempotency_key r \<and> r_request_hash r' = r_request_hash r
     \<and> r_version r' = r_version r + 1
     \<and> (r_state r' = r_state r \<or> r_state r' \<in> CB_TRANSITIONS (r_state r))
     \<and> r_desired_state r' = r_state r' \<and> r_actual_state r' = r_state r'
     \<and> (\<not> (falsy (r_assigned_agent_id r) \<and> falsy (r_assigned_team_id r)) \<longrightarrow>
        \<not> (falsy (r_assigned_agent_id r') \<and> falsy (r_assigned_team_id r')))"

definition in_scope :: "string \<Rightarrow> string list \<Rightarrow> cb_record \<Rightarrow> bool" where
  "in_scope t cs r \<longleftrightarrow> r_tenant_id r = t \<and> r_campaign_id r \<in> set cs"

definition cb_evolves :: "string \<Rightarrow> string list \<Rightarrow> cb_db \<Rightarrow> cb_db \<Rightarrow> bool" where
  "cb_evolves t cs db db' \<longleftrightarrow>
     (\<exists>g new. records db' = map g (records db) @ new
        \<and> (\<forall>r\<in>set (records db). g r = r \<or> in_scope t cs r \<and> row_moved r (g r))
        \<and> (\<forall>r\<in>set new. in_scope t cs r))"

interpretation cb_life: transition_table CB_TRANSITIONS CB_TERMINAL
  by unfold_locales (auto simp: CB_TERMINAL_def)

lemma cb_evolves_refl [simp]: "cb_evolves t cs db db"
  unfolding cb_evolves_def by (rule exI[of _ "\<lambda>r. r"], rule exI[of _ "[]"]) simp

lemma cb_evolves_records: "records db' = records db \<Longrightarrow> cb_evolves t cs db db'"
  unfolding cb_evolves_def by (rule exI[of _ "\<lambda>r. r"], rule exI[of _ "[]"]) simp

lemma cb_inv_constraints: "cb_inv db \<Longrightarrow> cb_constraints db"
  by (simp add: cb_inv_def)

lemma cb_inv_ids: "cb_inv db \<Longrightarrow> distinct (map r_id (records db))"
  by (simp add: cb_inv_def cb_constraints_def record_constraints_def)

lemma versions_append: "versions i (t @ u) = versions i t @ versions i u"
  by (simp add: versions_def)

lemma upto_extend: "1 \<le> (n::int) \<Longrightarrow> [1..n + 1] = [1..n] @ [n + 1]"
  by (simp add: upto_rec2)

section \<open>Advancing rows\<close>

text \<open>
  Every transaction that changes a row raises its version by one, adds the event of the new
  version, and queues deliveries only for a version that is not final.
\<close>

definition advanced ::
  "(cb_record \<Rightarrow> cb_record) \<Rightarrow> (cb_record \<Rightarrow> cb_event) \<Rightarrow> (cb_delivery \<Rightarrow> cb_delivery)
   \<Rightarrow> cb_delivery list \<Rightarrow> cb_record list \<Rightarrow> cb_db \<Rightarrow> cb_db \<Rightarrow> bool" where
  "advanced f ev g new rows db db' \<longleftrightarrow>
     set rows \<subseteq> set (records db) \<and> distinct (map r_id rows)
     \<and> (\<forall>r\<in>set rows. row_moved r (f r))
     \<and> records db' = sql_update (\<lambda>r. r_id r \<in> set (map r_id rows)) f (records db)
     \<and> events db' = events db @ map ev rows
     \<and> (\<forall>r\<in>set rows. e_callback_id (ev r) = r_id r \<and> e_version (ev r) = r_version r + 1
                     \<and> e_tenant_id (ev r) = r_tenant_id r)
     \<and> deliveries db' = map g (deliveries db) @ new
     \<and> (\<forall>d. d_callback_id (g d) = d_callback_id d \<and> d_callback_version (g d) = d_callback_version d
            \<and> (cb_pending (g d) \<longrightarrow> cb_pending d))
     \<and> (\<forall>d\<in>set new. \<exists>r\<in>set rows. d_callback_id d = r_id r \<and> d_callback_version d = r_version r + 1
                     \<and> r_state (f r) \<notin> CB_TERMINAL)
     \<and> (\<forall>r\<in>set rows. r_state (f r) \<in> CB_TERMINAL \<longrightarrow> r_state r \<notin> CB_TERMINAL \<longrightarrow>
          (\<forall>d\<in>set (deliveries db). d_callback_id d = r_id r \<longrightarrow> \<not> cb_pending (g d)))
     \<and> cb_constraints db'"

lemma row_moved_id: "row_moved r r' \<Longrightarrow> r_id r' = r_id r"
  by (simp add: row_moved_def)

lemma versions_other:
  assumes "\<forall>r\<in>set rows. e_callback_id (ev r) = r_id r" "i \<notin> set (map r_id rows)"
  shows "versions i (map ev rows) = []"
  using assms by (force simp: versions_def filter_empty_conv)

lemma versions_own:
  assumes "\<forall>r\<in>set rows. e_callback_id (ev r) = r_id r" "distinct (map r_id rows)" "r \<in> set rows"
  shows "versions (r_id r) (map ev rows) = [e_version (ev r)]"
  using assms
proof (induction rows)
  case (Cons a rows)
  then have ids: "\<forall>r\<in>set rows. e_callback_id (ev r) = r_id r" by simp
  show ?case
  proof (cases "r = a")
    case True
    with Cons.prems versions_other[OF ids, of "r_id a"] show ?thesis by (auto simp: versions_def)
  next
    case False
    with Cons.prems have r: "r \<in> set rows" "r_id a \<noteq> r_id r" by auto
    with Cons.IH[OF ids] Cons.prems show ?thesis by (simp add: versions_def)
  qed
qed simp

lemma advanced_moved:
  assumes "advanced f ev g new rows db db'" "cb_inv db" "r \<in> set (records db)" "r_id r \<in> set (map r_id rows)"
  shows "r \<in> set rows"
proof -
  from assms(4) obtain a where a: "a \<in> set rows" "r_id a = r_id r" by auto
  moreover from a assms(1) have "a \<in> set (records db)" by (auto simp: advanced_def)
  ultimately show ?thesis using distinct_key_unique[OF cb_inv_ids[OF assms(2)] _ assms(3)] by metis
qed

lemma row_moved_state:
  "row_moved r r' \<Longrightarrow> r_state r' = r_state r \<or> r_state r' \<in> CB_TRANSITIONS (r_state r)"
  by (simp only: row_moved_def)

lemma terminal_stays:
  assumes "row_moved r r'" "r_state r \<in> CB_TERMINAL"
  shows "r_state r' = r_state r"
  using row_moved_state[OF assms(1)] cb_life.terminal_stuck[OF assms(2)] by (metis empty_iff)

lemma advanced_delivery_ok:
  assumes adv: "advanced f ev g new rows db db'" and inv: "cb_inv db" and r: "r \<in> set rows"
    and d: "d \<in> set (deliveries db')" "d_callback_id d = r_id r"
  shows "delivery_ok (f r) d"
proof -
  have rr: "r \<in> set (records db)" "row_moved r (f r)" using adv r by (auto simp: advanced_def)
  have ok: "record_ok (events db) (deliveries db) r" using inv rr by (simp add: cb_inv_def)
  consider d0 where "d0 \<in> set (deliveries db)" "d = g d0" | "d \<in> set new"
    using adv d(1) by (auto simp: advanced_def)
  then show ?thesis
  proof cases
    case 1
    have g: "d_callback_id d = d_callback_id d0" "d_callback_version d = d_callback_version d0"
      "cb_pending d \<longrightarrow> cb_pending d0" using adv 1(2) by (simp_all add: advanced_def)
    with ok 1(1) d(2) have d0: "delivery_ok r d0" by (simp add: record_ok_def)
    have "\<not> cb_pending d" if t: "r_state (f r) \<in> CB_TERMINAL"
    proof (cases "r_state r \<in> CB_TERMINAL")
      case True
      with d0 g show ?thesis by (auto simp: delivery_ok_def)
    next
      case False
      have "\<forall>a\<in>set (deliveries db). d_callback_id a = r_id r \<longrightarrow> \<not> cb_pending (g a)"
        using adv r t False by (simp add: advanced_def)
      with 1 g d(2) show ?thesis by simp
    qed
    with d0 g rr(2) show ?thesis by (auto simp: delivery_ok_def row_moved_def)
  next
    case 2
    then obtain a where a: "a \<in> set rows" "d_callback_id d = r_id a"
      "d_callback_version d = r_version a + 1" "r_state (f a) \<notin> CB_TERMINAL"
      using adv by (auto simp: advanced_def)
    moreover have "a = r" using adv a(1,2) r d(2) distinct_key_unique[of r_id rows a r] by (simp add: advanced_def)
    ultimately show ?thesis using rr(2) by (simp add: delivery_ok_def row_moved_def)
  qed
qed

lemma advanced_record_ok:
  assumes adv: "advanced f ev g new rows db db'" and inv: "cb_inv db" and r: "r \<in> set rows"
  shows "record_ok (events db') (deliveries db') (f r)"
proof -
  have rr: "r \<in> set (records db)" "row_moved r (f r)" using adv r by (auto simp: advanced_def)
  have ok: "record_ok (events db) (deliveries db) r" using inv rr by (simp add: cb_inv_def)
  have ev: "events db' = events db @ map ev rows" "distinct (map r_id rows)"
    "\<forall>a\<in>set rows. e_callback_id (ev a) = r_id a \<and> e_version (ev a) = r_version a + 1
                  \<and> e_tenant_id (ev a) = r_tenant_id a"
    using adv by (simp_all add: advanced_def)
  have "versions (r_id r) (events db') = [1..r_version r + 1]"
    using ok ev versions_own[of rows ev r] r
    by (simp add: versions_append record_ok_def upto_extend)
  moreover have "\<forall>e\<in>set (events db'). e_callback_id e = r_id r \<longrightarrow> e_tenant_id e = r_tenant_id r"
  proof (intro ballI impI)
    fix e assume e: "e \<in> set (events db')" "e_callback_id e = r_id r"
    show "e_tenant_id e = r_tenant_id r"
    proof (cases "e \<in> set (events db)")
      case True
      with ok e show ?thesis by (simp add: record_ok_def)
    next
      case False
      with e ev obtain a where a: "a \<in> set rows" "e = ev a" by auto
      with ev(3) e(2) have "r_id a = r_id r" by simp
      with distinct_key_unique[OF ev(2) a(1) r] ev(3) a show ?thesis by simp
    qed
  qed
  ultimately show ?thesis
    using ok rr(2) advanced_delivery_ok[OF adv inv r]
    by (simp add: record_ok_def row_moved_def)
qed

lemma advanced_record_kept:
  assumes adv: "advanced f ev g new rows db db'" and inv: "cb_inv db"
    and r: "r \<in> set (records db)" "r_id r \<notin> set (map r_id rows)"
  shows "record_ok (events db') (deliveries db') r"
proof -
  have ok: "record_ok (events db) (deliveries db) r" using inv r by (simp add: cb_inv_def)
  have ev: "\<forall>a\<in>set rows. e_callback_id (ev a) = r_id a" "events db' = events db @ map ev rows"
    using adv by (simp_all add: advanced_def)
  have dl: "\<forall>d\<in>set (deliveries db'). d_callback_id d = r_id r \<longrightarrow> delivery_ok r d"
  proof (intro ballI impI)
    fix d assume d: "d \<in> set (deliveries db')" "d_callback_id d = r_id r"
    have "\<exists>a\<in>set rows. d_callback_id d = r_id a" if "d \<in> set new"
      using adv that unfolding advanced_def by blast
    with d(2) r(2) have "d \<notin> set new" by (auto simp: image_iff)
    then obtain d0 where d0: "d0 \<in> set (deliveries db)" "d = g d0"
      using adv d(1) by (auto simp: advanced_def)
    have "d_callback_id d0 = r_id r" "d_callback_version d = d_callback_version d0"
      "cb_pending d \<longrightarrow> cb_pending d0" using adv d0(2) d(2) by (simp_all add: advanced_def)
    with ok d0(1) show "delivery_ok r d" by (auto simp: record_ok_def delivery_ok_def)
  qed
  have "\<forall>e\<in>set (map ev rows). e_callback_id e \<noteq> r_id r"
    using ev(1) r(2) by (auto simp: image_iff)
  then show ?thesis
    using ok dl ev versions_other[OF ev(1) r(2)] by (auto simp: record_ok_def versions_append)
qed

lemma advanced_ids:
  assumes "advanced f ev g new rows db db'" "cb_inv db"
  shows "r_id ` set (records db') = r_id ` set (records db)"
proof -
  have id: "r_id (f r) = r_id r" if "r \<in> set (records db)" "r_id r \<in> set (map r_id rows)" for r
  proof -
    have "row_moved r (f r)" using assms(1) advanced_moved[OF assms that] by (simp add: advanced_def)
    then show ?thesis by (rule row_moved_id)
  qed
  have "records db' = sql_update (\<lambda>r. r_id r \<in> set (map r_id rows)) f (records db)"
    using assms(1) by (simp add: advanced_def)
  then have "map r_id (records db') = map r_id (records db)" using id by (simp add: sql_update_def)
  then show ?thesis by (metis list.set_map)
qed

lemma advanced_inv:
  assumes adv: "advanced f ev g new rows db db'" and inv: "cb_inv db"
  shows "cb_inv db'"
proof -
  have recs: "records db' = sql_update (\<lambda>r. r_id r \<in> set (map r_id rows)) f (records db)"
    "events db' = events db @ map ev rows" "deliveries db' = map g (deliveries db) @ new"
    "cb_constraints db'" "set rows \<subseteq> set (records db)"
    using adv by (simp_all add: advanced_def)
  have "record_ok (events db') (deliveries db') r" if r: "r \<in> set (records db')" for r
  proof -
    from r recs(1) obtain r0 where r0: "r0 \<in> set (records db)"
      "r = (if r_id r0 \<in> set (map r_id rows) then f r0 else r0)" by (auto simp: in_sql_update)
    show ?thesis
    proof (cases "r_id r0 \<in> set (map r_id rows)")
      case True
      with r0 advanced_moved[OF adv inv r0(1)] advanced_record_ok[OF adv inv] show ?thesis by simp
    next
      case False
      with r0 advanced_record_kept[OF adv inv r0(1)] show ?thesis by simp
    qed
  qed
  moreover have "\<forall>e\<in>set (events db'). e_callback_id e \<in> r_id ` set (records db')"
    unfolding advanced_ids[OF assms] using inv adv recs(2,5) by (auto simp: cb_inv_def advanced_def)
  moreover have "\<forall>d\<in>set (deliveries db'). d_callback_id d \<in> r_id ` set (records db')"
    unfolding advanced_ids[OF assms] using inv adv recs(3,5) by (fastforce simp: cb_inv_def advanced_def)
  ultimately show ?thesis using recs(4) by (simp add: cb_inv_def)
qed

lemma advanced_evolves:
  assumes adv: "advanced f ev g new rows db db'" and inv: "cb_inv db"
    and scope: "\<And>r. r \<in> set rows \<Longrightarrow> in_scope t cs r"
  shows "cb_evolves t cs db db'"
  unfolding cb_evolves_def
proof (intro exI conjI)
  let ?g = "\<lambda>r. if r_id r \<in> set (map r_id rows) then f r else r"
  show "records db' = map ?g (records db) @ []" using adv by (simp add: advanced_def sql_update_def)
  show "\<forall>r\<in>set (records db). ?g r = r \<or> in_scope t cs r \<and> row_moved r (?g r)"
  proof
    fix r assume r: "r \<in> set (records db)"
    show "?g r = r \<or> in_scope t cs r \<and> row_moved r (?g r)"
    proof (cases "r_id r \<in> set (map r_id rows)")
      case True
      then have "r \<in> set rows" using advanced_moved[OF adv inv r] by simp
      then have "in_scope t cs r" "row_moved r (f r)" using scope adv by (simp_all add: advanced_def)
      with True show ?thesis by simp
    next
      case False
      then show ?thesis by simp
    qed
  qed
qed simp

section \<open>Each transaction\<close>

text \<open>Transactions that change deliveries only.\<close>

lemma deliveries_only_inv:
  assumes "cb_inv db"
    and "\<And>d. d_callback_id (g d) = d_callback_id d"
    and "\<And>d. d_callback_version (g d) = d_callback_version d"
    and "\<And>d r. d \<in> set (deliveries db) \<Longrightarrow> r \<in> set (records db) \<Longrightarrow> r_id r = d_callback_id d
          \<Longrightarrow> r_state r \<in> CB_TERMINAL \<Longrightarrow> d_callback_version d < r_version r \<Longrightarrow> \<not> cb_pending d \<Longrightarrow> \<not> cb_pending (g d)"
    and "delivery_constraints (map g (deliveries db))"
  shows "cb_inv (db\<lparr>deliveries := map g (deliveries db)\<rparr>)"
proof -
  have "record_ok (events db) (map g (deliveries db)) r" if r: "r \<in> set (records db)" for r
  proof -
    have ok: "record_ok (events db) (deliveries db) r" using assms(1) r by (simp add: cb_inv_def)
    have "delivery_ok r (g d)" if d: "d \<in> set (deliveries db)" "d_callback_id d = r_id r" for d
    proof -
      have "delivery_ok r d" using ok d by (simp add: record_ok_def)
      with assms(3)[of d] assms(4)[OF d(1) r] d(2) show ?thesis by (auto simp: delivery_ok_def)
    qed
    with ok assms(2) show ?thesis by (auto simp: record_ok_def)
  qed
  with assms(1,2,5) show ?thesis by (auto simp: cb_inv_def cb_constraints_def)
qed

lemma delivery_keys_kept:
  assumes "\<And>d. d_idempotency_key (g d) = d_idempotency_key d" "\<And>d. d_callback_id (g d) = d_callback_id d"
    and "\<And>d. d_callback_version (g d) = d_callback_version d" "\<And>d. d_channel (g d) = d_channel d"
    and "\<And>d. d_stage (g d) = d_stage d"
  shows "delivery_constraints (map g t) = delivery_constraints t"
  using assms by (simp add: delivery_constraints_def comp_def)

lemma inv_delivery_constraints: "cb_inv db \<Longrightarrow> delivery_constraints (deliveries db)"
  by (simp add: cb_inv_def cb_constraints_def)

lemma cancel_delivery_simps [simp]:
  "d_idempotency_key (cancel_delivery d) = d_idempotency_key d"
  "d_callback_id (cancel_delivery d) = d_callback_id d"
  "d_callback_version (cancel_delivery d) = d_callback_version d"
  "d_channel (cancel_delivery d) = d_channel d" "d_stage (cancel_delivery d) = d_stage d"
  "\<not> cb_pending (cancel_delivery d)"
  by (simp_all add: cancel_delivery_def cb_pending_def)

lemma result_row_simps [simp]:
  "d_idempotency_key (result_row now b d) = d_idempotency_key d"
  "d_callback_id (result_row now b d) = d_callback_id d"
  "d_callback_version (result_row now b d) = d_callback_version d"
  "d_channel (result_row now b d) = d_channel d" "d_stage (result_row now b d) = d_stage d"
  by (simp_all add: result_row_def Let_def)

lemma cancel_inv:
  assumes "cb_inv db"
  shows "cb_inv (db\<lparr>deliveries := sql_update p cancel_delivery (deliveries db)\<rparr>)"
  unfolding sql_update_def
proof (rule deliveries_only_inv[OF assms])
  show "delivery_constraints (map (\<lambda>d. if p d then cancel_delivery d else d) (deliveries db))"
    using inv_delivery_constraints[OF assms] by (subst delivery_keys_kept) auto
qed auto

lemma cb_load_Inr:
  assumes "cb_load x p i db = Inr r"
  shows "r \<in> set (records db)" "r_id r = i" "callback_scope x r"
    "in_scope (p_tenant p) (p_campaigns p) r"
proof -
  have found: "sql_first (\<lambda>r. callback_scope x r \<and> r_id r = i) (records db) = Some r"
    "in_scope (p_tenant p) (p_campaigns p) r"
    using assms by (auto simp: cb_load_def cb_scope_def in_scope_def split: option.splits if_splits)
  from sql_first_Some[OF found(1)] show "r \<in> set (records db)" "r_id r = i" "callback_scope x r" by simp_all
  show "in_scope (p_tenant p) (p_campaigns p) r" by (rule found(2))
qed

lemma callback_result_inv:
  assumes "cb_inv db"
  shows "cb_inv (snd (callback_result now i b p db))"
proof (cases "is_ok (fst (callback_result now i b p db))")
  case True
  then obtain x r where r: "tenant_context p = Inr x" "cb_load x p i db = Inr r"
    "dr_callback_version b = r_version r"
    "snd (callback_result now i b p db) = db\<lparr>deliveries := sql_update (result_match x db i b)
        (result_row now b) (deliveries db)\<rparr>"
    by (auto simp: callback_result_def split: if_splits sum.splits)
  note ld = cb_load_Inr[OF r(2)]
  have "cb_inv (db\<lparr>deliveries := map (\<lambda>d. if result_match x db i b d then result_row now b d else d) (deliveries db)\<rparr>)"
  proof (rule deliveries_only_inv[OF assms])
    fix d r'
    assume "r' \<in> set (records db)" "r_id r' = d_callback_id d" "d_callback_version d < r_version r'"
      "\<not> cb_pending d"
    moreover have "r' = r" if "result_match x db i b d"
      using that calculation(1,2) ld distinct_key_unique[OF cb_inv_ids[OF assms], of r' r]
      by (simp add: result_match_def)
    ultimately show "\<not> cb_pending (if result_match x db i b d then result_row now b d else d)"
      using r(3) by (auto simp: result_match_def)
  next
    show "delivery_constraints (map (\<lambda>d. if result_match x db i b d then result_row now b d else d) (deliveries db))"
      using inv_delivery_constraints[OF assms] by (subst delivery_keys_kept) auto
  qed auto
  with r(4) show ?thesis by (simp add: sql_update_def)
next
  case False
  then have "snd (callback_result now i b p db) = db"
    by (auto simp: callback_result_def split: if_splits sum.splits)
  with assms show ?thesis by simp
qed

lemma callback_result_records [frame]: "records (snd (callback_result now i b p db)) = records db"
  by (simp add: callback_result_def split: sum.split)

lemma reconcile_inv: "cb_inv db \<Longrightarrow> cb_inv (snd (reconcile t c db))"
  by (simp add: reconcile_def Let_def cancel_inv split: sum.split)

lemma reconcile_records [frame]: "records (snd (reconcile t c db)) = records db"
  by (simp add: reconcile_def Let_def split: sum.split)

text \<open>The popup worker: a delivery it changes keeps its identity, and was pending before.\<close>

definition same_delivery :: "cb_delivery \<Rightarrow> cb_delivery \<Rightarrow> bool" where
  "same_delivery d d' \<longleftrightarrow>
     d_idempotency_key d' = d_idempotency_key d \<and> d_callback_id d' = d_callback_id d
     \<and> d_callback_version d' = d_callback_version d \<and> d_channel d' = d_channel d
     \<and> d_stage d' = d_stage d \<and> (cb_pending d' \<longrightarrow> cb_pending d)"

lemma list_all2_map_eq:
  "list_all2 P xs ys \<Longrightarrow> (\<And>x y. P x y \<Longrightarrow> f y = f x) \<Longrightarrow> map f ys = map f xs"
  by (induction rule: list_all2_induct) auto

lemma same_deliveries_inv:
  assumes "cb_inv db" "list_all2 same_delivery (deliveries db) t"
  shows "cb_inv (db\<lparr>deliveries := t\<rparr>)"
proof -
  have from0: "\<exists>d0\<in>set (deliveries db). same_delivery d0 d" if "d \<in> set t" for d
    using assms(2) that by (fastforce simp: list_all2_conv_all_nth in_set_conv_nth)
  have "map d_idempotency_key t = map d_idempotency_key (deliveries db)"
    "map (\<lambda>d. (d_callback_id d, d_callback_version d, d_channel d, d_stage d)) t
     = map (\<lambda>d. (d_callback_id d, d_callback_version d, d_channel d, d_stage d)) (deliveries db)"
    by (rule list_all2_map_eq[OF assms(2)], simp add: same_delivery_def)+
  then have "delivery_constraints t"
    using inv_delivery_constraints[OF assms(1)] by (simp only: delivery_constraints_def)
  moreover have "record_ok (events db) t r" if r: "r \<in> set (records db)" for r
  proof -
    have ok: "record_ok (events db) (deliveries db) r" using assms(1) r by (simp add: cb_inv_def)
    have "delivery_ok r d" if d: "d \<in> set t" "d_callback_id d = r_id r" for d
    proof -
      from from0[OF d(1)] obtain d0 where d0: "d0 \<in> set (deliveries db)" "same_delivery d0 d" by blast
      with ok d(2) have "delivery_ok r d0" by (simp add: record_ok_def same_delivery_def)
      with d0(2) show ?thesis by (auto simp: delivery_ok_def same_delivery_def)
    qed
    with ok show ?thesis by (simp add: record_ok_def)
  qed
  moreover have "\<forall>d\<in>set t. d_callback_id d \<in> r_id ` set (records db)"
  proof
    fix d assume "d \<in> set t"
    from from0[OF this] obtain d0 where "d0 \<in> set (deliveries db)" "d_callback_id d = d_callback_id d0"
      by (auto simp: same_delivery_def)
    with assms(1) show "d_callback_id d \<in> r_id ` set (records db)" by (simp add: cb_inv_def)
  qed
  ultimately show ?thesis using assms(1) by (simp add: cb_inv_def cb_constraints_def)
qed

lemma popup_one_same:
  assumes "popup_one gateway now d r = Inr d'" "cb_pending d"
  shows "same_delivery d d'"
  using assms
  by (auto simp: popup_one_def same_delivery_def popup_delivered_def popup_retry_def
      split: if_splits sum.splits gateway_reply.splits)

lemma popup_update_same:
  assumes rel: "list_all2 same_delivery t0 t" and key: "distinct (map d_idempotency_key t0)"
    and d: "d \<in> set t0" "same_delivery d d'"
  shows "list_all2 same_delivery t0 (sql_update (\<lambda>a. d_idempotency_key a = d_idempotency_key d) (\<lambda>_. d') t)"
  unfolding list_all2_conv_all_nth
proof (intro conjI allI impI)
  show "length t0 = length (sql_update (\<lambda>a. d_idempotency_key a = d_idempotency_key d) (\<lambda>_. d') t)"
    using list_all2_lengthD[OF rel] by simp
next
  fix i assume i: "i < length t0"
  then have i': "i < length t" "same_delivery (t0 ! i) (t ! i)"
    using rel by (auto simp: list_all2_conv_all_nth)
  show "same_delivery (t0 ! i) (sql_update (\<lambda>a. d_idempotency_key a = d_idempotency_key d) (\<lambda>_. d') t ! i)"
  proof (cases "d_idempotency_key (t ! i) = d_idempotency_key d")
    case True
    with i'(2) have "d_idempotency_key (t0 ! i) = d_idempotency_key d" by (simp add: same_delivery_def)
    with distinct_key_unique[OF key] i d(1) have "t0 ! i = d" by simp
    with True i'(1) d(2) show ?thesis by (simp add: sql_update_def)
  next
    case False
    with i' show ?thesis by (simp add: sql_update_def)
  qed
qed

lemma popup_loop_same:
  assumes "popup_loop gateway now rows t n = Inr (t', n')"
    and "list_all2 same_delivery t0 t" "distinct (map d_idempotency_key t0)"
    and "\<forall>(d, r)\<in>set rows. d \<in> set t0 \<and> cb_pending d"
  shows "list_all2 same_delivery t0 t'"
  using assms
proof (induction rows arbitrary: t n)
  case (Cons a rows)
  obtain d r where a: "a = (d, r)" by (cases a)
  obtain d' n2 where d': "popup_one gateway now d r = Inr d'"
    and rest: "popup_loop gateway now rows
        (sql_update (\<lambda>a. d_idempotency_key a = d_idempotency_key d) (\<lambda>_. d') t) n2 = Inr (t', n')"
    using Cons.prems(1) by (auto simp: a split: sum.splits)
  have d: "d \<in> set t0" "cb_pending d" using Cons.prems(4) by (simp_all add: a)
  show ?case
  proof (rule Cons.IH[OF rest _ Cons.prems(3)])
    show "list_all2 same_delivery t0 (sql_update (\<lambda>a. d_idempotency_key a = d_idempotency_key d) (\<lambda>_. d') t)"
      by (rule popup_update_same[OF Cons.prems(2,3) d(1) popup_one_same[OF d' d(2)]])
    show "\<forall>(d, r)\<in>set rows. d \<in> set t0 \<and> cb_pending d" using Cons.prems(4) by simp
  qed
qed simp

lemma popup_rows_mem:
  assumes "(d, r) \<in> set (popup_rows now locked x t c db)"
  shows "d \<in> set (deliveries db) \<and> popup_due now d \<and> r \<in> set (records db) \<and> r_id r = d_callback_id d"
  using assms by (auto simp: popup_rows_def)

lemma deliver_inv:
  assumes "cb_inv db"
  shows "cb_inv (snd (deliver_callback_popups gateway now locked t c tok limit db))"
proof (cases "is_ok (fst (deliver_callback_popups gateway now locked t c tok limit db))")
  case True
  then obtain x t' n rows where x: "rows = take limit (sort_key (\<lambda>(d, r). the (d_next_attempt_at d))
        (popup_rows now locked x t c db))"
    "popup_loop gateway now rows (deliveries db) \<lparr>delivered = 0, retried = 0, stale_popups = 0\<rparr> = Inr (t', n)"
    "snd (deliver_callback_popups gateway now locked t c tok limit db) = db\<lparr>deliveries := t'\<rparr>"
    by (auto simp: deliver_callback_popups_def Let_def split: if_splits sum.splits)
  have "list_all2 same_delivery (deliveries db) t'"
  proof (rule popup_loop_same[OF x(2)])
    show "list_all2 same_delivery (deliveries db) (deliveries db)"
      by (rule list.rel_refl) (simp add: same_delivery_def)
    show "distinct (map d_idempotency_key (deliveries db))"
      using inv_delivery_constraints[OF assms] by (simp add: delivery_constraints_def)
    show "\<forall>(d, r)\<in>set rows. d \<in> set (deliveries db) \<and> cb_pending d"
    proof (intro ballI, clarify)
      fix d r assume "(d, r) \<in> set rows"
      then have "(d, r) \<in> set (popup_rows now locked x t c db)"
        using set_take_subset x(1) by fastforce
      from popup_rows_mem[OF this] show "d \<in> set (deliveries db) \<and> cb_pending d" by (simp add: popup_due_def)
    qed
  qed
  with same_deliveries_inv[OF assms] x(3) show ?thesis by simp
next
  case False
  then have "snd (deliver_callback_popups gateway now locked t c tok limit db) = db"
    by (auto simp: deliver_callback_popups_def Let_def split: if_splits sum.splits)
  with assms show ?thesis by simp
qed

lemma deliver_records [frame]:
  "records (snd (deliver_callback_popups gateway now locked t c tok limit db)) = records db"
  by (simp add: deliver_callback_popups_def Let_def split: sum.split prod.split)

text \<open>The scheduler.\<close>

lemma distinct_map_sort_key: "distinct (map f xs) \<Longrightarrow> distinct (map f (sort_key k xs))"
  by (metis mset_eq_imp_distinct_iff mset_map mset_sort)

lemma distinct_map_take: "distinct (map f xs) \<Longrightarrow> distinct (map f (take n xs))"
  by (simp add: take_map[symmetric])

definition sched_event_ok :: "(cb_record \<Rightarrow> cb_record \<Rightarrow> cb_event) \<Rightarrow> bool" where
  "sched_event_ok ev \<longleftrightarrow>
     (\<forall>r r'. e_callback_id (ev r r') = r_id r' \<and> e_version (ev r r') = r_version r'
             \<and> e_tenant_id (ev r r') = r_tenant_id r')"

definition sched_delivery_ok :: "(cb_record \<Rightarrow> cb_delivery list) \<Rightarrow> bool" where
  "sched_delivery_ok dl \<longleftrightarrow>
     (\<forall>r. \<forall>d\<in>set (dl r). d_callback_id d = r_id r \<and> d_callback_version d = r_version r)"

lemma sched_event_oks [simp]:
  "sched_event_ok (due_event now w)" "sched_event_ok (missed_event now w n)"
  "sched_event_ok (escalated_event now w n)"
  by (simp_all add: sched_event_ok_def due_event_def missed_event_def escalated_event_def cb_event_of_def)

lemma sched_delivery_oks [simp]:
  "sched_delivery_ok (due_deliveries now)"
  "sched_delivery_ok (\<lambda>r. [cb_delivery_of r ch st (cb_key r k) m t])"
  by (simp_all add: sched_delivery_ok_def due_deliveries_def cb_delivery_of_def)

lemma sched_row_moved: "s \<in> CB_TRANSITIONS (r_state r) \<Longrightarrow> row_moved r (sched_row now s b r)"
  by (simp add: row_moved_def sched_row_def)

lemma sched_row_simps [simp]:
  "r_id (sched_row now s b r) = r_id r" "r_version (sched_row now s b r) = r_version r + 1"
  "r_tenant_id (sched_row now s b r) = r_tenant_id r" "r_state (sched_row now s b r) = s"
  by (simp_all add: sched_row_def)

lemma sched_apply_advanced:
  assumes "set rows \<subseteq> set (records db)" "distinct (map r_id rows)"
    and "\<And>r. r \<in> set rows \<Longrightarrow> s \<in> CB_TRANSITIONS (r_state r)" "s \<notin> CB_TERMINAL"
    and "sched_event_ok ev" "sched_delivery_ok dl"
    and "cb_constraints (sched_apply (sched_row now s b) ev dl rows db)"
  shows "advanced (sched_row now s b) (\<lambda>r. ev r (sched_row now s b r)) (\<lambda>d. d)
    (concat (map (\<lambda>r. if r_reminder_popup_enabled r then dl (sched_row now s b r) else []) rows))
    rows db (sched_apply (sched_row now s b) ev dl rows db)"
proof -
  have "\<forall>d\<in>set (concat (map (\<lambda>r. if r_reminder_popup_enabled r then dl (sched_row now s b r) else []) rows)).
          \<exists>r\<in>set rows. d_callback_id d = r_id r \<and> d_callback_version d = r_version r + 1"
    using assms(6) by (fastforce simp: sched_delivery_ok_def split: if_splits)
  with assms show ?thesis
    by (simp add: advanced_def sched_apply_def sched_row_moved sched_event_ok_def)
qed

lemma sched_commit:
  assumes inv: "cb_inv db" and rows: "set rows \<subseteq> set (records db)" "distinct (map r_id rows)"
    and s: "\<And>r. r \<in> set rows \<Longrightarrow> s \<in> CB_TRANSITIONS (r_state r)" "s \<notin> CB_TERMINAL"
    and ok: "sched_event_ok ev" "sched_delivery_ok dl"
    and scope: "\<And>r. r \<in> set rows \<Longrightarrow> in_scope t cs r"
  shows "cb_inv (snd (cb_commit db (sched_apply (sched_row now s b) ev dl rows db) a))
    \<and> cb_evolves t cs db (snd (cb_commit db (sched_apply (sched_row now s b) ev dl rows db) a))"
proof (cases "cb_constraints (sched_apply (sched_row now s b) ev dl rows db)")
  case True
  note adv = sched_apply_advanced[OF rows s ok True]
  from True show ?thesis
    using advanced_inv[OF adv inv] advanced_evolves[OF adv inv scope] by (simp add: cb_commit_def)
next
  case False
  with inv show ?thesis by (simp add: cb_commit_def)
qed

lemma rls_context_tenant:
  "set_callback_rls_context t cs a role ts = Inr x \<Longrightarrow> callback_scope x r \<Longrightarrow> r_tenant_id r = t"
  by (auto simp: set_callback_rls_context_def Let_def callback_scope_def split: if_splits)

lemma due_not_terminal [simp]:
  "CB_DUE \<notin> CB_TERMINAL" "CB_MISSED \<notin> CB_TERMINAL" "CB_ESCALATED \<notin> CB_TERMINAL"
  by (simp_all add: CB_TERMINAL_def)

lemma claim_due_safe:
  assumes "cb_inv db"
  shows "cb_inv (snd (claim_due now locked w limit t c db))
    \<and> cb_evolves t [c] db (snd (claim_due now locked w limit t c db))"
proof (cases "t = [] \<or> c = [] \<or> \<not> is_ok (set_callback_rls_context t [c] w R_scheduler [])")
  case True
  then have "snd (claim_due now locked w limit t c db) = db"
    by (auto simp: claim_due_def is_ok_def split: sum.splits)
  with assms show ?thesis by simp
next
  case False
  then obtain x where x: "set_callback_rls_context t [c] w R_scheduler [] = Inr x" "t \<noteq> []" "c \<noteq> []"
    by (auto simp: is_ok_iff)
  define rows where "rows = take limit (sort_key r_scheduled_at (filter (\<lambda>r. callback_scope x r
    \<and> claim_due_ready now t c r \<and> \<not> locked (r_id r)) (records db)))"
  have eq: "claim_due now locked w limit t c db = cb_commit db (sched_apply (sched_row now CB_DUE True)
      (due_event now w) (due_deliveries now) rows db) (map (sched_row now CB_DUE True) rows)"
    using x by (simp add: claim_due_def rows_def Let_def)
  have mem: "r \<in> set (records db) \<and> claim_due_ready now t c r" if "r \<in> set rows" for r
    using in_set_takeD[OF that[unfolded rows_def]] by simp
  have dist: "distinct (map r_id rows)" unfolding rows_def
    by (intro distinct_map_take distinct_map_sort_key distinct_map_filter cb_inv_ids[OF assms])
  show ?thesis unfolding eq
  proof (rule sched_commit[OF assms _ dist])
    show "set rows \<subseteq> set (records db)" using mem by blast
    fix r assume "r \<in> set rows"
    with mem have "claim_due_ready now t c r" by blast
    then show "CB_DUE \<in> CB_TRANSITIONS (r_state r)" "in_scope t [c] r"
      by (auto simp: claim_due_ready_def in_scope_def)
  qed simp_all
qed

lemma mark_missed_safe:
  assumes "cb_inv db"
  shows "cb_inv (snd (mark_missed now locked w grace t c db))
    \<and> cb_evolves t [c] db (snd (mark_missed now locked w grace t c db))"
proof (cases "t = [] \<or> c = [] \<or> \<not> is_ok (set_callback_rls_context t [c] w R_scheduler [])")
  case True
  then have "snd (mark_missed now locked w grace t c db) = db"
    by (auto simp: mark_missed_def is_ok_def split: sum.splits)
  with assms show ?thesis by simp
next
  case False
  then obtain x where x: "set_callback_rls_context t [c] w R_scheduler [] = Inr x" "t \<noteq> []" "c \<noteq> []"
    by (auto simp: is_ok_iff)
  show ?thesis unfolding mark_missed_def using x(2,3)
    by (simp add: x(1) Let_def, intro sched_commit[OF assms])
       (auto simp: in_scope_def intro: distinct_map_filter cb_inv_ids[OF assms])
qed

lemma escalate_missed_safe:
  assumes "cb_inv db"
  shows "cb_inv (snd (escalate_missed now locked w m t c db))
    \<and> cb_evolves t [c] db (snd (escalate_missed now locked w m t c db))"
proof (cases "t = [] \<or> c = [] \<or> \<not> is_ok (set_callback_rls_context t [c] w R_scheduler [])")
  case True
  then have "snd (escalate_missed now locked w m t c db) = db"
    by (auto simp: escalate_missed_def is_ok_def split: sum.splits)
  with assms show ?thesis by simp
next
  case False
  then obtain x where x: "set_callback_rls_context t [c] w R_scheduler [] = Inr x" "t \<noteq> []" "c \<noteq> []"
    by (auto simp: is_ok_iff)
  show ?thesis unfolding escalate_missed_def using x(2,3)
    by (simp add: x(1) Let_def, intro sched_commit[OF assms])
       (auto simp: in_scope_def rls_context_tenant[OF x(1)] intro: distinct_map_filter cb_inv_ids[OF assms])
qed

text \<open>The endpoint that changes a callback.\<close>

definition core_of :: "cb_record \<Rightarrow> uuid \<times> string \<times> string \<times> string \<times> string \<times> int \<times> cb_state" where
  "core_of r = (r_id r, r_tenant_id r, r_campaign_id r, r_idempotency_key r, r_request_hash r,
                r_version r, r_state r)"

lemma core_of_assign: "core_of (mutate_assign target h r) = core_of r"
  by (simp add: core_of_def mutate_assign_def Let_def split: option.split)

lemma core_of_edit:
  "core_of (mutate_close now target h (mutate_reminders target (mutate_texts h r))) = core_of r"
  by (simp add: core_of_def mutate_close_def mutate_reminders_def mutate_texts_def reminders_def)

lemma core_of_schedule: "mutate_schedule env now target h r = Inr r0 \<Longrightarrow> core_of r0 = core_of r"
  by (auto simp: core_of_def mutate_schedule_def split: cb_target.splits option.splits if_splits sum.splits)

lemma assigned_edit:
  "r_assigned_agent_id (mutate_close now target h (mutate_reminders target (mutate_texts h r))) = r_assigned_agent_id r"
  "r_assigned_team_id (mutate_close now target h (mutate_reminders target (mutate_texts h r))) = r_assigned_team_id r"
  by (simp_all add: mutate_close_def mutate_reminders_def mutate_texts_def reminders_def)

lemma mutate_transition_Inr:
  "mutate_transition target r = Inr u \<Longrightarrow> target_state target = Some s \<Longrightarrow> s \<in> CB_TRANSITIONS (r_state r)"
  by (auto simp: mutate_transition_def cb_transition_def split: if_splits)

lemma mutate_finish_moved:
  assumes "core_of r1 = core_of old" "mutate_transition target old = Inr u"
    and "\<not> (falsy (r_assigned_agent_id r1) \<and> falsy (r_assigned_team_id r1))"
  shows "row_moved old (mutate_finish now target r1)"
proof -
  let ?e = "case target_state target of None \<Rightarrow> r_state r1 | Some s \<Rightarrow> s"
  have "?e = r_state old \<or> ?e \<in> CB_TRANSITIONS (r_state old)"
    using assms(1) mutate_transition_Inr[OF assms(2)] by (auto simp: core_of_def split: option.split)
  then show ?thesis using assms(1,3)
    by (simp add: row_moved_def mutate_finish_def Let_def core_of_def)
qed

lemma mutate_finish_terminal:
  assumes "r_state (mutate_finish now target r) \<in> CB_TERMINAL" "r_state r \<notin> CB_TERMINAL"
  shows "target \<in> {T_SNOOZED, T_RESCHEDULED, T_REASSIGNED, T_COMPLETED, T_CANCELLED}"
  using assms by (cases target) (simp_all add: mutate_finish_def Let_def CB_TERMINAL_def)

definition stale_hit :: "cb_ctx \<Rightarrow> cb_target \<Rightarrow> int \<Rightarrow> uuid \<Rightarrow> cb_db \<Rightarrow> cb_delivery \<Rightarrow> bool" where
  "stale_hit x target n i db d \<longleftrightarrow>
     target \<in> {T_SNOOZED, T_RESCHEDULED, T_REASSIGNED, T_COMPLETED, T_CANCELLED}
     \<and> delivery_scope x db d \<and> d_callback_id d = i \<and> d_callback_version d \<le> n \<and> cb_pending d"

lemma cancel_stale_map:
  "cancel_stale x target n i db = map (\<lambda>d. if stale_hit x target n i db d then cancel_delivery d else d) (deliveries db)"
proof (cases "target \<in> {T_SNOOZED, T_RESCHEDULED, T_REASSIGNED, T_COMPLETED, T_CANCELLED}")
  case True
  then show ?thesis unfolding cancel_stale_def stale_hit_def sql_update_def by simp
next
  case False
  then show ?thesis unfolding cancel_stale_def stale_hit_def by simp
qed

lemma mutate_store_advanced:
  fixes q r0 old x
  defines "r1 \<equiv> mutate_assign (mq_target q) (mq_change q) r0"
  defines "r \<equiv> mutate_finish (mq_now q) (mq_target q) (mutate_close (mq_now q) (mq_target q) (mq_change q)
                 (mutate_reminders (mq_target q) (mutate_texts (mq_change q) r1)))"
  assumes inv: "cb_inv db" and old: "old \<in> set (records db)" "callback_scope x old"
    and ver: "h_expected_version (mq_change q) = r_version old"
    and core: "core_of r0 = core_of old" and tr: "mutate_transition (mq_target q) old = Inr u"
    and res: "mutate_store x q old r0 db = (Inr res, db')"
  shows "\<exists>ev. advanced (\<lambda>_. r) (\<lambda>_. ev)
    (\<lambda>d. if stale_hit x (mq_target q) (r_version old) (r_id old) db d then cancel_delivery d else d)
    [] [old] db db'"
proof -
  let ?ev = "cb_event_of (mq_now q) r (target_event (mq_target q)) (mq_key q) (p_actor (mq_principal q))
     (mutate_payload (mq_target q) (mq_change q) old r) (mq_correlation q)"
  let ?db = "db\<lparr>records := sql_update (\<lambda>a. r_id a = r_id old) (\<lambda>_. r) (records db),
     events := events db @ [?ev], deliveries := cancel_stale x (mq_target q) (r_version old) (r_id old) db\<rparr>"
  have own: "\<not> (falsy (r_assigned_agent_id r1) \<and> falsy (r_assigned_team_id r1))"
    and db': "cb_constraints ?db" "db' = ?db"
    using res ver by (auto simp: mutate_store_def Let_def r1_def r_def cb_commit_def split: if_splits)
  have c1: "core_of (mutate_close (mq_now q) (mq_target q) (mq_change q)
      (mutate_reminders (mq_target q) (mutate_texts (mq_change q) r1))) = core_of old"
    by (simp add: core_of_edit r1_def core_of_assign core)
  have moved: "row_moved old r" unfolding r_def
    by (rule mutate_finish_moved[OF c1 tr]) (use own in \<open>simp add: assigned_edit\<close>)
  have "\<not> cb_pending (if stale_hit x (mq_target q) (r_version old) (r_id old) db d then cancel_delivery d else d)"
    if t: "r_state r \<in> CB_TERMINAL" "r_state old \<notin> CB_TERMINAL"
      and d: "d \<in> set (deliveries db)" "d_callback_id d = r_id old" for d
  proof -
    have "record_ok (events db) (deliveries db) old" using inv old(1) by (simp add: cb_inv_def)
    then have "d_callback_version d \<le> r_version old" using d by (simp add: record_ok_def delivery_ok_def)
    moreover have "delivery_scope x db d" using old d(2) unfolding delivery_scope_def sql_exists_iff
      by (intro bexI[of _ old]) (simp_all add: callback_scope_def)
    moreover have "mq_target q \<in> {T_SNOOZED, T_RESCHEDULED, T_REASSIGNED, T_COMPLETED, T_CANCELLED}"
      by (rule mutate_finish_terminal[OF t(1)[unfolded r_def]]) (use t(2) c1 in \<open>simp add: core_of_def\<close>)
    ultimately show ?thesis using d(2) by (simp add: stale_hit_def)
  qed
  then have "advanced (\<lambda>_. r) (\<lambda>_. ?ev)
    (\<lambda>d. if stale_hit x (mq_target q) (r_version old) (r_id old) db d then cancel_delivery d else d)
    [] [old] db ?db"
    using moved old(1) db'(1)
    by (simp add: advanced_def cancel_stale_map cb_event_of_def) (simp add: row_moved_def stale_hit_def)
  with db'(2) show ?thesis by blast
qed

lemma mutate_Inr:
  assumes "mutate env q db = (Inr res, db')"
  obtains "db' = db" | x old r0 u where "cb_load x (mq_principal q) (mq_callback_id q) db = Inr old"
    "r_version old = h_expected_version (mq_change q)"
    "mutate_schedule env (mq_now q) (mq_target q) (mq_change q) old = Inr r0"
    "mutate_transition (mq_target q) old = Inr u" "mutate_store x q old r0 db = (Inr res, db')"
  using assms by (auto simp: mutate_def Let_def split: if_splits sum.splits)

lemma mutate_Inl: "mutate env q db = (Inl e, db') \<Longrightarrow> db' = db"
  by (auto simp: mutate_def mutate_store_def cb_commit_def Let_def split: if_splits sum.splits)

lemma mutate_safe:
  assumes inv: "cb_inv db"
  shows "cb_inv (snd (mutate env q db))
    \<and> cb_evolves (p_tenant (mq_principal q)) (p_campaigns (mq_principal q)) db (snd (mutate env q db))"
proof (cases "mutate env q db")
  case (Pair res db')
  show ?thesis
  proof (cases res)
    case (Inl e)
    with Pair mutate_Inl inv show ?thesis by (metis snd_conv cb_evolves_refl)
  next
    case (Inr r)
    with Pair have "mutate env q db = (Inr r, db')" by simp
    then show ?thesis
    proof (rule mutate_Inr)
      assume "db' = db"
      with Pair inv show ?thesis by simp
    next
      fix x old r0 u
      assume m: "cb_load x (mq_principal q) (mq_callback_id q) db = Inr old"
        "r_version old = h_expected_version (mq_change q)"
        "mutate_schedule env (mq_now q) (mq_target q) (mq_change q) old = Inr r0"
        "mutate_transition (mq_target q) old = Inr u" "mutate_store x q old r0 db = (Inr r, db')"
      note ld = cb_load_Inr[OF m(1)]
      from mutate_store_advanced[OF inv ld(1,3) m(2)[symmetric] core_of_schedule[OF m(3)] m(4,5)]
      obtain f ev g where adv: "advanced f ev g [] [old] db db'" by blast
      from advanced_inv[OF adv inv] advanced_evolves[OF adv inv] ld(4) Pair show ?thesis by simp
    qed
  qed
qed

text \<open>The endpoint that creates a callback.\<close>

lemma queue_email_Inr:
  assumes "queue_email_command env now ids r b p db = (Inr u, db')"
  shows "records db' = records db" "events db' = events db"
    "\<exists>new. deliveries db' = deliveries db @ new
       \<and> (\<forall>d\<in>set new. d_callback_id d = r_id r \<and> d_callback_version d = r_version r)"
  using assms
  by (auto simp: queue_email_command_def Let_def cb_delivery_of_def split: if_splits)

lemma create_insert_Inr:
  assumes "create_insert env x q r db = (Inr a, db')"
  shows "a = r" "records db' = records db @ [r]" "cb_constraints db'" "callback_scope x r"
    "\<exists>ev. events db' = events db @ [ev] \<and> e_callback_id ev = r_id r \<and> e_version ev = r_version r
          \<and> e_tenant_id ev = r_tenant_id r"
    "\<exists>new. deliveries db' = deliveries db @ new
       \<and> (\<forall>d\<in>set new. d_callback_id d = r_id r \<and> d_callback_version d = r_version r)"
proof -
  define ev where "ev = cb_event_of (cq_now q) r ''callback.created'' (cq_key q @ '':created'')
    (p_actor (cq_principal q)) [(''state'', JStr (cb_name (r_state r))),
     (''scheduled_at'', JStr (isoformat (r_scheduled_at r)))] (cq_correlation q)"
  define db1 where "db1 = db\<lparr>records := records db @ [r], events := events db @ [ev]\<rparr>"
  obtain u db2 where em: "queue_email_command env (cq_now q) (cq_notifications q) r (cq_body q)
      (cq_principal q) db1 = (Inr u, db2)"
    and rest: "a = r" "cb_constraints db'" "callback_scope x r"
      "db' = (if r_reminder_popup_enabled r
              then db2\<lparr>deliveries := deliveries db2 @ [cb_delivery_of r CH_POPUP ''WARNING_15M''
                     (cb_key r ''popup:warning-15m'') None (r_popup_reminder_at r)]\<rparr> else db2)"
    using assms unfolding create_insert_def Let_def ev_def[symmetric] db1_def[symmetric]
    by (auto split: if_splits sum.splits prod.splits)
  note em' = queue_email_Inr[OF em]
  show "a = r" "cb_constraints db'" "callback_scope x r" by (rule rest)+
  show "records db' = records db @ [r]" using em'(1) rest(4) by (simp add: db1_def)
  have "events db' = events db @ [ev]" using em'(2) rest(4) by (simp add: db1_def)
  then show "\<exists>ev. events db' = events db @ [ev] \<and> e_callback_id ev = r_id r \<and> e_version ev = r_version r
     \<and> e_tenant_id ev = r_tenant_id r" by (simp add: ev_def cb_event_of_def)
  from em'(3) obtain new where new: "deliveries db2 = deliveries db @ new"
    "\<forall>d\<in>set new. d_callback_id d = r_id r \<and> d_callback_version d = r_version r" by (auto simp: db1_def)
  show "\<exists>new. deliveries db' = deliveries db @ new
       \<and> (\<forall>d\<in>set new. d_callback_id d = r_id r \<and> d_callback_version d = r_version r)"
  proof (cases "r_reminder_popup_enabled r")
    case True
    with new rest(4) show ?thesis by (auto simp: cb_delivery_of_def)
  next
    case False
    with new rest(4) show ?thesis by auto
  qed
qed

lemma inserted_inv:
  assumes inv: "cb_inv db" and r: "records db' = records db @ [r]" "cb_constraints db'"
    and own: "\<not> (falsy (r_assigned_agent_id r) \<and> falsy (r_assigned_team_id r))"
      "r_desired_state r = r_state r" "r_actual_state r = r_state r" "r_version r = 1"
      "r_state r \<notin> CB_TERMINAL"
    and ev: "events db' = events db @ [ev]" "e_callback_id ev = r_id r" "e_version ev = 1"
      "e_tenant_id ev = r_tenant_id r"
    and dl: "deliveries db' = deliveries db @ new"
      "\<forall>d\<in>set new. d_callback_id d = r_id r \<and> d_callback_version d = 1"
  shows "cb_inv db'"
proof -
  have fresh: "r_id r \<notin> r_id ` set (records db)"
    using r by (auto simp: cb_constraints_def record_constraints_def)
  then have none: "\<forall>e\<in>set (events db). e_callback_id e \<noteq> r_id r"
    "\<forall>d\<in>set (deliveries db). d_callback_id d \<noteq> r_id r"
    using inv unfolding cb_inv_def by metis+
  have "record_ok (events db') (deliveries db') r"
    using own none ev dl by (auto simp: record_ok_def versions_def delivery_ok_def filter_empty_conv)
  moreover have "record_ok (events db') (deliveries db') a" if a: "a \<in> set (records db)" for a
  proof -
    have "r_id a \<noteq> r_id r" using fresh a by (metis image_eqI)
    moreover have "record_ok (events db) (deliveries db) a" using inv a by (simp add: cb_inv_def)
    ultimately show ?thesis using ev dl by (auto simp: record_ok_def versions_def)
  qed
  ultimately show ?thesis using inv r ev dl by (auto simp: cb_inv_def)
qed

lemma new_record_facts:
  fixes now i p key corr dig b t ph
  defines "r \<equiv> new_record now i p key corr dig b t ph"
  shows "r_id r = i" "r_tenant_id r = b_tenant_id b" "r_campaign_id r = b_campaign_id b"
    "r_idempotency_key r = key" "r_request_hash r = dig" "r_version r = 1"
    "r_desired_state r = r_state r" "r_actual_state r = r_state r" "r_state r \<notin> CB_TERMINAL"
    "r_assigned_agent_id r = b_assigned_agent_id b" "r_assigned_team_id r = b_assigned_team_id b"
  unfolding r_def new_record_def
  by (simp_all add: compliance_state_def reminders_def CB_TERMINAL_def Let_def)

lemma create_Inl: "create env q db = (Inl e, db') \<Longrightarrow> db' = db"
  by (auto simp: create_def create_insert_def Let_def
      split: if_splits sum.splits option.splits prod.splits)

lemma create_Inr:
  assumes "create env q db = (Inr a, db')"
  obtains (prior) "db' = db" "a \<in> set (records db)" "r_tenant_id a = p_tenant (cq_principal q)"
      "r_idempotency_key a = cq_key q" "r_request_hash a = cb_hash env (cq_body q)"
  | (fresh) x t ph where
      "create_insert env x q (new_record (cq_now q) (cq_id q) (cq_principal q) (cq_key q)
         (cq_correlation q) (cb_hash env (cq_body q)) (cq_body q) t ph) db = (Inr a, db')"
      "create_valid (cq_body q)" "cb_scope (cq_principal q) (b_tenant_id (cq_body q)) (b_campaign_id (cq_body q))"
      "create_schedule env (cq_body q) = Inr (t, ph)"
proof -
  obtain x where ok: "create_valid (cq_body q)"
      "cb_scope (cq_principal q) (b_tenant_id (cq_body q)) (b_campaign_id (cq_body q))"
      "tenant_context (cq_principal q) = Inr x"
    using assms by (auto simp: create_def Let_def split: if_splits sum.splits)
  let ?p = "\<lambda>r. callback_scope x r \<and> r_tenant_id r = p_tenant (cq_principal q) \<and> r_idempotency_key r = cq_key q"
  show thesis
  proof (cases "sql_first ?p (records db)")
    case None
    with ok assms fresh show ?thesis
      by (auto simp: create_def Let_def split: sum.splits prod.splits)
  next
    case (Some c)
    with ok assms have "a = c" "db' = db" "r_request_hash c = cb_hash env (cq_body q)"
      by (auto simp: create_def Let_def split: if_splits)
    with sql_first_Some[OF Some] prior show ?thesis by simp
  qed
qed

lemma create_safe:
  assumes inv: "cb_inv db"
  shows "cb_inv (snd (create env q db))
    \<and> cb_evolves (p_tenant (cq_principal q)) (p_campaigns (cq_principal q)) db (snd (create env q db))"
proof (cases "create env q db")
  case (Pair res db')
  show ?thesis
  proof (cases res)
    case (Inl e)
    with Pair create_Inl inv show ?thesis by (metis snd_conv cb_evolves_refl)
  next
    case (Inr a)
    with Pair have "create env q db = (Inr a, db')" by simp
    then show ?thesis
    proof (cases rule: create_Inr)
      case prior
      with Pair inv show ?thesis by simp
    next
      case (fresh x t ph)
      note ins = create_insert_Inr[OF fresh(1)]
      note nr = new_record_facts[of "cq_now q" "cq_id q" "cq_principal q" "cq_key q" "cq_correlation q"
          "cb_hash env (cq_body q)" "cq_body q" t ph]
      obtain ev where ev: "events db' = events db @ [ev]" "e_callback_id ev = r_id a" "e_version ev = 1"
        "e_tenant_id ev = r_tenant_id a" using ins(1,5) nr(6) by auto
      obtain new where new: "deliveries db' = deliveries db @ new"
        "\<forall>d\<in>set new. d_callback_id d = r_id a \<and> d_callback_version d = 1" using ins(1,6) nr(6) by auto
      have own: "\<not> (falsy (r_assigned_agent_id a) \<and> falsy (r_assigned_team_id a))"
        using fresh(2) nr(10,11) ins(1) by (simp add: create_valid_def)
      have "cb_inv db'"
        by (rule inserted_inv[OF inv _ ins(3) own _ _ _ _ ev new]) (simp_all add: ins(1,2) nr)
      moreover have "cb_evolves (p_tenant (cq_principal q)) (p_campaigns (cq_principal q)) db db'"
        unfolding cb_evolves_def
        by (rule exI[of _ "\<lambda>r. r"], rule exI[of _ "[a]"])
           (use fresh(3) ins(1,2) nr in \<open>simp add: in_scope_def cb_scope_def\<close>)
      ultimately show ?thesis using Pair by simp
    qed
  qed
qed

section \<open>All transactions\<close>

lemma cb_acts_safe:
  assumes "cb_acts env t cs db db'" "cb_inv db"
  shows "cb_inv db' \<and> cb_evolves t cs db db'"
  using assms
proof cases
  case (act_result p now i b)
  then show ?thesis using callback_result_inv[OF assms(2)]
    by (simp add: cb_evolves_records callback_result_records)
next
  case (act_reconcile c)
  then show ?thesis using reconcile_inv[OF assms(2)] by (simp add: cb_evolves_records reconcile_records)
next
  case (act_deliver c gateway now locked tok limit)
  then show ?thesis using deliver_inv[OF assms(2)] by (simp add: cb_evolves_records deliver_records)
qed (use assms(2) create_safe mutate_safe claim_due_safe mark_missed_safe escalate_missed_safe in simp_all)

lemma cb_empty_inv: "cb_inv cb_empty"
  by (simp add: cb_inv_def cb_empty_def cb_constraints_def record_constraints_def
      event_constraints_def delivery_constraints_def)

lemma cb_steps_inv: "(cb_step env)\<^sup>*\<^sup>* db db' \<Longrightarrow> cb_inv db \<Longrightarrow> cb_inv db'"
  by (induction rule: rtranclp_induct) (auto simp: cb_step_def dest: cb_acts_safe)

lemma cb_reachable_inv: "cb_reachable env db \<Longrightarrow> cb_inv db"
  unfolding cb_reachable_def by (rule cb_steps_inv[OF _ cb_empty_inv])

end
