(* ===== verification/Callback_Properties.thy ===== *)
theory Callback_Properties
  imports Callback_Safety
begin

text \<open>
  The properties of the callback registry over whole runs, the idempotency ledger of \<open>create\<close>,
  and a run that exercises them: a callback is created, falls due, is started and completed.
\<close>

section \<open>Runs\<close>

lemma cb_evolves_row:
  assumes "cb_evolves t cs db db'" "r \<in> set (records db)"
  shows "\<exists>r'\<in>set (records db'). r' = r \<or> in_scope t cs r \<and> row_moved r r'"
  using assms by (fastforce simp: cb_evolves_def)

text \<open>What any number of transactions keeps of a row.\<close>

definition row_later :: "cb_record \<Rightarrow> cb_record \<Rightarrow> bool" where
  "row_later r r' \<longleftrightarrow>
     r_id r' = r_id r \<and> r_tenant_id r' = r_tenant_id r
     \<and> r_idempotency_key r' = r_idempotency_key r \<and> r_request_hash r' = r_request_hash r
     \<and> (\<lambda>a b. b \<in> CB_TRANSITIONS a)\<^sup>*\<^sup>* (r_state r) (r_state r')
     \<and> (r' = r \<or> r_version r < r_version r')"

lemma row_later_refl: "row_later r r"
  by (simp add: row_later_def)

lemma row_later_moved: "row_later r r1 \<Longrightarrow> row_moved r1 r2 \<Longrightarrow> row_later r r2"
  by (auto simp: row_later_def row_moved_def intro: rtranclp.rtrancl_into_rtrancl)

lemma cb_steps_row:
  assumes "(cb_step env)\<^sup>*\<^sup>* db db'" "cb_inv db" "r \<in> set (records db)"
  shows "\<exists>r'\<in>set (records db'). row_later r r'"
  using assms
proof (induction rule: rtranclp_induct)
  case base
  then show ?case using row_later_refl by blast
next
  case (step y z)
  then obtain r1 where r1: "r1 \<in> set (records y)" "row_later r r1" by blast
  from step.hyps(2) obtain t cs where "cb_acts env t cs y z" by (auto simp: cb_step_def)
  with cb_acts_safe cb_steps_inv[OF step.hyps(1) step.prems(1)] have "cb_evolves t cs y z" by blast
  from cb_evolves_row[OF this r1(1)] r1(2) row_later_moved show ?case by metis
qed

lemma cb_acts_outside:
  assumes "cb_evolves t cs db db'"
  shows "filter (\<lambda>r. \<not> in_scope t cs r) (records db') = filter (\<lambda>r. \<not> in_scope t cs r) (records db)"
proof -
  obtain g new where g: "records db' = map g (records db) @ new"
    "\<forall>r\<in>set (records db). g r = r \<or> in_scope t cs r \<and> row_moved r (g r)" "\<forall>r\<in>set new. in_scope t cs r"
    using assms by (auto simp: cb_evolves_def)
  have same: "filter (\<lambda>r. \<not> in_scope t cs r) (map g rs) = filter (\<lambda>r. \<not> in_scope t cs r) rs"
    if "set rs \<subseteq> set (records db)" for rs
    using that
  proof (induction rs)
    case (Cons a rs)
    then have "g a = a \<or> in_scope t cs a \<and> row_moved a (g a)" using g(2) by simp
    then have "g a = a \<or> in_scope t cs a \<and> in_scope t cs (g a)" by (auto simp: in_scope_def row_moved_def)
    with Cons show ?case by auto
  qed simp
  have "filter (\<lambda>r. \<not> in_scope t cs r) new = []" using g(3) by (simp add: filter_empty_conv)
  with same[of "records db"] g(1) show ?thesis by simp
qed

section \<open>The idempotency ledger of creation\<close>

text \<open>The database never holds a state that violates its own constraints.\<close>

definition create_in :: "cb_env \<Rightarrow> cb_create \<Rightarrow> (cb_db, cb_record) call" where
  "create_in env q db =
     (if cb_constraints db then create env q db else (Inl (IntegrityError ''callback''), db))"

definition create_key :: "cb_create \<Rightarrow> string \<times> string" where
  "create_key q = (p_tenant (cq_principal q), cq_key q)"

definition create_entry :: "cb_db \<Rightarrow> string \<times> string \<Rightarrow> (string \<times> uuid) option" where
  "create_entry db k =
     map_option (\<lambda>r. (r_request_hash r, r_id r))
       (sql_first (\<lambda>r. (r_tenant_id r, r_idempotency_key r) = k) (records db))"

lemma create_entry_mem:
  assumes "cb_constraints db" "r \<in> set (records db)"
  shows "create_entry db (r_tenant_id r, r_idempotency_key r) = Some (r_request_hash r, r_id r)"
proof -
  let ?p = "\<lambda>a. (r_tenant_id a, r_idempotency_key a) = (r_tenant_id r, r_idempotency_key r)"
  obtain a where a: "sql_first ?p (records db) = Some a"
    using assms(2) sql_first_None[of ?p "records db"] by (cases "sql_first ?p (records db)") auto
  from sql_first_Some[OF a]
  have "a = r" using assms distinct_key_unique[of "\<lambda>r. (r_tenant_id r, r_idempotency_key r)" "records db" a r]
    by (simp add: cb_constraints_def record_constraints_def)
  with a show ?thesis by (simp add: create_entry_def)
qed

lemma create_entry_Some:
  assumes "create_entry db k = Some (d, i)"
  obtains r where "r \<in> set (records db)" "k = (r_tenant_id r, r_idempotency_key r)"
    "d = r_request_hash r" "i = r_id r"
proof -
  obtain r where r: "sql_first (\<lambda>r. (r_tenant_id r, r_idempotency_key r) = k) (records db) = Some r"
    "d = r_request_hash r" "i = r_id r" using assms by (auto simp: create_entry_def)
  from sql_first_Some[OF r(1)] r(2,3) that show thesis by auto
qed

lemma create_constraints:
  assumes "create env q db = (Inr a, db')" "cb_constraints db"
  shows "cb_constraints db' \<and> a \<in> set (records db') \<and> set (records db) \<subseteq> set (records db')
    \<and> (r_tenant_id a, r_idempotency_key a) = create_key q \<and> r_request_hash a = cb_hash env (cq_body q)"
  using assms(1)
proof (cases rule: create_Inr)
  case prior
  with assms(2) show ?thesis by (simp add: create_key_def)
next
  case (fresh x t ph)
  from create_insert_Inr[OF fresh(1)] fresh(3) show ?thesis
    by (auto simp: new_record_facts create_key_def cb_scope_def)
qed

interpretation cb_ledger: idempotency_ledger "create_in env" create_key
  "\<lambda>q. cb_hash env (cq_body q)" create_entry r_id for env
proof (unfold_locales, goal_cases)
  case (1 s q r s')
  then have "create env q s = (Inr r, s')" "cb_constraints s" by (auto simp: create_in_def split: if_splits)
  from create_constraints[OF this] create_entry_mem[of s' r] show ?case by auto
next
  case (2 s q d v r s')
  then have c: "create env q s = (Inr r, s')" "cb_constraints s" by (auto simp: create_in_def split: if_splits)
  from 2(1) obtain a where a: "a \<in> set (records s)" "create_key q = (r_tenant_id a, r_idempotency_key a)"
    "d = r_request_hash a" "v = r_id a" by (rule create_entry_Some)
  note cc = create_constraints[OF c]
  have "create_entry s' (create_key q) = Some (d, v)"
    using create_entry_mem[of s' a] cc a by auto
  moreover have "create_entry s' (create_key q) = Some (r_request_hash r, r_id r)"
    using create_entry_mem[of s' r] cc by simp
  ultimately show ?case using cc by simp
next
  case (3 s k e q)
  show ?case
  proof (cases "cb_constraints s \<and> is_ok (fst (create env q s))")
    case True
    then obtain r s' where c: "create env q s = (Inr r, s')" "cb_constraints s"
      by (cases "create env q s") (auto simp: is_ok_iff)
    obtain d i where e: "e = (d, i)" by (cases e)
    from 3[unfolded e] obtain a where "a \<in> set (records s)" "k = (r_tenant_id a, r_idempotency_key a)"
      "d = r_request_hash a" "i = r_id a" by (rule create_entry_Some)
    with create_constraints[OF c] create_entry_mem[of s' a] c e show ?thesis by (auto simp: create_in_def)
  next
    case False
    then have "snd (create_in env q s) = s"
      using create_Inl by (cases "create env q s") (auto simp: create_in_def is_ok_def split: sum.splits)
    with 3 show ?thesis by simp
  qed
qed

interpretation cb_shared: shared_ledger "create_in env" create_key
  "\<lambda>q. cb_hash env (cq_body q)" create_entry r_id "\<lambda>s s'. cb_inv s \<and> cb_step env s s'" for env
proof unfold_locales
  fix s s' k e
  assume s: "cb_inv s \<and> cb_step env s s'" and e: "create_entry s k = Some e"
  obtain d i where "e = (d, i)" by (cases e)
  with e obtain a where a: "a \<in> set (records s)" "k = (r_tenant_id a, r_idempotency_key a)"
    "e = (r_request_hash a, r_id a)" using create_entry_Some by metis
  have steps: "(cb_step env)\<^sup>*\<^sup>* s s'" using s by blast
  from cb_steps_row[OF steps _ a(1)] s obtain b where "b \<in> set (records s')" "row_later a b" by blast
  moreover have "cb_constraints s'" using cb_steps_inv[OF steps] s cb_inv_constraints by blast
  ultimately show "create_entry s' k = Some e"
    using create_entry_mem[of s' b] a by (simp add: row_later_def)
qed

lemma cb_steps_with_inv:
  assumes "(cb_step env)\<^sup>*\<^sup>* db db'" "cb_inv db"
  shows "(\<lambda>s s'. cb_inv s \<and> cb_step env s s')\<^sup>*\<^sup>* db db'"
  using assms
proof (induction rule: rtranclp_induct)
  case (step y z)
  then have "cb_inv y" using cb_steps_inv by blast
  with step show ?case by (simp add: rtranclp.rtrancl_into_rtrancl)
qed simp

section \<open>Helper lemmas of the properties\<close>

lemma sql_count_zero: "sql_count p t = 0 \<longleftrightarrow> (\<forall>r\<in>set t. \<not> p r)"
  by (auto simp: sql_count_def filter_empty_conv)

lemma sql_count_zeroI: "(\<And>r. r \<in> set t \<Longrightarrow> \<not> p r) \<Longrightarrow> sql_count p t = 0"
  by (simp add: sql_count_zero)

lemma current_event:
  assumes "cb_inv db" "r \<in> set (records db)"
  shows "\<exists>e\<in>set (events db). e_callback_id e = r_id r \<and> e_version e = r_version r \<and> e_tenant_id e = r_tenant_id r"
proof -
  have ok: "record_ok (events db) (deliveries db) r" using assms by (simp add: cb_inv_def)
  then have "r_version r \<in> set (versions (r_id r) (events db))" by (simp add: record_ok_def)
  then obtain e where "e \<in> set (events db)" "e_callback_id e = r_id r" "e_version e = r_version r"
    by (auto simp: versions_def)
  with ok show ?thesis by (auto simp: record_ok_def)
qed

lemma terminal_not_pending:
  assumes "cb_inv db" "r \<in> set (records db)" "r_state r \<in> CB_TERMINAL"
    and "d \<in> set (deliveries db)" "d_callback_id d = r_id r"
  shows "\<not> cb_pending d"
  using assms by (auto simp: cb_inv_def record_ok_def delivery_ok_def)

lemma reconcile_clean:
  assumes inv: "cb_inv db" and res: "reconcile t c db = (Inr rep, db')"
  shows "orphan_assignments rep = 0 \<and> missing_current_version_events rep = 0
    \<and> terminal_future_deliveries_cancelled rep = 0"
proof -
  obtain x where x: "set_callback_rls_context t [c] ''callback-reconciler'' R_scheduler [] = Inr x"
    using res by (auto simp: reconcile_def split: if_splits sum.splits)
  define scope where "scope = (\<lambda>r. callback_scope x r \<and> r_tenant_id r = t \<and> r_campaign_id r = c)"
  have "orphan_assignments rep = sql_count (\<lambda>r. scope r \<and> r_assigned_agent_id r = None
      \<and> r_assigned_team_id r = None) (records db)"
    "missing_current_version_events rep = sql_count (\<lambda>r. scope r
      \<and> \<not> sql_exists (\<lambda>e. event_scope x e \<and> e_callback_id e = r_id r \<and> e_version e = r_version r) (events db)) (records db)"
    "terminal_future_deliveries_cancelled rep = sql_count (joined x (\<lambda>d r. scope r \<and> r_state r \<in> CB_TERMINAL \<and> cb_pending d) db)
      (deliveries db)"
    using res x unfolding reconcile_def scope_def by (auto simp: Let_def split: if_splits)
  moreover have "\<not> (scope r \<and> r_assigned_agent_id r = None \<and> r_assigned_team_id r = None)"
    if "r \<in> set (records db)" for r
  proof -
    have "record_ok (events db) (deliveries db) r" using inv that by (simp add: cb_inv_def)
    then show ?thesis by (auto simp: record_ok_def)
  qed
  moreover have "\<not> (scope r \<and> \<not> sql_exists (\<lambda>e. event_scope x e \<and> e_callback_id e = r_id r
      \<and> e_version e = r_version r) (events db))" if "r \<in> set (records db)" for r
  proof -
    from current_event[OF inv that] show ?thesis
      by (fastforce simp: sql_exists_iff event_scope_def scope_def callback_scope_def)
  qed
  moreover have "\<not> joined x (\<lambda>d r. scope r \<and> r_state r \<in> CB_TERMINAL \<and> cb_pending d) db d"
    if "d \<in> set (deliveries db)" for d
    using terminal_not_pending[OF inv _ _ that] by (auto simp: joined_def sql_exists_iff)
  ultimately show ?thesis by (simp add: sql_count_zeroI)
qed

lemma agent_reminder_unsupported: "popup_document now d r = Inl (ValueError ''unsupported callback delivery stage'')"
  if "d_stage d = ''AGENT_REMINDER_10M''"
proof -
  have "map_of STAGE_EVENTS (upper ''AGENT_REMINDER_10M'') = None" by code_simp
  with that show ?thesis by (simp add: popup_document_def)
qed

lemma popup_loop_agent_reminder:
  assumes "popup_loop gateway now rows t n = Inr (t', n')" "d' \<in> set t'"
    and "d_stage d' = ''AGENT_REMINDER_10M''"
  shows "d' \<in> set t \<or> d_status d' \<in> {DL_STALE_CANCELLED, DL_RETRY_PENDING}"
  using assms
proof (induction rows arbitrary: t n)
  case (Cons a rows)
  obtain d r where a: "a = (d, r)" by (cases a)
  obtain e n2 where e: "popup_one gateway now d r = Inr e"
    and rest: "popup_loop gateway now rows
        (sql_update (\<lambda>a. d_idempotency_key a = d_idempotency_key d) (\<lambda>_. e) t) n2 = Inr (t', n')"
    using Cons.prems(1) by (auto simp: a split: sum.splits)
  have "d_status d' \<in> {DL_STALE_CANCELLED, DL_RETRY_PENDING}" if "d' = e"
  proof -
    have "d_stage e = d_stage d"
      using e by (auto simp: popup_one_def popup_delivered_def popup_retry_def
          split: if_splits sum.splits gateway_reply.splits)
    then have "d_stage d = ''AGENT_REMINDER_10M''" using that Cons.prems(3) by simp
    from agent_reminder_unsupported[OF this] e that show ?thesis
      by (auto simp: popup_one_def popup_retry_def cancel_delivery_def split: if_splits)
  qed
  with Cons.IH[OF rest Cons.prems(2,3)] show ?case by (auto simp: in_sql_update split: if_splits)
qed simp

text \<open>Counters of the campaign dashboard.\<close>

definition counter :: "(string \<times> int) list \<Rightarrow> string \<Rightarrow> int" where
  "counter d k = (case map_of d k of None \<Rightarrow> 0 | Some v \<Rightarrow> v)"

definition dash_total :: "(string \<times> (string \<times> int) list \<times> 'o) list \<Rightarrow> int" where
  "dash_total out = sum_list (map (\<lambda>(c, counts, o'). sum_list (map (counter counts) campaign_keys)) out)"







section \<open>A run\<close>

definition demo_cb_env :: cb_env where
  "demo_cb_env =
     \<lparr>cbe_sha256 = (\<lambda>s. str_nat (length s)), cbe_dump = (\<lambda>b. JStr (b_reason b)),
      cbe_zone = (\<lambda>z. if z = ''UTC'' then Some (\<lambda>_. 0) else None), cbe_email_command_enabled = False,
      cbe_email_sender_profile_id = [], cbe_email_template_id = ''t'', cbe_email_policy_hash = []\<rparr>"

definition demo_principal :: cb_principal where
  "demo_principal = \<lparr>p_actor = ''ada'', p_tenant = ''COD'', p_campaigns = [''TEST''], p_role = R_owner, p_teams = []\<rparr>"

definition demo_body :: create_callback where
  "demo_body =
     \<lparr>b_tenant_id = ''COD'', b_campaign_id = ''TEST'', b_contact_id = None, b_lead_id = None,
      b_opportunity_id = None, b_original_call_id = None, b_original_linkedid = None,
      b_assigned_agent_id = Some ''bob'', b_assigned_user_id = Some ''bob'',
      b_reminder_recipient_token = None, b_assigned_team_id = None, b_supervisor_id = None,
      b_phone_number = ''+40 721 000 111'', b_scheduled_at = Offset 1000 0,
      b_customer_timezone = ''UTC'', b_priority = ''HIGH'', b_reason = ''quote'', b_notes = [],
      b_reminder_email_enabled = True, b_reminder_popup_enabled = True, b_max_attempts = 3,
      b_compliance = \<lparr>consent = True, dnc = False, suppressed = False, within_calling_hours = True,
                      campaign_allowed = True\<rparr>,
      b_customer_context = []\<rparr>"

definition demo_create :: cb_create where
  "demo_create =
     \<lparr>cq_now = 10, cq_id = 7, cq_notifications = (1, 2), cq_principal = demo_principal,
      cq_key = ''k1'', cq_correlation = ''c1'', cq_body = demo_body\<rparr>"

definition demo_change :: "int \<Rightarrow> cb_change" where
  "demo_change n =
     \<lparr>h_expected_version = n, h_scheduled_at = None, h_customer_timezone = None,
      h_assigned_agent_id = None, h_assigned_team_id = None, h_reason = None, h_notes = None,
      h_completion_disposition = Some ''SOLD'', h_completion_notes = None, h_snooze_minutes = None\<rparr>"

definition demo_mutation :: "cb_target \<Rightarrow> int \<Rightarrow> string \<Rightarrow> cb_mutation" where
  "demo_mutation target n key =
     \<lparr>mq_now = 3000, mq_callback_id = 7, mq_target = target, mq_change = demo_change n,
      mq_key = key, mq_correlation = ''c2'', mq_principal = demo_principal\<rparr>"

definition demo_created :: cb_db where
  "demo_created = snd (create demo_cb_env demo_create cb_empty)"

definition demo_due :: cb_db where
  "demo_due = snd (claim_due 2000 (\<lambda>_. False) ''sched'' 100 ''COD'' ''TEST'' demo_created)"

definition demo_done :: cb_db where
  "demo_done = snd (mutate demo_cb_env (demo_mutation T_COMPLETED 3 ''k3'')
                (snd (mutate demo_cb_env (demo_mutation T_IN_PROGRESS 2 ''k2'') demo_due)))"

lemma demo_created_step: "cb_step demo_cb_env cb_empty demo_created"
  unfolding cb_step_def demo_created_def using act_create by blast

lemma demo_due_step: "cb_step demo_cb_env demo_created demo_due"
  unfolding cb_step_def demo_due_def using act_claim_due by blast

lemma demo_done_steps: "(cb_step demo_cb_env)\<^sup>*\<^sup>* demo_due demo_done"
proof -
  have "cb_step demo_cb_env s (snd (mutate demo_cb_env q s))" for q s
    unfolding cb_step_def using act_mutate by blast
  then show ?thesis unfolding demo_done_def by (meson rtranclp.rtrancl_into_rtrancl rtranclp.rtrancl_refl)
qed

lemma cb_demo_reachable:
  "cb_reachable demo_cb_env demo_created" "cb_reachable demo_cb_env demo_due" "cb_reachable demo_cb_env demo_done"
proof -
  show a: "cb_reachable demo_cb_env demo_created"
    unfolding cb_reachable_def using demo_created_step by blast
  then show b: "cb_reachable demo_cb_env demo_due"
    unfolding cb_reachable_def using demo_due_step by (rule rtranclp.rtrancl_into_rtrancl)
  then show "cb_reachable demo_cb_env demo_done"
    unfolding cb_reachable_def using demo_done_steps by (rule rtranclp_trans)
qed

lemma demo_created_rows:
  "map (\<lambda>r. (r_id r, r_state r, r_version r)) (records demo_created) = [(7, CB_SCHEDULED, 1)]"
  by code_simp

lemma demo_due_rows:
  "map (\<lambda>r. (r_id r, r_state r, r_version r)) (records demo_due) = [(7, CB_DUE, 2)]"
  by code_simp

lemma demo_done_rows:
  "map (\<lambda>r. (r_id r, r_state r, r_version r)) (records demo_done) = [(7, CB_COMPLETED, 4)]"
  by code_simp

section \<open>Properties\<close>

text \<open>
  C13. The event ledger is complete. In every reachable state the events of a callback carry the
  versions 1, 2, up to its current version, once each and in order. Hence \<open>reconcile\<close> finds no
  callback without an owner, none whose current version has no event, and no reminder pending
  for a finished callback, in any tenant and campaign.
\<close>

theorem callback_ledger_complete:
  assumes "cb_reachable env db"
  shows "(\<forall>r\<in>set (records db).
            map e_version (filter (\<lambda>e. e_callback_id e = r_id r) (events db)) = [1..r_version r])
    \<and> (reconcile t c db = (Inr rep, db') \<longrightarrow>
         orphan_assignments rep = 0 \<and> missing_current_version_events rep = 0
         \<and> terminal_future_deliveries_cancelled rep = 0)"
proof -
  have inv: "cb_inv db" using assms by (rule cb_reachable_inv)
  then show ?thesis
    using reconcile_clean[OF inv] by (auto simp: cb_inv_def record_ok_def versions_def)
qed

lemma demo_reconcile: "is_ok (fst (reconcile ''COD'' ''TEST'' demo_due))"
  by code_simp

theorem callback_ledger_complete_witness:
  "(\<exists>r\<in>set (records demo_due).
      map e_version (filter (\<lambda>e. e_callback_id e = r_id r) (events demo_due)) = [1..r_version r])
   \<and> (\<exists>rep db'. reconcile ''COD'' ''TEST'' demo_due = (Inr rep, db')
        \<and> missing_current_version_events rep = 0)"
proof -
  obtain rep db' where rec: "reconcile ''COD'' ''TEST'' demo_due = (Inr rep, db')"
    using demo_reconcile by (cases "reconcile ''COD'' ''TEST'' demo_due") (auto simp: is_ok_iff)
  obtain r where "r \<in> set (records demo_due)" using demo_due_rows by auto
  with callback_ledger_complete[OF cb_demo_reachable(2), of "''COD''" "''TEST''" rep db'] rec
  show ?thesis by blast
qed



text \<open>
  C15. A finished callback is never reminded again. Once a callback of a reachable state is
  completed or cancelled, then after any further transactions none of its deliveries is queued
  or waits for a retry, so the popup worker never selects one of them.
\<close>

theorem finished_callback_not_reminded:
  assumes "cb_reachable env db" "r \<in> set (records db)" "r_state r \<in> CB_TERMINAL"
    and "(cb_step env)\<^sup>*\<^sup>* db db'"
  shows "(\<forall>d\<in>set (deliveries db'). d_callback_id d = r_id r \<longrightarrow> \<not> cb_pending d)
    \<and> (\<forall>(d, a)\<in>set (popup_rows now locked x t c db'). r_id a \<noteq> r_id r)"
proof -
  have inv: "cb_inv db" using assms(1) by (rule cb_reachable_inv)
  have inv': "cb_inv db'" using assms(4) inv by (rule cb_steps_inv)
  from cb_steps_row[OF assms(4) inv assms(2)] obtain r' where r': "r' \<in> set (records db')" "row_later r r'"
    by blast
  then have later: "r_id r' = r_id r" "(\<lambda>a b. b \<in> CB_TRANSITIONS a)\<^sup>*\<^sup>* (r_state r) (r_state r')"
    by (simp_all add: row_later_def)
  then have "r_state r' \<in> CB_TERMINAL" using cb_life.terminal_absorbing[OF later(2) assms(3)] assms(3) by simp
  with terminal_not_pending[OF inv' r'(1)] later(1)
  have quiet: "\<not> cb_pending d" if "d \<in> set (deliveries db')" "d_callback_id d = r_id r" for d
    using that by simp
  moreover have "r_id a \<noteq> r_id r" if "(d, a) \<in> set (popup_rows now locked x t c db')" for d a
    using popup_rows_mem[OF that] quiet[of d] by (auto simp: popup_due_def)
  ultimately show ?thesis by blast
qed

lemma demo_done_deliveries:
  "map (\<lambda>d. (d_callback_id d, d_stage d)) (deliveries demo_done)
   = [(7, ''WARNING_15M''), (7, ''DUE''), (7, ''AGENT_REMINDER_10M'')]"
  by code_simp

theorem finished_callback_not_reminded_witness:
  "\<exists>r\<in>set (records demo_done). r_state r = CB_COMPLETED
     \<and> (\<exists>d\<in>set (deliveries demo_done). d_callback_id d = r_id r \<and> \<not> cb_pending d)"
proof -
  from demo_done_rows obtain r where r: "r \<in> set (records demo_done)" "r_state r = CB_COMPLETED" "r_id r = 7"
    by auto
  have "(7, ''DUE'') \<in> set (map (\<lambda>d. (d_callback_id d, d_stage d)) (deliveries demo_done))"
    unfolding demo_done_deliveries by simp
  then obtain d where d: "d \<in> set (deliveries demo_done)" "d_callback_id d = 7" by auto
  have "r_state r \<in> CB_TERMINAL" using r(2) by (simp add: CB_TERMINAL_def)
  from finished_callback_not_reminded[OF cb_demo_reachable(3) r(1) this rtranclp.rtrancl_refl]
  have "\<not> cb_pending d" using d r(3) by simp
  with r d show ?thesis by (intro bexI[of _ r] conjI bexI[of _ d]) simp_all
qed

text \<open>
  C16. A callback is created once per key. If \<open>create\<close> has answered, then in every later state a
  request of the same tenant with the same idempotency key is answered only when the digest of
  its body is the same, and then with the same callback.
\<close>

theorem callback_created_once:
  assumes "cb_reachable env db" "create env q db = (Inr r, db1)" "(cb_step env)\<^sup>*\<^sup>* db1 db2"
    and "create env q' db2 = (Inr r', db3)"
    and "p_tenant (cq_principal q') = p_tenant (cq_principal q)" "cq_key q' = cq_key q"
  shows "cb_hash env (cq_body q') = cb_hash env (cq_body q) \<and> r_id r' = r_id r"
proof -
  have inv: "cb_inv db" using assms(1) by (rule cb_reachable_inv)
  have inv1: "cb_inv db1" using create_safe[OF inv, of env q] assms(2) by simp
  have inv2: "cb_inv db2" using assms(3) inv1 by (rule cb_steps_inv)
  have "create_in env q db = (Inr r, db1)" "create_in env q' db2 = (Inr r', db3)"
    using assms(2,4) inv inv2 cb_inv_constraints by (simp_all add: create_in_def)
  moreover have "create_key q' = create_key q" using assms(5,6) by (simp add: create_key_def)
  ultimately show ?thesis
    using cb_shared.first_answer_wins_later[OF _ cb_steps_with_inv[OF assms(3) inv1]] by metis
qed

lemma demo_create_ok:
  "is_ok (fst (create demo_cb_env demo_create cb_empty))"
  "is_ok (fst (create demo_cb_env (demo_create\<lparr>cq_id := 8\<rparr>) demo_due))"
  by code_simp+

theorem callback_created_once_witness:
  "\<exists>r r' db3. create demo_cb_env demo_create cb_empty = (Inr r, demo_created)
     \<and> create demo_cb_env (demo_create\<lparr>cq_id := 8\<rparr>) demo_due = (Inr r', db3) \<and> r_id r' = r_id r"
proof -
  obtain r where r: "create demo_cb_env demo_create cb_empty = (Inr r, demo_created)"
    using demo_create_ok(1) by (cases "create demo_cb_env demo_create cb_empty") (auto simp: is_ok_iff demo_created_def)
  obtain r' db3 where r': "create demo_cb_env (demo_create\<lparr>cq_id := 8\<rparr>) demo_due = (Inr r', db3)"
    using demo_create_ok(2) by (cases "create demo_cb_env (demo_create\<lparr>cq_id := 8\<rparr>) demo_due") (auto simp: is_ok_iff)
  have "cb_reachable demo_cb_env cb_empty" by (simp add: cb_reachable_def)
  moreover have "(cb_step demo_cb_env)\<^sup>*\<^sup>* demo_created demo_due" using demo_due_step by blast
  ultimately have "r_id r' = r_id r" using callback_created_once[OF _ r _ r'] by simp
  with r r' show ?thesis by simp
qed

text \<open>
  C17. Callers are isolated. However many transactions a caller for one tenant and a set of
  campaigns runs (endpoints, scheduler or popup worker), the callbacks of other tenants and
  campaigns stay exactly as they were, in the same order, and none is added there.
\<close>

theorem callers_isolated:
  assumes "cb_reachable env db" "(cb_acts env t cs)\<^sup>*\<^sup>* db db'"
  shows "filter (\<lambda>r. \<not> (r_tenant_id r = t \<and> r_campaign_id r \<in> set cs)) (records db')
    = filter (\<lambda>r. \<not> (r_tenant_id r = t \<and> r_campaign_id r \<in> set cs)) (records db)"
proof -
  from assms(2) have "cb_inv db' \<and> filter (\<lambda>r. \<not> in_scope t cs r) (records db')
    = filter (\<lambda>r. \<not> in_scope t cs r) (records db)"
  proof (induction rule: rtranclp_induct)
    case base
    from assms(1) show ?case by (simp add: cb_reachable_inv)
  next
    case (step y z)
    then have "cb_inv z" "cb_evolves t cs y z" using cb_acts_safe by blast+
    with step.IH cb_acts_outside[of t cs y z] show ?case by simp
  qed
  then show ?thesis by (simp add: in_scope_def)
qed

theorem callers_isolated_witness:
  "cb_acts demo_cb_env ''COD'' [''OTHER''] demo_due
     (snd (claim_due 9000 (\<lambda>_. False) ''sched'' 100 ''COD'' ''OTHER'' demo_due))
   \<and> filter (\<lambda>r. \<not> (r_tenant_id r = ''COD'' \<and> r_campaign_id r \<in> set [''OTHER'']))
       (records (snd (claim_due 9000 (\<lambda>_. False) ''sched'' 100 ''COD'' ''OTHER'' demo_due)))
     = filter (\<lambda>r. \<not> (r_tenant_id r = ''COD'' \<and> r_campaign_id r \<in> set [''OTHER''])) (records demo_due)"
proof -
  have act: "cb_acts demo_cb_env ''COD'' [''OTHER''] demo_due
     (snd (claim_due 9000 (\<lambda>_. False) ''sched'' 100 ''COD'' ''OTHER'' demo_due))"
    by (rule act_claim_due)
  moreover have "(cb_acts demo_cb_env ''COD'' [''OTHER''])\<^sup>*\<^sup>* demo_due
     (snd (claim_due 9000 (\<lambda>_. False) ''sched'' 100 ''COD'' ''OTHER'' demo_due))" using act by blast
  ultimately show ?thesis using callers_isolated[OF cb_demo_reachable(2)] by blast
qed

text \<open>
  C18. The second popup that \<open>claim_due\<close> queues is never delivered. Its stage
  \<open>AGENT_REMINDER_10M\<close> is missing from \<open>STAGE_EVENTS\<close>, so a run of the popup worker leaves such a
  delivery as it was, cancels it as stale, or puts it back for another retry, whatever the
  gateway answers.
\<close>

theorem agent_reminder_never_delivered:
  assumes "deliver_callback_popups gateway now locked t c tok limit db = (Inr n, db')"
    and "d \<in> set (deliveries db')" "d_stage d = ''AGENT_REMINDER_10M''"
  shows "d \<in> set (deliveries db) \<or> d_status d \<in> {DL_STALE_CANCELLED, DL_RETRY_PENDING}"
proof -
  from assms(1) obtain rows t' where "popup_loop gateway now rows (deliveries db)
      \<lparr>delivered = 0, retried = 0, stale_popups = 0\<rparr> = Inr (t', n)" "deliveries db' = t'"
    by (auto simp: deliver_callback_popups_def Let_def split: if_splits sum.splits)
  with popup_loop_agent_reminder assms(2,3) show ?thesis by metis
qed

definition demo_delivered :: cb_db where
  "demo_delivered = snd (deliver_callback_popups (\<lambda>_. Gw_accepted) 700000000 (\<lambda>_. False) ''COD'' ''TEST'' ''tok'' 50 demo_due)"

lemma demo_delivered_rows:
  "is_ok (fst (deliver_callback_popups (\<lambda>_. Gw_accepted) 700000000 (\<lambda>_. False) ''COD'' ''TEST'' ''tok'' 50 demo_due))"
  "map (\<lambda>d. (d_stage d, d_status d)) (deliveries demo_delivered)
   = [(''WARNING_15M'', DL_STALE_CANCELLED), (''DUE'', DL_DELIVERED), (''AGENT_REMINDER_10M'', DL_RETRY_PENDING)]"
  by code_simp+

theorem agent_reminder_never_delivered_witness:
  "\<exists>d\<in>set (deliveries demo_delivered). d_stage d = ''AGENT_REMINDER_10M''
     \<and> (d \<in> set (deliveries demo_due) \<or> d_status d \<in> {DL_STALE_CANCELLED, DL_RETRY_PENDING})"
proof -
  have "(''AGENT_REMINDER_10M'', DL_RETRY_PENDING) \<in> set (map (\<lambda>d. (d_stage d, d_status d)) (deliveries demo_delivered))"
    unfolding demo_delivered_rows(2) by simp
  then obtain d where d: "d \<in> set (deliveries demo_delivered)" "d_stage d = ''AGENT_REMINDER_10M''" by auto
  obtain n where "deliver_callback_popups (\<lambda>_. Gw_accepted) 700000000 (\<lambda>_. False) ''COD'' ''TEST'' ''tok'' 50 demo_due
      = (Inr n, demo_delivered)"
    using demo_delivered_rows(1) unfolding demo_delivered_def by (metis is_ok_iff prod.collapse)
  from agent_reminder_never_delivered[OF this d] d show ?thesis by blast
qed





end
