(* ===== verification/Orders.thy ===== *)
theory Orders
  imports Python
begin

text \<open>
  Approved-order orchestration: \<open>app/order_orchestration.py\<close> (envelopes, dispatch checks, the
  in-memory \<open>OrderStore\<close>, body integrity) and the endpoints of \<open>app/api/v1/orders.py\<close>. The records
  of the store are shared Python dicts, so an endpoint that raises after an assignment leaves the
  assignment behind: every operation returns the store with its result or its exception.
\<close>

section \<open>Envelopes\<close>

datatype order_status = OS_RECEIVED | OS_VALIDATING | OS_VALIDATED | OS_APPROVAL_REQUIRED
  | OS_APPROVED | OS_REJECTED | OS_QUEUED | OS_DISPATCHED_TO_N8N | OS_RUNNING
  | OS_PARTIALLY_COMPLETED | OS_COMPLETED | OS_FAILED_RETRYABLE | OS_RETRY_SCHEDULED
  | OS_FAILED_FINAL | OS_DEAD_LETTER | OS_HUMAN_REVIEW | OS_CANCELLED | OS_EXPIRED

definition ALLOWED_WORKFLOWS :: "string list" where
  "ALLOWED_WORKFLOWS =
     [''CDST-ORDER-VALIDATE-V1'', ''CDST-ORDER-ROUTER-V1'', ''CDST-ORDER-EXECUTE-V1'',
      ''CDST-ORDER-SHIPPING-V1'', ''CDST-ORDER-FULFILLMENT-V1'', ''CDST-ORDER-CUSTOMER-SETUP-V1'',
      ''CDST-ORDER-SOCIAL-DRAFT-V1'', ''CDST-ORDER-SOCIAL-CAMPAIGN-V1'', ''CDST-ORDER-CALLBACK-V1'',
      ''CDST-ORDER-INTERNAL-REPORT-V1'', ''CDST-ORDER-RESULT-V1'', ''CDST-ORDER-FAILURE-V1'',
      ''CDST-ORDER-DEAD-LETTER-V1'', ''CDST-ORDER-RECONCILIATION-V1'']"

definition ALLOWED_ACTIONS :: "string list" where
  "ALLOWED_ACTIONS =
     [''validate_customer'', ''create_fulfillment_task'', ''request_shipping_quote'',
      ''schedule_pickup'', ''create_callback'', ''prepare_campaign_draft'', ''create_social_draft'',
      ''request_document'', ''generate_internal_report'', ''notify_internal_team'']"

definition BLOCKED_ACTIONS :: "string list" where
  "BLOCKED_ACTIONS =
     [''charge_payment_method'', ''send_customer_message'', ''place_external_call'',
      ''publish_social_post'', ''delete_record'', ''cancel_customer_service'',
      ''export_customer_database'']"

datatype order_approval_state = AS_pending | AS_approved | AS_rejected

fun approval_name :: "order_approval_state \<Rightarrow> string" where
  "approval_name AS_pending = ''pending''"
| "approval_name AS_approved = ''approved''"
| "approval_name AS_rejected = ''rejected''"

record order_approval =
  ap_required :: bool
  ap_status :: order_approval_state
  ap_approved_by :: "string option"
  ap_approved_at :: "instant option"
  ap_content_hash :: string

text \<open>
  The fields of \<open>OrderEnvelope\<close> that \<open>content_hash\<close> covers, and the approval fields it excludes.
\<close>

record order_content =
  o_schema_version :: string
  o_command_id :: string
  o_event_id :: string
  o_order_id :: string
  o_order_type :: string
  o_source_system :: string
  o_organization_id :: string
  o_customer_reference :: string
  o_workflow_code :: string
  o_workflow_version :: string
  o_payload :: "(string \<times> json) list"
  o_requested_actions :: "string list"
  o_constraints :: "(string \<times> json) list"
  o_idempotency_key :: string
  o_correlation_id :: string
  o_trace_id :: string
  o_requested_at :: datetime
  o_expires_at :: datetime

record order_envelope = order_content +
  o_approval :: order_approval
  o_approval_required :: "bool option"
  o_approval_status :: "string option"
  o_approval_reference :: "string option"
  o_approval_content_hash :: "string option"
  o_approved_actions :: "string list option"

text \<open>Comparing an aware with a naive \<open>datetime\<close> raises \<open>TypeError\<close>.\<close>

definition dt_le :: "datetime \<Rightarrow> datetime \<Rightarrow> bool result" where
  "dt_le a b =
     (case (a, b) of
        (Aware x, Aware y) \<Rightarrow> Inr (x \<le> y)
      | (Naive x, Naive y) \<Rightarrow> Inr (x \<le> y)
      | _ \<Rightarrow> Inl (RuntimeError ''TypeError''))"

definition order_fields_ok :: "order_envelope \<Rightarrow> bool" where
  "order_fields_ok o' \<longleftrightarrow>
     o_schema_version o' = ''codestra.order.command.v1''
     \<and> list_all (\<lambda>s. s \<noteq> [] \<and> int (length s) \<le> 128)
         [o_command_id o', o_event_id o', o_order_id o', o_organization_id o',
          o_customer_reference o', o_correlation_id o', o_trace_id o']
     \<and> o_order_type o' \<noteq> [] \<and> int (length (o_order_type o')) \<le> 64
     \<and> o_source_system o' \<noteq> [] \<and> int (length (o_source_system o')) \<le> 32
     \<and> o_workflow_code o' \<noteq> [] \<and> int (length (o_workflow_code o')) \<le> 64
     \<and> o_workflow_version o' \<noteq> [] \<and> int (length (o_workflow_version o')) \<le> 16
     \<and> o_requested_actions o' \<noteq> [] \<and> int (length (o_requested_actions o')) \<le> 20
     \<and> 16 \<le> int (length (o_idempotency_key o')) \<and> int (length (o_idempotency_key o')) \<le> 255
     \<and> (case ap_approved_by (o_approval o') of None \<Rightarrow> True | Some a \<Rightarrow> int (length a) \<le> 128)
     \<and> int (length (ap_content_hash (o_approval o'))) = 64"

definition validate_time_order :: "order_envelope \<Rightarrow> order_envelope result" where
  "validate_time_order o' =
     (case dt_le (o_expires_at o') (o_requested_at o') of
        Inl e \<Rightarrow> Inl e
      | Inr late \<Rightarrow> if late then Inl (ValueError ''expires_at must be after requested_at'') else Inr o')"

definition normalize_approval_fields :: "order_envelope \<Rightarrow> order_envelope" where
  "normalize_approval_fields o' =
     o'\<lparr>o_approval_required := Some (case o_approval_required o' of None \<Rightarrow> ap_required (o_approval o') | Some b \<Rightarrow> b),
        o_approval_status := Some (case o_approval_status o' of None \<Rightarrow> approval_name (ap_status (o_approval o')) | Some s \<Rightarrow> s),
        o_approval_content_hash :=
          Some (case o_approval_content_hash o' of None \<Rightarrow> ap_content_hash (o_approval o') | Some h \<Rightarrow> h),
        o_approved_actions :=
          Some (case o_approved_actions o' of None \<Rightarrow> o_requested_actions o' | Some a \<Rightarrow> a)\<rparr>"

definition parse_order :: "order_envelope \<Rightarrow> order_envelope result" where
  "parse_order o' =
     (if \<not> order_fields_ok o' then Inl (HTTPException 422 ''validation error'')
      else case validate_time_order o' of
        Inl (ValueError m) \<Rightarrow> Inl (HTTPException 422 m)
      | Inl e \<Rightarrow> Inl e
      | Inr a \<Rightarrow> Inr (normalize_approval_fields a))"

record approval_request =
  ar_approved_by :: string
  ar_content_hash :: string

datatype result_status = RS_completed | RS_partially_completed | RS_failed

record result_envelope =
  re_command_id :: string
  re_order_id :: string
  re_workflow_code :: string
  re_execution_id :: string
  re_status :: result_status
  re_completed_actions :: "string list"
  re_failed_actions :: "string list"
  re_result :: "(string \<times> json) list"
  re_retryable :: bool
  re_error_code :: "string option"
  re_error_message :: "string option"
  re_correlation_id :: string
  re_trace_id :: string
  re_started_at :: datetime
  re_completed_at :: datetime

record error_envelope =
  ee_command_id :: string
  ee_order_id :: string
  ee_workflow_code :: string
  ee_error_code :: string
  ee_error_message :: string
  ee_retryable :: bool
  ee_correlation_id :: string
  ee_trace_id :: string

record dead_letter_envelope =
  de_command_id :: string
  de_order_id :: string
  de_workflow_code :: string
  de_reason_code :: string
  de_reason :: string
  de_retry_count :: int
  de_correlation_id :: string
  de_trace_id :: string

section \<open>Settings and integrity\<close>

datatype order_body = B_order order_envelope | B_progress order_envelope int string
  | B_reconcile order_envelope string | B_approval approval_request | B_result result_envelope
  | B_error error_envelope | B_dead_letter dead_letter_envelope | B_empty

text \<open>
  From outside: the two digests (\<open>sha256\<close> and HMAC-SHA256 under a secret), pydantic's dump of the
  hashed fields and of a request body, and the settings.
\<close>

record order_env =
  oe_sha256 :: "string \<Rightarrow> string"
  oe_hmac :: "string \<Rightarrow> string \<Rightarrow> string"
  oe_dump_content :: "order_content \<Rightarrow> json"
  oe_dump_body :: "order_body \<Rightarrow> json"
  oe_middleware_secret :: string
  oe_order_orchestration_enabled :: bool
  oe_n8n_order_dispatch_enabled :: bool

definition content_hash :: "order_env \<Rightarrow> order_envelope \<Rightarrow> string" where
  "content_hash env o' = oe_sha256 env (json_canonical (oe_dump_content env (order_content.truncate o')))"

record order_headers =
  hd_timestamp :: "string option"
  hd_nonce :: "string option"
  hd_signature :: "string option"
  hd_body_hash :: "string option"

definition verify_body_integrity :: "order_env \<Rightarrow> order_body \<Rightarrow> order_headers \<Rightarrow> unit result" where
  "verify_body_integrity env body h =
     (if falsy (hd_timestamp h) \<or> falsy (hd_nonce h) \<or> falsy (hd_signature h) \<or> falsy (hd_body_hash h)
      then Inl (HTTPException 401 ''timestamp, nonce, signature, and body hash are required'')
      else
        let computed_hash = oe_sha256 env (json_canonical (oe_dump_body env body)) in
        if computed_hash \<noteq> the (hd_body_hash h) then Inl (HTTPException 401 ''body hash mismatch'')
        else if oe_middleware_secret env \<noteq> []
          \<and> oe_hmac env (oe_middleware_secret env)
              (the (hd_timestamp h) @ ''.'' @ the (hd_nonce h) @ ''.'' @ computed_hash)
            \<noteq> the (hd_signature h)
        then Inl (HTTPException 401 ''signature invalid'')
        else Inr ())"

definition is_synthetic :: "order_envelope \<Rightarrow> bool" where
  "is_synthetic o' \<longleftrightarrow> startswith (o_order_id o') ''CODESTRA-INTEGRATION-TEST-''"

definition validate_for_dispatch :: "order_env \<Rightarrow> instant \<Rightarrow> order_envelope \<Rightarrow> unit result" where
  "validate_for_dispatch env now o' =
     (case dt_le (o_expires_at o') (Aware now) of
        Inl e \<Rightarrow> Inl e
      | Inr expired \<Rightarrow>
          if expired then Inl (HTTPException 422 ''order has expired'')
          else if o_workflow_code o' \<notin> set ALLOWED_WORKFLOWS
          then Inl (HTTPException 422 ''workflow code is not allowlisted'')
          else if list_ex (\<lambda>a. a \<in> set BLOCKED_ACTIONS) (o_requested_actions o')
          then Inl (HTTPException 422 ''requested action is blocked'')
          else if \<not> list_all (\<lambda>a. a \<in> set ALLOWED_ACTIONS) (o_requested_actions o')
          then Inl (HTTPException 422 ''requested action is not allowlisted'')
          else if ap_required (o_approval o') \<and> ap_status (o_approval o') \<noteq> AS_approved
          then Inl (HTTPException 409 ''approval is required before dispatch'')
          else if ap_content_hash (o_approval o') \<noteq> content_hash env o'
          then Inl (HTTPException 409 ''approval content hash does not match order'')
          else if \<not> is_synthetic o' \<and> \<not> oe_order_orchestration_enabled env
          then Inl (HTTPException 503 ''order orchestration is disabled'')
          else if \<not> oe_n8n_order_dispatch_enabled env \<and> \<not> is_synthetic o'
          then Inl (HTTPException 503 ''n8n order dispatch is disabled'')
          else Inr ())"

section \<open>The store\<close>

record order_record =
  or_order_id :: string
  or_command_id :: string
  or_workflow_code :: string
  or_status :: order_status
  or_content_hash :: string
  or_trace_id :: string
  or_correlation_id :: string
  or_envelope :: order_envelope
  or_duplicate :: bool
  or_dispatch :: "(string \<times> instant) option"
  or_result :: "result_envelope option"
  or_error_code :: "string option"
  or_dead_letter :: "dead_letter_envelope option"

record order_command =
  oc_command_id :: string
  oc_order_id :: string
  oc_workflow_code :: string
  oc_status :: order_status
  oc_progress :: "(int \<times> string) list"
  oc_attempts :: int

record order_audit =
  oa_order_id :: string
  oa_event :: string
  oa_details :: "(string \<times> json) list"

record order_store =
  orders :: "string \<rightharpoonup> order_record"
  by_idempotency :: "string \<rightharpoonup> string"
  order_commands :: "string \<rightharpoonup> order_command"
  audit_events :: "order_audit list"
  order_metrics :: "string \<Rightarrow> int"

definition new_store :: order_store where
  "new_store = \<lparr>orders = Map.empty, by_idempotency = Map.empty, order_commands = Map.empty,
                audit_events = [], order_metrics = (\<lambda>_. 0)\<rparr>"

definition os_count :: "string \<Rightarrow> order_store \<Rightarrow> order_store" where
  "os_count name s = s\<lparr>order_metrics := (order_metrics s)(name := order_metrics s name + 1)\<rparr>"

definition os_audit :: "string \<Rightarrow> string \<Rightarrow> (string \<times> json) list \<Rightarrow> order_store \<Rightarrow> order_store" where
  "os_audit order_id event details s =
     s\<lparr>audit_events := audit_events s @ [\<lparr>oa_order_id = order_id, oa_event = event, oa_details = details\<rparr>]\<rparr>"

definition set_order :: "string \<Rightarrow> (order_record \<Rightarrow> order_record) \<Rightarrow> order_store \<Rightarrow> order_store" where
  "set_order i f s = s\<lparr>orders := (orders s)(i := map_option f (orders s i))\<rparr>"

definition set_command :: "string \<Rightarrow> (order_command \<Rightarrow> order_command) \<Rightarrow> order_store \<Rightarrow> order_store" where
  "set_command i f s = s\<lparr>order_commands := (order_commands s)(i := map_option f (order_commands s i))\<rparr>"

definition new_order :: "order_env \<Rightarrow> order_envelope \<Rightarrow> order_record" where
  "new_order env o' =
     \<lparr>or_order_id = o_order_id o', or_command_id = o_command_id o',
      or_workflow_code = o_workflow_code o',
      or_status = (if ap_required (o_approval o') then OS_APPROVAL_REQUIRED else OS_VALIDATED),
      or_content_hash = content_hash env o', or_trace_id = o_trace_id o',
      or_correlation_id = o_correlation_id o', or_envelope = o', or_duplicate = False,
      or_dispatch = None, or_result = None, or_error_code = None, or_dead_letter = None\<rparr>"

definition order_create :: "order_env \<Rightarrow> order_envelope \<Rightarrow> (order_store, order_record) call" where
  "order_create env o' s =
     (case by_idempotency s (o_idempotency_key o') of
        Some i \<Rightarrow>
          (case orders s i of
             None \<Rightarrow> (Inl (KeyError i), s)
           | Some existing \<Rightarrow>
               if or_content_hash existing \<noteq> content_hash env o'
               then (Inl (HTTPException 409 ''duplicate idempotency key conflict''), s)
               else (Inr (existing\<lparr>or_duplicate := True\<rparr>), os_count ''order_duplicate_suppression_total'' s))
      | None \<Rightarrow>
          (Inr (new_order env o'),
           os_audit (o_order_id o') ''order_received'' [(''trace_id'', JStr (o_trace_id o'))]
             (os_count (if ap_status (o_approval o') = AS_approved then ''orders_approved_total''
                        else ''orders_validated_total'')
               (os_count ''orders_received_total''
                 (s\<lparr>orders := (orders s)(o_order_id o' \<mapsto> new_order env o'),
                    by_idempotency := (by_idempotency s)(o_idempotency_key o' \<mapsto> o_order_id o')\<rparr>)))))"

definition order_get :: "string \<Rightarrow> order_store \<Rightarrow> order_record result" where
  "order_get i s = (case orders s i of None \<Rightarrow> Inl (HTTPException 404 ''order not found'') | Some r \<Rightarrow> Inr r)"

definition order_command_for :: "string \<Rightarrow> string \<Rightarrow> (order_store, order_command) call" where
  "order_command_for command_id order_id s =
     (case order_get order_id s of
        Inl e \<Rightarrow> (Inl e, s)
      | Inr r \<Rightarrow>
          (case order_commands s command_id of
             Some existing \<Rightarrow>
               if oc_order_id existing \<noteq> order_id
               then (Inl (HTTPException 409 ''command reference conflict''), s) else (Inr existing, s)
           | None \<Rightarrow>
               let c = \<lparr>oc_command_id = command_id, oc_order_id = order_id,
                        oc_workflow_code = or_workflow_code r, oc_status = OS_QUEUED,
                        oc_progress = [], oc_attempts = 0\<rparr>
               in (Inr c,
                   os_audit order_id ''command_created'' [(''command_id'', JStr command_id)]
                     (os_count ''orders_dispatched_total''
                       (s\<lparr>order_commands := (order_commands s)(command_id \<mapsto> c)\<rparr>)))))"

definition security_errors :: "string list" where
  "security_errors = [''AUTHENTICATION_FAILURE'', ''AUTHORIZATION_FAILURE'', ''INVALID_SIGNATURE'']"

definition can_retry :: "string \<Rightarrow> bool \<Rightarrow> int \<Rightarrow> int \<Rightarrow> bool" where
  "can_retry error_code retryable attempts max_attempts \<longleftrightarrow>
     retryable \<and> error_code \<notin> set security_errors \<and> attempts < max_attempts"

definition record_failure :: "string \<Rightarrow> string \<Rightarrow> bool \<Rightarrow> int \<Rightarrow> (order_store, order_command) call" where
  "record_failure command_id error_code retryable max_attempts s =
     (case order_commands s command_id of
        None \<Rightarrow> (Inl (HTTPException 404 ''command not found''), s)
      | Some c \<Rightarrow>
          (case order_get (oc_order_id c) s of
             Inl e \<Rightarrow> (Inl e, s)
           | Inr r \<Rightarrow>
               let n = oc_attempts c + 1;
                   again = can_retry error_code retryable n max_attempts;
                   cstat = (if again then OS_RETRY_SCHEDULED
                            else if retryable then OS_DEAD_LETTER else OS_FAILED_FINAL);
                   ostat = (if again then OS_FAILED_RETRYABLE else cstat);
                   c' = c\<lparr>oc_attempts := n, oc_status := cstat\<rparr>;
                   s1 = set_order (oc_order_id c) (\<lambda>r. r\<lparr>or_status := ostat\<rparr>)
                          (set_command command_id (\<lambda>_. c') s);
                   s2 = (if again then os_count ''orders_retried_total'' s1
                         else if retryable then os_count ''orders_dead_lettered_total'' s1 else s1);
                   s3 = (if error_code \<in> set security_errors
                         then os_count ''security_failure_retry_total'' s2 else s2)
               in (Inr c',
                   os_audit (or_order_id r) ''command_failure''
                     [(''command_id'', JStr command_id), (''error_code'', JStr error_code),
                      (''retryable'', JBool again)]
                     (os_count ''orders_failed_total'' s3))))"

definition record_result :: "string \<Rightarrow> result_status \<Rightarrow> (order_store, order_command) call" where
  "record_result command_id st s =
     (case order_commands s command_id of
        None \<Rightarrow> (Inl (HTTPException 404 ''command not found''), s)
      | Some c \<Rightarrow>
          if oc_status c = OS_COMPLETED \<and> st = RS_completed then (Inr c, s)
          else case order_get (oc_order_id c) s of
            Inl e \<Rightarrow> (Inl e, s)
          | Inr r \<Rightarrow>
              let stat = (if st = RS_completed then OS_COMPLETED else OS_PARTIALLY_COMPLETED);
                  c' = c\<lparr>oc_status := stat\<rparr>
              in (Inr c',
                  os_audit (or_order_id r) ''command_result''
                    [(''command_id'', JStr command_id),
                     (''status'', JStr (case st of RS_completed \<Rightarrow> ''completed''
                        | RS_partially_completed \<Rightarrow> ''partially_completed'' | RS_failed \<Rightarrow> ''failed''))]
                    (os_count (if st = RS_completed then ''orders_completed_total'' else ''orders_failed_total'')
                      (set_order (oc_order_id c) (\<lambda>r. r\<lparr>or_status := stat\<rparr>)
                        (set_command command_id (\<lambda>_. c') s)))))"

section \<open>Endpoints\<close>

text \<open>Every endpoint that changes the store first checks the integrity headers of its body.\<close>

definition checked :: "order_env \<Rightarrow> order_body \<Rightarrow> order_headers \<Rightarrow> ('s, 'a) call \<Rightarrow> ('s, 'a) call" where
  "checked env body h f s =
     (case verify_body_integrity env body h of Inl e \<Rightarrow> (Inl e, s) | Inr _ \<Rightarrow> f s)"

definition parsed :: "order_envelope \<Rightarrow> (order_envelope \<Rightarrow> ('s, 'a) call) \<Rightarrow> ('s, 'a) call" where
  "parsed o' f s = (case parse_order o' of Inl e \<Rightarrow> (Inl e, s) | Inr a \<Rightarrow> f a s)"

definition with_order :: "string \<Rightarrow> (order_record \<Rightarrow> (order_store, 'a) call) \<Rightarrow> (order_store, 'a) call" where
  "with_order i f s = (case order_get i s of Inl e \<Rightarrow> (Inl e, s) | Inr r \<Rightarrow> f r s)"

definition receive_order :: "order_env \<Rightarrow> order_envelope \<Rightarrow> order_headers \<Rightarrow> (order_store, order_record) call" where
  "receive_order env o' h = parsed o' (\<lambda>a. checked env (B_order a) h (order_create env a))"

definition approve_order ::
  "order_env \<Rightarrow> instant \<Rightarrow> string \<Rightarrow> approval_request \<Rightarrow> order_headers \<Rightarrow> (order_store, order_record) call" where
  "approve_order env now order_id a h =
     checked env (B_approval a) h (with_order order_id (\<lambda>r s.
       if ar_content_hash a \<noteq> or_content_hash r
       then (Inl (HTTPException 409 ''approval content hash does not match order''), s)
       else if ar_approved_by a = o_source_system (or_envelope r)
       then (Inl (HTTPException 403 ''self approval is not permitted''), s)
       else
         let env' = (or_envelope r)\<lparr>o_approval := (o_approval (or_envelope r))\<lparr>ap_status := AS_approved,
                       ap_approved_by := Some (ar_approved_by a), ap_approved_at := Some now\<rparr>\<rparr>;
             r' = r\<lparr>or_envelope := env', or_status := OS_APPROVED\<rparr>
         in (Inr r', set_order order_id (\<lambda>_. r') s)))"

definition reject_order :: "order_env \<Rightarrow> string \<Rightarrow> order_headers \<Rightarrow> (order_store, order_record) call" where
  "reject_order env order_id h =
     checked env B_empty h (with_order order_id (\<lambda>r s.
       (Inr (r\<lparr>or_status := OS_REJECTED\<rparr>), set_order order_id (\<lambda>r. r\<lparr>or_status := OS_REJECTED\<rparr>) s)))"

definition dispatch_order ::
  "order_env \<Rightarrow> instant \<Rightarrow> order_envelope \<Rightarrow> order_headers \<Rightarrow> (order_store, order_status) call" where
  "dispatch_order env now o' h =
     parsed o' (\<lambda>a. checked env (B_order a) h (with_order (o_order_id a) (\<lambda>r s.
       case validate_for_dispatch env now a of
         Inl e \<Rightarrow> (Inl e, s)
       | Inr _ \<Rightarrow>
           if or_content_hash r \<noteq> content_hash env a
           then (Inl (HTTPException 409 ''order content changed after intake''), s)
           else
             let s1 = set_order (o_order_id a) (\<lambda>r. r\<lparr>or_status := OS_DISPATCHED_TO_N8N,
                        or_dispatch := Some (o_workflow_code a, now)\<rparr>) s
             in case order_command_for (o_command_id a) (o_order_id a) s1 of
                  (Inl e, s2) \<Rightarrow> (Inl e, s2)
                | (Inr _, s2) \<Rightarrow>
                    (Inr OS_DISPATCHED_TO_N8N,
                     set_command (o_command_id a) (\<lambda>c. c\<lparr>oc_status := OS_DISPATCHED_TO_N8N\<rparr>) s2))))"

definition order_receive_result ::
  "order_env \<Rightarrow> result_envelope \<Rightarrow> order_headers \<Rightarrow> (order_store, unit) call" where
  "order_receive_result env b h =
     checked env (B_result b) h (with_order (re_order_id b) (\<lambda>r s.
       if or_command_id r \<noteq> re_command_id b \<or> or_trace_id r \<noteq> re_trace_id b
       then (Inl (HTTPException 409 ''command or trace reference mismatch''), s)
       else case record_result (re_command_id b) (re_status b) s of
         (Inl e, s1) \<Rightarrow> (Inl e, s1)
       | (Inr _, s1) \<Rightarrow> (Inr (), set_order (re_order_id b) (\<lambda>r. r\<lparr>or_result := Some b\<rparr>) s1)))"

definition receive_error :: "order_env \<Rightarrow> error_envelope \<Rightarrow> order_headers \<Rightarrow> (order_store, unit) call" where
  "receive_error env b h =
     checked env (B_error b) h (with_order (ee_order_id b) (\<lambda>r s.
       if or_command_id r \<noteq> ee_command_id b \<or> or_trace_id r \<noteq> ee_trace_id b
       then (Inl (HTTPException 409 ''command or trace reference mismatch''), s)
       else case record_failure (ee_command_id b) (ee_error_code b) (ee_retryable b) 3 s of
         (Inl e, s1) \<Rightarrow> (Inl e, s1)
       | (Inr _, s1) \<Rightarrow> (Inr (), set_order (ee_order_id b) (\<lambda>r. r\<lparr>or_error_code := Some (ee_error_code b)\<rparr>) s1)))"

definition receive_progress ::
  "order_env \<Rightarrow> order_envelope \<Rightarrow> int \<Rightarrow> string \<Rightarrow> order_headers \<Rightarrow> (order_store, unit) call" where
  "receive_progress env o' percent message h =
     parsed o' (\<lambda>a. checked env (B_progress a percent message) h (with_order (o_order_id a) (\<lambda>r s.
       if order_commands s (o_command_id a) = None \<or> or_command_id r \<noteq> o_command_id a
       then (Inl (HTTPException 409 ''command or trace reference mismatch''), s)
       else (Inr (),
         os_audit (o_order_id a) ''command_progress''
           [(''command_id'', JStr (o_command_id a)), (''percent'', JInt percent)]
           (os_count ''order_progress_total''
             (set_order (o_order_id a) (\<lambda>r. r\<lparr>or_status := OS_RUNNING\<rparr>)
               (set_command (o_command_id a) (\<lambda>c. c\<lparr>oc_progress := oc_progress c @ [(percent, message)]\<rparr>) s)))))))"

definition receive_dead_letter ::
  "order_env \<Rightarrow> dead_letter_envelope \<Rightarrow> order_headers \<Rightarrow> (order_store, unit) call" where
  "receive_dead_letter env b h =
     checked env (B_dead_letter b) h (with_order (de_order_id b) (\<lambda>r s.
       if or_command_id r \<noteq> de_command_id b \<or> or_trace_id r \<noteq> de_trace_id b
       then (Inl (HTTPException 409 ''command or trace reference mismatch''), s)
       else (Inr (),
         os_audit (de_order_id b) ''command_dead_letter'' [(''command_id'', JStr (de_command_id b))]
           (os_count ''orders_dead_lettered_total''
             (set_order (de_order_id b) (\<lambda>r. r\<lparr>or_status := OS_DEAD_LETTER, or_dead_letter := Some b\<rparr>) s)))))"

definition reconcile_order :: "order_env \<Rightarrow> order_envelope \<Rightarrow> order_headers \<Rightarrow> (order_store, order_status) call" where
  "reconcile_order env o' h =
     parsed o' (\<lambda>a. checked env (B_order a) h (with_order (o_order_id a) (\<lambda>r s. (Inr (or_status r), s))))"

definition create_command :: "order_env \<Rightarrow> order_envelope \<Rightarrow> order_headers \<Rightarrow> (order_store, order_command) call" where
  "create_command env o' h =
     parsed o' (\<lambda>a. checked env (B_order a) h (order_command_for (o_command_id a) (o_order_id a)))"

definition start_command :: "order_env \<Rightarrow> string \<Rightarrow> order_headers \<Rightarrow> (order_store, order_command) call" where
  "start_command env command_id h =
     checked env B_empty h (\<lambda>s.
       case order_commands s command_id of
         None \<Rightarrow> (Inl (HTTPException 404 ''command not found''), s)
       | Some c \<Rightarrow>
           let s1 = set_command command_id (\<lambda>c. c\<lparr>oc_status := OS_RUNNING\<rparr>) s
           in with_order (oc_order_id c) (\<lambda>r s.
                (Inr (c\<lparr>oc_status := OS_RUNNING\<rparr>), set_order (oc_order_id c) (\<lambda>r. r\<lparr>or_status := OS_RUNNING\<rparr>) s)) s1)"

definition progress_command ::
  "order_env \<Rightarrow> string \<Rightarrow> order_envelope \<Rightarrow> int \<Rightarrow> string \<Rightarrow> order_headers \<Rightarrow> (order_store, unit) call" where
  "progress_command env command_id o' percent message h =
     parsed o' (\<lambda>a. checked env (B_progress a percent message) h (\<lambda>s.
       if order_commands s command_id = None then (Inl (HTTPException 404 ''command not found''), s)
       else if o_command_id a \<noteq> command_id then (Inl (HTTPException 409 ''command reference mismatch''), s)
       else (Inr (), set_command command_id (\<lambda>c. c\<lparr>oc_progress := oc_progress c @ [(percent, message)]\<rparr>) s)))"

definition command_result ::
  "order_env \<Rightarrow> string \<Rightarrow> result_envelope \<Rightarrow> order_headers \<Rightarrow> (order_store, unit) call" where
  "command_result env command_id b h =
     checked env (B_result b) h (\<lambda>s.
       if re_command_id b \<noteq> command_id then (Inl (HTTPException 409 ''command reference mismatch''), s)
       else order_receive_result env b h s)"

definition command_error ::
  "order_env \<Rightarrow> string \<Rightarrow> error_envelope \<Rightarrow> order_headers \<Rightarrow> (order_store, unit) call" where
  "command_error env command_id b h =
     checked env (B_error b) h (\<lambda>s.
       if ee_command_id b \<noteq> command_id then (Inl (HTTPException 409 ''command reference mismatch''), s)
       else receive_error env b h s)"

definition command_dead_letter ::
  "order_env \<Rightarrow> string \<Rightarrow> dead_letter_envelope \<Rightarrow> order_headers \<Rightarrow> (order_store, unit) call" where
  "command_dead_letter env command_id b h =
     checked env (B_dead_letter b) h (\<lambda>s.
       if de_command_id b \<noteq> command_id then (Inl (HTTPException 409 ''command reference mismatch''), s)
       else receive_dead_letter env b h s)"

section \<open>Steps\<close>

inductive order_step :: "order_env \<Rightarrow> order_store \<Rightarrow> order_store \<Rightarrow> bool" for env where
  "order_step env s (snd (receive_order env o' h s))"
| "order_step env s (snd (approve_order env now i a h s))"
| "order_step env s (snd (reject_order env i h s))"
| "order_step env s (snd (dispatch_order env now o' h s))"
| "order_step env s (snd (order_receive_result env b h s))"
| "order_step env s (snd (receive_error env e h s))"
| "order_step env s (snd (receive_progress env o' n m h s))"
| "order_step env s (snd (receive_dead_letter env d h s))"
| "order_step env s (snd (create_command env o' h s))"
| "order_step env s (snd (start_command env i h s))"
| "order_step env s (snd (progress_command env i o' n m h s))"
| "order_step env s (snd (command_result env i b h s))"
| "order_step env s (snd (command_error env i e h s))"
| "order_step env s (snd (command_dead_letter env i d h s))"

definition order_reachable :: "order_env \<Rightarrow> order_store \<Rightarrow> bool" where
  "order_reachable env s \<longleftrightarrow> (order_step env)\<^sup>*\<^sup>* new_store s"

section \<open>Well-formed stores\<close>

definition order_command_ok :: "order_store \<Rightarrow> string \<Rightarrow> order_command \<Rightarrow> bool" where
  "order_command_ok s i c \<longleftrightarrow>
     oc_command_id c = i \<and> orders s (oc_order_id c) \<noteq> None \<and> 0 \<le> oc_attempts c
     \<and> (oc_status c = OS_RETRY_SCHEDULED \<longrightarrow> 1 \<le> oc_attempts c \<and> oc_attempts c \<le> 2)"

definition order_store_ok :: "order_store \<Rightarrow> bool" where
  "order_store_ok s \<longleftrightarrow>
     (\<forall>i r. orders s i = Some r \<longrightarrow> or_order_id r = i)
     \<and> (\<forall>k i. by_idempotency s k = Some i \<longrightarrow> orders s i \<noteq> None)
     \<and> (\<forall>i c. order_commands s i = Some c \<longrightarrow> order_command_ok s i c)"

lemma order_counters [simp]:
  "orders (os_count n s) = orders s" "by_idempotency (os_count n s) = by_idempotency s"
  "order_commands (os_count n s) = order_commands s"
  "orders (os_audit i e d s) = orders s" "by_idempotency (os_audit i e d s) = by_idempotency s"
  "order_commands (os_audit i e d s) = order_commands s"
  by (simp_all add: os_count_def os_audit_def)

lemma set_simps [simp]:
  "orders (set_command i g s) = orders s" "by_idempotency (set_command i g s) = by_idempotency s"
  "order_commands (set_command i g s) = (order_commands s)(i := map_option g (order_commands s i))"
  "orders (set_order i f s) = (orders s)(i := map_option f (orders s i))"
  "by_idempotency (set_order i f s) = by_idempotency s" "order_commands (set_order i f s) = order_commands s"
  by (simp_all add: set_command_def set_order_def)

lemma order_store_ok_count [simp]: "order_store_ok (os_count n s) = order_store_ok s"
  by (simp add: order_store_ok_def order_command_ok_def)

lemma order_store_ok_audit [simp]: "order_store_ok (os_audit i e d s) = order_store_ok s"
  by (simp add: order_store_ok_def order_command_ok_def)

lemma set_order_ok:
  assumes "order_store_ok s" "\<And>r. orders s i = Some r \<Longrightarrow> or_order_id (f r) = or_order_id r"
  shows "order_store_ok (set_order i f s)"
  using assms by (auto simp: order_store_ok_def order_command_ok_def)

lemma set_command_ok:
  assumes "order_store_ok s" "\<And>c. order_commands s i = Some c \<Longrightarrow> order_command_ok s i c \<Longrightarrow> order_command_ok s i (g c)"
  shows "order_store_ok (set_command i g s)"
  using assms by (auto simp: order_store_ok_def order_command_ok_def)

lemma order_create_ok:
  "order_store_ok s \<Longrightarrow> order_store_ok (snd (order_create env o' s))"
  by (auto simp: order_create_def order_store_ok_def order_command_ok_def new_order_def split: option.split)

lemma order_command_for_ok:
  "order_store_ok s \<Longrightarrow> order_store_ok (snd (order_command_for c i s))"
  by (auto simp: order_command_for_def order_get_def order_store_ok_def order_command_ok_def Let_def
      split: option.split)

lemma record_failure_ok:
  assumes "order_store_ok s"
  shows "order_store_ok (snd (record_failure c e b 3 s))"
proof (cases "order_commands s c")
  case None
  with assms show ?thesis by (simp add: record_failure_def)
next
  case (Some x)
  let ?n = "oc_attempts x + 1"
  let ?c = "x\<lparr>oc_attempts := ?n, oc_status := if can_retry e b ?n 3 then OS_RETRY_SCHEDULED
               else if b then OS_DEAD_LETTER else OS_FAILED_FINAL\<rparr>"
  have x: "order_command_ok s c x" using assms Some by (simp add: order_store_ok_def)
  then have "order_command_ok s c ?c" by (auto simp: order_command_ok_def can_retry_def)
  then have "order_store_ok (set_command c (\<lambda>_. ?c) s)" using set_command_ok[OF assms, of c "\<lambda>_. ?c"] by simp
  then have "order_store_ok (set_order (oc_order_id x) (\<lambda>r. r\<lparr>or_status := st\<rparr>) (set_command c (\<lambda>_. ?c) s))" for st
    by (rule set_order_ok) simp
  with Some x assms show ?thesis
    by (cases b; cases "can_retry e b ?n 3")
       (simp_all add: record_failure_def order_get_def Let_def split: option.split)
qed

lemma record_result_ok:
  assumes "order_store_ok s"
  shows "order_store_ok (snd (record_result c st s))"
proof (cases "order_commands s c")
  case None
  with assms show ?thesis by (simp add: record_result_def)
next
  case (Some x)
  let ?c = "x\<lparr>oc_status := if st = RS_completed then OS_COMPLETED else OS_PARTIALLY_COMPLETED\<rparr>"
  have "order_command_ok s c x" using assms Some by (simp add: order_store_ok_def)
  then have "order_command_ok s c ?c" by (auto simp: order_command_ok_def)
  then have "order_store_ok (set_command c (\<lambda>_. ?c) s)" using set_command_ok[OF assms, of c "\<lambda>_. ?c"] by simp
  then have "order_store_ok (set_order (oc_order_id x) (\<lambda>r. r\<lparr>or_status := t\<rparr>) (set_command c (\<lambda>_. ?c) s))" for t
    by (rule set_order_ok) simp
  with Some assms show ?thesis
    by (auto simp: record_result_def order_get_def Let_def split: option.split)
qed

lemma checked_ok: "order_store_ok s \<Longrightarrow> order_store_ok (snd (f s)) \<Longrightarrow> order_store_ok (snd (checked env b h f s))"
  by (simp add: checked_def split: sum.split)

lemma parsed_ok:
  "order_store_ok s \<Longrightarrow> (\<And>a. order_store_ok (snd (f a s))) \<Longrightarrow> order_store_ok (snd (parsed o' f s))"
  by (simp add: parsed_def split: sum.split)

lemma with_order_ok:
  "order_store_ok s \<Longrightarrow> (\<And>r. orders s i = Some r \<Longrightarrow> order_store_ok (snd (f r s)))
   \<Longrightarrow> order_store_ok (snd (with_order i f s))"
  by (simp add: with_order_def order_get_def split: option.split)

lemmas endpoint_oks = parsed_ok checked_ok with_order_ok

lemma dispatch_order_ok: "order_store_ok s \<Longrightarrow> order_store_ok (snd (dispatch_order env now o' h s))"
  unfolding dispatch_order_def
proof (intro endpoint_oks; assumption?)
  fix a :: order_envelope and r assume s: "order_store_ok s"
  let ?s1 = "set_order (o_order_id a) (\<lambda>r. r\<lparr>or_status := OS_DISPATCHED_TO_N8N,
      or_dispatch := Some (o_workflow_code a, now)\<rparr>) s"
  have s1: "order_store_ok ?s1" by (rule set_order_ok[OF s]) simp
  obtain x s2 where c: "order_command_for (o_command_id a) (o_order_id a) ?s1 = (x, s2)" by force
  have s2: "order_store_ok s2" using order_command_for_ok[OF s1, of "o_command_id a" "o_order_id a"] c by simp
  have "order_store_ok (set_command (o_command_id a) (\<lambda>c. c\<lparr>oc_status := OS_DISPATCHED_TO_N8N\<rparr>) s2)"
    by (rule set_command_ok[OF s2]) (simp add: order_command_ok_def)
  with s s2 c show "order_store_ok (snd (case validate_for_dispatch env now a of
         Inl e \<Rightarrow> (Inl e, s)
       | Inr _ \<Rightarrow>
           if or_content_hash r \<noteq> content_hash env a
           then (Inl (HTTPException 409 ''order content changed after intake''), s)
           else
             let s1 = ?s1
             in case order_command_for (o_command_id a) (o_order_id a) s1 of
                  (Inl e, s2) \<Rightarrow> (Inl e, s2)
                | (Inr _, s2) \<Rightarrow>
                    (Inr OS_DISPATCHED_TO_N8N,
                     set_command (o_command_id a) (\<lambda>c. c\<lparr>oc_status := OS_DISPATCHED_TO_N8N\<rparr>) s2)))"
    by (auto simp: Let_def split: sum.split)
qed

lemma result_endpoint_ok: "order_store_ok s \<Longrightarrow> order_store_ok (snd (order_receive_result env b h s))"
  unfolding order_receive_result_def
proof (intro endpoint_oks; assumption?)
  fix r assume s: "order_store_ok s"
  obtain x s1 where c: "record_result (re_command_id b) (re_status b) s = (x, s1)" by force
  have s1: "order_store_ok s1" using record_result_ok[OF s, of "re_command_id b" "re_status b"] c by simp
  have "order_store_ok (set_order (re_order_id b) (\<lambda>r. r\<lparr>or_result := Some b\<rparr>) s1)"
    by (rule set_order_ok[OF s1]) simp
  with s s1 c show "order_store_ok (snd (if or_command_id r \<noteq> re_command_id b \<or> or_trace_id r \<noteq> re_trace_id b
       then (Inl (HTTPException 409 ''command or trace reference mismatch''), s)
       else case record_result (re_command_id b) (re_status b) s of
         (Inl e, s1) \<Rightarrow> (Inl e, s1)
       | (Inr _, s1) \<Rightarrow> (Inr (), set_order (re_order_id b) (\<lambda>r. r\<lparr>or_result := Some b\<rparr>) s1)))"
    by (auto split: sum.split)
qed

lemma error_endpoint_ok: "order_store_ok s \<Longrightarrow> order_store_ok (snd (receive_error env b h s))"
  unfolding receive_error_def
proof (intro endpoint_oks; assumption?)
  fix r assume s: "order_store_ok s"
  obtain x s1 where c: "record_failure (ee_command_id b) (ee_error_code b) (ee_retryable b) 3 s = (x, s1)" by force
  have s1: "order_store_ok s1"
    using record_failure_ok[OF s, of "ee_command_id b" "ee_error_code b" "ee_retryable b"] c by simp
  have "order_store_ok (set_order (ee_order_id b) (\<lambda>r. r\<lparr>or_error_code := Some (ee_error_code b)\<rparr>) s1)"
    by (rule set_order_ok[OF s1]) simp
  with s s1 c show "order_store_ok (snd (if or_command_id r \<noteq> ee_command_id b \<or> or_trace_id r \<noteq> ee_trace_id b
       then (Inl (HTTPException 409 ''command or trace reference mismatch''), s)
       else case record_failure (ee_command_id b) (ee_error_code b) (ee_retryable b) 3 s of
         (Inl e, s1) \<Rightarrow> (Inl e, s1)
       | (Inr _, s1) \<Rightarrow> (Inr (), set_order (ee_order_id b) (\<lambda>r. r\<lparr>or_error_code := Some (ee_error_code b)\<rparr>) s1)))"
    by (auto split: sum.split)
qed

lemma dead_letter_endpoint_ok: "order_store_ok s \<Longrightarrow> order_store_ok (snd (receive_dead_letter env b h s))"
  unfolding receive_dead_letter_def by (intro endpoint_oks; assumption?) (auto intro: set_order_ok)

lemma start_command_ok: "order_store_ok s \<Longrightarrow> order_store_ok (snd (start_command env i h s))"
  unfolding start_command_def
proof (intro endpoint_oks; assumption?)
  assume s: "order_store_ok s"
  have "order_store_ok (set_command i (\<lambda>c. c\<lparr>oc_status := OS_RUNNING\<rparr>) s)"
    by (rule set_command_ok[OF s]) (simp add: order_command_ok_def)
  then have "order_store_ok (set_order x (\<lambda>r. r\<lparr>or_status := OS_RUNNING\<rparr>)
      (set_command i (\<lambda>c. c\<lparr>oc_status := OS_RUNNING\<rparr>) s))" for x
    by (rule set_order_ok) simp
  with s \<open>order_store_ok (set_command i (\<lambda>c. c\<lparr>oc_status := OS_RUNNING\<rparr>) s)\<close>
  show "order_store_ok (snd (case order_commands s i of
         None \<Rightarrow> (Inl (HTTPException 404 ''command not found''), s)
       | Some c \<Rightarrow>
           let s1 = set_command i (\<lambda>c. c\<lparr>oc_status := OS_RUNNING\<rparr>) s
           in with_order (oc_order_id c) (\<lambda>r s.
                (Inr (c\<lparr>oc_status := OS_RUNNING\<rparr>), set_order (oc_order_id c) (\<lambda>r. r\<lparr>or_status := OS_RUNNING\<rparr>) s)) s1))"
    by (auto simp: Let_def with_order_def order_get_def split: option.split)
qed

lemma order_step_ok:
  assumes "order_step env s s'" "order_store_ok s"
  shows "order_store_ok s'"
  using assms
proof cases
  case (2 now i a h)
  then show ?thesis using assms(2) unfolding approve_order_def
    by (auto simp: Let_def intro!: endpoint_oks set_order_ok)
next
  case (3 i h)
  then show ?thesis using assms(2) unfolding reject_order_def
    by (auto intro!: endpoint_oks set_order_ok)
next
  case (7 o' n m h)
  then show ?thesis using assms(2) unfolding receive_progress_def
    by (auto intro!: endpoint_oks set_order_ok set_command_ok simp: order_command_ok_def)
next
  case (11 i o' n m h)
  then show ?thesis using assms(2) unfolding progress_command_def
    by (auto intro!: endpoint_oks set_command_ok simp: order_command_ok_def)
next
  case (12 i b h)
  then show ?thesis using assms(2) unfolding command_result_def
    by (auto intro!: endpoint_oks result_endpoint_ok)
next
  case (13 i e h)
  then show ?thesis using assms(2) unfolding command_error_def
    by (auto intro!: endpoint_oks error_endpoint_ok)
next
  case (14 i d h)
  then show ?thesis using assms(2) unfolding command_dead_letter_def
    by (auto intro!: endpoint_oks dead_letter_endpoint_ok)
qed (use assms(2) in \<open>auto simp: receive_order_def create_command_def intro!: endpoint_oks order_create_ok
   order_command_for_ok dispatch_order_ok result_endpoint_ok error_endpoint_ok dead_letter_endpoint_ok
   start_command_ok\<close>)

lemma order_reachable_ok:
  assumes "order_reachable env s"
  shows "order_store_ok s"
proof -
  have "order_store_ok new_store" by (simp add: order_store_ok_def new_store_def)
  with assms[unfolded order_reachable_def] show ?thesis
    by (induction rule: rtranclp_induct) (auto intro: order_step_ok)
qed

section \<open>A run\<close>

definition demo_order_env :: order_env where
  "demo_order_env =
     \<lparr>oe_sha256 = (\<lambda>s. replicate 62 (CHR ''0'') @ zfill 2 (int (length s))),
      oe_hmac = (\<lambda>k m. ''sig''), oe_dump_content = (\<lambda>c. JStr (o_event_id c)),
      oe_dump_body = (\<lambda>_. JNull), oe_middleware_secret = ''secret'',
      oe_order_orchestration_enabled = True, oe_n8n_order_dispatch_enabled = True\<rparr>"

definition demo_order :: "string \<Rightarrow> string \<Rightarrow> bool \<Rightarrow> order_approval_state \<Rightarrow> order_envelope" where
  "demo_order event key required st =
     \<lparr>o_schema_version = ''codestra.order.command.v1'', o_command_id = ''cmd-1'', o_event_id = event,
      o_order_id = ''ord-1'', o_order_type = ''callback'', o_source_system = ''odoo'',
      o_organization_id = ''COD'', o_customer_reference = ''cust'',
      o_workflow_code = ''CDST-ORDER-CALLBACK-V1'', o_workflow_version = ''1'', o_payload = [],
      o_requested_actions = [''create_callback''], o_constraints = [], o_idempotency_key = key,
      o_correlation_id = ''corr'', o_trace_id = ''trace'', o_requested_at = Aware 0,
      o_expires_at = Aware 1000,
      o_approval = \<lparr>ap_required = required, ap_status = st, ap_approved_by = None, ap_approved_at = None,
                    ap_content_hash = replicate 62 (CHR ''0'') @ zfill 2 (int (length event) + 2)\<rparr>,
      o_approval_required = None, o_approval_status = None, o_approval_reference = None,
      o_approval_content_hash = None, o_approved_actions = None\<rparr>"

definition demo_headers :: order_headers where
  "demo_headers = \<lparr>hd_timestamp = Some ''1'', hd_nonce = Some ''n'', hd_signature = Some ''sig'',
                   hd_body_hash = Some (replicate 62 (CHR ''0'') @ ''04'')\<rparr>"

definition demo_received :: order_store where
  "demo_received = snd (receive_order demo_order_env
     (demo_order ''ev'' ''0123456789abcdef'' True AS_pending) demo_headers new_store)"

definition demo_rejected :: order_store where
  "demo_rejected = snd (reject_order demo_order_env ''ord-1'' demo_headers demo_received)"

lemma demo_rejected_reachable: "order_reachable demo_order_env demo_rejected"
proof -
  have "order_step demo_order_env new_store demo_received"
    unfolding demo_received_def by (rule order_step.intros)
  moreover have "order_step demo_order_env demo_received demo_rejected"
    unfolding demo_rejected_def by (rule order_step.intros)
  ultimately show ?thesis
    unfolding order_reachable_def by (meson rtranclp.rtrancl_into_rtrancl rtranclp.rtrancl_refl)
qed

lemma demo_rejected_status: "map_option or_status (orders demo_rejected ''ord-1'') = Some OS_REJECTED"
  by code_simp

lemma demo_rejected_dispatch:
  "fst (dispatch_order demo_order_env 10 (demo_order ''ev'' ''0123456789abcdef'' True AS_approved) demo_headers
     demo_rejected) = Inr OS_DISPATCHED_TO_N8N"
  by code_simp

section \<open>Properties\<close>

text \<open>
  C21. The order store is well-formed in every reachable state: an order is filed under its own
  id, every idempotency key names a stored order (so a repeated intake never fails with a missing
  key), every command belongs to a stored order, and a command waits for a retry only after one
  or two failed attempts.
\<close>

theorem order_store_well_formed:
  assumes "order_reachable env s"
  shows "(orders s i = Some r \<longrightarrow> or_order_id r = i)
    \<and> (by_idempotency s k = Some i \<longrightarrow> orders s i \<noteq> None)
    \<and> (order_commands s j = Some c \<longrightarrow> oc_command_id c = j \<and> orders s (oc_order_id c) \<noteq> None
      \<and> (oc_status c = OS_RETRY_SCHEDULED \<longrightarrow> 1 \<le> oc_attempts c \<and> oc_attempts c \<le> 2))"
  using order_reachable_ok[OF assms] by (auto simp: order_store_ok_def order_command_ok_def)

theorem order_store_well_formed_witness:
  "order_reachable demo_order_env demo_rejected
   \<and> (\<exists>r. orders demo_rejected ''ord-1'' = Some r \<and> or_order_id r = ''ord-1'')"
proof -
  obtain r where r: "orders demo_rejected ''ord-1'' = Some r" using demo_rejected_status by auto
  with order_store_well_formed[OF demo_rejected_reachable, of "''ord-1''" r] demo_rejected_reachable
  show ?thesis by blast
qed

text \<open>
  C22. Dispatch does not look at the approval the middleware has stored. Whatever status and
  approval the stored order is given, \<open>dispatch_order\<close> answers the same, because the approval it
  checks is the one in the request; and indeed an order that was received without approval and
  then rejected is dispatched when the request claims to be approved.
\<close>

theorem dispatch_ignores_stored_approval:
  "fst (dispatch_order env now o' h (set_order i (\<lambda>r. r\<lparr>or_status := st, or_envelope := e\<rparr>) s))
     = fst (dispatch_order env now o' h s)
   \<and> (\<exists>env s o' h. order_reachable env s \<and> map_option or_status (orders s (o_order_id o')) = Some OS_REJECTED
        \<and> fst (dispatch_order env 10 o' h s) = Inr OS_DISPATCHED_TO_N8N)"
proof
  show "fst (dispatch_order env now o' h (set_order i (\<lambda>r. r\<lparr>or_status := st, or_envelope := e\<rparr>) s))
     = fst (dispatch_order env now o' h s)"
    by (auto simp: dispatch_order_def parsed_def checked_def with_order_def order_get_def
        order_command_for_def Let_def split: sum.splits option.splits)
  have "o_order_id (demo_order ''ev'' ''0123456789abcdef'' True AS_approved) = ''ord-1''"
    by (simp add: demo_order_def)
  with demo_rejected_reachable demo_rejected_status demo_rejected_dispatch
  show "\<exists>env s o' h. order_reachable env s \<and> map_option or_status (orders s (o_order_id o')) = Some OS_REJECTED
        \<and> fst (dispatch_order env 10 o' h s) = Inr OS_DISPATCHED_TO_N8N"
    by metis
qed

text \<open>
  C23. An intake under a fresh idempotency key replaces a stored order of the same id. After that
  the first request, repeated unchanged under its own key, is refused as a conflict when the two
  contents differ, although nobody reused its key.
\<close>

theorem order_intake_overwrites:
  assumes "order_create env a s = (Inr ra, s1)" "by_idempotency s (o_idempotency_key a) = None"
    and "order_create env b s1 = (Inr rb, s2)" "by_idempotency s1 (o_idempotency_key b) = None"
    and "o_order_id b = o_order_id a" "content_hash env b \<noteq> content_hash env a"
  shows "orders s2 (o_order_id a) = Some (new_order env b)
    \<and> order_create env a s2 = (Inl (HTTPException 409 ''duplicate idempotency key conflict''), s2)"
proof -
  have s1: "by_idempotency s1 (o_idempotency_key a) = Some (o_order_id a)"
    using assms(1,2) by (auto simp: order_create_def)
  have s2: "orders s2 (o_order_id a) = Some (new_order env b)"
    "by_idempotency s2 (o_idempotency_key a) = Some (o_order_id a)"
    using assms(3,4,5) s1 by (auto simp: order_create_def)
  then show ?thesis using assms(6) by (simp add: order_create_def new_order_def)
qed

lemma demo_intakes:
  "content_hash demo_order_env (demo_order ''ev'' ''0123456789abcdef'' True AS_pending)
   \<noteq> content_hash demo_order_env (demo_order ''event'' ''fedcba9876543210'' True AS_pending)"
  by code_simp

theorem order_intake_overwrites_witness:
  "let a = demo_order ''ev'' ''0123456789abcdef'' True AS_pending;
       b = demo_order ''event'' ''fedcba9876543210'' True AS_pending;
       s1 = snd (order_create demo_order_env a new_store);
       s2 = snd (order_create demo_order_env b s1)
   in order_create demo_order_env a s2
      = (Inl (HTTPException 409 ''duplicate idempotency key conflict''), s2)"
proof -
  let ?a = "demo_order ''ev'' ''0123456789abcdef'' True AS_pending"
  let ?b = "demo_order ''event'' ''fedcba9876543210'' True AS_pending"
  let ?s1 = "snd (order_create demo_order_env ?a new_store)"
  let ?s2 = "snd (order_create demo_order_env ?b ?s1)"
  have keys: "by_idempotency new_store (o_idempotency_key ?a) = None"
    "by_idempotency ?s1 (o_idempotency_key ?b) = None" "o_order_id ?b = o_order_id ?a"
    by (simp_all add: new_store_def order_create_def demo_order_def)
  then have "order_create demo_order_env ?a new_store = (Inr (new_order demo_order_env ?a), ?s1)"
    "order_create demo_order_env ?b ?s1 = (Inr (new_order demo_order_env ?b), ?s2)"
    by (simp_all add: order_create_def)
  from order_intake_overwrites[OF this(1) keys(1) this(2) keys(2,3)] demo_intakes show ?thesis by simp
qed

end
