(* ===== verification/Odoo_Apply.thy ===== *)
theory Odoo_Apply
  imports Python
begin

text \<open>
  The Odoo side of lead automation (\<open>app/adapters/odoo/lead_automation.py\<close>): the signed request
  with its verifier, the contracts of the apply payload and of the acknowledgement, and the client
  that applies a payload once per idempotency key with a bounded number of attempts.

  A JSON object is an association list. Byte strings stand for the text they encode. From outside
  come the digests, \<open>datetime.fromisoformat\<close>, \<open>json.loads\<close>, the registered attribute schemas (files
  read at run time) and the transport.
\<close>

section \<open>Constants\<close>

definition HTTP_METHOD :: string where "HTTP_METHOD = ''POST''"

definition REQUEST_PATH :: string where
  "REQUEST_PATH = ''/codestra/api/v1/leads/automation/apply''"

definition IDENTITY :: string where "IDENTITY = ''codestra-middleware''"

definition AUDIENCE :: string where "AUDIENCE = ''codestra-odoo-lead-automation-api''"

definition SIGNATURE_VERSION :: string where "SIGNATURE_VERSION = ''HMAC-V2''"

definition APPLY_SCOPE :: string where "APPLY_SCOPE = ''lead-automation.odoo-apply.write''"

definition ENVIRONMENTS :: "string list" where
  "ENVIRONMENTS = [''test'', ''staging'', ''production'']"

definition LEAD_ACTIONS :: "string list" where
  "LEAD_ACTIONS =
     [''CREATE_LEAD'', ''UPDATE_ALLOWLISTED_FIELDS'', ''ASSIGN_AUTHORIZED_TEAM'',
      ''ASSIGN_AUTHORIZED_USER'', ''CHANGE_AUTHORIZED_STAGE'', ''CREATE_INTERNAL_CALLBACK_ACTIVITY'']"

definition ACK_RESULTS :: "string list" where
  "ACK_RESULTS =
     [''APPLIED'', ''NO_CHANGE'', ''DENIED'', ''CONSENT_BLOCKED'', ''DNC_BLOCKED'', ''QUARANTINED'', ''FAILED'']"

definition RETRYABLE_RESULT_CODES :: "string list" where
  "RETRYABLE_RESULT_CODES = [''TEMPORARY_UNAVAILABLE'', ''ODOO_TEMPORARY_UNAVAILABLE'']"

definition RETRYABLE_HTTP_STATUS :: "int list" where
  "RETRYABLE_HTTP_STATUS = [429, 500, 502, 503, 504]"

definition REQUIRED_APPLY_FIELDS :: "string list" where
  "REQUIRED_APPLY_FIELDS =
     [''contract_version'', ''automation_event_id'', ''idempotency_key'', ''environment'', ''company_key'',
      ''business_unit_key'', ''campaign_key'', ''automation_action'', ''policy_version'',
      ''correlation_id'', ''attributes_schema_key'', ''attributes'', ''consent_snapshot'',
      ''workflow_execution_id'', ''result_code'']"

definition OPTIONAL_APPLY_FIELDS :: "string list" where
  "OPTIONAL_APPLY_FIELDS = [''lead_uid'', ''source_reference'']"

definition REQUIRED_ACK_FIELDS :: "string list" where
  "REQUIRED_ACK_FIELDS =
     [''contract_version'', ''automation_event_id'', ''automation_action'', ''lead_uid'',
      ''odoo_record_id'', ''result'', ''applied_fields'', ''unchanged_fields'', ''rejected_fields'',
      ''company_key'', ''business_unit_key'', ''campaign_key'', ''policy_version'', ''updated_at'',
      ''idempotent_replay'']"

definition ACK_OPTIONAL_FIELDS :: "string list" where
  "ACK_OPTIONAL_FIELDS = [''result_code'']"

definition HEADER_NAMES :: "string list" where
  "HEADER_NAMES =
     [''X-Codestra-Signature-Version'', ''X-Service-Identity'', ''X-Service-Audience'',
      ''X-Codestra-Timestamp'', ''X-Codestra-Nonce'', ''X-Codestra-Content-SHA256'',
      ''X-Codestra-Signature'', ''Idempotency-Key'', ''X-Codestra-Environment'', ''X-Codestra-Scope'']"

text \<open>The exceptions of the module; every other Python exception is \<open>Raised\<close>.\<close>

datatype apply_error =
    ApplySchemaError string
  | AckValidationError string
  | AuthenticationError string
  | ReplayError string
  | IdempotencyConflict string
  | PermanentApplyError string
  | RetryExhausted string
  | Raised pyerr

type_synonym 'a aresult = "apply_error + 'a"
type_synonym jobject = "(string \<times> json) list"

section \<open>Signing and verification\<close>

definition canonical_body :: "jobject \<Rightarrow> string" where
  "canonical_body p = json_canonical_utf8 (JObj p)"

definition is_ascii :: "string \<Rightarrow> bool" where
  "is_ascii s \<longleftrightarrow> list_all (\<lambda>c. icode c < 128) s"

definition line_break :: "char \<Rightarrow> bool" where
  "line_break c \<longleftrightarrow> icode c = 10 \<or> icode c = 13"

definition newline :: string where "newline = [CHR 0x0A]"

definition signing_material :: "string list \<Rightarrow> string aresult" where
  "signing_material vs =
     (if list_ex (\<lambda>v. v = [] \<or> list_ex line_break v) vs
      then Inl (AuthenticationError ''invalid signing material'')
      else if \<not> list_all is_ascii vs then Inl (Raised (ValueError ''ascii''))
      else Inr (join newline vs))"

record apply_env =
  ae_sha256 :: "string \<Rightarrow> string"
  ae_hmac :: "string \<Rightarrow> string \<Rightarrow> string"
  ae_fromisoformat :: "string \<Rightarrow> datetime option"

definition signed_headers_for_body ::
  "apply_env \<Rightarrow> string \<Rightarrow> string \<Rightarrow> string \<Rightarrow> string \<Rightarrow> string \<Rightarrow> string \<Rightarrow> string \<Rightarrow> string
   \<Rightarrow> (string \<times> string) list aresult" where
  "signed_headers_for_body env body secret environment idem method path timestamp nonce =
     (if method \<noteq> HTTP_METHOD \<or> path \<noteq> REQUEST_PATH
      then Inl (AuthenticationError ''method or path outside Odoo apply contract'')
      else if environment \<notin> set ENVIRONMENTS then Inl (AuthenticationError ''invalid environment'')
      else
        let body_hash = ae_sha256 env body in
        case signing_material [SIGNATURE_VERSION, method, path, timestamp, nonce, IDENTITY, AUDIENCE,
               environment, APPLY_SCOPE, idem, body_hash] of
          Inl e \<Rightarrow> Inl e
        | Inr m \<Rightarrow>
            Inr [(''X-Codestra-Signature-Version'', SIGNATURE_VERSION), (''X-Service-Identity'', IDENTITY),
                 (''X-Service-Audience'', AUDIENCE), (''X-Codestra-Timestamp'', timestamp),
                 (''X-Codestra-Nonce'', nonce), (''X-Codestra-Content-SHA256'', body_hash),
                 (''X-Codestra-Signature'', ae_hmac env secret m), (''Idempotency-Key'', idem),
                 (''X-Codestra-Environment'', environment), (''X-Codestra-Scope'', APPLY_SCOPE),
                 (''Content-Type'', ''application/json'')])"

definition apply_timestamp :: "apply_env \<Rightarrow> string \<Rightarrow> instant aresult" where
  "apply_timestamp env v =
     (case ae_fromisoformat env v of
        None \<Rightarrow> Inl (AuthenticationError ''invalid timestamp'')
      | Some (Naive _) \<Rightarrow> Inl (AuthenticationError ''timestamp must be timezone-aware'')
      | Some (Aware t) \<Rightarrow> Inr t)"

text \<open>\<open>hmac.compare_digest\<close> on strings accepts ASCII only.\<close>

definition compare_digest :: "string \<Rightarrow> string \<Rightarrow> bool aresult" where
  "compare_digest a b =
     (if is_ascii a \<and> is_ascii b then Inr (a = b) else Inl (Raised (RuntimeError ''TypeError'')))"

text \<open>A check that raises \<open>AuthenticationError\<close> with a message unless two digests agree.\<close>

definition require_digest :: "string \<Rightarrow> string \<Rightarrow> string \<Rightarrow> unit aresult" where
  "require_digest a b msg =
     (case compare_digest a b of
        Inl e \<Rightarrow> Inl e
      | Inr eq \<Rightarrow> if eq then Inr () else Inl (AuthenticationError msg))"

fun require_all :: "(string \<times> string \<times> string) list \<Rightarrow> unit aresult" where
  "require_all [] = Inr ()"
| "require_all ((a, b, label) # rest) =
     (case require_digest a b label of Inl e \<Rightarrow> Inl e | Inr _ \<Rightarrow> require_all rest)"

definition header :: "(string \<times> string) list \<Rightarrow> string \<Rightarrow> string" where
  "header hs k = (case map_of hs k of None \<Rightarrow> [] | Some v \<Rightarrow> v)"

type_synonym nonce_key = "string \<times> string \<times> string \<times> string"

definition verify_signed_request ::
  "apply_env \<Rightarrow> string \<Rightarrow> string \<Rightarrow> string \<Rightarrow> (string \<times> string) list \<Rightarrow> string \<Rightarrow> string \<Rightarrow> instant \<Rightarrow> int
   \<Rightarrow> nonce_key list \<Rightarrow> unit aresult \<times> nonce_key list" where
  "verify_signed_request env method path body hs secret expected_environment now maximum_age used =
     (if list_ex (\<lambda>n. header hs n = []) HEADER_NAMES
      then (Inl (AuthenticationError ''missing authentication header''), used)
      else
        let body_hash = ae_sha256 env body in
        case require_all
               [(method, HTTP_METHOD, ''method or path mismatch''),
                (path, REQUEST_PATH, ''method or path mismatch''),
                (header hs ''X-Codestra-Signature-Version'', SIGNATURE_VERSION, ''version mismatch''),
                (header hs ''X-Service-Identity'', IDENTITY, ''identity mismatch''),
                (header hs ''X-Service-Audience'', AUDIENCE, ''audience mismatch''),
                (header hs ''X-Codestra-Environment'', expected_environment, ''environment mismatch''),
                (header hs ''X-Codestra-Scope'', APPLY_SCOPE, ''scope mismatch''),
                (header hs ''X-Codestra-Content-SHA256'', body_hash, ''body hash mismatch'')] of
          Inl e \<Rightarrow> (Inl e, used)
        | Inr _ \<Rightarrow>
        (case apply_timestamp env (header hs ''X-Codestra-Timestamp'') of
          Inl e \<Rightarrow> (Inl e, used)
        | Inr request_time \<Rightarrow>
            if maximum_age < abs (now - request_time)
            then (Inl (AuthenticationError ''timestamp expired''), used)
            else case signing_material [header hs ''X-Codestra-Signature-Version'', method, path,
                header hs ''X-Codestra-Timestamp'', header hs ''X-Codestra-Nonce'',
                header hs ''X-Service-Identity'', header hs ''X-Service-Audience'',
                header hs ''X-Codestra-Environment'', header hs ''X-Codestra-Scope'',
                header hs ''Idempotency-Key'', body_hash] of
              Inl e \<Rightarrow> (Inl e, used)
            | Inr m \<Rightarrow>
            (case require_digest (header hs ''X-Codestra-Signature'') (ae_hmac env secret m)
                    ''signature mismatch'' of
              Inl e \<Rightarrow> (Inl e, used)
            | Inr _ \<Rightarrow>
                let nonce_key = (expected_environment, APPLY_SCOPE, path, header hs ''X-Codestra-Nonce'')
                in if nonce_key \<in> set used then (Inl (ReplayError ''nonce replay''), used)
                   else (Inr (), nonce_key # used))))"

section \<open>The apply contract\<close>

definition keys :: "jobject \<Rightarrow> string list" where
  "keys p = map fst p"

text \<open>\<open>p[k]\<close> for a key that an earlier check has found.\<close>

definition item :: "jobject \<Rightarrow> string \<Rightarrow> json" where
  "item p k = (case map_of p k of None \<Rightarrow> JNull | Some v \<Rightarrow> v)"

definition type_error :: apply_error where
  "type_error = Raised (RuntimeError ''TypeError'')"

fun hashable :: "json \<Rightarrow> bool" where
  "hashable (JList _) = False"
| "hashable (JObj _) = False"
| "hashable _ = True"

text \<open>\<open>v in S\<close> for a set \<open>S\<close> of strings; an unhashable value raises \<open>TypeError\<close>.\<close>

definition in_strings :: "json \<Rightarrow> string list \<Rightarrow> bool aresult" where
  "in_strings v S =
     (if \<not> hashable v then Inl type_error
      else Inr (case v of JStr s \<Rightarrow> s \<in> set S | _ \<Rightarrow> False))"

definition bounded_string :: "json \<Rightarrow> string \<Rightarrow> int \<Rightarrow> string \<Rightarrow> string aresult" where
  "bounded_string v label maximum prefix =
     (case v of
        JStr s \<Rightarrow>
          if s = [] \<or> maximum < int (length s) \<or> \<not> startswith s prefix
          then Inl (ApplySchemaError (''invalid '' @ label)) else Inr s
      | _ \<Rightarrow> Inl (ApplySchemaError (''invalid '' @ label)))"

definition COMPANY_KEY :: "string \<Rightarrow> bool" where
  "COMPANY_KEY s \<longleftrightarrow>
     startswith s ''COMPANY-''
     \<and> (case drop 8 s of [] \<Rightarrow> False
        | d # ds \<Rightarrow> is_digit d \<and> d \<noteq> CHR ''0'' \<and> length ds \<le> 9 \<and> list_all is_digit ds)"

text \<open>The part of \<open>uuid.UUID(str(v))\<close> that decides whether it raises.\<close>

function remove_sub :: "string \<Rightarrow> string \<Rightarrow> string" where
  "remove_sub p s =
     (case s of [] \<Rightarrow> []
      | c # cs \<Rightarrow> if p \<noteq> [] \<and> startswith s p then remove_sub p (drop (length p) s)
                 else c # remove_sub p cs)"
  by pat_completeness auto
termination
  by (relation "measure (\<lambda>(p, s). length s)") auto

definition is_hex :: "char \<Rightarrow> bool" where
  "is_hex c \<longleftrightarrow> is_digit c \<or> one_of ''abcdefABCDEF'' c"

definition hex_number :: "string \<Rightarrow> bool" where
  "hex_number s \<longleftrightarrow>
     s \<noteq> [] \<and> list_all (\<lambda>c. is_hex c \<or> c = CHR ''_'') s \<and> hd s \<noteq> CHR ''_'' \<and> last s \<noteq> CHR ''_''
     \<and> \<not> contains s ''__''"

definition int_base16 :: "string \<Rightarrow> bool" where
  "int_base16 s \<longleftrightarrow>
     (let t = strip s;
          u = (if startswith t ''+'' then drop 1 t else t);
          w = drop 2 u
      in hex_number u
         \<or> (startswith u ''0x'' \<or> startswith u ''0X'')
           \<and> (hex_number w \<or> startswith w ''_'' \<and> hex_number (drop 1 w)))"

definition strip_braces :: "string \<Rightarrow> string" where
  "strip_braces s =
     rev (dropWhile (\<lambda>c. one_of ''{}'' c) (rev (dropWhile (\<lambda>c. one_of ''{}'' c) s)))"

definition uuid_text :: "string \<Rightarrow> bool" where
  "uuid_text s \<longleftrightarrow>
     (let h = remove_sub ''-'' (strip_braces (remove_sub ''uuid:'' (remove_sub ''urn:'' s)))
      in length h = 32 \<and> int_base16 h)"

text \<open>\<open>str(v)\<close> can only be a UUID for a string or a number.\<close>

definition uuid_value :: "json \<Rightarrow> bool" where
  "uuid_value v \<longleftrightarrow> (case v of JStr s \<Rightarrow> uuid_text s | JInt i \<Rightarrow> uuid_text (str_int i) | _ \<Rightarrow> False)"

text \<open>A registered attribute schema: the size bound and the rule of each property.\<close>

record attr_rule =
  at_enum :: "json list option"
  at_type :: "string option"
  at_pattern :: "string \<Rightarrow> bool"

record attr_schema =
  at_object :: bool
  at_closed :: bool
  at_max :: int
  at_properties :: "(string \<times> attr_rule) list"

definition SCHEMA_KEYS :: "string list" where
  "SCHEMA_KEYS =
     [''transportation-logistics-lead-v1'', ''web-mobile-ai-lead-v1'', ''senior-citizen-products-lead-v1'',
      ''business-loan-lead-v1'', ''real-estate-lead-v1'', ''fundraising-lead-v1'', ''trading-ai-lead-v1'',
      ''farming-lead-v1'']"

type_synonym attr_files = "string \<Rightarrow> attr_schema option"

definition attribute_schema :: "attr_files \<Rightarrow> string \<Rightarrow> attr_schema aresult" where
  "attribute_schema files k =
     (if k \<notin> set SCHEMA_KEYS then Inl (ApplySchemaError ''unknown attributes_schema_key'')
      else case files k of
        None \<Rightarrow> Inl (ApplySchemaError ''registered attribute schema unavailable'')
      | Some s \<Rightarrow>
          if \<not> at_object s \<or> \<not> at_closed s
          then Inl (ApplySchemaError ''registered attribute schema is not fail-closed'') else Inr s)"

definition attribute_ok :: "attr_rule \<Rightarrow> json \<Rightarrow> bool" where
  "attribute_ok rule v \<longleftrightarrow>
     (case at_enum rule of None \<Rightarrow> True | Some vs \<Rightarrow> v \<in> set vs)
     \<and> (at_type rule = Some ''boolean'' \<longrightarrow> (case v of JBool _ \<Rightarrow> True | _ \<Rightarrow> False))
     \<and> (at_type rule = Some ''string'' \<longrightarrow> (case v of JStr s \<Rightarrow> at_pattern rule s | _ \<Rightarrow> False))"

fun attributes_ok :: "(string \<times> attr_rule) list \<Rightarrow> jobject \<Rightarrow> unit aresult" where
  "attributes_ok rules [] = Inr ()"
| "attributes_ok rules ((k, v) # rest) =
     (case map_of rules k of
        None \<Rightarrow> Inl (Raised (KeyError k))
      | Some rule \<Rightarrow>
          if attribute_ok rule v then attributes_ok rules rest
          else Inl (ApplySchemaError (''invalid attribute '' @ k)))"

definition validate_attributes :: "attr_files \<Rightarrow> string \<Rightarrow> json \<Rightarrow> unit aresult" where
  "validate_attributes files schema_key v =
     (case attribute_schema files schema_key of
        Inl e \<Rightarrow> Inl e
      | Inr s \<Rightarrow>
          (case v of
             JObj a \<Rightarrow>
               if at_max s < int (length a) then Inl (ApplySchemaError ''invalid attributes'')
               else if \<not> list_all (\<lambda>k. k \<in> set (map fst (at_properties s))) (keys a)
               then Inl (ApplySchemaError ''attribute outside registered schema'')
               else attributes_ok (at_properties s) a
           | _ \<Rightarrow> Inl (ApplySchemaError ''invalid attributes'')))"

text \<open>A list of checks, each of which may raise.\<close>

fun all_checks :: "'a aresult list \<Rightarrow> unit aresult" where
  "all_checks [] = Inr ()"
| "all_checks (c # cs) = (case c of Inl e \<Rightarrow> Inl e | Inr _ \<Rightarrow> all_checks cs)"

definition check_that :: "bool \<Rightarrow> apply_error \<Rightarrow> unit aresult" where
  "check_that b e = (if b then Inr () else Inl e)"

definition checked_string :: "json \<Rightarrow> string \<Rightarrow> int \<Rightarrow> string \<Rightarrow> unit aresult" where
  "checked_string v label maximum prefix =
     (case bounded_string v label maximum prefix of Inl e \<Rightarrow> Inl e | Inr _ \<Rightarrow> Inr ())"

definition require_in :: "json \<Rightarrow> string list \<Rightarrow> apply_error \<Rightarrow> unit aresult" where
  "require_in v S e = (case in_strings v S of Inl x \<Rightarrow> Inl x | Inr b \<Rightarrow> check_that b e)"

definition text_of :: "json \<Rightarrow> string" where
  "text_of v = (case v of JStr s \<Rightarrow> s | _ \<Rightarrow> [])"

definition consent_fields :: "string list" where
  "consent_fields =
     [''consent_status'', ''consent_purpose'', ''consent_source'', ''consent_updated_at'', ''dnc_status'',
      ''dnc_updated_at'', ''jurisdiction'', ''source_system'']"

definition check_consent :: "json \<Rightarrow> unit aresult" where
  "check_consent v =
     (case v of
        JObj c \<Rightarrow>
          if set (keys c) \<noteq> set consent_fields then Inl (ApplySchemaError ''invalid consent_snapshot'')
          else all_checks
            [require_in (item c ''consent_status'') [''granted'', ''denied'', ''expired'', ''unknown'']
               (ApplySchemaError ''invalid consent_snapshot''),
             check_that (case item c ''dnc_status'' of JBool _ \<Rightarrow> True | _ \<Rightarrow> False)
               (ApplySchemaError ''invalid consent_snapshot'')]
      | _ \<Rightarrow> Inl (ApplySchemaError ''invalid consent_snapshot''))"

definition optional_string :: "jobject \<Rightarrow> string \<Rightarrow> string \<Rightarrow> int \<Rightarrow> unit aresult" where
  "optional_string p k prefix maximum =
     (if k \<in> set (keys p) then checked_string (item p k) k maximum prefix else Inr ())"

definition validate_apply :: "attr_files \<Rightarrow> jobject \<Rightarrow> unit aresult" where
  "validate_apply files p =
     (if \<not> list_all (\<lambda>k. k \<in> set (keys p)) REQUIRED_APPLY_FIELDS
         \<or> \<not> list_all (\<lambda>k. k \<in> set REQUIRED_APPLY_FIELDS \<or> k \<in> set OPTIONAL_APPLY_FIELDS) (keys p)
      then Inl (ApplySchemaError ''apply fields do not match contract'')
      else all_checks
        [check_that (item p ''contract_version'' = JStr ''1.1'') (ApplySchemaError ''contract version mismatch''),
         checked_string (item p ''automation_event_id'') ''automation_event_id'' 68 ''LAE-'',
         checked_string (item p ''idempotency_key'') ''idempotency_key'' 64 [],
         check_that (match_class is_hex 64 64 (text_of (item p ''idempotency_key'')))
           (ApplySchemaError ''invalid idempotency_key''),
         require_in (item p ''environment'') ENVIRONMENTS (ApplySchemaError ''invalid apply enum''),
         require_in (item p ''automation_action'') LEAD_ACTIONS (ApplySchemaError ''invalid apply enum''),
         checked_string (item p ''company_key'') ''company_key'' 18 [],
         checked_string (item p ''business_unit_key'') ''business_unit_key'' 63 [],
         checked_string (item p ''campaign_key'') ''campaign_key'' 64 [],
         checked_string (item p ''policy_version'') ''policy_version'' 32 [],
         checked_string (item p ''attributes_schema_key'') ''attributes_schema_key'' 64 [],
         checked_string (item p ''result_code'') ''result_code'' 48 [],
         check_that (COMPANY_KEY (text_of (item p ''company_key''))) (ApplySchemaError ''invalid company_key''),
         check_that (uuid_value (item p ''correlation_id'')) (ApplySchemaError ''invalid correlation_id''),
         checked_string (item p ''workflow_execution_id'') ''workflow_execution_id'' 68 ''N8N-'',
         optional_string p ''lead_uid'' ''LEAD-'' 69,
         optional_string p ''source_reference'' ''SRC-'' 68,
         validate_attributes files (text_of (item p ''attributes_schema_key'')) (item p ''attributes''),
         check_consent (item p ''consent_snapshot'')])"

text \<open>\<open>event[k]\<close>, which raises \<open>KeyError\<close> when the event has no such key.\<close>

fun take_items :: "jobject \<Rightarrow> string list \<Rightarrow> jobject aresult" where
  "take_items p [] = Inr []"
| "take_items p (k # ks) =
     (case map_of p k of
        None \<Rightarrow> Inl (Raised (KeyError k))
      | Some v \<Rightarrow> (case take_items p ks of Inl e \<Rightarrow> Inl e | Inr r \<Rightarrow> Inr ((k, v) # r)))"

definition build_apply_payload ::
  "attr_files \<Rightarrow> jobject \<Rightarrow> jobject \<Rightarrow> string \<Rightarrow> jobject aresult" where
  "build_apply_payload files event result automation_event_id =
     (case take_items event [''idempotency_key'', ''environment'', ''company_key'', ''business_unit_key'',
             ''campaign_key'', ''automation_action'', ''policy_version'', ''correlation_id'',
             ''attributes_schema_key'', ''attributes'', ''consent_snapshot''] of
        Inl e \<Rightarrow> Inl e
      | Inr a \<Rightarrow>
      (case take_items result [''workflow_execution_id'', ''result_code''] of
        Inl e \<Rightarrow> Inl e
      | Inr b \<Rightarrow>
          let p = [(''contract_version'', JStr ''1.1''), (''automation_event_id'', JStr automation_event_id)]
                  @ a @ b @ concat (map (\<lambda>k. case map_of event k of None \<Rightarrow> [] | Some v \<Rightarrow> [(k, v)])
                                     OPTIONAL_APPLY_FIELDS)
          in case validate_apply files p of Inl e \<Rightarrow> Inl e | Inr _ \<Rightarrow> Inr p))"

definition signed_headers ::
  "apply_env \<Rightarrow> jobject \<Rightarrow> string \<Rightarrow> string \<Rightarrow> string \<Rightarrow> string \<Rightarrow> string \<Rightarrow> (string \<times> string) list aresult" where
  "signed_headers env p secret environment idem timestamp nonce =
     signed_headers_for_body env (canonical_body p) secret environment idem HTTP_METHOD REQUEST_PATH
       timestamp nonce"

section \<open>The acknowledgement\<close>

definition ack_timestamp :: "apply_env \<Rightarrow> json \<Rightarrow> unit aresult" where
  "ack_timestamp env v =
     (case v of
        JStr s \<Rightarrow> (case apply_timestamp env s of
                    Inl _ \<Rightarrow> Inl (AckValidationError ''invalid updated_at'')
                  | Inr _ \<Rightarrow> Inr ())
      | _ \<Rightarrow> Inl type_error)"

fun same_fields :: "jobject \<Rightarrow> jobject \<Rightarrow> string list \<Rightarrow> unit aresult" where
  "same_fields ack request [] = Inr ()"
| "same_fields ack request (k # ks) =
     (case map_of request k of
        None \<Rightarrow> Inl (Raised (KeyError k))
      | Some v \<Rightarrow>
          if item ack k \<noteq> v then Inl (AckValidationError (''ack '' @ k @ '' mismatch''))
          else same_fields ack request ks)"

definition odoo_record_ok :: "json \<Rightarrow> bool" where
  "odoo_record_ok v \<longleftrightarrow>
     (case v of JNull \<Rightarrow> True | JInt i \<Rightarrow> 1 \<le> i | JBool b \<Rightarrow> b | _ \<Rightarrow> False)"

definition ack_field_list :: "jobject \<Rightarrow> string \<Rightarrow> unit aresult" where
  "ack_field_list ack k =
     (case item ack k of
        JList vs \<Rightarrow>
          if 20 < length vs then Inl (AckValidationError (''invalid '' @ k))
          else if \<not> list_all hashable vs then Inl type_error
          else check_that
                 (distinct vs \<and> list_all (\<lambda>v. case v of JStr s \<Rightarrow> s \<noteq> [] \<and> length s \<le> 48 | _ \<Rightarrow> False) vs)
                 (AckValidationError (''invalid '' @ k))
      | _ \<Rightarrow> Inl (AckValidationError (''invalid '' @ k)))"

definition successful :: "json \<Rightarrow> bool" where
  "successful r \<longleftrightarrow> r = JStr ''APPLIED'' \<or> r = JStr ''NO_CHANGE''"

definition validate_ack :: "apply_env \<Rightarrow> jobject \<Rightarrow> jobject \<Rightarrow> unit aresult" where
  "validate_ack env ack request =
     (if \<not> list_all (\<lambda>k. k \<in> set (keys ack)) REQUIRED_ACK_FIELDS
         \<or> \<not> list_all (\<lambda>k. k \<in> set REQUIRED_ACK_FIELDS \<or> k \<in> set ACK_OPTIONAL_FIELDS) (keys ack)
      then Inl (AckValidationError ''ack fields do not match contract'')
      else all_checks
        [check_that (item ack ''contract_version'' = JStr ''1.1'')
           (AckValidationError ''unknown acknowledgement contract or result''),
         require_in (item ack ''result'') ACK_RESULTS
           (AckValidationError ''unknown acknowledgement contract or result''),
         same_fields ack request [''automation_event_id'', ''automation_action'', ''company_key'',
           ''business_unit_key'', ''campaign_key'', ''policy_version''],
         check_that (item request ''lead_uid'' = JNull \<or> item ack ''lead_uid'' = item request ''lead_uid'')
           (AckValidationError ''ack lead_uid mismatch''),
         check_that (is_ok (bounded_string (item ack ''lead_uid'') ''lead_uid'' 69 ''LEAD-''))
           (AckValidationError ''invalid lead_uid''),
         check_that (odoo_record_ok (item ack ''odoo_record_id'')) (AckValidationError ''invalid odoo_record_id''),
         check_that (\<not> (successful (item ack ''result'') \<and> item ack ''odoo_record_id'' = JNull))
           (AckValidationError ''successful ack requires odoo_record_id''),
         ack_field_list ack ''applied_fields'',
         ack_field_list ack ''unchanged_fields'',
         ack_field_list ack ''rejected_fields'',
         check_that (case item ack ''idempotent_replay'' of JBool _ \<Rightarrow> True | _ \<Rightarrow> False)
           (AckValidationError ''invalid idempotent_replay''),
         ack_timestamp env (item ack ''updated_at''),
         check_that (\<not> (item ack ''result'' = JStr ''FAILED'' \<and> item ack ''result_code'' = JNull))
           (AckValidationError ''FAILED requires result_code'')])"

datatype ack_class = Complete | Retry | Permanent

definition classify_ack :: "jobject \<Rightarrow> ack_class aresult" where
  "classify_ack ack =
     (let result = item ack ''result'' in
      if successful result then Inr Complete
      else if result = JStr ''FAILED''
      then (case in_strings (item ack ''result_code'') RETRYABLE_RESULT_CODES of
              Inl e \<Rightarrow> Inl e
            | Inr b \<Rightarrow> Inr (if b then Retry else Permanent))
      else Inr Permanent)"

section \<open>The client\<close>

text \<open>
  The transport answers a request with a response, a time-out or another exception; what it
  answers may depend on the requests already sent, so the client's state keeps that history. The
  clock and \<open>uuid4\<close> are read once per request.
\<close>

record odoo_request =
  rq_body :: string
  rq_headers :: "(string \<times> string) list"

datatype transport_answer = TransportResponse int string | TransportTimeout | TransportRaises pyerr

record client_env = apply_env +
  ce_secret :: string
  ce_maximum_attempts :: nat
  ce_transport :: "odoo_request list \<Rightarrow> odoo_request \<Rightarrow> transport_answer"
  ce_loads :: "string \<Rightarrow> json option"
  ce_schemas :: attr_files
  ce_now :: "nat \<Rightarrow> instant"
  ce_nonce :: "nat \<Rightarrow> string"

type_synonym ledger_key = "string \<times> string"

record apply_client =
  cl_ledger :: "(ledger_key \<times> string \<times> jobject) list"
  cl_audit :: "(string \<times> string) list"
  cl_sent :: "odoo_request list"

record apply_outcome =
  ao_body :: string
  ao_sha256 :: string
  ao_ack :: jobject
  ao_attempts :: nat
  ao_replayed :: bool

definition client_config_ok :: "string \<Rightarrow> int \<Rightarrow> bool" where
  "client_config_ok secret maximum_attempts \<longleftrightarrow>
     secret \<noteq> [] \<and> 1 \<le> maximum_attempts \<and> maximum_attempts \<le> 5"

definition new_client :: "string \<Rightarrow> int \<Rightarrow> apply_client aresult" where
  "new_client secret maximum_attempts =
     (if \<not> client_config_ok secret maximum_attempts
      then Inl (Raised (ValueError ''invalid Odoo apply client configuration''))
      else Inr \<lparr>cl_ledger = [], cl_audit = [], cl_sent = []\<rparr>)"

text \<open>What one attempt makes of the transport's answer: a result, or \<open>None\<close> to go on.\<close>

definition retry_or :: "bool \<Rightarrow> string \<Rightarrow> 'a aresult option" where
  "retry_or final msg = (if final then Some (Inl (RetryExhausted msg)) else None)"

definition judge_ack :: "client_env \<Rightarrow> jobject \<Rightarrow> bool \<Rightarrow> jobject \<Rightarrow> jobject aresult option" where
  "judge_ack env p final ack =
     (case validate_ack (apply_env.truncate env) ack p of
        Inl (AckValidationError m) \<Rightarrow> Some (Inl (PermanentApplyError m))
      | Inl (AuthenticationError m) \<Rightarrow> Some (Inl (PermanentApplyError m))
      | Inl (ReplayError m) \<Rightarrow> Some (Inl (PermanentApplyError m))
      | Inl e \<Rightarrow> Some (Inl e)
      | Inr _ \<Rightarrow>
          (case classify_ack ack of
             Inl e \<Rightarrow> Some (Inl e)
           | Inr Retry \<Rightarrow> retry_or final ''retryable acknowledgement retries exhausted''
           | Inr Permanent \<Rightarrow>
               Some (Inl (PermanentApplyError
                 (''terminal Odoo acknowledgement: '' @ text_of (item ack ''result''))))
           | Inr Complete \<Rightarrow> Some (Inr ack)))"

definition judge_answer ::
  "client_env \<Rightarrow> jobject \<Rightarrow> bool \<Rightarrow> transport_answer \<Rightarrow> jobject aresult option" where
  "judge_answer env p final answer =
     (case answer of
        TransportTimeout \<Rightarrow> retry_or final ''Odoo apply timeout retries exhausted''
      | TransportRaises e \<Rightarrow> Some (Inl (Raised e))
      | TransportResponse status body \<Rightarrow>
          if status \<in> set RETRYABLE_HTTP_STATUS then retry_or final ''Odoo apply HTTP retries exhausted''
          else if status < 200 \<or> 300 \<le> status
          then Some (Inl (PermanentApplyError ''permanent Odoo apply HTTP response''))
          else case ce_loads env body of
            None \<Rightarrow> Some (Inl (PermanentApplyError ''invalid acknowledgement JSON''))
          | Some (JObj ack) \<Rightarrow> judge_ack env p final ack
          | Some _ \<Rightarrow> Some (Inl (PermanentApplyError ''invalid acknowledgement schema'')))"

text \<open>The loop of \<open>apply\<close>: \<open>n\<close> attempts are left, the next one has number \<open>attempt\<close>.\<close>

fun attempts ::
  "client_env \<Rightarrow> jobject \<Rightarrow> string \<Rightarrow> ledger_key \<Rightarrow> nat \<Rightarrow> nat \<Rightarrow> apply_client
   \<Rightarrow> apply_outcome aresult \<times> apply_client" where
  "attempts env p body key attempt 0 c = (Inl (RetryExhausted ''Odoo apply retries exhausted''), c)"
| "attempts env p body key attempt (Suc n) c =
     (let k = length (cl_sent c) in
      case signed_headers_for_body (apply_env.truncate env) body (ce_secret env)
             (text_of (item p ''environment'')) (text_of (item p ''idempotency_key''))
             HTTP_METHOD REQUEST_PATH (isoformat (ce_now env k)) (ce_nonce env k) of
        Inl e \<Rightarrow> (Inl e, c)
      | Inr hs \<Rightarrow>
          let r = \<lparr>rq_body = body, rq_headers = hs\<rparr>;
              answer = ce_transport env (cl_sent c) r;
              c = c\<lparr>cl_sent := cl_sent c @ [r]\<rparr>
          in case judge_answer env p (attempt = ce_maximum_attempts env) answer of
               None \<Rightarrow> attempts env p body key (attempt + 1) n c
             | Some (Inl e) \<Rightarrow> (Inl e, c)
             | Some (Inr ack) \<Rightarrow>
                 (Inr \<lparr>ao_body = body, ao_sha256 = ae_sha256 env body, ao_ack = ack,
                       ao_attempts = attempt, ao_replayed = False\<rparr>,
                  c\<lparr>cl_ledger := dict_set key (ae_sha256 env body, ack) (cl_ledger c)\<rparr>))"

definition client_key :: "jobject \<Rightarrow> ledger_key" where
  "client_key p = (text_of (item p ''automation_event_id''), text_of (item p ''idempotency_key''))"

definition client_apply ::
  "client_env \<Rightarrow> jobject \<Rightarrow> apply_client \<Rightarrow> apply_outcome aresult \<times> apply_client" where
  "client_apply env p c =
     (case validate_apply (ce_schemas env) p of
        Inl e \<Rightarrow> (Inl e, c)
      | Inr _ \<Rightarrow>
          let body = canonical_body p; digest = ae_sha256 env body; key = client_key p in
          case map_of (cl_ledger c) key of
            Some (previous, ack) \<Rightarrow>
              (case compare_digest previous digest of
                 Inl e \<Rightarrow> (Inl e, c)
               | Inr False \<Rightarrow>
                   (Inl (IdempotencyConflict ''conflicting Odoo apply replay''),
                    c\<lparr>cl_audit := cl_audit c @ [(fst key, ''IDEMPOTENCY_CONFLICT'')]\<rparr>)
               | Inr True \<Rightarrow>
                   (Inr \<lparr>ao_body = body, ao_sha256 = digest, ao_ack = ack, ao_attempts = 0,
                         ao_replayed = True\<rparr>, c))
          | None \<Rightarrow> attempts env p body key 1 (ce_maximum_attempts env) c)"

section \<open>The signed text determines its fields\<close>

lemma clean_prefix:
  assumes "x @ CHR 0x0A # r = y @ CHR 0x0A # r'" "\<not> list_ex line_break x" "\<not> list_ex line_break y"
  shows "x = y \<and> r = r'"
  using assms
proof (induction x arbitrary: y)
  case Nil
  then show ?case by (cases y) (auto simp: line_break_def icode_def)
next
  case (Cons a x)
  then show ?case by (cases y) (auto simp: line_break_def icode_def)
qed

lemma no_newline: "\<not> list_ex line_break x \<Longrightarrow> x \<noteq> u @ CHR 0x0A # v"
  by (auto simp: line_break_def icode_def)

definition clean :: "string \<Rightarrow> bool" where
  "clean v \<longleftrightarrow> v \<noteq> [] \<and> \<not> list_ex line_break v"

lemma join_clean_inj:
  assumes "list_all clean vs" "list_all clean ws" "join newline vs = join newline ws"
  shows "vs = ws"
  using assms
proof (induction vs arbitrary: ws)
  case Nil
  then show ?case
    by (cases ws; cases "tl ws") (auto simp: clean_def newline_def)
next
  case (Cons v vs)
  show ?case
  proof (cases ws)
    case Nil
    with Cons.prems show ?thesis by (cases vs) (auto simp: clean_def newline_def)
  next
    case ws: (Cons w ws')
    consider "vs = []" "ws' = []" | x xs where "vs = []" "ws' = x # xs"
      | x xs where "vs = x # xs" "ws' = []" | x xs y ys where "vs = x # xs" "ws' = y # ys"
      by (meson list.exhaust)
    then show ?thesis
    proof cases
      case 1
      with Cons.prems ws show ?thesis by simp
    next
      case 2
      with Cons.prems ws show ?thesis
        using no_newline[of v w] by (auto simp: clean_def newline_def)
    next
      case 3
      with Cons.prems ws show ?thesis
        using no_newline[of w v] by (auto simp: clean_def newline_def)
    next
      case 4
      with Cons.prems ws have "v = w \<and> join newline vs = join newline ws'"
        by (intro clean_prefix) (simp_all add: clean_def newline_def)
      with Cons ws show ?thesis by simp
    qed
  qed
qed

lemma signing_material_ok:
  "signing_material vs = Inr m \<longleftrightarrow> list_all clean vs \<and> list_all is_ascii vs \<and> m = join newline vs"
  by (auto simp: signing_material_def clean_def list_ex_iff list_all_iff split: if_splits)

text \<open>
  C24. Two lists of fields that sign the same text are the same list: no value can reach from one
  field of the signing material into another, so a signature binds the method, the path, the
  timestamp, the nonce, the identity, the audience, the environment, the scope, the idempotency key
  and the body digest separately.
\<close>

theorem signing_material_injective:
  "signing_material vs = Inr m \<Longrightarrow> signing_material ws = Inr m \<Longrightarrow> vs = ws"
  by (auto simp: signing_material_ok intro: join_clean_inj)

theorem signing_material_injective_witness:
  "signing_material [''POST'', ''/a''] = Inr (''POST'' @ newline @ ''/a'')
   \<and> (\<exists>ws. signing_material ws = Inr (''POST'' @ newline @ ''/a'') \<and> ws = [''POST'', ''/a''])"
proof -
  have s: "signing_material [''POST'', ''/a''] = Inr (''POST'' @ newline @ ''/a'')" by code_simp
  from signing_material_injective[OF s s] s show ?thesis by blast
qed

section \<open>A signed request is accepted once\<close>

lemma require_all_refl: "list_all (\<lambda>(a, b, l). a = b \<and> is_ascii a) cs \<Longrightarrow> require_all cs = Inr ()"
  by (induction cs rule: require_all.induct)
    (auto simp: require_digest_def compare_digest_def)

lemma signed_headers_for_body_ok:
  assumes "signed_headers_for_body env body secret environment idem method path timestamp nonce = Inr hs"
  obtains m where
    "method = HTTP_METHOD" "path = REQUEST_PATH" "environment \<in> set ENVIRONMENTS"
    "signing_material [SIGNATURE_VERSION, method, path, timestamp, nonce, IDENTITY, AUDIENCE,
       environment, APPLY_SCOPE, idem, ae_sha256 env body] = Inr m"
    "hs = [(''X-Codestra-Signature-Version'', SIGNATURE_VERSION), (''X-Service-Identity'', IDENTITY),
       (''X-Service-Audience'', AUDIENCE), (''X-Codestra-Timestamp'', timestamp),
       (''X-Codestra-Nonce'', nonce), (''X-Codestra-Content-SHA256'', ae_sha256 env body),
       (''X-Codestra-Signature'', ae_hmac env secret m), (''Idempotency-Key'', idem),
       (''X-Codestra-Environment'', environment), (''X-Codestra-Scope'', APPLY_SCOPE),
       (''Content-Type'', ''application/json'')]"
  using assms by (auto simp: signed_headers_for_body_def Let_def split: if_splits sum.splits)

lemma verify_signed:
  assumes "signed_headers_for_body env body secret environment idem method path timestamp nonce = Inr hs"
    and "ae_fromisoformat env timestamp = Some (Aware t)" "abs (now - t) \<le> maximum_age"
    and "\<And>k m. clean (ae_hmac env k m) \<and> is_ascii (ae_hmac env k m)"
  shows "verify_signed_request env method path body hs secret environment now maximum_age used =
    (let nonce_key = (environment, APPLY_SCOPE, path, nonce)
     in if nonce_key \<in> set used then (Inl (ReplayError ''nonce replay''), used)
        else (Inr (), nonce_key # used))"
proof -
  obtain m where m: "method = HTTP_METHOD" "path = REQUEST_PATH" "environment \<in> set ENVIRONMENTS"
    "signing_material [SIGNATURE_VERSION, method, path, timestamp, nonce, IDENTITY, AUDIENCE,
       environment, APPLY_SCOPE, idem, ae_sha256 env body] = Inr m"
    "hs = [(''X-Codestra-Signature-Version'', SIGNATURE_VERSION), (''X-Service-Identity'', IDENTITY),
       (''X-Service-Audience'', AUDIENCE), (''X-Codestra-Timestamp'', timestamp),
       (''X-Codestra-Nonce'', nonce), (''X-Codestra-Content-SHA256'', ae_sha256 env body),
       (''X-Codestra-Signature'', ae_hmac env secret m), (''Idempotency-Key'', idem),
       (''X-Codestra-Environment'', environment), (''X-Codestra-Scope'', APPLY_SCOPE),
       (''Content-Type'', ''application/json'')]"
    using signed_headers_for_body_ok[OF assms(1)] by metis
  note clean = m(4)[unfolded signing_material_ok]
  have h: "header hs ''X-Codestra-Signature-Version'' = SIGNATURE_VERSION"
    "header hs ''X-Service-Identity'' = IDENTITY" "header hs ''X-Service-Audience'' = AUDIENCE"
    "header hs ''X-Codestra-Timestamp'' = timestamp" "header hs ''X-Codestra-Nonce'' = nonce"
    "header hs ''X-Codestra-Content-SHA256'' = ae_sha256 env body"
    "header hs ''X-Codestra-Signature'' = ae_hmac env secret m" "header hs ''Idempotency-Key'' = idem"
    "header hs ''X-Codestra-Environment'' = environment" "header hs ''X-Codestra-Scope'' = APPLY_SCOPE"
    by (simp_all add: header_def m(5))
  have "\<not> list_ex (\<lambda>n. header hs n = []) HEADER_NAMES"
    using clean assms(4)[of secret m] by (simp add: HEADER_NAMES_def h clean_def)
  then show ?thesis
    using clean assms(2,3) assms(4)[of secret m] m(4)
    by (simp add: verify_signed_request_def h Let_def require_all_refl m(1,2)[symmetric] apply_timestamp_def
        require_digest_def compare_digest_def)
qed

lemma require_all_fails:
  "(a, b, l) \<in> set cs \<Longrightarrow> a \<noteq> b \<Longrightarrow> \<exists>e. require_all cs = Inl e"
proof (induction cs rule: require_all.induct)
  case (2 a' b' l' rest)
  show ?case
  proof (cases "require_digest a' b' l'")
    case (Inr u)
    then have "a' = b'"
      by (auto simp: require_digest_def compare_digest_def split: sum.splits if_splits)
    with 2 Inr show ?thesis by auto
  qed simp
qed simp

lemma verify_other_body:
  assumes "header hs ''X-Codestra-Content-SHA256'' \<noteq> ae_sha256 env body"
  shows "\<exists>e. verify_signed_request env method path body hs secret environment now age used = (Inl e, used)"
proof (cases "list_ex (\<lambda>n. header hs n = []) HEADER_NAMES")
  case False
  let ?cs = "[(method, HTTP_METHOD, ''method or path mismatch''),
              (path, REQUEST_PATH, ''method or path mismatch''),
              (header hs ''X-Codestra-Signature-Version'', SIGNATURE_VERSION, ''version mismatch''),
              (header hs ''X-Service-Identity'', IDENTITY, ''identity mismatch''),
              (header hs ''X-Service-Audience'', AUDIENCE, ''audience mismatch''),
              (header hs ''X-Codestra-Environment'', environment, ''environment mismatch''),
              (header hs ''X-Codestra-Scope'', APPLY_SCOPE, ''scope mismatch''),
              (header hs ''X-Codestra-Content-SHA256'', ae_sha256 env body, ''body hash mismatch'')]"
  obtain e where "require_all ?cs = Inl e"
    using require_all_fails[OF _ assms, of "''body hash mismatch''" ?cs] by auto
  with False show ?thesis by (simp only: verify_signed_request_def Let_def) simp
qed (simp add: verify_signed_request_def)

lemma signed_content_header:
  "signed_headers_for_body env body secret environment idem method path timestamp nonce = Inr hs
   \<Longrightarrow> header hs ''X-Codestra-Content-SHA256'' = ae_sha256 env body"
  by (erule signed_headers_for_body_ok) (simp add: header_def)

text \<open>
  C25. What the client signs, the verifier accepts: within the age limit, and with a nonce it has
  not seen, a request signed under the shared secret verifies; the same request presented again is
  refused as a replay and changes nothing; and the same headers over a body with another digest
  are refused. The hypotheses on the parameters are that a hex digest is non-empty ASCII without
  line breaks and that the timestamp text reads back as an aware instant.
\<close>

theorem signed_request_accepted_once:
  assumes "signed_headers_for_body env body secret environment idem method path timestamp nonce = Inr hs"
    and "ae_fromisoformat env timestamp = Some (Aware t)"
    and "abs (now - t) \<le> maximum_age" "abs (later - t) \<le> maximum_age"
    and "\<And>k m. clean (ae_hmac env k m) \<and> is_ascii (ae_hmac env k m)"
    and "(environment, APPLY_SCOPE, path, nonce) \<notin> set used"
  shows "\<exists>used'.
      verify_signed_request env method path body hs secret environment now maximum_age used = (Inr (), used')
      \<and> verify_signed_request env method path body hs secret environment later maximum_age used'
          = (Inl (ReplayError ''nonce replay''), used')
      \<and> (\<forall>body'. ae_sha256 env body' \<noteq> ae_sha256 env body \<longrightarrow>
           (\<exists>e. verify_signed_request env method path body' hs secret environment now maximum_age used
                = (Inl e, used)))"
  using verify_signed[OF assms(1,2,3,5), of used] verify_signed[OF assms(1,2,4,5)] assms(6)
    verify_other_body[of hs env] signed_content_header[OF assms(1)]
  by (auto simp: Let_def)

definition demo_apply_env :: apply_env where
  "demo_apply_env =
     \<lparr>ae_sha256 = (\<lambda>s. if s = ''{}'' then ''44136f'' else ''ffff''), ae_hmac = (\<lambda>k m. ''abcd''),
      ae_fromisoformat = (\<lambda>s. Some (Aware 0))\<rparr>"

theorem signed_request_accepted_once_witness:
  "\<exists>hs used' e.
     signed_headers_for_body demo_apply_env ''{}'' ''k'' ''test'' ''i'' HTTP_METHOD REQUEST_PATH ''t'' ''n'' = Inr hs
     \<and> verify_signed_request demo_apply_env HTTP_METHOD REQUEST_PATH ''{}'' hs ''k'' ''test'' 1 300 []
         = (Inr (), used')
     \<and> verify_signed_request demo_apply_env HTTP_METHOD REQUEST_PATH ''{}'' hs ''k'' ''test'' 2 300 used'
         = (Inl (ReplayError ''nonce replay''), used')
     \<and> verify_signed_request demo_apply_env HTTP_METHOD REQUEST_PATH ''{1}'' hs ''k'' ''test'' 1 300 []
         = (Inl e, [])"
proof -
  have "is_ok (signed_headers_for_body demo_apply_env ''{}'' ''k'' ''test'' ''i'' HTTP_METHOD REQUEST_PATH ''t'' ''n'')"
    by code_simp
  then obtain hs where hs:
    "signed_headers_for_body demo_apply_env ''{}'' ''k'' ''test'' ''i'' HTTP_METHOD REQUEST_PATH ''t'' ''n'' = Inr hs"
    by (auto simp: is_ok_iff)
  have c: "clean (ae_hmac demo_apply_env k m) \<and> is_ascii (ae_hmac demo_apply_env k m)" for k m
    by (simp add: demo_apply_env_def clean_def is_ascii_def line_break_def icode_def)
  have d: "ae_sha256 demo_apply_env ''{1}'' \<noteq> ae_sha256 demo_apply_env ''{}''"
    by (simp add: demo_apply_env_def)
  have t: "ae_fromisoformat demo_apply_env ''t'' = Some (Aware 0)"
    by (simp add: demo_apply_env_def)
  have "abs (1 - 0) \<le> (300 :: int)" "abs (2 - 0) \<le> (300 :: int)"
    "(''test'', APPLY_SCOPE, REQUEST_PATH, ''n'') \<notin> set []"
    by simp_all
  from signed_request_accepted_once[OF hs t this(1,2) c this(3)] d hs show ?thesis by blast
qed

section \<open>The client\<close>

lemma attempts_sent:
  "attempts env p body key a n c = (r, c') \<Longrightarrow>
   \<exists>rs. cl_sent c' = cl_sent c @ rs \<and> length rs \<le> n \<and> list_all (\<lambda>q. rq_body q = body) rs
      \<and> cl_audit c' = cl_audit c
      \<and> (\<not> is_ok r \<longrightarrow> cl_ledger c' = cl_ledger c)
      \<and> (\<forall>out. r = Inr out \<longrightarrow> ao_attempts out + 1 = a + length rs \<and> \<not> ao_replayed out
           \<and> cl_ledger c' = dict_set key (ae_sha256 env body, ao_ack out) (cl_ledger c))"
proof (induction env p body key a n c rule: attempts.induct)
  case (2 env p body key a n c)
  let ?k = "length (cl_sent c)"
  let ?h = "signed_headers_for_body (apply_env.truncate env) body (ce_secret env)
     (text_of (item p ''environment'')) (text_of (item p ''idempotency_key''))
     HTTP_METHOD REQUEST_PATH (isoformat (ce_now env ?k)) (ce_nonce env ?k)"
  show ?case
  proof (cases ?h)
    case (Inl e)
    with 2(2) show ?thesis by (auto simp: Let_def)
  next
    case (Inr hs)
    let ?r = "\<lparr>rq_body = body, rq_headers = hs\<rparr>"
    let ?c = "c\<lparr>cl_sent := cl_sent c @ [?r]\<rparr>"
    let ?j = "judge_answer env p (a = ce_maximum_attempts env) (ce_transport env (cl_sent c) ?r)"
    show ?thesis
    proof (cases ?j)
      case None
      with Inr 2(2) have "attempts env p body key (a + 1) n ?c = (r, c')" by (simp add: Let_def)
      from 2(1)[OF refl Inr refl refl refl None this] obtain rs where
        "cl_sent c' = cl_sent ?c @ rs" "length rs \<le> n" "list_all (\<lambda>q. rq_body q = body) rs"
        "cl_audit c' = cl_audit ?c" "\<not> is_ok r \<longrightarrow> cl_ledger c' = cl_ledger ?c"
        "\<forall>out. r = Inr out \<longrightarrow> ao_attempts out + 1 = a + 1 + length rs \<and> \<not> ao_replayed out
           \<and> cl_ledger c' = dict_set key (ae_sha256 env body, ao_ack out) (cl_ledger ?c)"
        by blast
      then show ?thesis by (intro exI[of _ "?r # rs"]) simp
    next
      case (Some v)
      with Inr 2(2) show ?thesis by (cases v) (auto simp: Let_def)
    qed
  qed
qed auto

text \<open>With attempts left, running out of them means having made them all.\<close>

lemma retry_or_exhausted: "retry_or final m = Some r \<Longrightarrow> final"
  by (simp add: retry_or_def split: if_splits)

lemma all_checks_not: "list_all (\<lambda>c. c \<noteq> Inl e) cs \<Longrightarrow> all_checks cs \<noteq> Inl e"
  by (induction cs) (auto split: sum.splits)

lemma check_that_error [simp]: "check_that b e = Inl e' \<longleftrightarrow> \<not> b \<and> e' = e"
  by (auto simp: check_that_def)

lemma same_fields_not_exhausted: "same_fields ack p ks \<noteq> Inl (RetryExhausted m)"
  by (induction ks) (auto split: option.splits)

lemma ack_field_list_not_exhausted: "ack_field_list ack k \<noteq> Inl (RetryExhausted m)"
  by (simp add: ack_field_list_def type_error_def split: json.splits)

lemma ack_timestamp_not_exhausted: "ack_timestamp env v \<noteq> Inl (RetryExhausted m)"
  by (simp add: ack_timestamp_def type_error_def split: json.splits sum.splits)

lemma require_in_not_exhausted: "require_in v S (AckValidationError l) \<noteq> Inl (RetryExhausted m)"
  by (simp add: require_in_def in_strings_def type_error_def split: json.splits sum.splits)

lemma validate_ack_not_exhausted: "validate_ack env ack p \<noteq> Inl (RetryExhausted m)"
proof -
  note not_exhausted = same_fields_not_exhausted ack_field_list_not_exhausted
    ack_timestamp_not_exhausted require_in_not_exhausted
  show ?thesis
    unfolding validate_ack_def by (split if_split, intro conjI impI, simp, rule all_checks_not)
      (simp only: list.pred_inject not_exhausted check_that_error apply_error.distinct simp_thms
        not_False_eq_True)
qed

lemma judge_ack_exhausted: "judge_ack env p final ack = Some (Inl (RetryExhausted m)) \<Longrightarrow> final"
  using validate_ack_not_exhausted[of "apply_env.truncate env" ack p m]
  by (auto simp: judge_ack_def classify_ack_def in_strings_def type_error_def Let_def
      dest: retry_or_exhausted
      split: sum.splits apply_error.splits ack_class.splits if_splits json.splits)

lemma judge_answer_exhausted: "judge_answer env p final w = Some (Inl (RetryExhausted m)) \<Longrightarrow> final"
  by (auto simp: judge_answer_def dest: retry_or_exhausted judge_ack_exhausted
      split: transport_answer.splits if_splits option.splits json.splits)

lemma attempts_exhausted:
  "attempts env p body key a (Suc n) c = (Inl (RetryExhausted m), c') \<Longrightarrow> ce_maximum_attempts env = a + n
   \<Longrightarrow> length (cl_sent c') = length (cl_sent c) + Suc n"
proof (induction n arbitrary: a c)
  case 0
  then show ?case
    by (auto simp: Let_def signed_headers_for_body_def signing_material_def split: sum.splits option.splits if_splits)
next
  case (Suc n)
  let ?k = "length (cl_sent c)"
  let ?h = "signed_headers_for_body (apply_env.truncate env) body (ce_secret env)
     (text_of (item p ''environment'')) (text_of (item p ''idempotency_key''))
     HTTP_METHOD REQUEST_PATH (isoformat (ce_now env ?k)) (ce_nonce env ?k)"
  have "?h \<noteq> Inl (RetryExhausted m)"
    by (simp add: signed_headers_for_body_def signing_material_def Let_def split: sum.splits)
  with Suc.prems(1) obtain hs where hs: "?h = Inr hs"
    by (cases ?h) (auto simp: Let_def)
  let ?r = "\<lparr>rq_body = body, rq_headers = hs\<rparr>"
  let ?j = "judge_answer env p (a = ce_maximum_attempts env) (ce_transport env (cl_sent c) ?r)"
  have "?j \<noteq> Some (Inl (RetryExhausted m))" using Suc.prems(2) by (auto dest: judge_answer_exhausted)
  with Suc.prems(1) hs have "?j = None"
    by (auto simp: Let_def split: option.splits sum.splits)
  with hs Suc.prems(1)
  have "attempts env p body key (a + 1) (Suc n) (c\<lparr>cl_sent := cl_sent c @ [?r]\<rparr>) = (Inl (RetryExhausted m), c')"
    by (simp add: Let_def)
  from Suc.IH[OF this] Suc.prems(2) show ?case by simp
qed

lemma checked_string_not_exhausted: "checked_string v l n pre \<noteq> Inl (RetryExhausted m)"
  by (simp add: checked_string_def bounded_string_def split: json.splits)

lemma optional_string_not_exhausted: "optional_string p k pre n \<noteq> Inl (RetryExhausted m)"
  by (simp add: optional_string_def checked_string_not_exhausted)

lemma require_schema_not_exhausted: "require_in v S (ApplySchemaError l) \<noteq> Inl (RetryExhausted m)"
  by (simp add: require_in_def in_strings_def type_error_def split: json.splits sum.splits)

lemma attributes_ok_not_exhausted: "attributes_ok rules a \<noteq> Inl (RetryExhausted m)"
  by (induction rules a rule: attributes_ok.induct) (auto split: option.splits)

lemma validate_attributes_not_exhausted: "validate_attributes files k v \<noteq> Inl (RetryExhausted m)"
  by (simp add: validate_attributes_def attribute_schema_def attributes_ok_not_exhausted
      split: sum.splits json.splits option.splits)

lemma check_consent_not_exhausted: "check_consent v \<noteq> Inl (RetryExhausted m)"
proof (cases v)
  case (JObj c)
  have "all_checks
      [require_in (item c ''consent_status'') [''granted'', ''denied'', ''expired'', ''unknown'']
         (ApplySchemaError ''invalid consent_snapshot''),
       check_that b (ApplySchemaError ''invalid consent_snapshot'')] \<noteq> Inl (RetryExhausted m)" for b
    by (rule all_checks_not) (simp add: require_schema_not_exhausted)
  with JObj show ?thesis by (simp add: check_consent_def del: all_checks.simps)
qed (simp_all add: check_consent_def)

lemma validate_apply_not_exhausted: "validate_apply files p \<noteq> Inl (RetryExhausted m)"
proof -
  note not_exhausted = checked_string_not_exhausted optional_string_not_exhausted
    require_schema_not_exhausted validate_attributes_not_exhausted check_consent_not_exhausted
  show ?thesis
    unfolding validate_apply_def by (split if_split, intro conjI impI, simp, rule all_checks_not)
      (simp only: list.pred_inject not_exhausted check_that_error apply_error.distinct simp_thms
        not_False_eq_True)
qed

lemma client_apply_cases:
  assumes "client_apply env p c = (r, c')"
  obtains (failed) e where "r = Inl e" "cl_ledger c' = cl_ledger c" "cl_sent c' = cl_sent c"
      "\<And>m. e \<noteq> RetryExhausted m"
    | (replayed) ack where "map_of (cl_ledger c) (client_key p) = Some (ae_sha256 env (canonical_body p), ack)"
        "c' = c" "r = Inr \<lparr>ao_body = canonical_body p, ao_sha256 = ae_sha256 env (canonical_body p),
                          ao_ack = ack, ao_attempts = 0, ao_replayed = True\<rparr>"
    | (tried) "map_of (cl_ledger c) (client_key p) = None"
        "attempts env p (canonical_body p) (client_key p) 1 (ce_maximum_attempts env) c = (r, c')"
proof (cases "validate_apply (ce_schemas env) p")
  case (Inl e)
  with assms have "r = Inl e" "c' = c" by (auto simp: client_apply_def)
  with Inl validate_apply_not_exhausted[of "ce_schemas env" p] show ?thesis by (intro failed) auto
next
  case (Inr u)
  show ?thesis
  proof (cases "map_of (cl_ledger c) (client_key p)")
    case None
    with Inr assms tried show ?thesis by (simp add: client_apply_def Let_def)
  next
    case (Some v)
    obtain d ack where v: "v = (d, ack)" by (cases v)
    let ?d = "ae_sha256 env (canonical_body p)"
    note start = assms[unfolded client_apply_def Let_def]
    consider (bad) e where "compare_digest d ?d = Inl e" "\<And>m. e \<noteq> RetryExhausted m"
      | (other) "compare_digest d ?d = Inr False" | (same) "compare_digest d ?d = Inr True" "d = ?d"
      by (cases "is_ascii d \<and> is_ascii ?d"; cases "d = ?d") (simp_all add: compare_digest_def)
    then show ?thesis
    proof cases
      case bad
      with Inr Some v start have "r = Inl e" "c' = c" by simp_all
      with bad(2) show ?thesis by (intro failed) auto
    next
      case other
      with Inr Some v start show ?thesis by (intro failed) auto
    next
      case same
      with Inr Some v start show ?thesis by (intro replayed) auto
    qed
  qed
qed

definition client_digest :: "client_env \<Rightarrow> jobject \<Rightarrow> string" where
  "client_digest env p = ae_sha256 env (canonical_body p)"

definition client_entry :: "apply_client \<Rightarrow> ledger_key \<Rightarrow> (string \<times> jobject) option" where
  "client_entry c = map_of (cl_ledger c)"

lemma client_new_entry:
  assumes "client_entry c (client_key p) = None" "client_apply env p c = (Inr out, c')"
  shows "client_entry c' (client_key p) = Some (client_digest env p, ao_ack out)"
  using assms(2)
proof (cases rule: client_apply_cases)
  case tried
  from attempts_sent[OF this(2)] show ?thesis
    by (auto simp: client_entry_def client_digest_def dict_set_lookup)
qed (use assms(1) in \<open>auto simp: client_entry_def\<close>)

lemma client_match:
  assumes "client_entry c (client_key p) = Some (d, v)" "client_apply env p c = (Inr out, c')"
  shows "d = client_digest env p \<and> ao_ack out = v"
  using assms(2)
  by (cases rule: client_apply_cases) (use assms(1) in \<open>auto simp: client_entry_def client_digest_def\<close>)

lemma client_keeps:
  assumes "client_entry c k = Some v"
  shows "client_entry (snd (client_apply env p c)) k = Some v"
proof -
  obtain r c' where a: "client_apply env p c = (r, c')" by fastforce
  then show ?thesis
  proof (cases rule: client_apply_cases)
    case tried
    with assms have "k \<noteq> client_key p" by (auto simp: client_entry_def)
    with attempts_sent[OF tried(2)] a assms show ?thesis
      by (cases r) (auto simp: client_entry_def dict_set_lookup)
  qed (use a assms in \<open>auto simp: client_entry_def\<close>)
qed

interpretation odoo_ledger: idempotency_ledger "client_apply env" client_key "client_digest env"
    client_entry ao_ack for env
  by unfold_locales (auto intro: client_new_entry client_match client_keeps dest: client_match)

section \<open>A payload and a transport that fails once\<close>

definition demo_payload :: jobject where
  "demo_payload =
     [(''contract_version'', JStr ''1.1''), (''automation_event_id'', JStr ''LAE-1''),
      (''idempotency_key'', JStr (replicate 64 CHR ''a'')), (''environment'', JStr ''test''),
      (''company_key'', JStr ''COMPANY-1''), (''business_unit_key'', JStr ''farm''),
      (''campaign_key'', JStr ''spring''), (''automation_action'', JStr ''CREATE_LEAD''),
      (''policy_version'', JStr ''1''),
      (''correlation_id'', JStr ''00000000-0000-4000-8000-000000000001''),
      (''attributes_schema_key'', JStr ''farming-lead-v1''), (''attributes'', JObj []),
      (''consent_snapshot'', JObj
         [(''consent_status'', JStr ''granted''), (''consent_purpose'', JStr ''sales''),
          (''consent_source'', JStr ''web''), (''consent_updated_at'', JStr ''x''),
          (''dnc_status'', JBool False), (''dnc_updated_at'', JStr ''x''), (''jurisdiction'', JStr ''IT''),
          (''source_system'', JStr ''crm'')]),
      (''workflow_execution_id'', JStr ''N8N-1''), (''result_code'', JStr ''OK'')]"

definition demo_ack :: jobject where
  "demo_ack =
     [(''contract_version'', JStr ''1.1''), (''automation_event_id'', JStr ''LAE-1''),
      (''automation_action'', JStr ''CREATE_LEAD''), (''lead_uid'', JStr ''LEAD-1''),
      (''odoo_record_id'', JInt 7), (''result'', JStr ''APPLIED''), (''applied_fields'', JList [JStr ''name'']),
      (''unchanged_fields'', JList []), (''rejected_fields'', JList []), (''company_key'', JStr ''COMPANY-1''),
      (''business_unit_key'', JStr ''farm''), (''campaign_key'', JStr ''spring''),
      (''policy_version'', JStr ''1''), (''updated_at'', JStr ''t''), (''idempotent_replay'', JBool False)]"

text \<open>The first request times out; from the second on Odoo acknowledges.\<close>

definition demo_client_env :: client_env where
  "demo_client_env = apply_env.extend demo_apply_env
     \<lparr>ce_secret = ''k'', ce_maximum_attempts = 3,
      ce_transport = (\<lambda>sent r. case sent of [] \<Rightarrow> TransportTimeout | _ \<Rightarrow> TransportResponse 200 ''ack''),
      ce_loads = (\<lambda>s. Some (JObj demo_ack)),
      ce_schemas = (\<lambda>k. Some \<lparr>at_object = True, at_closed = True, at_max = 10, at_properties = []\<rparr>),
      ce_now = (\<lambda>n. int n), ce_nonce = (\<lambda>n. ''n'')\<rparr>"

definition demo_client :: apply_client where
  "demo_client = \<lparr>cl_ledger = [], cl_audit = [], cl_sent = []\<rparr>"

lemma demo_applied:
  "\<exists>out c1. client_apply demo_client_env demo_payload demo_client = (Inr out, c1) \<and> ao_attempts out = 2"
proof -
  have "case client_apply demo_client_env demo_payload demo_client of
      (Inl _, _) \<Rightarrow> False | (Inr out, _) \<Rightarrow> ao_attempts out = 2"
    by code_simp
  then show ?thesis by (auto split: prod.splits sum.splits)
qed

section \<open>Properties of the client\<close>

text \<open>
  C26. One call of \<open>apply\<close> ends after at most the configured number of requests, all with the
  canonical body of its payload. It gives up with \<open>RetryExhausted\<close> only when it has sent exactly
  that many, and a success reports the number it has sent.
\<close>

theorem apply_attempts_bounded:
  assumes "client_apply env p c = (r, c')"
  shows "\<exists>rs. cl_sent c' = cl_sent c @ rs \<and> length rs \<le> ce_maximum_attempts env
    \<and> list_all (\<lambda>q. rq_body q = canonical_body p) rs
    \<and> (\<forall>m. r = Inl (RetryExhausted m) \<longrightarrow> length rs = ce_maximum_attempts env)
    \<and> (\<forall>out. r = Inr out \<longrightarrow> ao_attempts out = length rs)"
  using assms
proof (cases rule: client_apply_cases)
  case tried
  have "length (cl_sent c') = length (cl_sent c) + ce_maximum_attempts env"
    if "r = Inl (RetryExhausted m)" for m
    using tried(2) that attempts_exhausted[of env p _ _ 1 _ c m c']
    by (cases "ce_maximum_attempts env") auto
  with attempts_sent[OF tried(2)] show ?thesis by fastforce
qed auto

theorem apply_attempts_bounded_witness:
  "\<exists>out c1 rs. client_apply demo_client_env demo_payload demo_client = (Inr out, c1)
     \<and> cl_sent c1 = cl_sent demo_client @ rs \<and> length rs \<le> ce_maximum_attempts demo_client_env
     \<and> ao_attempts out = length rs \<and> length rs = 2"
proof -
  obtain out c1 where a: "client_apply demo_client_env demo_payload demo_client = (Inr out, c1)"
    "ao_attempts out = 2"
    using demo_applied by blast
  from apply_attempts_bounded[OF a(1)] a show ?thesis by auto
qed

text \<open>
  C27. A payload is applied once per automation event and idempotency key: after a success, whatever
  the client is asked to apply in between, the same payload is answered from the ledger, with the
  acknowledgement of the first time and without any request, and a payload with the same keys but
  another digest is never applied. Digests are ASCII text, as \<open>hexdigest\<close> returns them.
\<close>

theorem payload_applied_once:
  assumes "client_apply env p c = (Inr out, c1)" "c2 = fold (\<lambda>q c. snd (client_apply env q c)) qs c1"
    and "is_ascii (ae_sha256 env (canonical_body p))"
  shows "(\<exists>again. client_apply env p c2 = (Inr again, c2) \<and> ao_ack again = ao_ack out
            \<and> ao_attempts again = 0 \<and> ao_replayed again)
    \<and> (\<forall>p' again c3. client_key p' = client_key p \<and> client_apply env p' c2 = (Inr again, c3)
          \<longrightarrow> ae_sha256 env (canonical_body p') = ae_sha256 env (canonical_body p))"
proof -
  have c2: "c2 = odoo_ledger.submits env qs c1"
    unfolding assms(2) by (induction qs arbitrary: c1) simp_all
  have e: "client_entry c2 (client_key p) = Some (client_digest env p, ao_ack out)"
    unfolding c2 using odoo_ledger.submits_keep odoo_ledger.stored_after[OF assms(1)] by blast
  have v: "validate_apply (ce_schemas env) p = Inr ()"
    using assms(1) by (cases "validate_apply (ce_schemas env) p") (simp_all add: client_apply_def)
  have "compare_digest (client_digest env p) (client_digest env p) = Inr True"
    using assms(3) by (simp add: compare_digest_def client_digest_def)
  with e v have "client_apply env p c2 =
      (Inr \<lparr>ao_body = canonical_body p, ao_sha256 = client_digest env p, ao_ack = ao_ack out,
            ao_attempts = 0, ao_replayed = True\<rparr>, c2)"
    by (simp add: client_apply_def Let_def client_entry_def client_digest_def)
  then have "\<exists>again. client_apply env p c2 = (Inr again, c2) \<and> ao_ack again = ao_ack out
      \<and> ao_attempts again = 0 \<and> ao_replayed again"
    by simp
  moreover have "ae_sha256 env (canonical_body p') = ae_sha256 env (canonical_body p)"
    if "client_key p' = client_key p" "client_apply env p' c2 = (Inr again, c3)" for p' again c3
    using client_match[OF _ that(2)] e that(1) by (simp only: client_digest_def)
  ultimately show ?thesis by blast
qed

theorem payload_applied_once_witness:
  "\<exists>out c1 again. client_apply demo_client_env demo_payload demo_client = (Inr out, c1)
     \<and> is_ascii (ae_sha256 demo_client_env (canonical_body demo_payload))
     \<and> client_apply demo_client_env demo_payload c1 = (Inr again, c1) \<and> ao_attempts again = 0
     \<and> ao_ack again = ao_ack out"
proof -
  obtain out c1 where a: "client_apply demo_client_env demo_payload demo_client = (Inr out, c1)"
    using demo_applied by blast
  have d: "is_ascii (ae_sha256 demo_client_env (canonical_body demo_payload))" by code_simp
  have "c1 = fold (\<lambda>q c. snd (client_apply demo_client_env q c)) [] c1" by simp
  from payload_applied_once[OF a this d] a d show ?thesis by blast
qed

end
