(* ===== verification/Lead_Automation.thy ===== *)
theory Lead_Automation
  imports Odoo_Apply
begin

text \<open>
  Lead automation (\<open>app/core/lead_automation.py\<close>), its signed n8n callback
  (\<open>app/core/lead_callback_auth.py\<close>) and its endpoints (\<open>app/api/v1/lead_automation.py\<close>).

  The service is a record; its dictionaries are association lists in insertion order, and a method
  returns its result together with the service it leaves, because an exception keeps the
  assignments made before it. An \<open>Event\<close> object is held by the events dictionary only, so a
  method that finds one and assigns to it updates that entry. Payloads are JSON objects. A value
  that Python cannot hash raises \<open>TypeError\<close> where the code uses it as a key or set element.
\<close>

section \<open>States\<close>

datatype lead_state =
    RECEIVED | SCHEMA_VALIDATED | POLICY_EVALUATING | POLICY_ALLOWED | POLICY_DENIED
  | CONSENT_BLOCKED | DNC_BLOCKED | OUTBOX_PENDING | DISPATCH_RESERVED | DISPATCHED
  | N8N_ACKNOWLEDGED | RESULT_RECEIVED | RESULT_VALIDATED | ODOO_APPLY_PENDING | ODOO_APPLIED
  | COMPLETED | RETRY_PENDING | QUARANTINED | FAILED_TERMINAL

fun state_name :: "lead_state \<Rightarrow> string" where
  "state_name RECEIVED = ''RECEIVED''"
| "state_name SCHEMA_VALIDATED = ''SCHEMA_VALIDATED''"
| "state_name POLICY_EVALUATING = ''POLICY_EVALUATING''"
| "state_name POLICY_ALLOWED = ''POLICY_ALLOWED''"
| "state_name POLICY_DENIED = ''POLICY_DENIED''"
| "state_name CONSENT_BLOCKED = ''CONSENT_BLOCKED''"
| "state_name DNC_BLOCKED = ''DNC_BLOCKED''"
| "state_name OUTBOX_PENDING = ''OUTBOX_PENDING''"
| "state_name DISPATCH_RESERVED = ''DISPATCH_RESERVED''"
| "state_name DISPATCHED = ''DISPATCHED''"
| "state_name N8N_ACKNOWLEDGED = ''N8N_ACKNOWLEDGED''"
| "state_name RESULT_RECEIVED = ''RESULT_RECEIVED''"
| "state_name RESULT_VALIDATED = ''RESULT_VALIDATED''"
| "state_name ODOO_APPLY_PENDING = ''ODOO_APPLY_PENDING''"
| "state_name ODOO_APPLIED = ''ODOO_APPLIED''"
| "state_name COMPLETED = ''COMPLETED''"
| "state_name RETRY_PENDING = ''RETRY_PENDING''"
| "state_name QUARANTINED = ''QUARANTINED''"
| "state_name FAILED_TERMINAL = ''FAILED_TERMINAL''"

fun LEAD_TRANSITIONS :: "lead_state \<Rightarrow> lead_state list" where
  "LEAD_TRANSITIONS RECEIVED = [SCHEMA_VALIDATED, QUARANTINED]"
| "LEAD_TRANSITIONS SCHEMA_VALIDATED = [POLICY_EVALUATING]"
| "LEAD_TRANSITIONS POLICY_EVALUATING = [POLICY_ALLOWED, POLICY_DENIED, CONSENT_BLOCKED, DNC_BLOCKED]"
| "LEAD_TRANSITIONS POLICY_ALLOWED = [OUTBOX_PENDING]"
| "LEAD_TRANSITIONS OUTBOX_PENDING = [DISPATCH_RESERVED]"
| "LEAD_TRANSITIONS DISPATCH_RESERVED = [DISPATCHED, RETRY_PENDING, QUARANTINED]"
| "LEAD_TRANSITIONS DISPATCHED = [N8N_ACKNOWLEDGED, RETRY_PENDING, QUARANTINED]"
| "LEAD_TRANSITIONS N8N_ACKNOWLEDGED = [RESULT_RECEIVED, RETRY_PENDING]"
| "LEAD_TRANSITIONS RESULT_RECEIVED = [RESULT_VALIDATED, QUARANTINED]"
| "LEAD_TRANSITIONS RESULT_VALIDATED = [ODOO_APPLY_PENDING]"
| "LEAD_TRANSITIONS ODOO_APPLY_PENDING =
     [ODOO_APPLIED, POLICY_DENIED, CONSENT_BLOCKED, DNC_BLOCKED, RETRY_PENDING, QUARANTINED]"
| "LEAD_TRANSITIONS ODOO_APPLIED = [COMPLETED, QUARANTINED]"
| "LEAD_TRANSITIONS RETRY_PENDING = [DISPATCH_RESERVED, ODOO_APPLY_PENDING, FAILED_TERMINAL]"
| "LEAD_TRANSITIONS _ = []"

definition LEAD_TERMINAL :: "lead_state list" where
  "LEAD_TERMINAL = [POLICY_DENIED, CONSENT_BLOCKED, DNC_BLOCKED, QUARANTINED, FAILED_TERMINAL, COMPLETED]"

definition ATTRIBUTE_SCHEMA_FIELDS :: "(string \<times> string list) list" where
  "ATTRIBUTE_SCHEMA_FIELDS =
     [(''transportation-logistics-lead-v1'',
        [''contact_reference'', ''shipment_mode'', ''origin_region'', ''destination_region'', ''load_class'',
         ''estimated_volume_band'']),
      (''web-mobile-ai-lead-v1'',
        [''contact_reference'', ''solution_type'', ''company_size_band'', ''budget_band'', ''delivery_window'']),
      (''senior-citizen-products-lead-v1'',
        [''contact_reference'', ''product_category'', ''service_region'', ''accessibility_support'']),
      (''business-loan-lead-v1'',
        [''contact_reference'', ''loan_purpose'', ''amount_band'', ''business_age_band'', ''industry_key'']),
      (''real-estate-lead-v1'',
        [''contact_reference'', ''transaction_type'', ''property_type'', ''region_key'', ''budget_band'']),
      (''fundraising-lead-v1'', [''contact_reference'', ''campaign_type'', ''interest_band'', ''region_key'']),
      (''trading-ai-lead-v1'',
        [''contact_reference'', ''experience_band'', ''product_interest'', ''risk_profile_reference'']),
      (''farming-lead-v1'',
        [''contact_reference'', ''operation_type'', ''acreage_band'', ''region_key'', ''solution_interest''])]"

text \<open>The module's own exceptions; every other exception keeps the shape it has elsewhere.\<close>

datatype lead_error = LeadAutomationError string | LeadConflict string | LeadRaised apply_error

type_synonym 'a lresult = "lead_error + 'a"

section \<open>Policies, events and the service\<close>

record lead_policy =
  po_environment :: string
  po_business_unit :: string
  po_campaign :: string
  po_event_type :: string
  po_action :: string
  po_version :: string
  po_allow :: bool
  po_requires_consent :: bool
  po_contact_eligible :: bool
  po_allowed_fields :: "string list"
  po_enabled :: bool

record tenant_scope =
  ts_environment :: string
  ts_business_unit :: string
  ts_campaign :: string

text \<open>\<open>payload.get(k, "")\<close>.\<close>

definition get_or_empty :: "jobject \<Rightarrow> string \<Rightarrow> json" where
  "get_or_empty p k = (case map_of p k of None \<Rightarrow> JStr [] | Some v \<Rightarrow> v)"

definition from_payload :: "jobject \<Rightarrow> tenant_scope" where
  "from_payload p =
     \<lparr>ts_environment = py_str (get_or_empty p ''environment''),
      ts_business_unit = py_str (get_or_empty p ''business_unit_key''),
      ts_campaign = py_str (get_or_empty p ''campaign_key'')\<rparr>"

record lead_response =
  lr_automation_event_id :: string
  lr_event_id :: json
  lr_environment :: json
  lr_state :: lead_state
  lr_policy_version :: json
  lr_updated_at :: string

record result_response =
  rr_automation_event_id :: string
  rr_state :: lead_state
  rr_accepted :: bool

record lead_event =
  ev_id :: string
  ev_payload :: jobject
  ev_hash :: string
  ev_state :: lead_state
  ev_result_hash :: "string option"
  ev_result_response :: "result_response option"
  ev_result_payload :: "jobject option"
  ev_odoo_ack :: "jobject option"
  ev_audit :: "(lead_state \<times> json) list"

record outbox_row =
  ob_automation_event_id :: string
  ob_binding_key :: string
  ob_scope :: tenant_scope
  ob_enabled :: bool
  ob_attempts :: int

type_synonym lead_key = "tenant_scope \<times> json"
type_synonym policy_key = "json list"

record lead_service =
  ls_enabled :: bool
  ls_binding_enabled :: bool
  ls_result_processing_enabled :: bool
  ls_odoo_apply_enabled :: bool
  ls_action_switches :: "(string \<times> bool) list"
  ls_policies :: "(policy_key \<times> lead_policy) list"
  ls_events :: "(lead_key \<times> lead_event) list"
  ls_idempotency :: "(lead_key \<times> string \<times> lead_response) list"
  ls_workflow_ids :: "(json \<times> json) list"
  ls_outbox :: "outbox_row list"
  ls_quarantine :: "(json \<times> string) list"
  ls_odoo_operations :: int

definition new_service :: lead_service where
  "new_service =
     \<lparr>ls_enabled = False, ls_binding_enabled = False, ls_result_processing_enabled = False,
      ls_odoo_apply_enabled = False, ls_action_switches = map (\<lambda>a. (a, False)) LEAD_ACTIONS,
      ls_policies = [], ls_events = [], ls_idempotency = [], ls_workflow_ids = [], ls_outbox = [],
      ls_quarantine = [], ls_odoo_operations = 0\<rparr>"

definition add_policy :: "lead_policy \<Rightarrow> lead_service \<Rightarrow> lead_service" where
  "add_policy po s =
     (let key = [JStr (po_environment po), JStr (po_business_unit po), JStr (po_campaign po),
                 JStr (po_event_type po), JStr (po_action po), JStr (po_version po)]
      in s\<lparr>ls_policies := dict_set key po (ls_policies s)\<rparr>)"

text \<open>\<open>_transition\<close> on the event object.\<close>

definition lead_transition :: "lead_state \<Rightarrow> json \<Rightarrow> lead_event \<Rightarrow> lead_event lresult" where
  "lead_transition target result_code e =
     (if target \<notin> set (LEAD_TRANSITIONS (ev_state e)) 
      then Inl (LeadAutomationError
             (''invalid transition '' @ state_name (ev_state e) @ ''->'' @ state_name target))
      else Inr (e\<lparr>ev_state := target, ev_audit := ev_audit e @ [(target, result_code)]\<rparr>))"

text \<open>
  A sequence of transitions of one event; the transitions before the refused one stay on the
  object.
\<close>

fun lead_transitions :: "(lead_state \<times> json) list \<Rightarrow> lead_event \<Rightarrow> unit lresult \<times> lead_event" where
  "lead_transitions [] e = (Inr (), e)"
| "lead_transitions ((t, c) # ts) e =
     (case lead_transition t c e of Inl x \<Rightarrow> (Inl x, e) | Inr e' \<Rightarrow> lead_transitions ts e')"

definition lead_status :: "instant \<Rightarrow> lead_event \<Rightarrow> lead_response" where
  "lead_status now e =
     \<lparr>lr_automation_event_id = ev_id e, lr_event_id = item (ev_payload e) ''event_id'',
      lr_environment = item (ev_payload e) ''environment'', lr_state = ev_state e,
      lr_policy_version = item (ev_payload e) ''policy_version'', lr_updated_at = isoformat now\<rparr>"

definition put_event :: "lead_key \<Rightarrow> lead_event \<Rightarrow> lead_service \<Rightarrow> lead_service" where
  "put_event k e s = s\<lparr>ls_events := dict_set k e (ls_events s)\<rparr>"

fun find_event :: "json \<Rightarrow> tenant_scope \<Rightarrow> (lead_key \<times> lead_event) list \<Rightarrow> (lead_key \<times> lead_event) lresult" where
  "find_event i sc [] = Inl (LeadAutomationError ''event not found'')"
| "find_event i sc (((sc', i'), e) # rest) =
     (if sc' = sc \<and> (i' = i \<or> JStr (ev_id e) = i) then Inr ((sc', i'), e) else find_event i sc rest)"
section \<open>The methods of the service\<close>

text \<open>From outside come SHA-256, the attribute schema files and \<open>fromisoformat\<close>.\<close>

record lead_env = apply_env +
  le_schemas :: attr_files

definition canonical_hash :: "lead_env \<Rightarrow> json \<Rightarrow> string" where
  "canonical_hash env v = ae_sha256 env (json_canonical v)"

definition raise_lead :: "lead_error \<Rightarrow> lead_service \<Rightarrow> 'a lresult \<times> lead_service" where
  "raise_lead e s = (Inl e, s)"

definition lead_type_error :: lead_error where
  "lead_type_error = LeadRaised type_error"

definition attribute_error :: lead_error where
  "attribute_error = LeadRaised (Raised (RuntimeError ''AttributeError''))"

definition receive_required :: "string list" where
  "receive_required =
     [''contract_version'', ''event_id'', ''event_type'', ''environment'', ''company_key'',
      ''business_unit_key'', ''campaign_key'', ''automation_action'', ''policy_version'', ''attributes'',
      ''consent_snapshot'']"

text \<open>\<open>re.fullmatch\<close> raises on a value that is not a string.\<close>

definition company_key_ok :: "json \<Rightarrow> bool lresult" where
  "company_key_ok v = (case v of JStr c \<Rightarrow> Inr (COMPANY_KEY c) | _ \<Rightarrow> Inl lead_type_error)"

definition check_envelope :: "jobject \<Rightarrow> unit lresult" where
  "check_envelope p =
     (let bad = LeadAutomationError ''schema violation'' in
      if map_of p ''contract_version'' \<noteq> Some (JStr ''1.1'')
         \<or> \<not> list_all (\<lambda>k. k \<in> set (keys p)) receive_required then Inl bad
      else case in_strings (item p ''automation_action'') LEAD_ACTIONS of
        Inl e \<Rightarrow> Inl (LeadRaised e)
      | Inr False \<Rightarrow> Inl bad
      | Inr True \<Rightarrow>
          (case company_key_ok (get_or_empty p ''company_key'') of
             Inl e \<Rightarrow> Inl e
           | Inr ok \<Rightarrow> if ok then Inr () else Inl bad))"

definition check_attributes :: "jobject \<Rightarrow> unit lresult" where
  "check_attributes p =
     (let bad = LeadAutomationError ''business-unit attribute schema violation'';
          schema_key = item p ''attributes_schema_key''
      in if \<not> hashable schema_key then Inl lead_type_error
         else case (map_of ATTRIBUTE_SCHEMA_FIELDS (text_of schema_key), item p ''attributes'') of
           (Some names, JObj a) \<Rightarrow> if list_all (\<lambda>k. k \<in> set names) (keys a) then Inr () else Inl bad
         | _ \<Rightarrow> Inl bad)"

definition policy_key_of :: "jobject \<Rightarrow> policy_key" where
  "policy_key_of p =
     map (item p) [''environment'', ''business_unit_key'', ''campaign_key'', ''event_type'',
                   ''automation_action'', ''policy_version'']"

definition attribute_names :: "jobject \<Rightarrow> string list" where
  "attribute_names p = (case item p ''attributes'' of JObj a \<Rightarrow> keys a | _ \<Rightarrow> [])"

text \<open>\<open>consent.get(k)\<close> of a snapshot that need not be an object.\<close>

definition consent_get :: "jobject \<Rightarrow> string \<Rightarrow> json lresult" where
  "consent_get p k = (case item p ''consent_snapshot'' of JObj c \<Rightarrow> Inr (item c k) | _ \<Rightarrow> Inl attribute_error)"

text \<open>
  The decision of \<open>receive\<close>: the transitions it makes of an event that is being evaluated. Only the
  last branch reaches \<open>OUTBOX_PENDING\<close>.
\<close>

definition switched_on :: "lead_service \<Rightarrow> jobject \<Rightarrow> bool" where
  "switched_on s p \<longleftrightarrow> map_of (ls_action_switches s) (text_of (item p ''automation_action'')) = Some True"

definition lead_decide :: "lead_service \<Rightarrow> jobject \<Rightarrow> (lead_state \<times> json) list lresult" where
  "lead_decide s p =
     (if \<not> list_all hashable (policy_key_of p) then Inl lead_type_error
      else case map_of (ls_policies s) (policy_key_of p) of
        None \<Rightarrow> Inr [(POLICY_DENIED, JStr ''DEFAULT_DENY'')]
      | Some po \<Rightarrow>
          if \<not> po_enabled po \<or> \<not> po_allow po \<or> \<not> ls_enabled s \<or> \<not> switched_on s p
          then Inr [(POLICY_DENIED, JStr ''DEFAULT_DENY'')]
          else case (if po_contact_eligible po then consent_get p ''dnc_status'' else Inr JNull) of
            Inl e \<Rightarrow> Inl e
          | Inr dnc \<Rightarrow>
              if dnc = JBool True then Inr [(DNC_BLOCKED, JStr ''DNC_BLOCKED'')]
              else case (if po_requires_consent po then consent_get p ''consent_status'' else Inr (JStr ''granted'')) of
                Inl e \<Rightarrow> Inl e
              | Inr status \<Rightarrow>
                  if status \<noteq> JStr ''granted'' then Inr [(CONSENT_BLOCKED, JStr ''CONSENT_REQUIRED'')]
                  else if \<not> list_all (\<lambda>k. k \<in> set (po_allowed_fields po)) (attribute_names p)
                  then Inr [(POLICY_DENIED, JStr ''ATTRIBUTE_NOT_ALLOWED'')]
                  else Inr [(POLICY_ALLOWED, JStr []), (OUTBOX_PENDING, JStr [])])"

definition new_event :: "string \<Rightarrow> jobject \<Rightarrow> string \<Rightarrow> lead_event" where
  "new_event hex p digest =
     \<lparr>ev_id = ''LAE-'' @ hex, ev_payload = p, ev_hash = digest, ev_state = RECEIVED, ev_result_hash = None,
      ev_result_response = None, ev_result_payload = None, ev_odoo_ack = None, ev_audit = []\<rparr>"

definition outbox_entry :: "lead_service \<Rightarrow> tenant_scope \<Rightarrow> lead_event \<Rightarrow> outbox_row" where
  "outbox_entry s sc e =
     \<lparr>ob_automation_event_id = ev_id e, ob_binding_key = ''n8n.leads.ingest'', ob_scope = sc,
      ob_enabled = ls_binding_enabled s, ob_attempts = 0\<rparr>"

text \<open>What \<open>receive\<close> does with a payload that passed its checks; \<open>hex\<close> is \<open>uuid4().hex\<close>.\<close>

definition admit ::
  "lead_env \<Rightarrow> string \<Rightarrow> instant \<Rightarrow> jobject \<Rightarrow> lead_service \<Rightarrow> lead_response lresult \<times> lead_service" where
  "admit env hex now p s =
     (let sc = from_payload p;
          event_id = get_or_empty p ''event_id'';
          digest = canonical_hash env (JObj p);
          e = new_event hex p digest
      in if \<not> hashable event_id then raise_lead lead_type_error s
         else let (_, e) = lead_transitions [(SCHEMA_VALIDATED, JStr []), (POLICY_EVALUATING, JStr [])] e in
         case lead_decide s p of
           Inl x \<Rightarrow> raise_lead x (put_event (sc, event_id) e s)
         | Inr ts \<Rightarrow>
             let (_, e) = lead_transitions ts e;
                 s = put_event (sc, event_id) e s;
                 s = (if ev_state e = OUTBOX_PENDING
                      then s\<lparr>ls_outbox := ls_outbox s @ [outbox_entry s sc e]\<rparr> else s);
                 response = lead_status now e
             in (Inr response,
                 s\<lparr>ls_idempotency :=
                     dict_set (sc, get_or_empty p ''idempotency_key'') (digest, response) (ls_idempotency s)\<rparr>))"

definition lead_receive ::
  "lead_env \<Rightarrow> string \<Rightarrow> instant \<Rightarrow> jobject \<Rightarrow> lead_service \<Rightarrow> lead_response lresult \<times> lead_service" where
  "lead_receive env hex now p s =
     (let sc = from_payload p;
          idem = get_or_empty p ''idempotency_key'';
          digest = canonical_hash env (JObj p)
      in if \<not> hashable idem then raise_lead lead_type_error s
         else case map_of (ls_idempotency s) (sc, idem) of
           Some (previous_hash, response) \<Rightarrow>
             if previous_hash \<noteq> digest
             then raise_lead (LeadConflict ''conflicting event replay'')
                    (s\<lparr>ls_quarantine := ls_quarantine s
                        @ [(get_or_empty p ''event_id'', ''IDEMPOTENCY_CONFLICT'')]\<rparr>)
             else (Inr response, s)
         | None \<Rightarrow>
             (case check_envelope p of
                Inl e \<Rightarrow> raise_lead e s
              | Inr _ \<Rightarrow>
                  (case check_attributes p of
                     Inl e \<Rightarrow> raise_lead e s
                   | Inr _ \<Rightarrow> admit env hex now p s)))"

text \<open>A method that finds an event and makes one transition of it.\<close>

definition move_event :: "lead_state \<Rightarrow> json \<Rightarrow> json \<Rightarrow> tenant_scope \<Rightarrow> lead_service \<Rightarrow> unit lresult \<times> lead_service" where
  "move_event target result_code i sc s =
     (case find_event i sc (ls_events s) of
        Inl e \<Rightarrow> raise_lead e s
      | Inr (k, e) \<Rightarrow>
          (case lead_transition target result_code e of
             Inl x \<Rightarrow> raise_lead x s
           | Inr e' \<Rightarrow> (Inr (), put_event k e' s)))"

definition reserve_dispatch :: "json \<Rightarrow> tenant_scope \<Rightarrow> lead_service \<Rightarrow> bool lresult \<times> lead_service" where
  "reserve_dispatch i sc s =
     (case find_event i sc (ls_events s) of
        Inl e \<Rightarrow> raise_lead e s
      | Inr (k, e) \<Rightarrow>
          if ev_state e \<noteq> OUTBOX_PENDING \<or> \<not> ls_enabled s \<or> \<not> ls_binding_enabled s then (Inr False, s)
          else case lead_transition DISPATCH_RESERVED (JStr []) e of
            Inl x \<Rightarrow> raise_lead x s
          | Inr e' \<Rightarrow> (Inr True, put_event k e' s))"

definition mark_dispatched :: "json \<Rightarrow> tenant_scope \<Rightarrow> lead_service \<Rightarrow> unit lresult \<times> lead_service" where
  "mark_dispatched = move_event DISPATCHED (JStr [])"

definition acknowledge_n8n :: "json \<Rightarrow> tenant_scope \<Rightarrow> lead_service \<Rightarrow> unit lresult \<times> lead_service" where
  "acknowledge_n8n = move_event N8N_ACKNOWLEDGED (JStr [])"

section \<open>Results of the workflow\<close>

definition result_required :: "string list" where
  "result_required =
     [''contract_version'', ''event_id'', ''workflow_execution_id'', ''binding_key'', ''environment'',
      ''company_key'', ''business_unit_key'', ''campaign_key'', ''automation_action'', ''result_status'',
      ''result_code'', ''result_payload'', ''occurred_at'', ''idempotency_key'']"

definition immutable_keys :: "string list" where
  "immutable_keys =
     [''environment'', ''company_key'', ''business_unit_key'', ''campaign_key'', ''automation_action'']"

definition immutable_fields :: "string list" where
  "immutable_fields =
     [''consent_status'', ''dnc_status'', ''environment'', ''business_unit_key'', ''campaign_key'',
      ''policy_version'']"

text \<open>\<open>set(payload.get("result_payload", {}).get("field_updates", {}))\<close>.\<close>

definition field_updates :: "jobject \<Rightarrow> json list lresult" where
  "field_updates p =
     (case item p ''result_payload'' of
        JObj r \<Rightarrow>
          (case map_of r ''field_updates'' of
             None \<Rightarrow> Inr []
           | Some (JObj u) \<Rightarrow> Inr (map JStr (keys u))
           | Some (JList vs) \<Rightarrow> if list_all hashable vs then Inr vs else Inl lead_type_error
           | Some (JStr t) \<Rightarrow> Inr (map (\<lambda>c. JStr [c]) t)
           | Some _ \<Rightarrow> Inl lead_type_error)
      | _ \<Rightarrow> Inl attribute_error)"

definition quarantine_event :: "lead_key \<Rightarrow> lead_event \<Rightarrow> lead_service \<Rightarrow> lead_service" where
  "quarantine_event k e s = put_event k (e\<lparr>ev_state := QUARANTINED\<rparr>) s"

definition note_quarantine :: "json \<Rightarrow> string \<Rightarrow> lead_service \<Rightarrow> lead_service" where
  "note_quarantine i reason s = s\<lparr>ls_quarantine := ls_quarantine s @ [(i, reason)]\<rparr>"

definition check_result :: "jobject \<Rightarrow> unit lresult" where
  "check_result p =
     (let bad = LeadAutomationError ''result schema violation'' in
      if set (keys p) \<noteq> set result_required \<or> map_of p ''contract_version'' \<noteq> Some (JStr ''1.1'')
      then Inl bad
      else case company_key_ok (item p ''company_key'') of
        Inl e \<Rightarrow> Inl e
      | Inr ok \<Rightarrow> if ok then Inr () else Inl bad)"

text \<open>The allowlist of the policy under which the event was received.\<close>

definition result_allowlist :: "lead_service \<Rightarrow> jobject \<Rightarrow> string list lresult" where
  "result_allowlist s original =
     (if \<not> list_all hashable (policy_key_of original) then Inl lead_type_error
      else case map_of (ls_policies s) (policy_key_of original) of
        None \<Rightarrow> Inl (LeadRaised (Raised (KeyError ''policy'')))
      | Some po \<Rightarrow> Inr (po_allowed_fields po))"

text \<open>The end of \<open>receive_result\<close>, after the result is found to be within the allowlist.\<close>

definition accept_result ::
  "string \<Rightarrow> jobject \<Rightarrow> lead_key \<Rightarrow> lead_event \<Rightarrow> lead_service
   \<Rightarrow> result_response option lresult \<times> lead_service" where
  "accept_result digest p k e s =
     (let workflow_key = (item p ''environment'', item p ''workflow_execution_id'') in
      if \<not> hashable (fst workflow_key) \<or> \<not> hashable (snd workflow_key) then raise_lead lead_type_error s
      else if workflow_key \<in> set (ls_workflow_ids s)
      then raise_lead (LeadConflict ''duplicate workflow execution'') (quarantine_event k e s)
      else
        let s = s\<lparr>ls_workflow_ids := workflow_key # ls_workflow_ids s\<rparr> in
        case lead_transitions [(RESULT_RECEIVED, JStr []), (RESULT_VALIDATED, JStr []),
               (ODOO_APPLY_PENDING, JStr [])] e of
          (Inl x, e) \<Rightarrow> raise_lead x (put_event k e s)
        | (Inr _, e) \<Rightarrow>
            let response = \<lparr>rr_automation_event_id = ev_id e, rr_state = ev_state e, rr_accepted = True\<rparr>
            in (Inr (Some response),
                put_event k (e\<lparr>ev_result_hash := Some digest, ev_result_response := Some response,
                               ev_result_payload := Some p\<rparr>) s))"

definition lead_receive_result ::
  "lead_env \<Rightarrow> jobject \<Rightarrow> tenant_scope \<Rightarrow> lead_service \<Rightarrow> result_response option lresult \<times> lead_service" where
  "lead_receive_result env p sc s =
     (if sc \<noteq> from_payload p then raise_lead (LeadAutomationError ''event not found'') s
      else case find_event (get_or_empty p ''event_id'') sc (ls_events s) of
        Inl x \<Rightarrow> raise_lead x s
      | Inr (k, e) \<Rightarrow>
          let digest = canonical_hash env (JObj p) in
          if ev_result_hash e \<noteq> None \<and> ev_result_hash e \<noteq> Some []
          then if ev_result_hash e \<noteq> Some digest
               then raise_lead (LeadConflict ''conflicting result replay'')
                      (note_quarantine (get_or_empty p ''event_id'') ''RESULT_CONFLICT'' (quarantine_event k e s))
               else (Inr (ev_result_response e), s)
          else if \<not> ls_result_processing_enabled s
          then raise_lead (LeadAutomationError ''result processing disabled'') s
          else case check_result p of
            Inl x \<Rightarrow> raise_lead x s
          | Inr _ \<Rightarrow>
              if list_ex (\<lambda>f. map_of p f \<noteq> map_of (ev_payload e) f) immutable_keys
                 \<or> map_of p ''binding_key'' \<noteq> Some (JStr ''n8n.leads.ingest'')
              then raise_lead (LeadConflict ''immutable binding conflict'') (quarantine_event k e s)
              else case result_allowlist s (ev_payload e) of
                Inl x \<Rightarrow> raise_lead x s
              | Inr allowed \<Rightarrow>
                  (case field_updates p of
                     Inl x \<Rightarrow> raise_lead x s
                   | Inr fs \<Rightarrow>
                       if \<not> list_all (\<lambda>f. f \<in> JStr ` set allowed \<and> f \<notin> JStr ` set immutable_fields) fs
                       then raise_lead (LeadConflict ''result field outside policy allowlist'')
                              (quarantine_event k e s)
                       else accept_result digest p k e s))"

section \<open>Acknowledgements, retries and reconciliation\<close>

text \<open>The transitions that an acknowledgement of each class causes.\<close>

definition ack_code :: "jobject \<Rightarrow> json \<Rightarrow> json" where
  "ack_code ack d = (case map_of ack ''result_code'' of None \<Rightarrow> d | Some c \<Rightarrow> c)"

definition ack_transitions :: "jobject \<Rightarrow> ack_class \<Rightarrow> (lead_state \<times> json) list" where
  "ack_transitions ack c =
     (let result = item ack ''result'' in
      case c of
        Complete \<Rightarrow> [(ODOO_APPLIED, JStr []), (COMPLETED, JStr [])]
      | Retry \<Rightarrow> [(RETRY_PENDING, item ack ''result_code'')]
      | Permanent \<Rightarrow>
          if result = JStr ''DENIED'' then [(POLICY_DENIED, ack_code ack (JStr ''DENIED''))]
          else if result = JStr ''CONSENT_BLOCKED''
          then [(CONSENT_BLOCKED, ack_code ack (JStr ''CONSENT_BLOCKED''))]
          else if result = JStr ''DNC_BLOCKED'' then [(DNC_BLOCKED, ack_code ack (JStr ''DNC_BLOCKED''))]
          else [(QUARANTINED, ack_code ack result)])"

definition settle_ack ::
  "lead_env \<Rightarrow> instant \<Rightarrow> jobject \<Rightarrow> lead_key \<Rightarrow> lead_event \<Rightarrow> lead_service
   \<Rightarrow> lead_response lresult \<times> lead_service" where
  "settle_ack env now ack k e s =
     (if ev_state e \<noteq> ODOO_APPLY_PENDING \<or> ev_result_payload e = None
      then raise_lead (LeadConflict ''Odoo acknowledgement without pending apply'') (quarantine_event k e s)
      else case build_apply_payload (le_schemas env) (ev_payload e) (the (ev_result_payload e)) (ev_id e) of
        Inl x \<Rightarrow> raise_lead (LeadRaised x) s
      | Inr request \<Rightarrow>
          (case validate_ack (apply_env.truncate env) ack request of
             Inl (AckValidationError m) \<Rightarrow>
               raise_lead (LeadConflict ''Odoo acknowledgement schema or binding mismatch'')
                 (note_quarantine (item (ev_payload e) ''event_id'') ''ODOO_ACK_INVALID'' (quarantine_event k e s))
           | Inl x \<Rightarrow> raise_lead (LeadRaised x) s
           | Inr _ \<Rightarrow>
               (case classify_ack ack of
                  Inl x \<Rightarrow> raise_lead (LeadRaised x) s
                | Inr c \<Rightarrow>
                    let s = s\<lparr>ls_odoo_operations := ls_odoo_operations s + 1\<rparr> in
                    (case lead_transitions (ack_transitions ack c) (e\<lparr>ev_odoo_ack := Some ack\<rparr>) of
                       (Inl x, e) \<Rightarrow> raise_lead x (put_event k e s)
                     | (Inr _, e) \<Rightarrow> (Inr (lead_status now e), put_event k e s)))))"

definition apply_odoo_ack ::
  "lead_env \<Rightarrow> instant \<Rightarrow> json \<Rightarrow> jobject \<Rightarrow> tenant_scope \<Rightarrow> lead_service
   \<Rightarrow> lead_response lresult \<times> lead_service" where
  "apply_odoo_ack env now i ack sc s =
     (case find_event i sc (ls_events s) of
        Inl x \<Rightarrow> raise_lead x s
      | Inr (k, e) \<Rightarrow>
          if \<not> ls_odoo_apply_enabled s then raise_lead (LeadAutomationError ''Odoo apply disabled'') s
          else case ev_odoo_ack e of
            None \<Rightarrow> settle_ack env now ack k e s
          | Some previous \<Rightarrow>
              if canonical_hash env (JObj previous) = canonical_hash env (JObj ack)
              then (Inr (lead_status now e), s)
              else case classify_ack previous of
                Inl x \<Rightarrow> raise_lead (LeadRaised x) s
              | Inr c \<Rightarrow>
                  if \<not> (c = Retry \<and> ev_state e = ODOO_APPLY_PENDING)
                  then raise_lead (LeadConflict ''conflicting Odoo acknowledgement replay'')
                         (note_quarantine (item (ev_payload e) ''event_id'') ''ODOO_ACK_CONFLICT''
                           (quarantine_event k e s))
                  else settle_ack env now ack k e s)"

definition record_retry ::
  "json \<Rightarrow> tenant_scope \<Rightarrow> int \<Rightarrow> int \<Rightarrow> lead_service \<Rightarrow> lead_state lresult \<times> lead_service" where
  "record_retry i sc made maximum_attempts s =
     (case find_event i sc (ls_events s) of
        Inl x \<Rightarrow> raise_lead x s
      | Inr (k, e) \<Rightarrow>
          let target = (if maximum_attempts \<le> made then FAILED_TERMINAL else RETRY_PENDING);
              first = (if target = FAILED_TERMINAL \<and> ev_state e \<noteq> RETRY_PENDING
                       then [(RETRY_PENDING, JStr [])] else [])
          in case lead_transitions (first @ [(target, JStr [])]) e of
               (Inl x, e) \<Rightarrow> raise_lead x (put_event k e s)
             | (Inr _, e) \<Rightarrow> (Inr (ev_state e), put_event k e s))"

definition event_gaps :: "lead_service \<Rightarrow> lead_event \<Rightarrow> string list" where
  "event_gaps s e =
     (if ev_state e \<notin> set LEAD_TERMINAL \<and> ev_state e \<notin> {RECEIVED, SCHEMA_VALIDATED, POLICY_EVALUATING}
         \<and> \<not> list_ex (\<lambda>r. ob_automation_event_id r = ev_id e) (ls_outbox s)
      then [ev_id e @ '':event_without_outbox''] else [])
     @ (if ev_state e = ODOO_APPLIED \<and> (ev_odoo_ack e = None \<or> ev_odoo_ack e = Some [])
        then [ev_id e @ '':missing_acknowledgement''] else [])"

definition lead_reconcile :: "tenant_scope \<Rightarrow> lead_service \<Rightarrow> string list" where
  "lead_reconcile sc s =
     concat (map (\<lambda>(_, e). if from_payload (ev_payload e) \<noteq> sc then [] else event_gaps s e) (ls_events s))"

section \<open>The signed callback\<close>

definition CALLBACK_IDENTITY :: string where "CALLBACK_IDENTITY = ''codestra-n8n-lead-automation''"

definition CALLBACK_AUDIENCE :: string where "CALLBACK_AUDIENCE = ''codestra-middleware-lead-automation''"

definition CALLBACK_SCOPE :: string where "CALLBACK_SCOPE = ''lead-automation.results.write''"

definition CALLBACK_METHOD :: string where "CALLBACK_METHOD = ''POST''"

definition CALLBACK_PATH :: string where "CALLBACK_PATH = ''/api/v1/lead-automation/results''"

definition lower_sha256 :: "string \<Rightarrow> bool" where
  "lower_sha256 s \<longleftrightarrow> match_class (\<lambda>c. is_digit c \<or> one_of ''abcdef'' c) 64 64 s"

text \<open>
  Values in order: version, method, path, timestamp, nonce, identity, audience, environment, scope,
  idempotency key, body digest. \<open>Inl\<close> carries the message of the
  \<open>CallbackAuthenticationError\<close>, or \<open>Raised\<close> for a value that is not ASCII.
\<close>

definition callback_material ::
  "string \<Rightarrow> string \<Rightarrow> string \<Rightarrow> string list \<Rightarrow> string \<Rightarrow> string aresult" where
  "callback_material version method path middle body_sha256 =
     (let vs = version # method # path # middle @ [body_sha256] in
      if list_ex (\<lambda>v. v = [] \<or> list_ex line_break v) vs
      then Inl (AuthenticationError ''invalid callback signing material'')
      else if method \<noteq> upper method \<or> \<not> is_ascii method
      then Inl (AuthenticationError ''invalid callback method'')
      else if \<not> is_ascii path \<or> one_of path (CHR ''?'') \<or> one_of path (CHR ''#'') \<or> one_of path (CHR ''%'')
      then Inl (AuthenticationError ''invalid callback path'')
      else if \<not> lower_sha256 body_sha256
      then Inl (AuthenticationError ''invalid callback body hash format'')
      else if version \<noteq> SIGNATURE_VERSION
      then Inl (AuthenticationError ''unsupported callback signature version'')
      else if \<not> list_all is_ascii vs then Inl (Raised (ValueError ''ascii''))
      else Inr (join newline vs))"

definition sign_callback ::
  "apply_env \<Rightarrow> string \<Rightarrow> string \<Rightarrow> string \<Rightarrow> string \<Rightarrow> string \<Rightarrow> string \<Rightarrow> string \<Rightarrow> string
   \<Rightarrow> (string \<times> string) list aresult" where
  "sign_callback env body secret timestamp nonce idem environment method path =
     (let body_hash = ae_sha256 env body in
      case callback_material SIGNATURE_VERSION method path
             [timestamp, nonce, CALLBACK_IDENTITY, CALLBACK_AUDIENCE, environment, CALLBACK_SCOPE, idem]
             body_hash of
        Inl e \<Rightarrow> Inl e
      | Inr m \<Rightarrow>
          Inr [(''X-Codestra-Signature-Version'', SIGNATURE_VERSION),
               (''X-Service-Identity'', CALLBACK_IDENTITY), (''X-Service-Audience'', CALLBACK_AUDIENCE),
               (''X-Codestra-Timestamp'', timestamp), (''X-Codestra-Nonce'', nonce),
               (''X-Codestra-Content-SHA256'', body_hash),
               (''X-Codestra-Signature'', ae_hmac env secret m), (''Idempotency-Key'', idem),
               (''X-Codestra-Environment'', environment), (''X-Codestra-Scope'', CALLBACK_SCOPE)])"

text \<open>The comparisons of \<open>verify_callback\<close> before the digests: the first failing one raises.\<close>

definition callback_binding ::
  "string \<Rightarrow> string \<Rightarrow> string \<Rightarrow> (string \<times> string) list \<Rightarrow> json \<Rightarrow> unit aresult" where
  "callback_binding method path query hs environment =
     all_checks
       [check_that (\<not> list_ex (\<lambda>n. header hs n = []) HEADER_NAMES)
          (AuthenticationError ''missing callback signature''),
        check_that (method = CALLBACK_METHOD) (AuthenticationError ''callback method mismatch''),
        check_that (path = CALLBACK_PATH) (AuthenticationError ''callback path mismatch''),
        check_that (query = []) (AuthenticationError ''callback query string is prohibited''),
        check_that (header hs ''X-Codestra-Signature-Version'' = SIGNATURE_VERSION)
          (AuthenticationError ''unsupported callback signature version''),
        check_that (header hs ''X-Service-Identity'' = CALLBACK_IDENTITY
            \<and> header hs ''X-Service-Audience'' = CALLBACK_AUDIENCE)
          (AuthenticationError ''callback identity binding mismatch''),
        check_that (JStr (header hs ''X-Codestra-Environment'') = environment)
          (AuthenticationError ''callback environment mismatch''),
        check_that (header hs ''X-Codestra-Scope'' = CALLBACK_SCOPE)
          (AuthenticationError ''callback scope mismatch''),
        check_that (lower_sha256 (header hs ''X-Codestra-Content-SHA256''))
          (AuthenticationError ''invalid callback body hash format'')]"

definition verify_callback ::
  "apply_env \<Rightarrow> string \<Rightarrow> string \<Rightarrow> string \<Rightarrow> string \<Rightarrow> (string \<times> string) list \<Rightarrow> string \<Rightarrow> json \<Rightarrow> instant
   \<Rightarrow> nonce_key list \<Rightarrow> unit aresult \<times> nonce_key list" where
  "verify_callback env method path query body hs secret environment now used =
     (case callback_binding method path query hs environment of
        Inl e \<Rightarrow> (Inl e, used)
      | Inr _ \<Rightarrow>
      let body_hash = ae_sha256 env body in
      case require_digest body_hash (header hs ''X-Codestra-Content-SHA256'') ''callback body hash mismatch'' of
        Inl e \<Rightarrow> (Inl e, used)
      | Inr _ \<Rightarrow>
      (case ae_fromisoformat env (header hs ''X-Codestra-Timestamp'') of
        None \<Rightarrow> (Inl (AuthenticationError ''invalid callback timestamp''), used)
      | Some (Naive _) \<Rightarrow> (Inl (AuthenticationError ''expired callback timestamp''), used)
      | Some (Aware occurred) \<Rightarrow>
          if secs 300 < abs (now - occurred)
          then (Inl (AuthenticationError ''expired callback timestamp''), used)
          else
            let nonce_key = (text_of environment, CALLBACK_SCOPE, path, header hs ''X-Codestra-Nonce'') in
            if nonce_key \<in> set used then (Inl (AuthenticationError ''reused callback nonce''), used)
            else case callback_material (header hs ''X-Codestra-Signature-Version'') method path
                [header hs ''X-Codestra-Timestamp'', header hs ''X-Codestra-Nonce'',
                 header hs ''X-Service-Identity'', header hs ''X-Service-Audience'',
                 header hs ''X-Codestra-Environment'', header hs ''X-Codestra-Scope'',
                 header hs ''Idempotency-Key''] body_hash of
              Inl e \<Rightarrow> (Inl e, used)
            | Inr m \<Rightarrow>
                (case require_digest (ae_hmac env secret m) (header hs ''X-Codestra-Signature'')
                        ''invalid callback signature'' of
                   Inl e \<Rightarrow> (Inl e, used)
                 | Inr _ \<Rightarrow> (Inr (), nonce_key # used))))"

section \<open>Endpoints\<close>

text \<open>The module's service and its nonces are the application's state.\<close>

record lead_api =
  la_service :: lead_service
  la_nonces :: "nonce_key list"

record lead_settings =
  se_lead_automation_enabled :: bool
  se_n8n_lead_binding_enabled :: bool
  se_n8n_result_processing_enabled :: bool
  se_odoo_lead_apply_enabled :: bool
  se_lead_create_enabled :: bool
  se_lead_update_enabled :: bool
  se_lead_assignment_enabled :: bool
  se_lead_status_change_enabled :: bool
  se_lead_callback_create_enabled :: bool
  se_lead_automation_hmac_secret :: string

definition start_api :: "lead_settings \<Rightarrow> lead_api" where
  "start_api cfg =
     \<lparr>la_service = new_service
        \<lparr>ls_enabled := se_lead_automation_enabled cfg,
         ls_binding_enabled := se_n8n_lead_binding_enabled cfg,
         ls_result_processing_enabled := se_n8n_result_processing_enabled cfg,
         ls_odoo_apply_enabled := se_odoo_lead_apply_enabled cfg,
         ls_action_switches :=
           fold (\<lambda>(a, b). dict_set a b)
             [(''CREATE_LEAD'', se_lead_create_enabled cfg),
              (''UPDATE_ALLOWLISTED_FIELDS'', se_lead_update_enabled cfg),
              (''ASSIGN_AUTHORIZED_TEAM'', se_lead_assignment_enabled cfg),
              (''ASSIGN_AUTHORIZED_USER'', se_lead_assignment_enabled cfg),
              (''CHANGE_AUTHORIZED_STAGE'', se_lead_status_change_enabled cfg),
              (''CREATE_INTERNAL_CALLBACK_ACTIVITY'', se_lead_callback_create_enabled cfg)]
             (ls_action_switches new_service)\<rparr>,
      la_nonces = []\<rparr>"

text \<open>An exception that no handler names leaves the endpoint as it is (a 500 answer).\<close>

definition lead_http :: "int \<Rightarrow> 'a lresult \<Rightarrow> 'a result" where
  "lead_http status r =
     (case r of
        Inr a \<Rightarrow> Inr a
      | Inl (LeadConflict m) \<Rightarrow> Inl (HTTPException 409 m)
      | Inl (LeadAutomationError m) \<Rightarrow> Inl (HTTPException status m)
      | Inl (LeadRaised _) \<Rightarrow> Inl (RuntimeError ''unhandled''))"

definition receive_odoo_event ::
  "lead_env \<Rightarrow> string \<Rightarrow> instant \<Rightarrow> jobject \<Rightarrow> string \<Rightarrow> lead_api \<Rightarrow> lead_response result \<times> lead_api" where
  "receive_odoo_event env hex now body idempotency_key w =
     (if map_of body ''idempotency_key'' \<noteq> Some (JStr idempotency_key)
      then (Inl (HTTPException 409 ''idempotency binding mismatch''), w)
      else let (r, s) = lead_receive env hex now body (la_service w)
           in (lead_http 422 r, w\<lparr>la_service := s\<rparr>))"

definition unique_callback_headers ::
  "(string \<times> string) list \<Rightarrow> (string \<times> string) list aresult" where
  "unique_callback_headers raw =
     (let names = map (\<lambda>(n, v). lower n) raw in
      if list_ex (\<lambda>n. count_list names (lower n) \<noteq> 1) HEADER_NAMES
      then Inl (AuthenticationError ''missing or duplicate callback authentication header'')
      else Inr (map (\<lambda>n. (n, header (map (\<lambda>(m, v). (lower m, v)) raw) (lower n))) HEADER_NAMES))"

text \<open>
  The request as the endpoint reads it: method, path, query, raw headers, body text and the JSON
  that \<open>request.json()\<close> makes of it (a body that is no object has no \<open>get\<close>).
\<close>

definition post_result ::
  "lead_env \<Rightarrow> lead_settings \<Rightarrow> instant \<Rightarrow> string \<Rightarrow> string \<Rightarrow> string \<Rightarrow> (string \<times> string) list \<Rightarrow> string \<Rightarrow> json
   \<Rightarrow> lead_api \<Rightarrow> result_response option result \<times> lead_api" where
  "post_result env cfg now method path query raw_headers raw body w =
     (if \<not> is_ascii path then (Inl (ValueError ''ascii''), w)
      else case unique_callback_headers raw_headers of
        Inl _ \<Rightarrow> (Inl (HTTPException 401 ''missing or duplicate callback authentication header''), w)
      | Inr hs \<Rightarrow>
      (case body of
        JObj p \<Rightarrow>
          (case verify_callback (apply_env.truncate env) method path query raw hs
                  (se_lead_automation_hmac_secret cfg) (get_or_empty p ''environment'') now (la_nonces w) of
             (Inl (AuthenticationError m), used) \<Rightarrow> (Inl (HTTPException 401 m), w\<lparr>la_nonces := used\<rparr>)
           | (Inl _, used) \<Rightarrow> (Inl (RuntimeError ''unhandled''), w\<lparr>la_nonces := used\<rparr>)
           | (Inr _, used) \<Rightarrow>
               let (r, s) = lead_receive_result env p (from_payload p) (la_service w)
               in (lead_http 403 r, w\<lparr>la_service := s, la_nonces := used\<rparr>))
      | _ \<Rightarrow> (Inl (RuntimeError ''AttributeError''), w)))"

definition get_status ::
  "instant \<Rightarrow> string \<Rightarrow> tenant_scope \<Rightarrow> lead_api \<Rightarrow> lead_response result" where
  "get_status now i sc w =
     (case find_event (JStr i) sc (ls_events (la_service w)) of
        Inl (LeadAutomationError m) \<Rightarrow> Inl (HTTPException 404 m)
      | Inl _ \<Rightarrow> Inl (RuntimeError ''unhandled'')
      | Inr (_, e) \<Rightarrow> Inr (lead_status now e))"

end
