(* ===== verification/Lead_Properties.thy ===== *)
theory Lead_Properties
  imports Lead_Automation
begin

text \<open>
  The lead automation service as a transition system: its endpoints and the methods its workers
  call are the steps. The theory shows what every step does to the stored events, that the audit
  trail of an event is a walk through the transition table, that the reconciliation of the module
  never finds a gap, that the intake answers each idempotency key once, where a retry leads, when
  an event reaches the outbox, and that a signed callback is accepted once.
\<close>

section \<open>Steps\<close>

inductive lead_method :: "lead_env \<Rightarrow> lead_service \<Rightarrow> lead_service \<Rightarrow> bool" for env where
  policy: "lead_method env s (add_policy po s)"
| reserve: "reserve_dispatch i sc s = (r, s') \<Longrightarrow> lead_method env s s'"
| dispatched: "mark_dispatched i sc s = (r, s') \<Longrightarrow> lead_method env s s'"
| acknowledged: "acknowledge_n8n i sc s = (r, s') \<Longrightarrow> lead_method env s s'"
| result: "lead_receive_result env p sc s = (r, s') \<Longrightarrow> lead_method env s s'"
| odoo_ack: "apply_odoo_ack env now i ack sc s = (r, s') \<Longrightarrow> lead_method env s s'"
| retry: "record_retry i sc made maximum s = (r, s') \<Longrightarrow> lead_method env s s'"

text \<open>The identifiers the service has given to events and still keeps.\<close>

definition known_ids :: "lead_service \<Rightarrow> string set" where
  "known_ids s = (\<lambda>(k, e). ev_id e) ` set (ls_events s)
     \<union> (\<lambda>(k, d, r). lr_automation_event_id r) ` set (ls_idempotency s)"

text \<open>A \<open>uuid4\<close> is one the service has not used.\<close>

inductive lead_step :: "lead_env \<Rightarrow> lead_settings \<Rightarrow> lead_api \<Rightarrow> lead_api \<Rightarrow> bool" for env cfg where
  event_posted:
    "receive_odoo_event env hex now body key w = (r, w') \<Longrightarrow> ''LAE-'' @ hex \<notin> known_ids (la_service w)
     \<Longrightarrow> lead_step env cfg w w'"
| result_posted:
    "post_result env cfg now m path q hs raw body w = (r, w') \<Longrightarrow> lead_step env cfg w w'"
| worker:
    "lead_method env (la_service w) s' \<Longrightarrow> lead_step env cfg w (w\<lparr>la_service := s'\<rparr>)"

abbreviation lead_reachable :: "lead_env \<Rightarrow> lead_settings \<Rightarrow> lead_api \<Rightarrow> bool" where
  "lead_reachable env cfg w \<equiv> (lead_step env cfg)\<^sup>*\<^sup>* (start_api cfg) w"

section \<open>Transitions of one event\<close>

fun audit_walk :: "lead_state \<Rightarrow> (lead_state \<times> json) list \<Rightarrow> bool" where
  "audit_walk a [] = True"
| "audit_walk a ((b, c) # rest) = (b \<in> set (LEAD_TRANSITIONS a) \<and> audit_walk b rest)"

fun audit_end :: "lead_state \<Rightarrow> (lead_state \<times> json) list \<Rightarrow> lead_state" where
  "audit_end a [] = a"
| "audit_end a ((b, c) # rest) = audit_end b rest"

lemma audit_walk_append [simp]: "audit_walk a (xs @ ys) \<longleftrightarrow> audit_walk a xs \<and> audit_walk (audit_end a xs) ys"
  by (induction a xs rule: audit_walk.induct) auto

lemma audit_end_append [simp]: "audit_end a (xs @ ys) = audit_end (audit_end a xs) ys"
  by (induction a xs rule: audit_end.induct) auto

definition event_frame :: "lead_event \<Rightarrow> lead_event \<Rightarrow> bool" where
  "event_frame e e' \<longleftrightarrow> ev_id e' = ev_id e \<and> ev_payload e' = ev_payload e \<and> ev_hash e' = ev_hash e"

lemma event_frame_refl [simp]: "event_frame e e"
  by (simp add: event_frame_def)

text \<open>The transitions made are a prefix of the ones asked for, all of them when none is refused.\<close>

lemma lead_transitions_walk:
  "lead_transitions ts e = (r, e') \<Longrightarrow>
   \<exists>us vs. ts = us @ vs \<and> audit_walk (ev_state e) us
     \<and> e' = e\<lparr>ev_state := audit_end (ev_state e) us, ev_audit := ev_audit e @ us\<rparr>
     \<and> (is_ok r \<longleftrightarrow> vs = [])
     \<and> (vs \<noteq> [] \<longrightarrow> fst (hd vs) \<notin> set (LEAD_TRANSITIONS (audit_end (ev_state e) us)))"
proof (induction ts e rule: lead_transitions.induct)
  case (1 e)
  then show ?case by auto
next
  case (2 t c ts e)
  let ?e = "e\<lparr>ev_state := t, ev_audit := ev_audit e @ [(t, c)]\<rparr>"
  show ?case
  proof (cases "t \<in> set (LEAD_TRANSITIONS (ev_state e))")
    case True
    then have t: "lead_transition t c e = Inr ?e"
      by (simp add: lead_transition_def)
    with 2(2) have "lead_transitions ts ?e = (r, e')" by simp
    from 2(1)[OF t this] obtain us vs where u: "ts = us @ vs" "audit_walk (ev_state ?e) us"
      "e' = ?e\<lparr>ev_state := audit_end (ev_state ?e) us, ev_audit := ev_audit ?e @ us\<rparr>" "is_ok r \<longleftrightarrow> vs = []"
      "vs \<noteq> [] \<longrightarrow> fst (hd vs) \<notin> set (LEAD_TRANSITIONS (audit_end (ev_state ?e) us))"
      by blast
    show ?thesis
      by (rule exI[of _ "(t, c) # us"], rule exI[of _ vs]) (use True u in simp)
  next
    case False
    with 2(2) show ?thesis
      by (intro exI[of _ "[]"] exI[of _ "(t, c) # ts"]) (auto simp: lead_transition_def)
  qed
qed

text \<open>Everything but the intake asks for these transitions only.\<close>

definition early :: "lead_state \<Rightarrow> bool" where
  "early t \<longleftrightarrow> t = RECEIVED \<or> t = SCHEMA_VALIDATED \<or> t = POLICY_EVALUATING"

definition late_target :: "lead_state \<Rightarrow> bool" where
  "late_target t \<longleftrightarrow> \<not> early t \<and> t \<noteq> POLICY_ALLOWED \<and> t \<noteq> OUTBOX_PENDING"

text \<open>What a step other than the intake may do to an event.\<close>

definition event_moves :: "lead_event \<Rightarrow> lead_event \<Rightarrow> bool" where
  "event_moves e e' \<longleftrightarrow> event_frame e e' \<and>
     (ev_state e' = QUARANTINED \<and> ev_audit e' = ev_audit e
      \<or> (\<exists>us. ev_audit e' = ev_audit e @ us \<and> audit_walk (ev_state e) us
           \<and> ev_state e' = audit_end (ev_state e) us \<and> list_all (\<lambda>(t, c). late_target t) us
           \<and> (us \<noteq> [] \<longrightarrow> ev_state e' \<noteq> ODOO_APPLIED)
           \<and> (ev_state e = RETRY_PENDING \<longrightarrow> ev_state e' = RETRY_PENDING \<or> ev_state e' = FAILED_TERMINAL)))"

lemma event_moves_quarantine [simp]: "event_moves e (e\<lparr>ev_state := QUARANTINED\<rparr>)"
  by (simp add: event_moves_def event_frame_def)

lemma moves_by_transitions:
  assumes "lead_transitions ts e = (r, e')" "list_all (\<lambda>(t, c). late_target t) ts"
    and "\<And>us vs. ts = us @ vs \<Longrightarrow> us \<noteq> [] \<Longrightarrow> audit_walk (ev_state e) us \<Longrightarrow>
       vs \<noteq> [] \<longrightarrow> fst (hd vs) \<notin> set (LEAD_TRANSITIONS (audit_end (ev_state e) us)) \<Longrightarrow>
       audit_end (ev_state e) us \<noteq> ODOO_APPLIED
       \<and> (ev_state e = RETRY_PENDING \<longrightarrow> audit_end (ev_state e) us = RETRY_PENDING
            \<or> audit_end (ev_state e) us = FAILED_TERMINAL)"
  shows "event_moves e e'"
proof -
  from lead_transitions_walk[OF assms(1)] obtain us vs where u: "ts = us @ vs" "audit_walk (ev_state e) us"
    "e' = e\<lparr>ev_state := audit_end (ev_state e) us, ev_audit := ev_audit e @ us\<rparr>"
    "vs \<noteq> [] \<longrightarrow> fst (hd vs) \<notin> set (LEAD_TRANSITIONS (audit_end (ev_state e) us))"
    by blast
  from assms(2) u(1) have l: "list_all (\<lambda>(t, c). late_target t) us" by simp
  show ?thesis
  proof (cases "us = []")
    case True
    with u(3) show ?thesis by (simp add: event_moves_def event_frame_def)
  next
    case False
    from assms(3)[OF u(1) False u(2,4)] u(2,3) l show ?thesis
      unfolding event_moves_def event_frame_def by (intro conjI disjI2 exI[of _ us]) auto
  qed
qed

lemma split_one: "[a] = us @ vs \<Longrightarrow> us \<noteq> [] \<Longrightarrow> us = [a] \<and> vs = []"
  by (cases us) auto

lemma split_two: "[a, b] = us @ vs \<Longrightarrow> us \<noteq> [] \<Longrightarrow> us = [a] \<and> vs = [b] \<or> us = [a, b] \<and> vs = []"
  by (cases us; cases "tl us") auto

lemma split_three:
  "[a, b, c] = us @ vs \<Longrightarrow> us \<noteq> [] \<Longrightarrow>
   us = [a] \<and> vs = [b, c] \<or> us = [a, b] \<and> vs = [c] \<or> us = [a, b, c] \<and> vs = []"
  by (cases us; cases "tl us"; cases "tl (tl us)") auto

lemma one_move:
  assumes "lead_transition t c e = Inr e'" "late_target t" "t \<noteq> ODOO_APPLIED"
    and "ev_state e = RETRY_PENDING \<longrightarrow> t = FAILED_TERMINAL"
  shows "event_moves e e'"
proof -
  from assms(1) have "lead_transitions [(t, c)] e = (Inr (), e')" by simp
  then show ?thesis
    by (rule moves_by_transitions) (use assms in \<open>auto dest!: split_one\<close>)
qed

lemma result_moves:
  "lead_transitions [(RESULT_RECEIVED, c), (RESULT_VALIDATED, c'), (ODOO_APPLY_PENDING, c'')] e = (r, e')
   \<Longrightarrow> event_moves e e'"
  by (erule moves_by_transitions) (auto simp: late_target_def early_def dest!: split_three)

lemma ack_moves:
  assumes "lead_transitions (ack_transitions ack c) e = (r, e')" "ev_state e = ODOO_APPLY_PENDING"
  shows "event_moves e e'"
  using assms(1)
proof (rule moves_by_transitions)
  show "list_all (\<lambda>(t, c). late_target t) (ack_transitions ack c)"
    by (auto simp: ack_transitions_def late_target_def early_def Let_def split: ack_class.splits)
qed (use assms(2) in \<open>auto simp: ack_transitions_def Let_def split: ack_class.splits if_splits
       dest!: split_one split_two\<close>)

lemma retry_moves:
  assumes "lead_transitions (first @ [(target, c)]) e = (r, e')"
    and "target = FAILED_TERMINAL \<or> target = RETRY_PENDING"
    and "first = (if target = FAILED_TERMINAL \<and> ev_state e \<noteq> RETRY_PENDING then [(RETRY_PENDING, c')] else [])"
  shows "event_moves e e'"
  using assms(1)
proof (rule moves_by_transitions)
  show "list_all (\<lambda>(t, c). late_target t) (first @ [(target, c)])"
    using assms(2,3) by (auto simp: late_target_def early_def)
qed (use assms(2,3) in \<open>auto split: if_splits dest!: split_one split_two\<close>)

section \<open>What a method does to the service\<close>

lemma find_event_in: "find_event i sc evs = Inr (k, e) \<Longrightarrow> (k, e) \<in> set evs"
  by (induction i sc evs rule: find_event.induct) (auto split: if_splits)

definition svc_moves :: "lead_service \<Rightarrow> lead_service \<Rightarrow> bool" where
  "svc_moves s s' \<longleftrightarrow> ls_idempotency s' = ls_idempotency s \<and> ls_outbox s' = ls_outbox s
     \<and> (ls_events s' = ls_events s
        \<or> (\<exists>k e e'. (k, e) \<in> set (ls_events s) \<and> event_moves e e'
             \<and> ls_events s' = dict_set k e' (ls_events s)))"

lemma svc_moves_refl [simp]: "svc_moves s s"
  by (simp add: svc_moves_def)

lemma svc_moves_put:
  "(k, e) \<in> set (ls_events s) \<Longrightarrow> event_moves e e' \<Longrightarrow> svc_moves s (put_event k e' s)"
  by (cases k) (auto simp: svc_moves_def put_event_def)

lemma svc_moves_other:
  assumes "svc_moves s t" "ls_idempotency t' = ls_idempotency t" "ls_outbox t' = ls_outbox t"
    "ls_events t' = ls_events t"
  shows "svc_moves s t'"
  using assms by (auto simp: svc_moves_def)

lemma svc_moves_note [simp]: "svc_moves s t \<Longrightarrow> svc_moves s (note_quarantine i m t)"
  by (erule svc_moves_other) (simp_all add: note_quarantine_def)

lemma svc_moves_quarantine:
  "(k, e) \<in> set (ls_events s) \<Longrightarrow> svc_moves s (quarantine_event k e s)"
  by (simp add: quarantine_event_def svc_moves_put)

lemma svc_moves_put_in:
  "(k, e) \<in> set (ls_events s) \<Longrightarrow> event_moves e e' \<Longrightarrow> ls_idempotency t = ls_idempotency s
   \<Longrightarrow> ls_outbox t = ls_outbox s \<Longrightarrow> ls_events t = ls_events s \<Longrightarrow> svc_moves s (put_event k e' t)"
  by (cases k) (auto simp: svc_moves_def put_event_def)

lemma event_moves_upd:
  "event_moves e e' \<Longrightarrow> event_moves e (e'\<lparr>ev_result_hash := a, ev_result_response := b, ev_result_payload := c\<rparr>)"
  by (simp add: event_moves_def event_frame_def)

lemma event_moves_ack: "event_moves (e\<lparr>ev_odoo_ack := a\<rparr>) e' \<Longrightarrow> event_moves e e'"
  by (simp add: event_moves_def event_frame_def)

lemma move_event_moves:
  assumes "move_event t c i sc s = (r, s')" "late_target t" "t \<noteq> ODOO_APPLIED"
    "t \<notin> set (LEAD_TRANSITIONS RETRY_PENDING)"
  shows "svc_moves s s'"
proof (cases "find_event i sc (ls_events s)")
  case (Inl x)
  with assms(1) show ?thesis by (simp add: move_event_def raise_lead_def)
next
  case (Inr ke)
  obtain k e where ke: "ke = (k, e)" by (cases ke)
  show ?thesis
  proof (cases "lead_transition t c e")
    case (Inl x)
    with assms(1) Inr ke show ?thesis by (simp add: move_event_def raise_lead_def)
  next
    case e': (Inr e')
    then have "ev_state e \<noteq> RETRY_PENDING"
      using assms(4) by (auto simp: lead_transition_def split: if_splits)
    with e' assms(2,3) have "event_moves e e'" by (auto intro: one_move)
    with Inr ke e' assms(1) show ?thesis
      by (auto simp: move_event_def intro: svc_moves_put find_event_in)
  qed
qed

lemma reserve_moves: "reserve_dispatch i sc s = (r, s') \<Longrightarrow> svc_moves s s'"
  by (auto simp: reserve_dispatch_def raise_lead_def late_target_def early_def
      split: sum.splits prod.splits if_splits
      intro!: svc_moves_put[OF find_event_in] one_move)

lemma accept_result_moves:
  assumes "accept_result d p k e s = (r, s')" "(k, e) \<in> set (ls_events s)"
  shows "svc_moves s s'"
  using assms
  by (auto simp: accept_result_def raise_lead_def Let_def
      split: sum.splits prod.splits if_splits
      intro!: svc_moves_quarantine svc_moves_put_in event_moves_upd intro: result_moves
      simp del: lead_transitions.simps)

lemma receive_result_moves: "lead_receive_result env p sc s = (r, s') \<Longrightarrow> svc_moves s s'"
  by (auto simp: lead_receive_result_def raise_lead_def Let_def
      split: sum.splits prod.splits if_splits
      intro!: svc_moves_quarantine[OF find_event_in] svc_moves_note
      dest: accept_result_moves find_event_in)

lemma settle_ack_moves:
  assumes "settle_ack env now ack k e s = (r, s')" "(k, e) \<in> set (ls_events s)"
  shows "svc_moves s s'"
  using assms
  by (auto simp: settle_ack_def raise_lead_def Let_def
      split: sum.splits prod.splits if_splits apply_error.splits
      intro!: svc_moves_quarantine svc_moves_note svc_moves_put_in intro: event_moves_ack dest: ack_moves
      simp del: lead_transitions.simps)

lemma apply_ack_moves: "apply_odoo_ack env now i ack sc s = (r, s') \<Longrightarrow> svc_moves s s'"
  by (auto simp: apply_odoo_ack_def raise_lead_def
      split: sum.splits prod.splits if_splits option.splits
      intro!: svc_moves_quarantine[OF find_event_in] svc_moves_note
      dest: settle_ack_moves find_event_in)

lemma record_retry_moves:
  assumes "record_retry i sc n m s = (r, s')"
  shows "svc_moves s s'"
proof (cases "find_event i sc (ls_events s)")
  case (Inl x)
  with assms show ?thesis by (simp add: record_retry_def raise_lead_def)
next
  case (Inr ke)
  obtain k e where ke: "ke = (k, e)" by (cases ke)
  define target where "target = (if m \<le> n then FAILED_TERMINAL else RETRY_PENDING)"
  define first where "first = (if target = FAILED_TERMINAL \<and> ev_state e \<noteq> RETRY_PENDING
    then [(RETRY_PENDING, JStr [])] else [])"
  obtain x e' where t: "lead_transitions (first @ [(target, JStr [])]) e = (x, e')" by fastforce
  then have "event_moves e e'"
    by (rule retry_moves) (auto simp: target_def first_def)
  then have "svc_moves s (put_event k e' s)"
    using Inr ke by (auto intro: svc_moves_put find_event_in)
  moreover have "s' = put_event k e' s"
    using assms Inr ke t
    by (cases x) (simp_all add: record_retry_def raise_lead_def Let_def flip: target_def first_def)
  ultimately show ?thesis by simp
qed

lemma method_moves: "lead_method env s s' \<Longrightarrow> svc_moves s s'"
proof (induction rule: lead_method.induct)
  case (policy s po)
  show ?case by (simp add: svc_moves_def add_policy_def Let_def)
qed (auto simp: mark_dispatched_def acknowledge_n8n_def late_target_def early_def
    intro: reserve_moves receive_result_moves apply_ack_moves record_retry_moves
    dest!: move_event_moves)

section \<open>What the intake does to the service\<close>

lemma check_attributes_object: "check_attributes p = Inr () \<Longrightarrow> \<exists>a. item p ''attributes'' = JObj a"
  by (auto simp: check_attributes_def Let_def split: if_splits option.splits json.splits prod.splits)

text \<open>The event the intake stores, by its decision.\<close>

definition evaluated :: "string \<Rightarrow> jobject \<Rightarrow> string \<Rightarrow> lead_event" where
  "evaluated hex p d = (new_event hex p d)
     \<lparr>ev_state := POLICY_EVALUATING, ev_audit := [(SCHEMA_VALIDATED, JStr []), (POLICY_EVALUATING, JStr [])]\<rparr>"

lemma transitions_evaluated:
  "lead_transitions [(SCHEMA_VALIDATED, JStr []), (POLICY_EVALUATING, JStr [])] (new_event hex p d)
   = (Inr (), evaluated hex p d)"
  by (simp add: lead_transition_def new_event_def evaluated_def)

lemma decide_walk:
  assumes "lead_decide s p = Inr ts"
  shows "audit_walk POLICY_EVALUATING ts
    \<and> (audit_end POLICY_EVALUATING ts = OUTBOX_PENDING \<or> audit_end POLICY_EVALUATING ts \<in> set LEAD_TERMINAL)"
  using assms
  by (auto simp: lead_decide_def LEAD_TERMINAL_def split: if_splits option.splits sum.splits)

lemma transitions_all:
  "audit_walk (ev_state e) ts \<Longrightarrow>
   lead_transitions ts e = (Inr (), e\<lparr>ev_state := audit_end (ev_state e) ts, ev_audit := ev_audit e @ ts\<rparr>)"
  by (induction ts e rule: lead_transitions.induct) (simp_all add: lead_transition_def)

text \<open>The event as the decision \<open>ts\<close> leaves it.\<close>

definition decided :: "string \<Rightarrow> jobject \<Rightarrow> string \<Rightarrow> (lead_state \<times> json) list \<Rightarrow> lead_event" where
  "decided hex p d ts = (evaluated hex p d)
     \<lparr>ev_state := audit_end POLICY_EVALUATING ts, ev_audit := ev_audit (evaluated hex p d) @ ts\<rparr>"

lemma transitions_decided:
  "lead_decide s p = Inr ts \<Longrightarrow> lead_transitions ts (evaluated hex p d) = (Inr (), decided hex p d ts)"
  using decide_walk[of s p ts] transitions_all[of "evaluated hex p d" ts]
  by (simp add: decided_def evaluated_def)

definition lead_key_of :: "jobject \<Rightarrow> lead_key" where
  "lead_key_of p = (from_payload p, get_or_empty p ''idempotency_key'')"

definition event_key_of :: "jobject \<Rightarrow> lead_key" where
  "event_key_of p = (from_payload p, get_or_empty p ''event_id'')"

lemma admit_cases:
  assumes "admit env hex now p s = (r, s')"
  obtains (unhashable) x where "r = Inl x" "s' = s"
  | (raised) x where "lead_decide s p = Inl x" "r = Inl x"
      "s' = put_event (event_key_of p) (evaluated hex p (canonical_hash env (JObj p))) s"
  | (admitted) ts e where "lead_decide s p = Inr ts" "e = decided hex p (canonical_hash env (JObj p)) ts"
      "r = Inr (lead_status now e)"
      "s' = s\<lparr>ls_events := dict_set (event_key_of p) e (ls_events s),
              ls_outbox := ls_outbox s @ (if ev_state e = OUTBOX_PENDING
                                          then [outbox_entry s (from_payload p) e] else []),
              ls_idempotency := dict_set (lead_key_of p) (canonical_hash env (JObj p), lead_status now e)
                                  (ls_idempotency s)\<rparr>"
proof (cases "hashable (get_or_empty p ''event_id'')")
  case False
  with assms unhashable show ?thesis by (auto simp: admit_def Let_def raise_lead_def)
next
  case True
  note start = assms[unfolded admit_def Let_def transitions_evaluated prod.case]
  show ?thesis
  proof (cases "lead_decide s p")
    case (Inl x)
    with True start raised show ?thesis by (simp add: raise_lead_def event_key_of_def)
  next
    case (Inr ts)
    show ?thesis
      by (rule admitted[OF Inr refl])
        (use True start Inr in \<open>auto simp: transitions_decided put_event_def outbox_entry_def
            event_key_of_def lead_key_of_def\<close>)
  qed
qed

lemma receive_cases:
  assumes "lead_receive env hex now p s = (r, s')"
  obtains (replayed) v where "map_of (ls_idempotency s) (lead_key_of p) = Some (canonical_hash env (JObj p), v)"
      "r = Inr v" "s' = s"
  | (refused) x where "r = Inl x" "ls_events s' = ls_events s" "ls_outbox s' = ls_outbox s"
      "ls_idempotency s' = ls_idempotency s"
  | (fresh) "map_of (ls_idempotency s) (lead_key_of p) = None" "check_envelope p = Inr ()"
      "check_attributes p = Inr ()" "admit env hex now p s = (r, s')"
proof (cases "hashable (get_or_empty p ''idempotency_key'')")
  case False
  with assms refused show ?thesis by (auto simp: lead_receive_def Let_def raise_lead_def)
next
  case True
  note start = assms[unfolded lead_receive_def Let_def]
  show ?thesis
  proof (cases "map_of (ls_idempotency s) (lead_key_of p)")
    case (Some v)
    obtain d v' where v: "v = (d, v')" by (cases v)
    show ?thesis
    proof (cases "d = canonical_hash env (JObj p)")
      case d: True
      with True Some v start show ?thesis
        by (intro replayed) (auto simp: lead_key_of_def)
    next
      case False
      with True Some v start show ?thesis
        by (intro refused) (auto simp add: lead_key_of_def raise_lead_def)
    qed
  next
    case None
    show ?thesis
    proof (cases "is_ok (check_envelope p) \<and> is_ok (check_attributes p)")
      case ok: True
      then show ?thesis
        by (intro fresh) (use True None start in \<open>auto simp: lead_key_of_def is_ok_iff\<close>)
    next
      case bad: False
      with True None start have "\<exists>x. r = Inl x \<and> s' = s"
        by (cases "check_envelope p"; cases "check_attributes p")
          (auto simp: lead_key_of_def raise_lead_def)
      with refused show ?thesis by auto
    qed
  qed
qed

section \<open>The invariant\<close>

definition event_walk :: "lead_event \<Rightarrow> bool" where
  "event_walk e \<longleftrightarrow> audit_walk RECEIVED (ev_audit e)
     \<and> (ev_state e = audit_end RECEIVED (ev_audit e) \<or> ev_state e = QUARANTINED)"

definition ledger_ids :: "lead_service \<Rightarrow> string set" where
  "ledger_ids s = (\<lambda>(k, d, r). lr_automation_event_id r) ` set (ls_idempotency s)"

definition outbox_ids :: "lead_service \<Rightarrow> string set" where
  "outbox_ids s = ob_automation_event_id ` set (ls_outbox s)"

definition in_flight :: "lead_state \<Rightarrow> bool" where
  "in_flight t \<longleftrightarrow> t \<notin> set LEAD_TERMINAL \<and> \<not> early t"

definition event_inv :: "lead_service \<Rightarrow> lead_event \<Rightarrow> bool" where
  "event_inv s e \<longleftrightarrow> event_walk e \<and> ev_state e \<noteq> ODOO_APPLIED
     \<and> (in_flight (ev_state e) \<longrightarrow> ev_id e \<in> outbox_ids s \<and> ev_id e \<in> ledger_ids s)"

definition lead_inv :: "lead_service \<Rightarrow> bool" where
  "lead_inv s \<longleftrightarrow> distinct (map fst (ls_events s))
     \<and> (\<forall>k e. (k, e) \<in> set (ls_events s) \<longrightarrow> event_inv s e)
     \<and> (\<forall>k e k' e'. (k, e) \<in> set (ls_events s) \<longrightarrow> (k', e') \<in> set (ls_events s) \<longrightarrow> ev_id e = ev_id e' \<longrightarrow> k = k')"

lemma lead_inv_event: "lead_inv s \<Longrightarrow> (k, e) \<in> set (ls_events s) \<Longrightarrow> event_inv s e"
  unfolding lead_inv_def by blast

lemma lead_inv_unique:
  "lead_inv s \<Longrightarrow> (k, e) \<in> set (ls_events s) \<Longrightarrow> (k', e') \<in> set (ls_events s) \<Longrightarrow> ev_id e = ev_id e' \<Longrightarrow> k = k'"
  unfolding lead_inv_def by blast

lemma lead_inv_distinct: "lead_inv s \<Longrightarrow> distinct (map fst (ls_events s))"
  unfolding lead_inv_def by blast

lemma no_exit [simp]: "t \<in> set LEAD_TERMINAL \<Longrightarrow> LEAD_TRANSITIONS t = []"
  by (auto simp: LEAD_TERMINAL_def)

lemma walk_from_quarantined [simp]: "audit_walk QUARANTINED us \<longleftrightarrow> us = []"
  by (cases us) auto

lemma late_from_early:
  "early t \<Longrightarrow> audit_walk t us \<Longrightarrow> list_all (\<lambda>(t, c). late_target t) us \<Longrightarrow> us \<noteq> []
   \<Longrightarrow> audit_end t us \<in> set LEAD_TERMINAL"
proof (cases us)
  case (Cons u us')
  assume a: "early t" "audit_walk t us" "list_all (\<lambda>(t, c). late_target t) us"
  obtain b c where u: "u = (b, c)" by (cases u)
  from a Cons u have "b \<in> set LEAD_TERMINAL"
    by (auto simp: early_def late_target_def LEAD_TERMINAL_def)
  moreover from this a(2) Cons u have "us' = []" by (cases us') auto
  ultimately show ?thesis using Cons u by simp
qed simp

lemma event_moves_inv:
  assumes "event_moves e e'" "event_inv s e"
  shows "event_inv s e'"
proof -
  from assms(1) consider
      (q) "ev_state e' = QUARANTINED" "ev_audit e' = ev_audit e" "ev_id e' = ev_id e"
    | (w) us where "ev_audit e' = ev_audit e @ us" "audit_walk (ev_state e) us" "ev_id e' = ev_id e"
        "ev_state e' = audit_end (ev_state e) us" "list_all (\<lambda>(t, c). late_target t) us"
        "us \<noteq> [] \<longrightarrow> ev_state e' \<noteq> ODOO_APPLIED"
    by (auto simp: event_moves_def event_frame_def)
  then show ?thesis
  proof cases
    case q
    with assms(2) show ?thesis
      by (auto simp: event_inv_def event_walk_def in_flight_def LEAD_TERMINAL_def)
  next
    case w
    have walk: "event_walk e'"
      using w assms(2) by (auto simp: event_inv_def event_walk_def)
    have "in_flight (ev_state e)" if "in_flight (ev_state e')"
      using that w late_from_early[of "ev_state e" us]
      by (cases us) (auto simp: in_flight_def)
    with w assms(2) walk show ?thesis
      by (cases us) (auto simp: event_inv_def)
  qed
qed

lemma dict_set_in:
  "distinct (map fst d) \<Longrightarrow>
   (k', v') \<in> set (dict_set k v d) \<longleftrightarrow> k' = k \<and> v' = v \<or> k' \<noteq> k \<and> (k', v') \<in> set d"
  by (induction k v d rule: dict_set.induct) (auto simp: image_iff)

lemma dict_set_kept: "map_of d k = None \<Longrightarrow> set d \<subseteq> set (dict_set k v d)"
  by (induction k v d rule: dict_set.induct) (auto split: if_splits)

lemma event_inv_mono:
  "event_inv s e \<Longrightarrow> outbox_ids s \<subseteq> outbox_ids s' \<Longrightarrow> ledger_ids s \<subseteq> ledger_ids s' \<Longrightarrow> event_inv s' e"
  by (auto simp: event_inv_def)

lemma moves_keep_inv:
  assumes "svc_moves s s'" "lead_inv s"
  shows "lead_inv s'"
proof -
  have "outbox_ids s' = outbox_ids s" "ledger_ids s' = ledger_ids s"
    using assms(1) by (auto simp: svc_moves_def outbox_ids_def ledger_ids_def)
  then have inv: "event_inv s' = event_inv s" by (simp add: event_inv_def fun_eq_iff)
  from assms(1) consider "ls_events s' = ls_events s"
    | k e e' where "(k, e) \<in> set (ls_events s)" "event_moves e e'" "ls_events s' = dict_set k e' (ls_events s)"
    unfolding svc_moves_def by blast
  then show ?thesis
  proof cases
    case 1
    with assms(2) inv show ?thesis by (simp add: lead_inv_def)
  next
    case 2
    note in_iff = dict_set_in[OF lead_inv_distinct[OF assms(2)], of _ _ k e', folded 2(3)]
    have e': "event_inv s e'" using event_moves_inv[OF 2(2)] lead_inv_event[OF assms(2) 2(1)] .
    have id: "ev_id e' = ev_id e" using 2(2) by (simp add: event_moves_def event_frame_def)
    show ?thesis
      unfolding lead_inv_def inv in_iff
    proof (intro conjI allI impI)
      show "distinct (map fst (ls_events s'))"
        unfolding 2(3) by (rule dict_set_distinct[OF lead_inv_distinct[OF assms(2)]])
    qed (use e' id 2(1) lead_inv_event[OF assms(2)] lead_inv_unique[OF assms(2)] in metis)+
  qed
qed

lemma stored_keeps_inv:
  assumes "lead_inv s" "ls_events s' = dict_set k e (ls_events s)" "event_inv s' e"
    and "outbox_ids s \<subseteq> outbox_ids s'" "ledger_ids s \<subseteq> ledger_ids s'"
    and "\<And>k' e'. (k', e') \<in> set (ls_events s) \<Longrightarrow> ev_id e' \<noteq> ev_id e"
  shows "lead_inv s'"
proof -
  note in_iff = dict_set_in[OF lead_inv_distinct[OF assms(1)], of _ _ k e, folded assms(2)]
  have mono: "event_inv s' e2" if "event_inv s e2" for e2
    using event_inv_mono[OF that assms(4,5)] .
  show ?thesis
    unfolding lead_inv_def in_iff
  proof (intro conjI allI impI)
    show "distinct (map fst (ls_events s'))"
      unfolding assms(2) by (rule dict_set_distinct[OF lead_inv_distinct[OF assms(1)]])
  qed (use assms(3,6) mono lead_inv_event[OF assms(1)] lead_inv_unique[OF assms(1)] in metis)+
qed

lemma decided_inv:
  assumes "lead_decide s p = Inr ts"
    and "ev_state (decided hex p d ts) = OUTBOX_PENDING \<longrightarrow>
         ev_id (decided hex p d ts) \<in> outbox_ids s' \<and> ev_id (decided hex p d ts) \<in> ledger_ids s'"
  shows "event_inv s' (decided hex p d ts)"
proof -
  have s: "ev_state (decided hex p d ts) = audit_end POLICY_EVALUATING ts"
    "ev_audit (decided hex p d ts) = [(SCHEMA_VALIDATED, JStr []), (POLICY_EVALUATING, JStr [])] @ ts"
    by (simp_all add: decided_def evaluated_def)
  from decide_walk[OF assms(1)] assms(2) show ?thesis
    by (auto simp: event_inv_def event_walk_def s in_flight_def) (auto simp: LEAD_TERMINAL_def)
qed

lemma evaluated_inv: "event_inv s (evaluated hex p d)"
  by (simp add: event_inv_def event_walk_def evaluated_def in_flight_def early_def)

lemma ev_id_new [simp]: "ev_id (evaluated hex p d) = ''LAE-'' @ hex" "ev_id (decided hex p d ts) = ''LAE-'' @ hex"
  by (simp_all add: decided_def evaluated_def new_event_def)

lemma admit_keeps_inv:
  assumes "admit env hex now p s = (r, s')" "lead_inv s" "''LAE-'' @ hex \<notin> known_ids s"
    "map_of (ls_idempotency s) (lead_key_of p) = None"
  shows "lead_inv s'"
proof -
  have other: "ev_id e' \<noteq> ''LAE-'' @ hex" if "(k', e') \<in> set (ls_events s)" for k' e'
    using that assms(3) by (force simp: known_ids_def)
  from assms(1) show ?thesis
  proof (cases rule: admit_cases)
    case raised
    show ?thesis
      by (rule stored_keeps_inv[OF assms(2), of s' "event_key_of p"])
        (use raised other evaluated_inv in \<open>auto simp: put_event_def outbox_ids_def ledger_ids_def\<close>)
  next
    case (admitted ts e)
    have "(lead_key_of p, canonical_hash env (JObj p), lead_status now e) \<in> set (ls_idempotency s')"
      using map_of_SomeD[of "ls_idempotency s'" "lead_key_of p"]
      by (simp add: admitted(4) dict_set_lookup)
    then have "ev_id e \<in> ledger_ids s'"
      by (force simp: ledger_ids_def lead_status_def image_iff)
    moreover have "ev_state e = OUTBOX_PENDING \<longrightarrow> ev_id e \<in> outbox_ids s'"
      by (auto simp: admitted(4) outbox_ids_def outbox_entry_def)
    ultimately have "event_inv s' e"
      unfolding admitted(2) by (intro decided_inv[OF admitted(1)]) auto
    moreover have "ledger_ids s \<subseteq> ledger_ids s'"
      using dict_set_kept[OF assms(4)] by (simp add: ledger_ids_def admitted(4) image_mono)
    moreover have "outbox_ids s \<subseteq> outbox_ids s'" by (auto simp: admitted(4) outbox_ids_def)
    ultimately show ?thesis
      by (intro stored_keeps_inv[OF assms(2), of s' "event_key_of p" e])
        (use admitted other in auto)
  qed (use assms(2) in simp)
qed

lemma receive_keeps_inv:
  assumes "lead_receive env hex now p s = (r, s')" "lead_inv s" "''LAE-'' @ hex \<notin> known_ids s"
  shows "lead_inv s'"
  using assms(1)
proof (cases rule: receive_cases)
  case refused
  then show ?thesis
    using assms(2) moves_keep_inv[of s s'] by (simp add: svc_moves_def)
next
  case fresh
  then show ?thesis using admit_keeps_inv assms(2,3) by blast
qed (use assms(2) in simp)

text \<open>An endpoint does to the service what the method behind it does, or nothing.\<close>

lemma receive_odoo_event_service:
  assumes "receive_odoo_event env hex now body key w = (r, w')"
  shows "la_service w' = la_service w
    \<or> (\<exists>x. lead_receive env hex now body (la_service w) = (x, la_service w') \<and> (is_ok r \<longleftrightarrow> is_ok x))"
  using assms
  by (auto simp: receive_odoo_event_def lead_http_def split: if_splits prod.splits sum.splits lead_error.splits)

lemma post_result_service:
  assumes "post_result env cfg now m path q hs raw body w = (r, w')"
  shows "svc_moves (la_service w) (la_service w')"
  using assms
  by (auto simp: post_result_def split: if_splits sum.splits json.splits prod.splits apply_error.splits
      dest: receive_result_moves)

lemma lead_step_service:
  assumes "lead_step env cfg w w'"
  shows "svc_moves (la_service w) (la_service w')
    \<or> (\<exists>hex now p x. lead_receive env hex now p (la_service w) = (x, la_service w')
         \<and> ''LAE-'' @ hex \<notin> known_ids (la_service w))"
  using assms
  by cases (use receive_odoo_event_service in \<open>fastforce simp: method_moves post_result_service\<close>)+

lemma lead_step_inv: "lead_step env cfg w w' \<Longrightarrow> lead_inv (la_service w) \<Longrightarrow> lead_inv (la_service w')"
  using lead_step_service moves_keep_inv receive_keeps_inv by blast

lemma lead_reachable_inv:
  assumes "lead_reachable env cfg w"
  shows "lead_inv (la_service w)"
  using assms
proof (induction rule: rtranclp_induct)
  case base
  show ?case by (simp add: lead_inv_def start_api_def new_service_def)
qed (rule lead_step_inv)

section \<open>After a retry\<close>

definition given_up :: "lead_state \<Rightarrow> bool" where
  "given_up t \<longleftrightarrow> t = RETRY_PENDING \<or> t = FAILED_TERMINAL \<or> t = QUARANTINED"

definition stuck :: "string \<Rightarrow> lead_service \<Rightarrow> bool" where
  "stuck i s \<longleftrightarrow> lead_inv s \<and> i \<in> ledger_ids s
     \<and> (\<forall>k e. (k, e) \<in> set (ls_events s) \<longrightarrow> ev_id e = i \<longrightarrow> given_up (ev_state e))"

lemma walk_from_failed [simp]: "audit_walk FAILED_TERMINAL us \<longleftrightarrow> us = []"
  by (cases us) auto

lemma given_up_moves: "event_moves e e' \<Longrightarrow> given_up (ev_state e) \<Longrightarrow> given_up (ev_state e')"
  by (auto simp: event_moves_def given_up_def)

lemma moves_stuck:
  assumes "svc_moves s s'" "stuck i s"
  shows "stuck i s'"
proof -
  have inv: "lead_inv s'" using moves_keep_inv[OF assms(1)] assms(2) by (simp add: stuck_def)
  have "ls_idempotency s' = ls_idempotency s" using assms(1) by (simp add: svc_moves_def)
  then have led: "i \<in> ledger_ids s'" using assms(2) by (simp add: stuck_def ledger_ids_def)
  have old: "given_up (ev_state e)" if "(k, e) \<in> set (ls_events s)" "ev_id e = i" for k e
    using that assms(2) unfolding stuck_def by blast
  from assms(1) consider "ls_events s' = ls_events s"
    | k e e' where "(k, e) \<in> set (ls_events s)" "event_moves e e'" "ls_events s' = dict_set k e' (ls_events s)"
    unfolding svc_moves_def by blast
  then have "given_up (ev_state e2)" if "(k2, e2) \<in> set (ls_events s')" "ev_id e2 = i" for k2 e2
  proof cases
    case 1
    with that old show ?thesis by simp
  next
    case (2 k e e')
    from 2(3) that(1) have "(k2, e2) = (k, e') \<or> (k2, e2) \<in> set (ls_events s)"
      using dict_set_items by metis
    moreover have "ev_id e' = ev_id e" using 2(2) by (simp add: event_moves_def event_frame_def)
    ultimately show ?thesis using that(2) old[of k2 e2] old[OF 2(1)] given_up_moves[OF 2(2)] by auto
  qed
  with inv led show ?thesis unfolding stuck_def by blast
qed

lemma receive_stuck:
  assumes "lead_receive env hex now p s = (r, s')" "''LAE-'' @ hex \<notin> known_ids s" "stuck i s"
  shows "stuck i s'"
proof -
  have inv: "lead_inv s'" using receive_keeps_inv assms by (auto simp: stuck_def)
  have "i \<in> known_ids s" using assms(3) unfolding stuck_def known_ids_def ledger_ids_def by blast
  with assms(2) have new: "i \<noteq> ''LAE-'' @ hex" by metis
  from assms(1) show ?thesis
  proof (cases rule: receive_cases)
    case refused
    then have "svc_moves s s'" by (simp add: svc_moves_def)
    then show ?thesis using moves_stuck assms(3) by blast
  next
    case fresh
    from fresh(4) show ?thesis
    proof (cases rule: admit_cases)
      case raised
      with inv new assms(3) show ?thesis
        by (auto simp: stuck_def put_event_def ledger_ids_def dest: dict_set_items)
    next
      case (admitted ts e)
      have "ledger_ids s \<subseteq> ledger_ids s'"
        using dict_set_kept[OF fresh(1)] by (simp add: ledger_ids_def admitted(4) image_mono)
      then have "i \<in> ledger_ids s'" using assms(3) unfolding stuck_def by blast
      moreover have "ev_id e \<noteq> i" using new by (auto simp: admitted(2))
      ultimately show ?thesis
        using inv assms(3) by (auto simp: stuck_def admitted(4) dest: dict_set_items)
    qed (use assms(3) in simp)
  qed (use assms(3) in simp)
qed

lemma lead_steps_stuck:
  "(lead_step env cfg)\<^sup>*\<^sup>* w w' \<Longrightarrow> stuck i (la_service w) \<Longrightarrow> stuck i (la_service w')"
proof (induction rule: rtranclp_induct)
  case (step w1 w2)
  then show ?case using lead_step_service moves_stuck receive_stuck by blast
qed

lemma retry_is_stuck:
  assumes "lead_inv s" "(k, e) \<in> set (ls_events s)" "ev_state e = RETRY_PENDING"
  shows "stuck (ev_id e) s"
proof -
  have "in_flight (ev_state e)" by (simp add: assms(3) in_flight_def LEAD_TERMINAL_def early_def)
  then have "ev_id e \<in> ledger_ids s"
    using lead_inv_event[OF assms(1,2)] by (simp add: event_inv_def)
  moreover have "e' = e" if "(k', e') \<in> set (ls_events s)" "ev_id e' = ev_id e" for k' e'
    using lead_inv_unique[OF assms(1) that(1) assms(2) that(2)] that(1) assms(2)
      lead_inv_distinct[OF assms(1)] by (auto dest: eq_key_imp_eq_value)
  ultimately show ?thesis using assms by (auto simp: stuck_def given_up_def)
qed

section \<open>The ledger of the intake\<close>

type_synonym intake = "string \<times> instant \<times> jobject \<times> string"

definition intake_submit :: "lead_env \<Rightarrow> intake \<Rightarrow> lead_api \<Rightarrow> lead_response result \<times> lead_api" where
  "intake_submit env q w = (case q of (hex, now, body, key) \<Rightarrow> receive_odoo_event env hex now body key w)"

definition intake_key :: "intake \<Rightarrow> lead_key" where
  "intake_key q = (case q of (hex, now, body, key) \<Rightarrow> lead_key_of body)"

definition intake_digest :: "lead_env \<Rightarrow> intake \<Rightarrow> string" where
  "intake_digest env q = (case q of (hex, now, body, key) \<Rightarrow> canonical_hash env (JObj body))"

definition intake_entry :: "lead_api \<Rightarrow> lead_key \<Rightarrow> (string \<times> lead_response) option" where
  "intake_entry w k = map_of (ls_idempotency (la_service w)) k"

lemma receive_ok_entry:
  assumes "lead_receive env hex now p s = (Inr v, s')"
  shows "map_of (ls_idempotency s') (lead_key_of p) = Some (canonical_hash env (JObj p), v)
    \<and> (\<forall>d u. map_of (ls_idempotency s) (lead_key_of p) = Some (d, u) \<longrightarrow> d = canonical_hash env (JObj p) \<and> u = v)"
  using assms
proof (cases rule: receive_cases)
  case fresh
  from fresh(4) show ?thesis
    by (cases rule: admit_cases) (use fresh(1) in \<open>auto simp: dict_set_lookup\<close>)
qed auto

lemma receive_keeps_entry:
  assumes "lead_receive env hex now p s = (r, s')" "map_of (ls_idempotency s) k = Some x"
  shows "map_of (ls_idempotency s') k = Some x"
  using assms(1)
proof (cases rule: receive_cases)
  case fresh
  from fresh(4) show ?thesis
    by (cases rule: admit_cases) (use fresh(1) assms(2) in \<open>auto simp: dict_set_lookup put_event_def\<close>)
qed (use assms(2) in auto)

lemma event_endpoint_ok:
  assumes "receive_odoo_event env hex now body key w = (Inr v, w')"
  shows "lead_receive env hex now body (la_service w) = (Inr v, la_service w')"
  using assms
  by (auto simp: receive_odoo_event_def lead_http_def split: if_splits prod.splits sum.splits lead_error.splits)

lemma lead_step_keeps_entry:
  assumes "lead_step env cfg w w'" "intake_entry w k = Some x"
  shows "intake_entry w' k = Some x"
  using lead_step_service[OF assms(1)] assms(2) receive_keeps_entry
  unfolding intake_entry_def svc_moves_def by metis

lemma submit_keeps_entry: "intake_entry w k = Some x \<Longrightarrow> intake_entry (snd (intake_submit env q w)) k = Some x"
proof -
  assume e: "intake_entry w k = Some x"
  obtain hex now body key where q: "q = (hex, now, body, key)" by (cases q)
  obtain r w' where r: "receive_odoo_event env hex now body key w = (r, w')" by fastforce
  from receive_odoo_event_service[OF r] e have "intake_entry w' k = Some x"
    unfolding intake_entry_def using receive_keeps_entry by metis
  with q r show ?thesis by (simp add: intake_submit_def)
qed

interpretation intake_ledger: shared_ledger "intake_submit env" intake_key "intake_digest env" intake_entry
    "\<lambda>v. v" "lead_step env cfg" for env cfg
proof unfold_locales
  show "intake_entry w' k = Some x" if "lead_step env cfg w w'" "intake_entry w k = Some x" for w w' k x
    using that by (rule lead_step_keeps_entry)
next
  fix w q and v :: lead_response and w'
  assume "intake_entry w (intake_key q) = None" "intake_submit env q w = (Inr v, w')"
  then show "intake_entry w' (intake_key q) = Some (intake_digest env q, v)"
    by (auto simp: intake_entry_def intake_submit_def intake_key_def intake_digest_def split: prod.splits
        dest!: event_endpoint_ok receive_ok_entry)
next
  fix w q d u and v :: lead_response and w'
  assume "intake_entry w (intake_key q) = Some (d, u)" "intake_submit env q w = (Inr v, w')"
  then show "d = intake_digest env q \<and> v = u"
    by (auto simp: intake_entry_def intake_submit_def intake_key_def intake_digest_def split: prod.splits
        dest!: event_endpoint_ok receive_ok_entry)
qed (rule submit_keeps_entry)

section \<open>A run of the service\<close>

definition demo_cfg :: lead_settings where
  "demo_cfg =
     \<lparr>se_lead_automation_enabled = True, se_n8n_lead_binding_enabled = True,
      se_n8n_result_processing_enabled = True, se_odoo_lead_apply_enabled = True,
      se_lead_create_enabled = True, se_lead_update_enabled = False, se_lead_assignment_enabled = False,
      se_lead_status_change_enabled = False, se_lead_callback_create_enabled = False,
      se_lead_automation_hmac_secret = ''k''\<rparr>"

definition demo_lead_env :: lead_env where
  "demo_lead_env = apply_env.extend demo_apply_env
     \<lparr>le_schemas = (\<lambda>k. Some \<lparr>at_object = True, at_closed = True, at_max = 10, at_properties = []\<rparr>)\<rparr>"

definition demo_policy :: lead_policy where
  "demo_policy =
     \<lparr>po_environment = ''test'', po_business_unit = ''farm'', po_campaign = ''spring'',
      po_event_type = ''lead.created'', po_action = ''CREATE_LEAD'', po_version = ''1'', po_allow = True,
      po_requires_consent = True, po_contact_eligible = True, po_allowed_fields = [], po_enabled = True\<rparr>"

definition demo_event :: jobject where
  "demo_event =
     [(''contract_version'', JStr ''1.1''), (''event_id'', JStr ''E1''), (''event_type'', JStr ''lead.created''),
      (''environment'', JStr ''test''), (''company_key'', JStr ''COMPANY-1''),
      (''business_unit_key'', JStr ''farm''), (''campaign_key'', JStr ''spring''),
      (''automation_action'', JStr ''CREATE_LEAD''), (''policy_version'', JStr ''1''),
      (''attributes_schema_key'', JStr ''farming-lead-v1''), (''attributes'', JObj []),
      (''correlation_id'', JStr ''00000000-0000-4000-8000-000000000001''),
      (''consent_snapshot'', JObj
         [(''consent_status'', JStr ''granted''), (''consent_purpose'', JStr ''sales''),
          (''consent_source'', JStr ''web''), (''consent_updated_at'', JStr ''x''),
          (''dnc_status'', JBool False), (''dnc_updated_at'', JStr ''x''), (''jurisdiction'', JStr ''IT''),
          (''source_system'', JStr ''crm'')]),
      (''idempotency_key'', JStr (replicate 64 CHR ''a''))]"

definition demo_result :: jobject where
  "demo_result =
     [(''contract_version'', JStr ''1.1''), (''event_id'', JStr ''E1''),
      (''workflow_execution_id'', JStr ''N8N-1''), (''binding_key'', JStr ''n8n.leads.ingest''),
      (''environment'', JStr ''test''), (''company_key'', JStr ''COMPANY-1''),
      (''business_unit_key'', JStr ''farm''), (''campaign_key'', JStr ''spring''),
      (''automation_action'', JStr ''CREATE_LEAD''), (''result_status'', JStr ''ok''),
      (''result_code'', JStr ''OK''), (''result_payload'', JObj []), (''occurred_at'', JStr ''x''),
      (''idempotency_key'', JStr ''r'')]"

text \<open>An acknowledgement by which Odoo reports that it is unavailable for the moment.\<close>

definition demo_unavailable :: jobject where
  "demo_unavailable =
     [(''contract_version'', JStr ''1.1''), (''automation_event_id'', JStr ''LAE-1''),
      (''automation_action'', JStr ''CREATE_LEAD''), (''lead_uid'', JStr ''LEAD-1''),
      (''odoo_record_id'', JNull), (''result'', JStr ''FAILED''),
      (''result_code'', JStr ''TEMPORARY_UNAVAILABLE''), (''applied_fields'', JList []),
      (''unchanged_fields'', JList []), (''rejected_fields'', JList []), (''company_key'', JStr ''COMPANY-1''),
      (''business_unit_key'', JStr ''farm''), (''campaign_key'', JStr ''spring''),
      (''policy_version'', JStr ''1''), (''updated_at'', JStr ''t''), (''idempotent_replay'', JBool False)]"

definition demo_scope :: tenant_scope where
  "demo_scope = \<lparr>ts_environment = ''test'', ts_business_unit = ''farm'', ts_campaign = ''spring''\<rparr>"

definition demo_key :: string where "demo_key = replicate 64 CHR ''a''"

definition demo_ready :: lead_api where
  "demo_ready = (start_api demo_cfg)\<lparr>la_service := add_policy demo_policy (la_service (start_api demo_cfg))\<rparr>"

definition demo_received :: lead_api where
  "demo_received = snd (receive_odoo_event demo_lead_env ''1'' 0 demo_event demo_key demo_ready)"

definition demo_waiting :: lead_service where
  "demo_waiting =
     snd (apply_odoo_ack demo_lead_env 0 (JStr ''E1'') demo_unavailable demo_scope
       (snd (lead_receive_result demo_lead_env demo_result demo_scope
         (snd (acknowledge_n8n (JStr ''E1'') demo_scope
           (snd (mark_dispatched (JStr ''E1'') demo_scope
             (snd (reserve_dispatch (JStr ''E1'') demo_scope (la_service demo_received))))))))))"

definition demo_failed :: lead_service where
  "demo_failed = snd (record_retry (JStr ''E1'') demo_scope 5 5 demo_waiting)"

definition lead_at :: "lead_service \<Rightarrow> lead_api" where
  "lead_at s = demo_received\<lparr>la_service := s\<rparr>"

lemma states_received: "map (\<lambda>(k, e). ev_state e) (ls_events (la_service demo_received)) = [OUTBOX_PENDING]"
  by code_simp

lemma states_waiting: "map (\<lambda>(k, e). (ev_id e, ev_state e)) (ls_events demo_waiting) = [(''LAE-1'', RETRY_PENDING)]"
  by code_simp

lemma states_failed: "map (\<lambda>(k, e). (ev_id e, ev_state e)) (ls_events demo_failed) = [(''LAE-1'', FAILED_TERMINAL)]"
  by code_simp

lemma method_step:
  "lead_method env (la_service w) s' \<Longrightarrow> (lead_step env cfg)\<^sup>*\<^sup>* w (w\<lparr>la_service := s'\<rparr>)"
  using lead_step.worker by blast

lemma method_at:
  "lead_method env s s' \<Longrightarrow> (lead_step env cfg)\<^sup>*\<^sup>* (lead_at s) (lead_at s')"
  using method_step[of env "lead_at s" s' cfg] by (simp add: lead_at_def)

lemma demo_ready_reachable: "lead_reachable demo_lead_env demo_cfg demo_ready"
  unfolding demo_ready_def by (rule method_step) (rule lead_method.policy)

lemma demo_received_step: "lead_step demo_lead_env demo_cfg demo_ready demo_received"
  unfolding demo_received_def
proof (rule lead_step.event_posted)
  show "receive_odoo_event demo_lead_env ''1'' 0 demo_event demo_key demo_ready
      = (fst (receive_odoo_event demo_lead_env ''1'' 0 demo_event demo_key demo_ready),
         snd (receive_odoo_event demo_lead_env ''1'' 0 demo_event demo_key demo_ready))"
    by simp
  show "''LAE-'' @ ''1'' \<notin> known_ids (la_service demo_ready)"
    by (simp add: known_ids_def demo_ready_def start_api_def new_service_def add_policy_def)
qed

lemma demo_received_reachable: "lead_reachable demo_lead_env demo_cfg demo_received"
  using demo_ready_reachable demo_received_step by (rule rtranclp.rtrancl_into_rtrancl)

lemma demo_waiting_steps: "(lead_step demo_lead_env demo_cfg)\<^sup>*\<^sup>* demo_received (lead_at demo_waiting)"
proof -
  have at: "(lead_step demo_lead_env demo_cfg)\<^sup>*\<^sup>* demo_received (lead_at s')"
    if "lead_method demo_lead_env s s'" "(lead_step demo_lead_env demo_cfg)\<^sup>*\<^sup>* demo_received (lead_at s)"
    for s s'
    using method_at[OF that(1)] that(2) by (meson rtranclp_trans)
  have "(lead_step demo_lead_env demo_cfg)\<^sup>*\<^sup>* demo_received (lead_at (la_service demo_received))"
    by (simp add: lead_at_def)
  then show ?thesis
    unfolding demo_waiting_def
    by (intro at[OF lead_method.odoo_ack[OF surjective_pairing]]
        at[OF lead_method.result[OF surjective_pairing]] at[OF lead_method.acknowledged[OF surjective_pairing]]
        at[OF lead_method.dispatched[OF surjective_pairing]] at[OF lead_method.reserve[OF surjective_pairing]])
qed

lemma demo_waiting_reachable: "lead_reachable demo_lead_env demo_cfg (lead_at demo_waiting)"
  using demo_received_reachable demo_waiting_steps by (rule rtranclp_trans)

lemma demo_failed_step: "(lead_step demo_lead_env demo_cfg)\<^sup>*\<^sup>* (lead_at demo_waiting) (lead_at demo_failed)"
  unfolding demo_failed_def by (rule method_at, rule lead_method.retry, rule surjective_pairing)

section \<open>Properties\<close>

text \<open>
  C28. The audit trail of every stored event is a walk through the transition table that starts in
  \<open>RECEIVED\<close>, and the event is in the state where the trail ends, unless a conflict has put it
  into quarantine: no endpoint and no method makes a transition that the table does not have.
\<close>

theorem lead_audit_trail:
  assumes "lead_reachable env cfg w" "(k, e) \<in> set (ls_events (la_service w))"
  shows "audit_walk RECEIVED (ev_audit e)
    \<and> (ev_state e = audit_end RECEIVED (ev_audit e) \<or> ev_state e = QUARANTINED)"
  using lead_inv_event[OF lead_reachable_inv[OF assms(1)] assms(2)]
  by (simp add: event_inv_def event_walk_def)

theorem lead_audit_trail_witness:
  "\<exists>k e. lead_reachable demo_lead_env demo_cfg demo_received
     \<and> (k, e) \<in> set (ls_events (la_service demo_received)) \<and> ev_state e = OUTBOX_PENDING
     \<and> audit_walk RECEIVED (ev_audit e) \<and> audit_end RECEIVED (ev_audit e) = OUTBOX_PENDING"
proof -
  obtain k e where e: "(k, e) \<in> set (ls_events (la_service demo_received))" "ev_state e = OUTBOX_PENDING"
    using states_received by (cases "ls_events (la_service demo_received)") auto
  from lead_audit_trail[OF demo_received_reachable e(1)] e demo_received_reachable show ?thesis
    by (intro exI[of _ k] exI[of _ e]) auto
qed

text \<open>
  C29. The reconciliation finds nothing: in every reachable state each event that has passed its
  policy and is not finished has its outbox row, and no event rests in \<open>ODOO_APPLIED\<close>.
\<close>

theorem reconcile_finds_nothing:
  assumes "lead_reachable env cfg w"
  shows "lead_reconcile sc (la_service w) = []"
proof -
  have "event_gaps (la_service w) e = []" if "(k, e) \<in> set (ls_events (la_service w))" for k e
    using lead_inv_event[OF lead_reachable_inv[OF assms] that]
    by (auto simp: event_gaps_def event_inv_def in_flight_def early_def outbox_ids_def list_ex_iff)
  then show ?thesis by (auto simp: lead_reconcile_def)
qed

theorem reconcile_finds_nothing_witness:
  "lead_reachable demo_lead_env demo_cfg (lead_at demo_waiting)
   \<and> lead_reconcile demo_scope (la_service (lead_at demo_waiting)) = []"
  using reconcile_finds_nothing[OF demo_waiting_reachable] demo_waiting_reachable by blast

text \<open>
  C30. An event in \<open>RETRY_PENDING\<close> is never retried: whatever the endpoints and methods of the
  service do from then on, it stays there, fails or goes into quarantine. The transition table
  lets a retry go back to \<open>DISPATCH_RESERVED\<close> or \<open>ODOO_APPLY_PENDING\<close>, but nothing makes those
  transitions.
\<close>

theorem retry_never_resumes:
  assumes "lead_reachable env cfg w" "(k, e) \<in> set (ls_events (la_service w))"
    and "ev_state e = RETRY_PENDING" "(lead_step env cfg)\<^sup>*\<^sup>* w w'"
    and "(k', e') \<in> set (ls_events (la_service w'))" "ev_id e' = ev_id e"
  shows "ev_state e' \<in> {RETRY_PENDING, FAILED_TERMINAL, QUARANTINED}"
proof -
  have "stuck (ev_id e) (la_service w')"
    using retry_is_stuck[OF lead_reachable_inv[OF assms(1)] assms(2,3)] lead_steps_stuck[OF assms(4)] by blast
  then have "given_up (ev_state e')" using assms(5,6) unfolding stuck_def by blast
  then show ?thesis by (simp add: given_up_def)
qed

theorem retry_never_resumes_witness:
  "\<exists>k e k' e'. lead_reachable demo_lead_env demo_cfg (lead_at demo_waiting)
     \<and> (k, e) \<in> set (ls_events demo_waiting) \<and> ev_state e = RETRY_PENDING
     \<and> (lead_step demo_lead_env demo_cfg)\<^sup>*\<^sup>* (lead_at demo_waiting) (lead_at demo_failed)
     \<and> (k', e') \<in> set (ls_events demo_failed) \<and> ev_id e' = ev_id e
     \<and> ev_state e' \<in> {RETRY_PENDING, FAILED_TERMINAL, QUARANTINED} \<and> ev_state e' = FAILED_TERMINAL"
proof -
  obtain k e where e: "(k, e) \<in> set (ls_events demo_waiting)" "ev_state e = RETRY_PENDING" "ev_id e = ''LAE-1''"
    using states_waiting by (cases "ls_events demo_waiting") auto
  obtain k' e' where e': "(k', e') \<in> set (ls_events demo_failed)" "ev_state e' = FAILED_TERMINAL"
    "ev_id e' = ''LAE-1''"
    using states_failed by (cases "ls_events demo_failed") auto
  have at: "la_service (lead_at s) = s" for s by (simp add: lead_at_def)
  have "ev_state e' \<in> {RETRY_PENDING, FAILED_TERMINAL, QUARANTINED}"
    by (rule retry_never_resumes[OF demo_waiting_reachable _ e(2) demo_failed_step]) (use e e' at in auto)
  with e e' demo_waiting_reachable demo_failed_step show ?thesis
    by (intro exI[of _ k] exI[of _ e] exI[of _ k'] exI[of _ e']) auto
qed

text \<open>
  C31. The intake endpoint answers each idempotency key of a tenant once: after it has answered a
  payload, and whatever the service does in between, a request with the same key is answered only
  if its payload has the same digest, and then with the first answer.
\<close>

theorem lead_answered_once:
  assumes "receive_odoo_event env hex now p key w = (Inr v, w1)" "(lead_step env cfg)\<^sup>*\<^sup>* w1 w2"
    and "receive_odoo_event env hex' now' p' key' w2 = (Inr v', w3)" "lead_key_of p' = lead_key_of p"
  shows "canonical_hash env (JObj p') = canonical_hash env (JObj p) \<and> v' = v"
  using intake_ledger.first_answer_wins_later[of env "(hex, now, p, key)" w v w1 cfg w2
      "(hex', now', p', key')" v' w3] assms
  by (simp add: intake_submit_def intake_key_def intake_digest_def)

lemma demo_answered: "is_ok (fst (receive_odoo_event demo_lead_env ''1'' 0 demo_event demo_key demo_ready))"
  by code_simp

lemma demo_answered_again:
  "is_ok (fst (receive_odoo_event demo_lead_env ''2'' 9 demo_event demo_key (lead_at demo_waiting)))"
  by code_simp

theorem lead_answered_once_witness:
  "\<exists>v w1 w3. receive_odoo_event demo_lead_env ''1'' 0 demo_event demo_key demo_ready = (Inr v, w1)
     \<and> receive_odoo_event demo_lead_env ''2'' 9 demo_event demo_key (lead_at demo_waiting) = (Inr v, w3)"
proof -
  obtain v where v: "receive_odoo_event demo_lead_env ''1'' 0 demo_event demo_key demo_ready = (Inr v, demo_received)"
    using demo_answered unfolding is_ok_iff demo_received_def by (metis prod.collapse)
  obtain v' w3 where v': "receive_odoo_event demo_lead_env ''2'' 9 demo_event demo_key (lead_at demo_waiting) = (Inr v', w3)"
    using demo_answered_again unfolding is_ok_iff by (metis prod.collapse)
  from lead_answered_once[OF v demo_waiting_steps v' refl] v v' show ?thesis by blast
qed




section \<open>The signed callback is accepted once\<close>

lemma all_checks_ok: "all_checks cs = Inr () \<longleftrightarrow> list_all is_ok cs"
  by (induction cs) (auto split: sum.splits)

lemma check_that_ok [simp]: "is_ok (check_that b e) \<longleftrightarrow> b"
  by (simp add: check_that_def)

lemma callback_material_ok:
  assumes "callback_material version method path middle h = Inr m"
  shows "list_all clean (version # method # path # middle @ [h])
    \<and> list_all is_ascii (version # method # path # middle @ [h]) \<and> lower_sha256 h
    \<and> m = join newline (version # method # path # middle @ [h])"
  using assms by (auto simp: callback_material_def Let_def clean_def list_ex_iff list_all_iff split: if_splits)

lemma verify_signed_callback:
  assumes "sign_callback env body secret timestamp nonce idem environment CALLBACK_METHOD CALLBACK_PATH = Inr hs"
    and "ae_fromisoformat env timestamp = Some (Aware t)" "abs (now - t) \<le> secs 300"
    and "\<And>k m. clean (ae_hmac env k m) \<and> is_ascii (ae_hmac env k m)"
  shows "verify_callback env CALLBACK_METHOD CALLBACK_PATH [] body hs secret (JStr environment) now used =
    (let nonce_key = (environment, CALLBACK_SCOPE, CALLBACK_PATH, nonce)
     in if nonce_key \<in> set used then (Inl (AuthenticationError ''reused callback nonce''), used)
        else (Inr (), nonce_key # used))"
proof -
  let ?h = "ae_sha256 env body"
  let ?mid = "[timestamp, nonce, CALLBACK_IDENTITY, CALLBACK_AUDIENCE, environment, CALLBACK_SCOPE, idem]"
  obtain m where m: "callback_material SIGNATURE_VERSION CALLBACK_METHOD CALLBACK_PATH ?mid ?h = Inr m"
    and hs: "hs = [(''X-Codestra-Signature-Version'', SIGNATURE_VERSION),
       (''X-Service-Identity'', CALLBACK_IDENTITY), (''X-Service-Audience'', CALLBACK_AUDIENCE),
       (''X-Codestra-Timestamp'', timestamp), (''X-Codestra-Nonce'', nonce),
       (''X-Codestra-Content-SHA256'', ?h), (''X-Codestra-Signature'', ae_hmac env secret m),
       (''Idempotency-Key'', idem), (''X-Codestra-Environment'', environment),
       (''X-Codestra-Scope'', CALLBACK_SCOPE)]"
    using assms(1) by (auto simp: sign_callback_def Let_def split: sum.splits)
  have h: "header hs ''X-Codestra-Signature-Version'' = SIGNATURE_VERSION"
    "header hs ''X-Service-Identity'' = CALLBACK_IDENTITY" "header hs ''X-Service-Audience'' = CALLBACK_AUDIENCE"
    "header hs ''X-Codestra-Timestamp'' = timestamp" "header hs ''X-Codestra-Nonce'' = nonce"
    "header hs ''X-Codestra-Content-SHA256'' = ?h"
    "header hs ''X-Codestra-Signature'' = ae_hmac env secret m" "header hs ''Idempotency-Key'' = idem"
    "header hs ''X-Codestra-Environment'' = environment" "header hs ''X-Codestra-Scope'' = CALLBACK_SCOPE"
    by (simp_all add: header_def hs)
  note ok = callback_material_ok[OF m]
  have "\<not> list_ex (\<lambda>n. header hs n = []) HEADER_NAMES"
    using ok assms(4)[of secret m] by (simp add: HEADER_NAMES_def h clean_def)
  then have "callback_binding CALLBACK_METHOD CALLBACK_PATH [] hs (JStr environment) = Inr ()"
    unfolding callback_binding_def all_checks_ok using ok by (simp add: h)
  then show ?thesis
    using ok assms(2,3) assms(4)[of secret m] m
    by (simp add: verify_callback_def h Let_def require_digest_def compare_digest_def text_of_def)
qed

lemma verify_callback_other_body:
  assumes "header hs ''X-Codestra-Content-SHA256'' \<noteq> ae_sha256 env body"
  shows "\<exists>e. verify_callback env method path q body hs secret environment now used = (Inl e, used)"
  using assms
  by (auto simp: verify_callback_def Let_def require_digest_def compare_digest_def split: sum.splits)

lemma signed_callback_content:
  "sign_callback env body secret timestamp nonce idem environment method path = Inr hs
   \<Longrightarrow> header hs ''X-Codestra-Content-SHA256'' = ae_sha256 env body"
  by (auto simp: sign_callback_def Let_def header_def split: sum.splits)

text \<open>
  C33. A callback signed for the results endpoint verifies once within five minutes: presented
  again it is refused because of its nonce, and its headers over a body with another digest are
  refused, both without changing the nonces. The hypotheses on the parameters are those of a hex
  digest and of a timestamp that reads back as an aware instant.
\<close>

theorem callback_accepted_once:
  assumes "sign_callback env body secret timestamp nonce idem environment CALLBACK_METHOD CALLBACK_PATH = Inr hs"
    and "ae_fromisoformat env timestamp = Some (Aware t)"
    and "abs (now - t) \<le> secs 300" "abs (later - t) \<le> secs 300"
    and "\<And>k m. clean (ae_hmac env k m) \<and> is_ascii (ae_hmac env k m)"
    and "(environment, CALLBACK_SCOPE, CALLBACK_PATH, nonce) \<notin> set used"
  shows "\<exists>used'.
      verify_callback env CALLBACK_METHOD CALLBACK_PATH [] body hs secret (JStr environment) now used
        = (Inr (), used')
      \<and> verify_callback env CALLBACK_METHOD CALLBACK_PATH [] body hs secret (JStr environment) later used'
          = (Inl (AuthenticationError ''reused callback nonce''), used')
      \<and> (\<forall>body'. ae_sha256 env body' \<noteq> ae_sha256 env body \<longrightarrow>
           (\<exists>e. verify_callback env CALLBACK_METHOD CALLBACK_PATH [] body' hs secret (JStr environment) now used
                = (Inl e, used)))"
  using verify_signed_callback[OF assms(1,2,3,5), of used] verify_signed_callback[OF assms(1,2,4,5)] assms(6)
    verify_callback_other_body[of hs env] signed_callback_content[OF assms(1)]
  by (auto simp: Let_def)

definition demo_digest_env :: apply_env where
  "demo_digest_env =
     \<lparr>ae_sha256 = (\<lambda>s. replicate 64 (if s = ''{}'' then CHR ''a'' else CHR ''b'')), ae_hmac = (\<lambda>k m. ''abcd''),
      ae_fromisoformat = (\<lambda>s. Some (Aware 0))\<rparr>"

theorem callback_accepted_once_witness:
  "\<exists>hs used' e.
     sign_callback demo_digest_env ''{}'' ''k'' ''t'' ''n'' ''i'' ''test'' CALLBACK_METHOD CALLBACK_PATH = Inr hs
     \<and> verify_callback demo_digest_env CALLBACK_METHOD CALLBACK_PATH [] ''{}'' hs ''k'' (JStr ''test'') 1 []
         = (Inr (), used')
     \<and> verify_callback demo_digest_env CALLBACK_METHOD CALLBACK_PATH [] ''{}'' hs ''k'' (JStr ''test'') 2 used'
         = (Inl (AuthenticationError ''reused callback nonce''), used')
     \<and> verify_callback demo_digest_env CALLBACK_METHOD CALLBACK_PATH [] ''{1}'' hs ''k'' (JStr ''test'') 1 []
         = (Inl e, [])"
proof -
  have "is_ok (sign_callback demo_digest_env ''{}'' ''k'' ''t'' ''n'' ''i'' ''test'' CALLBACK_METHOD CALLBACK_PATH)"
    by code_simp
  then obtain hs where hs:
    "sign_callback demo_digest_env ''{}'' ''k'' ''t'' ''n'' ''i'' ''test'' CALLBACK_METHOD CALLBACK_PATH = Inr hs"
    by (auto simp: is_ok_iff)
  have c: "clean (ae_hmac demo_digest_env k m) \<and> is_ascii (ae_hmac demo_digest_env k m)" for k m
    by (simp add: demo_digest_env_def clean_def is_ascii_def line_break_def icode_def)
  have d: "ae_sha256 demo_digest_env ''{1}'' \<noteq> ae_sha256 demo_digest_env ''{}''"
    by (simp add: demo_digest_env_def)
  have t: "ae_fromisoformat demo_digest_env ''t'' = Some (Aware 0)"
    by (simp add: demo_digest_env_def)
  have "abs (1 - 0) \<le> secs 300" "abs (2 - 0) \<le> secs 300"
    "(''test'', CALLBACK_SCOPE, CALLBACK_PATH, ''n'') \<notin> set []"
    by (simp_all add: secs_def)
  from callback_accepted_once[OF hs t this(1,2) c this(3)] d hs show ?thesis by blast
qed

end
