(* ===== verification/Outbox.thy ===== *)
theory Outbox
  imports Odoo_Apply
begin

text \<open>
  The durable outbox: redaction and the retry policy (\<open>app/core/reliability.py\<close>), the outbox
  transactions (\<open>app/workers/outbox.py\<close>, \<open>dead_letter.py\<close>, \<open>reconciliation.py\<close>), the lease of
  integration deliveries (\<open>app/workers/delivery.py\<close>) and the delivery of scraper leads to Odoo
  (\<open>app/workers/scraper_odoo_delivery.py\<close>), which drives the client of the Odoo apply contract.

  Each SQL statement is a function on the list of rows; \<open>locked\<close> are the rows that another
  transaction holds, which \<open>SKIP LOCKED\<close> passes over; \<open>now\<close> is the time of the transaction.
\<close>

section \<open>Redaction\<close>

definition SENSITIVE_PARTS :: "string list" where
  "SENSITIVE_PARTS = [''authorization'', ''cookie'', ''credential'', ''password'', ''secret'', ''token'']"

definition REDACTED :: string where "REDACTED = ''[REDACTED]''"

definition sensitive :: "string \<Rightarrow> bool" where
  "sensitive k \<longleftrightarrow> list_ex (\<lambda>part. contains (lower k) part) SENSITIVE_PARTS"

text \<open>\<open>\w\<close> of a Unicode pattern, on the characters of the model.\<close>

definition word_char :: "char \<Rightarrow> bool" where
  "word_char c \<longleftrightarrow> is_ascii_alnum c \<or> c = CHR ''_''
     \<or> one_of (map char_of [170 :: nat, 178, 179, 181, 185, 186, 188, 189, 190]) c
     \<or> 192 \<le> icode c \<and> icode c \<noteq> 215 \<and> icode c \<noteq> 247"

text \<open>The word of a list that \<open>s\<close> starts with, in any case, and what follows it.\<close>

fun leading_word :: "string list \<Rightarrow> string \<Rightarrow> (string \<times> string) option" where
  "leading_word [] s = None"
| "leading_word (w # ws) s =
     (if startswith (lower s) w then Some (take (length w) s, drop (length w) s) else leading_word ws s)"

definition pair_value :: "char \<Rightarrow> bool" where
  "pair_value c \<longleftrightarrow> \<not> is_space c \<and> c \<noteq> CHR '','' \<and> c \<noteq> CHR '';''"

text \<open>
  A match of the first pattern at the start of \<open>s\<close>: a sensitive word, a colon or equals sign
  between optional spaces, and a value; the result is the word and the text after the match.
\<close>

definition match_pair :: "string \<Rightarrow> (string \<times> string) option" where
  "match_pair s =
     (case leading_word SENSITIVE_PARTS s of
        None \<Rightarrow> None
      | Some (w, r) \<Rightarrow>
          (case dropWhile is_space r of
             [] \<Rightarrow> None
           | c # r \<Rightarrow>
               let v = dropWhile is_space r in
               if (c = CHR '':'' \<or> c = CHR ''='') \<and> v \<noteq> [] \<and> pair_value (hd v)
               then Some (w, dropWhile pair_value v) else None))"

definition bearer_char :: "char \<Rightarrow> bool" where
  "bearer_char c \<longleftrightarrow> is_ascii_alnum c \<or> one_of ''._~+/=-'' c"

definition match_bearer :: "string \<Rightarrow> (string \<times> string) option" where
  "match_bearer s =
     (case leading_word [''bearer''] s of
        None \<Rightarrow> None
      | Some (w, r) \<Rightarrow>
          let v = dropWhile is_space r in
          if r \<noteq> [] \<and> is_space (hd r) \<and> v \<noteq> [] \<and> bearer_char (hd v)
          then Some (w, dropWhile bearer_char v) else None)"

lemma leading_word_shorter: "leading_word ws s = Some (w, r) \<Longrightarrow> length r \<le> length s"
  by (induction ws s rule: leading_word.induct) (auto split: if_splits)

lemma dropWhile_le: "length (dropWhile P s) \<le> length s"
  by (simp add: length_dropWhile_le)

lemma match_pair_shorter: "match_pair s = Some (w, r) \<Longrightarrow> length r < length s"
proof -
  assume "match_pair s = Some (w, r)"
  then obtain r1 c r2 where "leading_word SENSITIVE_PARTS s = Some (w, r1)" "dropWhile is_space r1 = c # r2"
    "r = dropWhile pair_value (dropWhile is_space r2)"
    by (auto simp: match_pair_def Let_def split: option.splits list.splits if_splits)
  with leading_word_shorter[of SENSITIVE_PARTS s w r1] dropWhile_le[of is_space r1] dropWhile_le[of is_space r2]
    dropWhile_le[of pair_value "dropWhile is_space r2"]
  show ?thesis by simp
qed

lemma match_bearer_shorter: "match_bearer s = Some (w, r) \<Longrightarrow> length r < length s"
proof -
  assume "match_bearer s = Some (w, r)"
  then obtain r1 where r1: "leading_word [''bearer''] s = Some (w, r1)" "dropWhile is_space r1 \<noteq> []"
    "bearer_char (hd (dropWhile is_space r1))" "r = dropWhile bearer_char (dropWhile is_space r1)"
    by (auto simp: match_bearer_def Let_def split: option.splits if_splits)
  then obtain c v where v: "dropWhile is_space r1 = c # v" by (cases "dropWhile is_space r1") auto
  with r1 have "r = dropWhile bearer_char v" by simp
  with leading_word_shorter[OF r1(1)] dropWhile_le[of is_space r1] dropWhile_le[of bearer_char v] v
  show ?thesis by simp
qed

text \<open>
  \<open>re.sub\<close> from left to right; \<open>inside\<close> tells that the character before is a word character, so
  that no word starts here.
\<close>

function redact_pairs :: "bool \<Rightarrow> string \<Rightarrow> string" where
  "redact_pairs inside s =
     (case s of
        [] \<Rightarrow> []
      | c # cs \<Rightarrow>
          (case (if inside then None else match_pair s) of
             None \<Rightarrow> c # redact_pairs (word_char c) cs
           | Some (w, r) \<Rightarrow> w @ ''='' @ REDACTED @ redact_pairs False r))"
  by pat_completeness auto
termination
  by (relation "measure (\<lambda>(i, s). length s)") (auto split: if_splits dest: match_pair_shorter)

function redact_bearer :: "bool \<Rightarrow> string \<Rightarrow> string" where
  "redact_bearer inside s =
     (case s of
        [] \<Rightarrow> []
      | c # cs \<Rightarrow>
          (case (if inside then None else match_bearer s) of
             None \<Rightarrow> c # redact_bearer (word_char c) cs
           | Some (w, r) \<Rightarrow> ''Bearer '' @ REDACTED @ redact_bearer False r))"
  by pat_completeness auto
termination
  by (relation "measure (\<lambda>(i, s). length s)") (auto split: if_splits dest: match_bearer_shorter)

definition redact_text :: "string \<Rightarrow> string" where
  "redact_text s = redact_bearer False (redact_pairs False s)"

fun redact :: "json \<Rightarrow> json" where
  "redact (JObj kvs) = JObj (map (\<lambda>(k, v). (k, if sensitive k then JStr REDACTED else redact v)) kvs)"
| "redact (JList vs) = JList (map redact vs)"
| "redact (JStr s) = JStr (redact_text s)"
| "redact v = v"

definition sanitize_for_storage :: "json \<Rightarrow> json" where
  "sanitize_for_storage = redact"

definition reliable_hash :: "(string \<Rightarrow> string) \<Rightarrow> json \<Rightarrow> string" where
  "reliable_hash sha v = sha (json_canonical_utf8 v)"

declare redact_pairs.simps [simp del] redact_bearer.simps [simp del]

section \<open>Retry policy and in-memory items\<close>

record retry_policy =
  rp_max_attempts :: int
  rp_base_seconds :: int
  rp_max_seconds :: int

definition default_policy :: retry_policy where
  "default_policy = \<lparr>rp_max_attempts = 5, rp_base_seconds = 5, rp_max_seconds = 300\<rparr>"

definition delay :: "retry_policy \<Rightarrow> int \<Rightarrow> int result" where
  "delay po n =
     (if n < 1 then Inl (ValueError ''attempts must be positive'')
      else Inr (min (rp_max_seconds po) (rp_base_seconds po * 2 ^ nat (n - 1))))"

datatype outbox_status = OPending | ORetry | OProcessing | ODelivered | ODeadLetter

record outbox_item =
  oi_event_id :: string
  oi_topic :: string
  oi_payload :: json
  oi_correlation_id :: string
  oi_status :: outbox_status
  oi_attempts :: int
  oi_next_attempt_at :: "instant option"
  oi_last_error :: "string option"

text \<open>\<open>OutboxItem.fail\<close>: an exception of \<open>delay\<close> keeps the assignments made before it.\<close>

definition item_fail :: "string \<Rightarrow> retry_policy \<Rightarrow> instant \<Rightarrow> (outbox_item, unit) call" where
  "item_fail error po now i =
     (let i = i\<lparr>oi_attempts := oi_attempts i + 1, oi_last_error := Some (redact_text error)\<rparr> in
      if rp_max_attempts po \<le> oi_attempts i
      then (Inr (), i\<lparr>oi_status := ODeadLetter, oi_next_attempt_at := None\<rparr>)
      else let i = i\<lparr>oi_status := ORetry\<rparr> in
        case delay po (oi_attempts i) of
          Inl e \<Rightarrow> (Inl e, i)
        | Inr d \<Rightarrow> (Inr (), i\<lparr>oi_next_attempt_at := Some (now + secs d)\<rparr>))"

definition item_recover :: "instant \<Rightarrow> int \<Rightarrow> outbox_item \<Rightarrow> outbox_item" where
  "item_recover now lock_timeout_seconds i =
     (case oi_next_attempt_at i of
        Some t \<Rightarrow>
          if oi_status i = OProcessing \<and> t \<le> now - secs lock_timeout_seconds
          then i\<lparr>oi_status := ORetry, oi_next_attempt_at := Some now\<rparr> else i
      | None \<Rightarrow> i)"

definition item_replay :: "(outbox_item, unit) call" where
  "item_replay i =
     (if oi_status i \<noteq> ODeadLetter then (Inl (ValueError ''only dead-letter items may be replayed''), i)
      else (Inr (), i\<lparr>oi_status := OPending, oi_attempts := 0, oi_next_attempt_at := None,
                      oi_last_error := None\<rparr>))"

datatype registration = Created | Replay | Conflicting

type_synonym reliable_ledger = "((string \<times> string) \<times> string \<times> string) list"

definition register ::
  "(string \<Rightarrow> string) \<Rightarrow> string \<Rightarrow> string \<Rightarrow> json \<Rightarrow> string \<Rightarrow> reliable_ledger \<Rightarrow> registration \<times> reliable_ledger" where
  "register sha scope raw_key payload event_id l =
     (let key = (scope, sha (scope @ [CHR 0x00] @ raw_key));
          digest = reliable_hash sha (redact payload)
      in case map_of l key of
           None \<Rightarrow> (Created, dict_set key (digest, event_id) l)
         | Some e \<Rightarrow> (if e = (digest, event_id) then Replay else Conflicting, l))"

text \<open>\<open>Reconciler.reconcile\<close>: the missing and the unexpected identifiers, and the new checkpoint.\<close>

definition reconcile_ids :: "string set \<Rightarrow> string set \<Rightarrow> string \<Rightarrow> (string set \<times> string set) \<times> string option" where
  "reconcile_ids authoritative observed cursor =
     ((authoritative - observed, observed - authoritative), Some cursor)"

definition enforce_dnc :: "jobject \<Rightarrow> unit result" where
  "enforce_dnc contact =
     (let consent = (case map_of contact ''consent'' of None \<Rightarrow> [] | Some v \<Rightarrow> py_str v) in
      if truthy (item contact ''do_not_call'') \<or> lower consent \<in> {''revoked'', ''denied''}
      then Inl (PermissionError ''do-not-call policy denies contact'') else Inr ())"

definition authorize_transfer :: "bool \<Rightarrow> bool \<Rightarrow> string \<Rightarrow> string \<Rightarrow> bool \<Rightarrow> bool \<times> string" where
  "authorize_transfer dnc authenticated role campaign_id live_enabled =
     (if dnc then (False, ''do-not-call'')
      else if \<not> authenticated then (False, ''authentication-required'')
      else if role \<notin> {''supervisor'', ''manager''} then (False, ''role-denied'')
      else if campaign_id \<noteq> ''TEST_SYN'' then (False, ''campaign-denied'')
      else if \<not> live_enabled then (False, ''live-transfer-disabled'')
      else (True, ''authorized''))"

section \<open>The outbox table\<close>

record outbox_event =
  oe_id :: uuid
  oe_topic :: string
  oe_payload :: jobject
  oe_correlation_id :: "string option"
  oe_status :: outbox_status
  oe_attempts :: int
  oe_next_attempt_at :: "instant option"
  oe_locked_at :: "instant option"
  oe_dead_lettered_at :: "instant option"
  oe_replay_count :: int
  oe_last_error :: "string option"
  oe_created_at :: instant

text \<open>A new row with the defaults of the columns.\<close>

definition new_outbox :: "uuid \<Rightarrow> string \<Rightarrow> jobject \<Rightarrow> string option \<Rightarrow> instant \<Rightarrow> outbox_event" where
  "new_outbox i topic p corr now =
     \<lparr>oe_id = i, oe_topic = topic, oe_payload = p, oe_correlation_id = corr, oe_status = OPending,
      oe_attempts = 0, oe_next_attempt_at = None, oe_locked_at = None, oe_dead_lettered_at = None,
      oe_replay_count = 0, oe_last_error = None, oe_created_at = now\<rparr>"

definition outbox_claimable :: "instant \<Rightarrow> outbox_event \<Rightarrow> bool" where
  "outbox_claimable now r \<longleftrightarrow> oe_status r \<in> {OPending, ORetry}
     \<and> (case oe_next_attempt_at r of None \<Rightarrow> True | Some t \<Rightarrow> t \<le> now)"

text \<open>The rows of a claim: in order, without the locked ones, at most \<open>limit\<close>.\<close>

definition claim_rows ::
  "(uuid \<Rightarrow> bool) \<Rightarrow> (outbox_event \<Rightarrow> bool) \<Rightarrow> nat \<Rightarrow> outbox_event list \<Rightarrow> outbox_event list" where
  "claim_rows locked p limit t =
     take limit (sort_key (\<lambda>r. (oe_created_at r, oe_id r)) (filter (\<lambda>r. p r \<and> \<not> locked (oe_id r)) t))"

definition claim_sql ::
  "(uuid \<Rightarrow> bool) \<Rightarrow> (outbox_event \<Rightarrow> bool) \<Rightarrow> nat \<Rightarrow> instant \<Rightarrow> int \<Rightarrow> outbox_event list
   \<Rightarrow> outbox_event list \<times> outbox_event list" where
  "claim_sql locked p limit now lease t =
     (let ids = map oe_id (claim_rows locked p limit t);
          f = (\<lambda>r. r\<lparr>oe_status := OProcessing, oe_locked_at := Some now,
                     oe_next_attempt_at := Some (now + secs lease)\<rparr>)
      in (map f (claim_rows locked p limit t), sql_update (\<lambda>r. oe_id r \<in> set ids) f t))"

definition claim_batch ::
  "(uuid \<Rightarrow> bool) \<Rightarrow> int \<Rightarrow> int \<Rightarrow> instant \<Rightarrow> (outbox_event list, outbox_event list) call" where
  "claim_batch locked limit lease_seconds now t =
     (if limit < 1 \<or> 100 < limit then (Inl (ValueError ''claim limit must be between 1 and 100''), t)
      else let (rows, t') = claim_sql locked (outbox_claimable now) (nat limit) now lease_seconds t in (Inr rows, t'))"

definition processing :: "uuid \<Rightarrow> outbox_event \<Rightarrow> bool" where
  "processing i r \<longleftrightarrow> oe_id r = i \<and> oe_status r = OProcessing"

definition outbox_acknowledged :: "outbox_event \<Rightarrow> outbox_event" where
  "outbox_acknowledged r =
     r\<lparr>oe_status := ODelivered, oe_locked_at := None, oe_next_attempt_at := None, oe_last_error := None\<rparr>"

definition acknowledge :: "uuid \<Rightarrow> outbox_event list \<Rightarrow> bool \<times> outbox_event list" where
  "acknowledge i t =
     (sql_count (processing i) t = 1, sql_update (processing i) outbox_acknowledged t)"

definition outbox_failed ::
  "int \<Rightarrow> outbox_status \<Rightarrow> string \<Rightarrow> instant option \<Rightarrow> instant option \<Rightarrow> outbox_event \<Rightarrow> outbox_event" where
  "outbox_failed n status error next_attempt dead_lettered r =
     r\<lparr>oe_attempts := n, oe_status := status, oe_last_error := Some error, oe_next_attempt_at := next_attempt,
       oe_locked_at := None, oe_dead_lettered_at := dead_lettered\<rparr>"

definition outbox_failure ::
  "uuid \<Rightarrow> int \<Rightarrow> string \<Rightarrow> retry_policy \<Rightarrow> bool \<Rightarrow> instant \<Rightarrow> (outbox_event list, outbox_status) call" where
  "outbox_failure i current_attempts error po permanent now t =
     (let n = current_attempts + 1;
          dead = (permanent \<or> rp_max_attempts po \<le> n);
          status = (if dead then ODeadLetter else ORetry)
      in case (if dead then Inr None else map_sum id (\<lambda>d. Some (now + secs d)) (delay po n)) of
           Inl e \<Rightarrow> (Inl e, t)
         | Inr next \<Rightarrow>
             let t' = sql_update (processing i)
                        (outbox_failed n status (redact_text error) next (if dead then Some now else None)) t
             in if sql_count (processing i) t \<noteq> 1 then (Inl (RuntimeError ''outbox item was not processing''), t')
                else (Inr status, t'))"

definition recover_due :: "instant \<Rightarrow> outbox_event \<Rightarrow> bool" where
  "recover_due now r \<longleftrightarrow> oe_status r = OProcessing
     \<and> (case oe_next_attempt_at r of None \<Rightarrow> False | Some t \<Rightarrow> t \<le> now)"

definition outbox_recovered :: "instant \<Rightarrow> outbox_event \<Rightarrow> outbox_event" where
  "outbox_recovered now r =
     r\<lparr>oe_status := ORetry, oe_locked_at := None, oe_next_attempt_at := Some now,
       oe_last_error := (case oe_last_error r of None \<Rightarrow> Some ''worker lease expired'' | e \<Rightarrow> e)\<rparr>"

definition recover_expired_leases :: "instant \<Rightarrow> outbox_event list \<Rightarrow> nat \<times> outbox_event list" where
  "recover_expired_leases now t =
     (sql_count (recover_due now) t, sql_update (recover_due now) (outbox_recovered now) t)"

definition dead_letter :: "uuid \<Rightarrow> outbox_event \<Rightarrow> bool" where
  "dead_letter i r \<longleftrightarrow> oe_id r = i \<and> oe_status r = ODeadLetter"

definition outbox_replayed :: "outbox_event \<Rightarrow> outbox_event" where
  "outbox_replayed r =
     r\<lparr>oe_status := OPending, oe_attempts := 0, oe_next_attempt_at := None, oe_locked_at := None,
       oe_last_error := None, oe_dead_lettered_at := None, oe_replay_count := oe_replay_count r + 1\<rparr>"

definition replay_dead_letter :: "uuid \<Rightarrow> outbox_event list \<Rightarrow> bool \<times> outbox_event list" where
  "replay_dead_letter i t =
     (sql_count (dead_letter i) t = 1, sql_update (dead_letter i) outbox_replayed t)"

definition all_statuses :: "outbox_status list" where
  "all_statuses = [ODeadLetter, ODelivered, OPending, OProcessing, ORetry]"

text \<open>\<open>EXTRACT(EPOCH FROM d)::bigint\<close> rounds to the nearest second, halves away from zero.\<close>

definition epoch_seconds :: "int \<Rightarrow> int" where
  "epoch_seconds d =
     (if 0 \<le> d then (d + 500000) div 1000000 else - ((500000 - d) div 1000000))"

text \<open>The groups by status: count and age of the oldest row.\<close>

definition queue_groups :: "instant \<Rightarrow> outbox_event list \<Rightarrow> (outbox_status \<times> nat \<times> int) list" where
  "queue_groups now t =
     concat (map (\<lambda>st.
       case filter (\<lambda>r. oe_status r = st) t of
         [] \<Rightarrow> []
       | rows \<Rightarrow> [(st, length rows, epoch_seconds (now - Min (set (map oe_created_at rows))))]) all_statuses)"

definition queue_metrics :: "instant \<Rightarrow> outbox_event list \<Rightarrow> (outbox_status \<times> int \<times> int) list" where
  "queue_metrics now t = map (\<lambda>(st, n, age). (st, int n, age)) (queue_groups now t)"

definition outbox_dead_letters :: "int \<Rightarrow> outbox_event list \<Rightarrow> outbox_event list result" where
  "outbox_dead_letters limit t =
     (if limit < 1 \<or> 100 < limit then Inl (ValueError ''dead-letter limit must be between 1 and 100'')
      else Inr (take (nat limit) (sort_key (\<lambda>r. (oe_dead_lettered_at r = None,
                  case oe_dead_lettered_at r of None \<Rightarrow> 0 | Some d \<Rightarrow> d, oe_id r))
                  (filter (\<lambda>r. oe_status r = ODeadLetter) t))))"

section \<open>Reconciliation of inbox and outbox\<close>

record event_inbox_row =
  ei_event_id :: string
  ei_created_at :: instant

record checkpoint =
  cp_cursor :: string
  cp_status :: string
  cp_updated_at :: instant

text \<open>\<open>payload->>'event_id'\<close>: the text of the value, \<open>NULL\<close> for a missing key or a JSON null.\<close>

definition payload_text :: "jobject \<Rightarrow> string \<Rightarrow> string option" where
  "payload_text p k =
     (case map_of p k of
        None \<Rightarrow> None
      | Some JNull \<Rightarrow> None
      | Some (JStr s) \<Rightarrow> Some s
      | Some v \<Rightarrow> Some (json_dumps v))"

definition missing_outbox :: "nat \<Rightarrow> event_inbox_row list \<Rightarrow> outbox_event list \<Rightarrow> string list" where
  "missing_outbox limit inbox t =
     map ei_event_id
       (take limit (sort_key (\<lambda>r. (ei_created_at r, ei_event_id r))
          (filter (\<lambda>i. \<not> sql_exists (\<lambda>o'. payload_text (oe_payload o') ''event_id'' = Some (ei_event_id i)) t)
             inbox)))"

text \<open>The checkpoint of source \<open>middleware_outbox\<close> is inserted or overwritten.\<close>

definition reconcile_internal_outbox ::
  "int \<Rightarrow> instant \<Rightarrow> event_inbox_row list \<Rightarrow> outbox_event list \<Rightarrow> (checkpoint option, string list \<times> string) call" where
  "reconcile_internal_outbox limit now inbox t cp =
     (if limit < 1 \<or> 1000 < limit
      then (Inl (ValueError ''reconciliation limit must be between 1 and 1000''), cp)
      else let missing = missing_outbox (nat limit) inbox t;
               status = (if missing \<noteq> [] then ''drift'' else ''healthy'')
           in (Inr (missing, status),
               Some \<lparr>cp_cursor = isoformat now, cp_status = status, cp_updated_at = now\<rparr>))"

text \<open>One cycle of the maintenance scheduler (\<open>app/workers/scheduler.py\<close>).\<close>

definition maintenance_once ::
  "instant \<Rightarrow> instant \<Rightarrow> event_inbox_row list \<Rightarrow> outbox_event list \<Rightarrow> checkpoint option
   \<Rightarrow> (nat \<times> string list \<times> string) result \<times> outbox_event list \<times> checkpoint option" where
  "maintenance_once now later inbox t cp =
     (let (recovered, t) = recover_expired_leases now t;
          (r, cp) = reconcile_internal_outbox 100 later inbox t cp
      in (map_sum id (\<lambda>x. (recovered, x)) r, t, cp))"

section \<open>Leases of integration deliveries\<close>

record integration_delivery =
  dl_id :: uuid
  dl_event :: int
  dl_target :: string
  dl_status :: string
  dl_attempts :: int
  dl_max_attempts :: int
  dl_available_at :: "instant option"
  dl_lease_owner :: "string option"
  dl_lease_expires_at :: "instant option"
  dl_locked_at :: "instant option"

text \<open>\<open>entity\<close> maps an event of the table to its nullable entity key; every delivery has its event.\<close>

type_synonym entity_of = "int \<Rightarrow> string option"

definition finished :: "integration_delivery \<Rightarrow> bool" where
  "finished d \<longleftrightarrow> dl_status d \<in> {''delivered'', ''canceled'', ''dead_letter''}"

definition older :: "entity_of \<Rightarrow> integration_delivery \<Rightarrow> integration_delivery \<Rightarrow> bool" where
  "older entity d' d \<longleftrightarrow> entity (dl_event d) \<noteq> None \<and> entity (dl_event d') = entity (dl_event d)
     \<and> dl_event d' < dl_event d \<and> dl_target d' = dl_target d"

definition eligible :: "entity_of \<Rightarrow> string \<Rightarrow> instant \<Rightarrow> integration_delivery list \<Rightarrow> integration_delivery \<Rightarrow> bool" where
  "eligible entity target now t d \<longleftrightarrow>
     dl_target d = target \<and> dl_status d \<in> {''pending'', ''retry_wait''}
     \<and> (case dl_available_at d of None \<Rightarrow> True | Some a \<Rightarrow> a \<le> now)
     \<and> \<not> sql_exists (\<lambda>d'. older entity d' d \<and> \<not> finished d') t"

definition lease_sql :: "string \<Rightarrow> instant \<Rightarrow> instant \<Rightarrow> integration_delivery \<Rightarrow> integration_delivery" where
  "lease_sql owner expires now d =
     d\<lparr>dl_status := ''leased'', dl_lease_owner := Some owner, dl_lease_expires_at := Some expires,
       dl_locked_at := Some now\<rparr>"

definition claim_deliveries ::
  "entity_of \<Rightarrow> (uuid \<Rightarrow> bool) \<Rightarrow> string \<Rightarrow> string \<Rightarrow> nat \<Rightarrow> int \<Rightarrow> instant \<Rightarrow> integration_delivery list
   \<Rightarrow> integration_delivery list \<times> integration_delivery list" where
  "claim_deliveries entity locked target owner limit lease_seconds now t =
     (let rows = take limit (sort_key dl_event
                   (filter (\<lambda>d. eligible entity target now t d \<and> \<not> locked (dl_id d)) t));
          f = lease_sql owner (now + secs lease_seconds) now
      in (map f rows, sql_update (\<lambda>d. dl_id d \<in> set (map dl_id rows)) f t))"

definition lease_expired :: "instant \<Rightarrow> integration_delivery \<Rightarrow> bool" where
  "lease_expired now d \<longleftrightarrow> dl_status d = ''leased''
     \<and> (case dl_lease_expires_at d of None \<Rightarrow> False | Some e \<Rightarrow> e \<le> now)"

definition release_sql :: "instant \<Rightarrow> integration_delivery \<Rightarrow> integration_delivery" where
  "release_sql now d =
     d\<lparr>dl_status := ''retry_wait'', dl_lease_owner := None, dl_lease_expires_at := None,
       dl_available_at := Some now\<rparr>"

definition recover_deliveries :: "instant \<Rightarrow> integration_delivery list \<Rightarrow> nat \<times> integration_delivery list" where
  "recover_deliveries now t =
     (sql_count (lease_expired now) t, sql_update (lease_expired now) (release_sql now) t)"

section \<open>Delivery of scraper leads to Odoo\<close>

record scraper_inbox =
  si_correlation_id :: string
  si_status :: string
  si_attempts :: int
  si_next_attempt_at :: "instant option"
  si_rejection_code :: "string option"
  si_odoo_reference :: "string option"
  si_updated_at :: instant

record scraper_db =
  sd_outbox :: "outbox_event list"
  sd_inbox :: "scraper_inbox list"

definition SCRAPER_TOPIC :: string where "SCRAPER_TOPIC = ''sales.lead.odoo.apply''"

definition claim_scraped ::
  "(uuid \<Rightarrow> bool) \<Rightarrow> nat \<Rightarrow> int \<Rightarrow> instant \<Rightarrow> outbox_event list \<Rightarrow> outbox_event list \<times> outbox_event list" where
  "claim_scraped locked limit lease now =
     claim_sql locked (\<lambda>r. oe_topic r = SCRAPER_TOPIC \<and> outbox_claimable now r) limit now lease"

definition inbox_processing :: "string option \<Rightarrow> instant \<Rightarrow> scraper_db \<Rightarrow> scraper_db" where
  "inbox_processing corr now db = db\<lparr>sd_inbox :=
     sql_update (\<lambda>i. corr = Some (si_correlation_id i) \<and> si_status i \<in> {''queued'', ''retry_wait''})
       (\<lambda>i. i\<lparr>si_status := ''processing'', si_updated_at := now\<rparr>) (sd_inbox db)\<rparr>"

definition inbox_result ::
  "string \<Rightarrow> int \<Rightarrow> uuid \<Rightarrow> string option \<Rightarrow> string option \<Rightarrow> string option \<Rightarrow> instant \<Rightarrow> scraper_db \<Rightarrow> scraper_db" where
  "inbox_result status n outbox_id error_code reference corr now db = db\<lparr>sd_inbox :=
     sql_update (\<lambda>i. corr = Some (si_correlation_id i) \<and> si_status i \<notin> {''delivered'', ''dead_letter''})
       (\<lambda>i. i\<lparr>si_status := status, si_attempts := n,
              si_next_attempt_at := (case sql_first (\<lambda>r. oe_id r = outbox_id) (sd_outbox db) of
                                       None \<Rightarrow> None | Some r \<Rightarrow> oe_next_attempt_at r),
              si_rejection_code := error_code, si_odoo_reference := reference, si_updated_at := now\<rparr>)
       (sd_inbox db)\<rparr>"

definition permanent_failure :: "apply_error \<Rightarrow> bool" where
  "permanent_failure e \<longleftrightarrow> (case e of Raised _ \<Rightarrow> False | _ \<Rightarrow> True)"

text \<open>
  \<open>type(exc).__name__\<close>; an exception of another library is a \<open>RuntimeError\<close> value that carries
  its class name.
\<close>

fun exc_name :: "apply_error \<Rightarrow> string" where
  "exc_name (ApplySchemaError _) = ''ApplySchemaError''"
| "exc_name (AckValidationError _) = ''AckValidationError''"
| "exc_name (AuthenticationError _) = ''AuthenticationError''"
| "exc_name (ReplayError _) = ''ReplayError''"
| "exc_name (IdempotencyConflict _) = ''IdempotencyConflict''"
| "exc_name (PermanentApplyError _) = ''PermanentApplyError''"
| "exc_name (RetryExhausted _) = ''RetryExhausted''"
| "exc_name (Raised (RuntimeError m)) = m"
| "exc_name (Raised (ValueError m)) = (if m = ''ascii'' then ''UnicodeEncodeError'' else ''ValueError'')"
| "exc_name (Raised (LookupError _)) = ''LookupError''"
| "exc_name (Raised (PermissionError _)) = ''PermissionError''"
| "exc_name (Raised (OverflowError _)) = ''OverflowError''"
| "exc_name (Raised (KeyError _)) = ''KeyError''"
| "exc_name (Raised (IntegrityError _)) = ''IntegrityError''"
| "exc_name (Raised (Conflict _)) = ''Conflict''"
| "exc_name (Raised (HTTPException _ _)) = ''HTTPException''"

definition scraper_policy :: retry_policy where
  "scraper_policy = \<lparr>rp_max_attempts = 8, rp_base_seconds = 1, rp_max_seconds = 60\<rparr>"

definition on_outbox :: "(outbox_event list, 'a) call \<Rightarrow> (scraper_db, 'a) call" where
  "on_outbox f db = (let (r, t) = f (sd_outbox db) in (r, db\<lparr>sd_outbox := t\<rparr>))"

text \<open>What one claimed row leads to, given the outcome of the client.\<close>

definition settle_delivery ::
  "outbox_event \<Rightarrow> apply_outcome aresult \<Rightarrow> instant \<Rightarrow> (scraper_db, unit) call" where
  "settle_delivery row outcome now db =
     (case outcome of
        Inl exc \<Rightarrow>
          (case on_outbox (outbox_failure (oe_id row) (oe_attempts row) (exc_name exc) scraper_policy
                  (permanent_failure exc) now) db of
             (Inl e, db) \<Rightarrow> (Inl e, db)
           | (Inr status, db) \<Rightarrow>
               (Inr (), inbox_result (if status = ODeadLetter then ''dead_letter'' else ''retry_wait'')
                          (oe_attempts row + 1) (oe_id row) (Some (exc_name exc)) None
                          (oe_correlation_id row) now db))
      | Inr out \<Rightarrow>
          let db = db\<lparr>sd_outbox := snd (acknowledge (oe_id row) (sd_outbox db))\<rparr>
          in (Inr (), inbox_result ''delivered'' (oe_attempts row) (oe_id row) None
                        (Some (py_str (item (ao_ack out) ''odoo_record_id''))) (oe_correlation_id row) now db))"

text \<open>
  The loop of \<open>deliver_once\<close> over the claimed rows, in the order of the claim; the transactions of row \<open>k\<close> run at
  \<open>clock (2 * k + 1)\<close> and the next.
\<close>

fun deliver_rows ::
  "client_env \<Rightarrow> (nat \<Rightarrow> instant) \<Rightarrow> nat \<Rightarrow> outbox_event list \<Rightarrow> apply_client \<Rightarrow> (scraper_db, unit) call" where
  "deliver_rows env clock k [] c db = (Inr (), db)"
| "deliver_rows env clock k (row # rows) c db =
     (let db = inbox_processing (oe_correlation_id row) (clock (2 * k + 1)) db;
          (outcome, c) = client_apply env (oe_payload row) c
      in case settle_delivery row outcome (clock (2 * k + 2)) db of
           (Inl e, db) \<Rightarrow> (Inl e, db)
         | (Inr _, db) \<Rightarrow> deliver_rows env clock (k + 1) rows c db)"

definition deliver_scraped ::
  "client_env \<Rightarrow> bool \<Rightarrow> (uuid \<Rightarrow> bool) \<Rightarrow> (nat \<Rightarrow> instant) \<Rightarrow> nat \<Rightarrow> int \<Rightarrow> (scraper_db, nat) call" where
  "deliver_scraped env enabled locked clock limit lease_seconds db =
     (if \<not> enabled then (Inr 0, db)
      else case new_client (ce_secret env) (int (ce_maximum_attempts env)) of
        Inl e \<Rightarrow> (Inl (ValueError ''invalid Odoo apply client configuration''), db)
      | Inr c \<Rightarrow>
          let t = snd (recover_expired_leases (clock 0) (sd_outbox db));
              (rows, t) = claim_scraped locked limit lease_seconds (clock 0) t
          in (case deliver_rows env clock 0 rows c (db\<lparr>sd_outbox := t\<rparr>) of
                (Inl e, db) \<Rightarrow> (Inl e, db)
              | (Inr _, db) \<Rightarrow> (Inr (length rows), db)))"

end
