(* ===== verification/Outbox_Properties.thy ===== *)
theory Outbox_Properties
  imports Outbox
begin

text \<open>
  What redaction hides and what it lets through, the life of an outbox row under every transaction
  of the workers, the order in which the deliveries of an entity are leased, and what an outage of
  Odoo does to a scraped lead.
\<close>

section \<open>Redaction\<close>

fun hidden :: "json \<Rightarrow> bool" where
  "hidden (JObj kvs) = list_all (\<lambda>(k, v). (sensitive k \<longrightarrow> v = JStr REDACTED) \<and> hidden v) kvs"
| "hidden (JList vs) = list_all hidden vs"
| "hidden _ = True"

text \<open>
  C34. Nothing stands under a sensitive key after redaction but the marker: in every object of the
  value, at any depth, a key that contains one of the sensitive words in any case holds
  \<open>[REDACTED]\<close>.
\<close>

theorem redact_hides_sensitive_keys: "hidden (sanitize_for_storage v)"
proof -
  have "hidden (redact v)"
    by (induction v rule: redact.induct) (auto simp: list_all_iff)
  then show ?thesis by (simp add: sanitize_for_storage_def)
qed

lemma redact_pairs_Nil [simp]: "redact_pairs i [] = []"
  by (simp add: redact_pairs.simps)

lemma redact_pairs_Cons:
  "redact_pairs i (c # cs) =
     (case (if i then None else match_pair (c # cs)) of
        None \<Rightarrow> c # redact_pairs (word_char c) cs
      | Some (w, r) \<Rightarrow> w @ ''='' @ REDACTED @ redact_pairs False r)"
  by (simp add: redact_pairs.simps[of i "c # cs"])

lemma redact_bearer_Nil [simp]: "redact_bearer i [] = []"
  by (simp add: redact_bearer.simps)

lemma redact_bearer_Cons:
  "redact_bearer i (c # cs) =
     (case (if i then None else match_bearer (c # cs)) of
        None \<Rightarrow> c # redact_bearer (word_char c) cs
      | Some (w, r) \<Rightarrow> ''Bearer '' @ REDACTED @ redact_bearer False r)"
  by (simp add: redact_bearer.simps[of i "c # cs"])

lemma leading_word_parts: "leading_word ws s = Some (w, r) \<Longrightarrow> s = w @ r"
  by (induction ws s rule: leading_word.induct) (auto split: if_splits)

text \<open>Without a colon or equals sign the first pattern matches nowhere, without a space the second.\<close>

lemma match_pair_needs_sign:
  assumes "match_pair s = Some (w, r)"
  shows "CHR '':'' \<in> set s \<or> CHR ''='' \<in> set s"
proof -
  from assms obtain r1 c r2 where l: "leading_word SENSITIVE_PARTS s = Some (w, r1)"
    and d: "dropWhile is_space r1 = c # r2" and c: "c = CHR '':'' \<or> c = CHR ''=''"
    by (auto simp: match_pair_def Let_def split: option.splits list.splits if_splits)
  have "c \<in> set r1" using set_dropWhileD[of c is_space r1] d by simp
  then show ?thesis using leading_word_parts[OF l] c by auto
qed

lemma match_bearer_needs_space:
  assumes "match_bearer s = Some (w, r)"
  shows "\<exists>c\<in>set (tl s). is_space c"
proof -
  from assms obtain r1 where l: "leading_word [''bearer''] s = Some (w, r1)" and r1: "r1 \<noteq> []" "is_space (hd r1)"
    by (auto simp: match_bearer_def Let_def split: option.splits if_splits)
  from l have "w \<noteq> []" by (cases s) (auto simp: startswith_def lower_def split: if_splits)
  with leading_word_parts[OF l] r1 show ?thesis by (cases w; cases r1) auto
qed

lemma redact_pairs_plain:
  "CHR '':'' \<notin> set s \<Longrightarrow> CHR ''='' \<notin> set s \<Longrightarrow> redact_pairs i s = s"
proof (induction s arbitrary: i)
  case (Cons c cs)
  then have "match_pair (c # cs) = None"
    using match_pair_needs_sign[of "c # cs"] by (cases "match_pair (c # cs)") auto
  with Cons show ?case by (simp add: redact_pairs_Cons)
qed simp

lemma redact_bearer_plain:
  "\<forall>c\<in>set (tl s). \<not> is_space c \<Longrightarrow> redact_bearer i s = s"
proof (induction s arbitrary: i)
  case (Cons c cs)
  then have "match_bearer (c # cs) = None"
    using match_bearer_needs_space[of "c # cs"] by (cases "match_bearer (c # cs)") auto
  moreover have "\<forall>c\<in>set (tl cs). \<not> is_space c" using Cons.prems by (cases cs) auto
  ultimately show ?case using Cons.IH by (simp add: redact_bearer_Cons)
qed simp

lemma match_bearer_first: "lower_char c \<noteq> CHR ''b'' \<Longrightarrow> match_bearer (c # cs) = None"
  by (simp add: match_bearer_def startswith_def lower_def)

lemma alnum_plain:
  assumes "list_all is_ascii_alnum t"
  shows "CHR '':'' \<notin> set t" "CHR ''='' \<notin> set t" "\<forall>c\<in>set t. \<not> is_space c"
proof -
  have "\<not> is_ascii_alnum (CHR '':'')" "\<not> is_ascii_alnum (CHR ''='')" by code_simp+
  then show "CHR '':'' \<notin> set t" "CHR ''='' \<notin> set t" using assms by (auto simp: list_all_iff)
  have "\<not> is_space c" if "is_ascii_alnum c" for c
    using that by (auto simp: is_ascii_alnum_def is_space_def is_digit_def is_upper_ascii_def is_lower_ascii_def)
  then show "\<forall>c\<in>set t. \<not> is_space c" using assms by (auto simp: list_all_iff)
qed

lemma redact_bearer_skip:
  "list_all (\<lambda>c. lower_char c \<noteq> CHR ''b'') u \<Longrightarrow> \<exists>j. redact_bearer i (u @ s) = u @ redact_bearer j s"
  by (induction u arbitrary: i) (auto simp: redact_bearer_Cons match_bearer_first)

lemma authorization_pair:
  "match_pair (''Authorization: Bearer '' @ t) = Some (''Authorization'', '' '' @ t)"
proof -
  have "lower ''Authorization: Bearer '' = ''authorization: bearer ''" by code_simp
  then have "lower (''Authorization: Bearer '' @ t) = ''authorization: bearer '' @ lower t"
    by (simp add: lower_def)
  then have l: "leading_word SENSITIVE_PARTS (''Authorization: Bearer '' @ t) = Some (''Authorization'', '': Bearer '' @ t)"
    by (simp add: SENSITIVE_PARTS_def startswith_def)
  have c: "\<not> is_space (CHR '':'')" "is_space (CHR '' '')" "\<not> is_space (CHR ''B'')" "\<not> pair_value (CHR '' '')"
    "pair_value (CHR ''B'')" "pair_value (CHR ''e'')" "pair_value (CHR ''a'')" "pair_value (CHR ''r'')"
    by code_simp+
  show ?thesis unfolding match_pair_def l by (simp add: c)
qed

text \<open>
  C35. A bearer token in running text survives redaction: the first pattern takes the word
  \<open>Bearer\<close> of an authorization header for the whole value, and the second pattern then finds no
  \<open>Bearer\<close> in front of the token.
\<close>

theorem bearer_token_survives:
  assumes "list_all is_ascii_alnum t"
  shows "sanitize_for_storage (JStr (''Authorization: Bearer '' @ t))
       = JStr (''Authorization='' @ REDACTED @ '' '' @ t)"
proof -
  have p: "redact_pairs False ('' '' @ t) = '' '' @ t"
    using alnum_plain[OF assms] by (intro redact_pairs_plain) auto
  have b: "redact_bearer i (CHR '' '' # t) = CHR '' '' # t" for i
    using alnum_plain[OF assms] by (intro redact_bearer_plain) auto
  have "redact_pairs False (''Authorization: Bearer '' @ t) = ''Authorization='' @ REDACTED @ '' '' @ t"
    using authorization_pair[of t] p by (simp add: redact_pairs_Cons)
  moreover have "list_all (\<lambda>c. lower_char c \<noteq> CHR ''b'') (''Authorization='' @ REDACTED)" by code_simp
  then obtain j where "redact_bearer False ((''Authorization='' @ REDACTED) @ '' '' @ t)
      = (''Authorization='' @ REDACTED) @ redact_bearer j ('' '' @ t)"
    using redact_bearer_skip by blast
  then have "redact_bearer False (''Authorization='' @ REDACTED @ '' '' @ t) = ''Authorization='' @ REDACTED @ '' '' @ t"
    using b[of j] by simp
  ultimately show ?thesis by (simp add: sanitize_for_storage_def redact_text_def)
qed

theorem bearer_token_survives_witness:
  "list_all is_ascii_alnum ''abc123''
   \<and> sanitize_for_storage (JStr ''Authorization: Bearer abc123'') = JStr ''Authorization=[REDACTED] abc123''"
proof -
  have a: "list_all is_ascii_alnum ''abc123''" by code_simp
  from bearer_token_survives[OF a] a show ?thesis by (simp add: REDACTED_def)
qed

section \<open>The life of an outbox row\<close>

text \<open>Every transaction of the workers on the table, and the insertion of a row.\<close>

inductive outbox_act :: "outbox_event list \<Rightarrow> outbox_event list \<Rightarrow> bool" where
  insert: "i \<notin> oe_id ` set t \<Longrightarrow> outbox_act t (t @ [new_outbox i topic p corr now])"
| claim: "claim_batch locked limit lease now t = (r, t') \<Longrightarrow> outbox_act t t'"
| scraped:
    "claim_scraped locked n lease now t = (rows, t') \<Longrightarrow> outbox_act t t'"
| delivered: "acknowledge i t = (b, t') \<Longrightarrow> outbox_act t t'"
| failed: "outbox_failure i n e po permanent now t = (r, t') \<Longrightarrow> outbox_act t t'"
| recovered: "recover_expired_leases now t = (m, t') \<Longrightarrow> outbox_act t t'"
| replayed: "replay_dead_letter i t = (b, t') \<Longrightarrow> outbox_act t t'"

definition outbox_row_ok :: "outbox_event \<Rightarrow> bool" where
  "outbox_row_ok r \<longleftrightarrow>
     (oe_dead_lettered_at r \<noteq> None \<longleftrightarrow> oe_status r = ODeadLetter)
     \<and> (oe_locked_at r \<noteq> None \<longleftrightarrow> oe_status r = OProcessing)
     \<and> (oe_next_attempt_at r \<noteq> None \<longleftrightarrow> oe_status r \<in> {ORetry, OProcessing})"

definition outbox_row_later :: "outbox_event \<Rightarrow> outbox_event \<Rightarrow> bool" where
  "outbox_row_later r r' \<longleftrightarrow>
     oe_id r' = oe_id r \<and> oe_topic r' = oe_topic r \<and> oe_payload r' = oe_payload r
     \<and> oe_correlation_id r' = oe_correlation_id r \<and> oe_replay_count r \<le> oe_replay_count r'
     \<and> (oe_status r = ODelivered \<longrightarrow> r' = r)
     \<and> (oe_status r = ODeadLetter \<longrightarrow> r' = r \<or> oe_replay_count r < oe_replay_count r')"

definition outbox_ok :: "outbox_event list \<Rightarrow> bool" where
  "outbox_ok t \<longleftrightarrow> distinct (map oe_id t) \<and> (\<forall>r\<in>set t. outbox_row_ok r)"

definition outbox_evolves :: "outbox_event list \<Rightarrow> outbox_event list \<Rightarrow> bool" where
  "outbox_evolves t t' \<longleftrightarrow> (\<forall>r\<in>set t. \<exists>r'\<in>set t'. outbox_row_later r r')"

lemma outbox_row_later_refl [simp]: "outbox_row_later r r"
  by (simp add: outbox_row_later_def)

lemma outbox_row_later_trans: "outbox_row_later a b \<Longrightarrow> outbox_row_later b c \<Longrightarrow> outbox_row_later a c"
  by (auto simp: outbox_row_later_def)

lemma outbox_evolves_trans: "outbox_evolves a b \<Longrightarrow> outbox_evolves b c \<Longrightarrow> outbox_evolves a c"
  unfolding outbox_evolves_def using outbox_row_later_trans by meson

lemma outbox_update:
  assumes "outbox_ok t"
    and "\<And>r. r \<in> set t \<Longrightarrow> p r \<Longrightarrow> outbox_row_ok r \<Longrightarrow> outbox_row_ok (f r) \<and> outbox_row_later r (f r)"
    and "\<And>r. p r \<Longrightarrow> oe_id (f r) = oe_id r"
  shows "outbox_ok (sql_update p f t) \<and> outbox_evolves t (sql_update p f t)"
proof
  show "outbox_ok (sql_update p f t)"
    using assms by (auto simp: outbox_ok_def sql_update_keys in_sql_update)
  show "outbox_evolves t (sql_update p f t)"
    unfolding outbox_evolves_def
  proof
    fix r assume r: "r \<in> set t"
    show "\<exists>r'\<in>set (sql_update p f t). outbox_row_later r r'"
    proof (cases "p r")
      case True
      with r assms(1,2) have "outbox_row_later r (f r)" by (simp add: outbox_ok_def)
      with sql_update_hit[OF r, of p f] True show ?thesis by blast
    next
      case False
      with sql_update_miss[OF r, of p f] show ?thesis using outbox_row_later_refl by blast
    qed
  qed
qed

lemma claim_rows_sub: "r \<in> set (claim_rows locked p n t) \<Longrightarrow> r \<in> set t \<and> p r"
  by (auto simp: claim_rows_def dest!: in_set_takeD)

lemma claim_sql_ok:
  assumes "claim_sql locked p n now lease t = (rows, t')" "outbox_ok t" "\<And>r. p r \<Longrightarrow> outbox_claimable now r"
  shows "outbox_ok t' \<and> outbox_evolves t t'"
proof -
  let ?ids = "set (map oe_id (claim_rows locked p n t))"
  have claimed: "outbox_claimable now r" if r: "r \<in> set t" "oe_id r \<in> ?ids" for r
  proof -
    from r(2) obtain r2 where r2: "r2 \<in> set (claim_rows locked p n t)" "oe_id r2 = oe_id r" by auto
    with claim_rows_sub[OF r2(1)] r(1) assms(2) have "r2 = r"
      by (auto simp: outbox_ok_def intro: distinct_key_unique)
    with claim_rows_sub[OF r2(1)] assms(3) show ?thesis by simp
  qed
  have t': "t' = sql_update (\<lambda>r. oe_id r \<in> ?ids) (\<lambda>r. r\<lparr>oe_status := OProcessing, oe_locked_at := Some now,
      oe_next_attempt_at := Some (now + secs lease)\<rparr>) t"
    using assms(1) by (auto simp: claim_sql_def Let_def)
  show ?thesis
    unfolding t' using assms(2)
  proof (rule outbox_update)
    fix r assume "r \<in> set t" "oe_id r \<in> ?ids" "outbox_row_ok r"
    with claimed[of r] show "outbox_row_ok (r\<lparr>oe_status := OProcessing, oe_locked_at := Some now,
        oe_next_attempt_at := Some (now + secs lease)\<rparr>)
      \<and> outbox_row_later r (r\<lparr>oe_status := OProcessing, oe_locked_at := Some now,
        oe_next_attempt_at := Some (now + secs lease)\<rparr>)"
      by (auto simp: outbox_row_ok_def outbox_row_later_def outbox_claimable_def)
  qed simp
qed

text \<open>The row that a failure writes; \<open>retry_at\<close> is \<open>None\<close> for a dead letter.\<close>

definition failed_row :: "int \<Rightarrow> string \<Rightarrow> instant \<Rightarrow> instant option \<Rightarrow> outbox_event \<Rightarrow> outbox_event" where
  "failed_row n e now retry_at =
     outbox_failed n (if retry_at = None then ODeadLetter else ORetry) (redact_text e) retry_at
       (if retry_at = None then Some now else None)"

lemma outbox_failure_cases:
  assumes "outbox_failure i n e po permanent now t = (r, t')"
  shows "t' = t \<or> (\<exists>retry_at. t' = sql_update (processing i) (failed_row (n + 1) e now retry_at) t)"
proof (cases "permanent \<or> rp_max_attempts po \<le> n + 1")
  case True
  with assms have "t' = sql_update (processing i) (failed_row (n + 1) e now None) t"
    by (auto simp: outbox_failure_def Let_def failed_row_def split: if_splits)
  then show ?thesis by blast
next
  case False
  show ?thesis
  proof (cases "delay po (n + 1)")
    case (Inl x)
    with False assms show ?thesis by (simp add: outbox_failure_def Let_def)
  next
    case (Inr d)
    with False assms have "t' = sql_update (processing i) (failed_row (n + 1) e now (Some (now + secs d))) t"
      by (auto simp: outbox_failure_def Let_def failed_row_def split: if_splits)
    then show ?thesis by blast
  qed
qed

lemma outbox_failure_ok:
  assumes "outbox_failure i n e po permanent now t = (r, t')" "outbox_ok t"
  shows "outbox_ok t' \<and> outbox_evolves t t'"
proof -
  have "outbox_ok (sql_update (processing i) (failed_row m e now at) t)
    \<and> outbox_evolves t (sql_update (processing i) (failed_row m e now at) t)" for m at
    using assms(2)
    by (rule outbox_update) (auto simp: processing_def failed_row_def outbox_failed_def outbox_row_ok_def outbox_row_later_def)
  moreover have "outbox_evolves t t" by (auto simp: outbox_evolves_def intro: outbox_row_later_refl)
  ultimately show ?thesis using outbox_failure_cases[OF assms(1)] assms(2) by blast
qed

lemma outbox_evolves_refl [simp]: "outbox_evolves t t"
  by (auto simp: outbox_evolves_def intro: outbox_row_later_refl)

lemma claim_batch_ok:
  assumes "claim_batch locked limit lease now t = (r, t')" "outbox_ok t"
  shows "outbox_ok t' \<and> outbox_evolves t t'"
proof (cases "limit < 1 \<or> 100 < limit")
  case True
  with assms have "t' = t" by (auto simp: claim_batch_def)
  with assms(2) show ?thesis by simp
next
  case False
  obtain rows t2 where c: "claim_sql locked (outbox_claimable now) (nat limit) now lease t = (rows, t2)" by fastforce
  with False assms(1) have "t' = t2" by (simp add: claim_batch_def)
  with claim_sql_ok[OF c assms(2)] show ?thesis by simp
qed

lemma acknowledge_ok:
  assumes "outbox_ok t"
  shows "outbox_ok (snd (acknowledge i t)) \<and> outbox_evolves t (snd (acknowledge i t))"
  unfolding acknowledge_def snd_conv using assms
  by (rule outbox_update) (auto simp: outbox_acknowledged_def processing_def outbox_row_ok_def outbox_row_later_def)

lemma recover_ok:
  assumes "outbox_ok t"
  shows "outbox_ok (snd (recover_expired_leases now t)) \<and> outbox_evolves t (snd (recover_expired_leases now t))"
  unfolding recover_expired_leases_def snd_conv using assms
  by (rule outbox_update) (auto simp: outbox_recovered_def recover_due_def outbox_row_ok_def outbox_row_later_def)

lemma replay_ok:
  assumes "outbox_ok t"
  shows "outbox_ok (snd (replay_dead_letter i t)) \<and> outbox_evolves t (snd (replay_dead_letter i t))"
  unfolding replay_dead_letter_def snd_conv using assms
  by (rule outbox_update) (auto simp: outbox_replayed_def dead_letter_def outbox_row_ok_def outbox_row_later_def)

lemma insert_ok:
  assumes "outbox_ok t" "i \<notin> oe_id ` set t"
  shows "outbox_ok (t @ [new_outbox i topic p corr now]) \<and> outbox_evolves t (t @ [new_outbox i topic p corr now])"
proof
  show "outbox_ok (t @ [new_outbox i topic p corr now])"
    using assms by (auto simp: outbox_ok_def new_outbox_def outbox_row_ok_def)
  show "outbox_evolves t (t @ [new_outbox i topic p corr now])"
    unfolding outbox_evolves_def
  proof
    fix r assume "r \<in> set t"
    then show "\<exists>r'\<in>set (t @ [new_outbox i topic p corr now]). outbox_row_later r r'"
      by (intro bexI[of _ r]) simp_all
  qed
qed

lemma outbox_act_ok:
  assumes "outbox_act t t'" "outbox_ok t"
  shows "outbox_ok t' \<and> outbox_evolves t t'"
  using assms
proof (induction rule: outbox_act.induct)
  case (scraped locked n lease now t rows t')
  then show ?case unfolding claim_scraped_def using claim_sql_ok by blast
next
  case (delivered i t b t')
  then show ?case using acknowledge_ok[of t i] by simp
next
  case (recovered now t m t')
  then show ?case using recover_ok[of t now] by simp
next
  case (replayed i t b t')
  then show ?case using replay_ok[of t i] by simp
qed (simp_all add: insert_ok claim_batch_ok outbox_failure_ok)

lemma outbox_acts_ok: "outbox_act\<^sup>*\<^sup>* t t' \<Longrightarrow> outbox_ok t \<Longrightarrow> outbox_ok t' \<and> outbox_evolves t t'"
proof (induction rule: rtranclp_induct)
  case (step t1 t2)
  then show ?case using outbox_act_ok outbox_evolves_trans by blast
qed simp

text \<open>
  C36. In every reachable outbox a row has a dead-letter time exactly when it is a dead letter, a
  lock time exactly while it is processed, and a next-attempt time exactly while it is processed or
  waits for a retry. Whatever the workers do later, the row keeps its content, stays as it is once
  delivered, and leaves the dead letters only through a replay that is counted.
\<close>

theorem outbox_rows_sound:
  assumes "outbox_act\<^sup>*\<^sup>* [] t" "outbox_act\<^sup>*\<^sup>* t t'" "r \<in> set t"
  shows "outbox_row_ok r \<and> (\<exists>r'. r' \<in> set t' \<and> outbox_row_later r r')"
proof -
  have "outbox_ok []" by (simp add: outbox_ok_def)
  with outbox_acts_ok[OF assms(1)] have t: "outbox_ok t" by blast
  with outbox_acts_ok[OF assms(2)] have "outbox_evolves t t'" by blast
  with t assms(3) show ?thesis unfolding outbox_ok_def outbox_evolves_def by blast
qed

definition demo_row :: outbox_event where
  "demo_row = new_outbox 1 SCRAPER_TOPIC demo_payload (Some ''c'') 0"

definition demo_claimed :: "outbox_event list" where
  "demo_claimed = snd (claim_batch (\<lambda>i. False) 1 60 1 [demo_row])"

definition demo_delivered_outbox :: "outbox_event list" where
  "demo_delivered_outbox = snd (acknowledge 1 demo_claimed)"

lemma demo_outbox_steps:
  "outbox_act\<^sup>*\<^sup>* [] demo_delivered_outbox"
  "outbox_act\<^sup>*\<^sup>* demo_delivered_outbox (snd (recover_expired_leases 9 demo_delivered_outbox))"
proof -
  have "outbox_act [] [demo_row]"
    using outbox_act.insert[of 1 "[]" SCRAPER_TOPIC demo_payload "Some ''c''" 0] by (simp add: demo_row_def)
  moreover have "outbox_act [demo_row] demo_claimed"
    unfolding demo_claimed_def by (rule outbox_act.claim[OF surjective_pairing])
  moreover have "outbox_act demo_claimed demo_delivered_outbox"
    unfolding demo_delivered_outbox_def by (rule outbox_act.delivered[OF surjective_pairing])
  ultimately show "outbox_act\<^sup>*\<^sup>* [] demo_delivered_outbox" by (meson converse_rtranclp_into_rtranclp rtranclp.rtrancl_refl)
  have "outbox_act demo_delivered_outbox (snd (recover_expired_leases 9 demo_delivered_outbox))"
    by (rule outbox_act.recovered[OF surjective_pairing])
  then show "outbox_act\<^sup>*\<^sup>* demo_delivered_outbox (snd (recover_expired_leases 9 demo_delivered_outbox))"
    by blast
qed

theorem outbox_rows_sound_witness:
  "\<exists>r r'. r \<in> set demo_delivered_outbox \<and> oe_status r = ODelivered \<and> outbox_row_ok r
     \<and> r' \<in> set (snd (recover_expired_leases 9 demo_delivered_outbox)) \<and> outbox_row_later r r'"
proof -
  have "map oe_status demo_delivered_outbox = [ODelivered]" by code_simp
  then have "ODelivered \<in> oe_status ` set demo_delivered_outbox" by (metis list.set_intros(1) set_map)
  then obtain r where r: "r \<in> set demo_delivered_outbox" "oe_status r = ODelivered" by auto
  from outbox_rows_sound[OF demo_outbox_steps r(1)] r show ?thesis by blast
qed

section \<open>The order of deliveries\<close>













section \<open>An outage of Odoo\<close>

lemma count_one:
  assumes "distinct (map oe_id t)" "r \<in> set t" "oe_status r = OProcessing"
  shows "sql_count (processing (oe_id r)) t = 1"
proof -
  have "filter (processing (oe_id r)) t = [r]"
    using assms
  proof (induction t)
    case (Cons x t)
    show ?case
    proof (cases "x = r")
      case True
      have "filter (processing (oe_id r)) t = []"
        using Cons.prems(1) True by (auto simp: filter_empty_conv processing_def image_iff)
      moreover have "processing (oe_id r) r" using Cons.prems(3) by (simp add: processing_def)
      ultimately show ?thesis using True by simp
    next
      case False
      with Cons.prems have "oe_id x \<noteq> oe_id r" by (auto simp: image_iff)
      then have "\<not> processing (oe_id r) x" by (simp add: processing_def)
      with False Cons show ?thesis by simp
    qed
  qed simp
  then show ?thesis by (simp add: sql_count_def)
qed

lemma outbox_failure_of_row:
  assumes "distinct (map oe_id t)" "r \<in> set t" "oe_status r = OProcessing"
    and "permanent \<or> rp_max_attempts po \<le> n + 1 \<and> retry_at = None
      \<or> \<not> permanent \<and> n + 1 < rp_max_attempts po \<and> delay po (n + 1) = Inr d \<and> retry_at = Some (now + secs d)"
    and "permanent \<longrightarrow> retry_at = None"
  shows "\<exists>st t'. outbox_failure (oe_id r) n e po permanent now t = (Inr st, t')
    \<and> failed_row (n + 1) e now retry_at r \<in> set t'
    \<and> st = (if retry_at = None then ODeadLetter else ORetry)"
proof -
  let ?t = "sql_update (processing (oe_id r)) (failed_row (n + 1) e now retry_at) t"
  have "outbox_failure (oe_id r) n e po permanent now t = (Inr (if retry_at = None then ODeadLetter else ORetry), ?t)"
    using assms(4,5) count_one[OF assms(1-3)]
    by (cases permanent; cases "rp_max_attempts po \<le> n + 1")
      (auto simp: outbox_failure_def Let_def failed_row_def)
  moreover have "failed_row (n + 1) e now retry_at r \<in> set ?t"
    using assms(2,3) by (intro sql_update_hit) (auto simp: processing_def)
  ultimately show ?thesis by blast
qed

text \<open>
  C38. A scraped lead is given up at the first delivery that meets an outage of Odoo: when the
  client has used up its own few attempts on time-outs or answers like 503, the row becomes a dead
  letter, however many of the eight attempts of the retry policy are left; an exception of the
  transport itself, such as a refused connection, is retried after the delay of the policy.
\<close>

theorem outage_is_final:
  assumes "distinct (map oe_id (sd_outbox db))" "row \<in> set (sd_outbox db)" "oe_status row = OProcessing"
    and "0 \<le> oe_attempts row" "oe_attempts row + 1 < rp_max_attempts scraper_policy"
  shows "(fst (client_apply env (oe_payload row) c) = Inl (RetryExhausted m) \<longrightarrow>
      (\<exists>db' r'. settle_delivery row (fst (client_apply env (oe_payload row) c)) now db = (Inr (), db')
         \<and> r' \<in> set (sd_outbox db') \<and> oe_id r' = oe_id row \<and> oe_status r' = ODeadLetter
         \<and> oe_next_attempt_at r' = None \<and> oe_attempts r' = oe_attempts row + 1))
    \<and> (fst (client_apply env (oe_payload row) c) = Inl (Raised x) \<longrightarrow>
      (\<exists>db' r'. settle_delivery row (fst (client_apply env (oe_payload row) c)) now db = (Inr (), db')
         \<and> r' \<in> set (sd_outbox db') \<and> oe_id r' = oe_id row \<and> oe_status r' = ORetry
         \<and> oe_next_attempt_at r' = Some (now + secs (min 60 (2 ^ nat (oe_attempts row))))
         \<and> oe_attempts r' = oe_attempts row + 1))"
proof -
  let ?n = "oe_attempts row"
  have d: "delay scraper_policy (?n + 1) = Inr (min 60 (2 ^ nat ?n))"
    using assms(4) by (simp add: delay_def scraper_policy_def)
  have settle: "\<exists>db'. settle_delivery row (Inl exc) now db = (Inr (), db')
      \<and> failed_row (?n + 1) (exc_name exc) now at row \<in> set (sd_outbox db')"
    if "permanent_failure exc \<and> at = None
        \<or> \<not> permanent_failure exc \<and> at = Some (now + secs (min 60 (2 ^ nat ?n)))" for exc at
    using outbox_failure_of_row[OF assms(1-3), of "permanent_failure exc" scraper_policy ?n at
        "min 60 (2 ^ nat ?n)" now "exc_name exc"] that assms(5) d
    by (auto simp: settle_delivery_def on_outbox_def inbox_result_def)
  have row: "oe_id (failed_row m e now at row) = oe_id row" "oe_next_attempt_at (failed_row m e now at row) = at"
    "oe_status (failed_row m e now at row) = (if at = None then ODeadLetter else ORetry)"
    "oe_attempts (failed_row m e now at row) = m" for m e at
    by (simp_all add: failed_row_def outbox_failed_def)
  show ?thesis
  proof (intro conjI impI)
    assume c: "fst (client_apply env (oe_payload row) c) = Inl (RetryExhausted m)"
    show "\<exists>db' r'. settle_delivery row (fst (client_apply env (oe_payload row) c)) now db = (Inr (), db')
         \<and> r' \<in> set (sd_outbox db') \<and> oe_id r' = oe_id row \<and> oe_status r' = ODeadLetter
         \<and> oe_next_attempt_at r' = None \<and> oe_attempts r' = oe_attempts row + 1"
      unfolding c using settle[of "RetryExhausted m" None] row[of "?n + 1" _ None]
      by (fastforce simp: permanent_failure_def)
  next
    let ?at = "Some (now + secs (min 60 (2 ^ nat ?n)))"
    assume c: "fst (client_apply env (oe_payload row) c) = Inl (Raised x)"
    show "\<exists>db' r'. settle_delivery row (fst (client_apply env (oe_payload row) c)) now db = (Inr (), db')
         \<and> r' \<in> set (sd_outbox db') \<and> oe_id r' = oe_id row \<and> oe_status r' = ORetry
         \<and> oe_next_attempt_at r' = ?at \<and> oe_attempts r' = oe_attempts row + 1"
      unfolding c using settle[of "Raised x" ?at] row[of "?n + 1" _ ?at]
      by (fastforce simp: permanent_failure_def)
  qed
qed

text \<open>Odoo answers every request with 503.\<close>

definition demo_outage :: client_env where
  "demo_outage = demo_client_env\<lparr>ce_transport := (\<lambda>sent r. TransportResponse 503 [])\<rparr>"

definition demo_processing :: outbox_event where
  "demo_processing = demo_row\<lparr>oe_status := OProcessing, oe_locked_at := Some 0, oe_next_attempt_at := Some 60\<rparr>"

definition demo_scraper_db :: scraper_db where
  "demo_scraper_db = \<lparr>sd_outbox = [demo_processing], sd_inbox = []\<rparr>"

lemma demo_outage_exhausts:
  "fst (client_apply demo_outage demo_payload demo_client)
   = Inl (RetryExhausted ''Odoo apply HTTP retries exhausted'')"
  by code_simp

theorem outage_is_final_witness:
  "oe_attempts demo_processing + 1 < rp_max_attempts scraper_policy
   \<and> fst (client_apply demo_outage (oe_payload demo_processing) demo_client)
       = Inl (RetryExhausted ''Odoo apply HTTP retries exhausted'')
   \<and> (\<exists>db' r'. settle_delivery demo_processing
          (fst (client_apply demo_outage (oe_payload demo_processing) demo_client)) 5 demo_scraper_db = (Inr (), db')
        \<and> r' \<in> set (sd_outbox db') \<and> oe_status r' = ODeadLetter \<and> oe_attempts r' = 1)"
proof -
  have p: "distinct (map oe_id (sd_outbox demo_scraper_db))" "demo_processing \<in> set (sd_outbox demo_scraper_db)"
    "oe_status demo_processing = OProcessing" "0 \<le> oe_attempts demo_processing"
    "oe_attempts demo_processing + 1 < rp_max_attempts scraper_policy" "oe_attempts demo_processing = 0"
    "oe_payload demo_processing = demo_payload"
    by (simp_all add: demo_scraper_db_def demo_processing_def demo_row_def new_outbox_def scraper_policy_def)
  from outage_is_final[OF p(1-5), of demo_outage demo_client "''Odoo apply HTTP retries exhausted''" 5]
    demo_outage_exhausts p(5-7) show ?thesis
    by auto
qed

end
