(* ===== verification/Telephony.thy ===== *)
theory Telephony
  imports Python
begin

text \<open>
  Telephony commands: the command contract (\<open>app/core/telephony_commands.py\<close>), the journal
  endpoints (\<open>app/api/v1/commands.py\<close>), the registry client (\<open>app/adapters/telephony/client.py\<close>)
  and the worker that claims, dispatches, reads back and finalises a command
  (\<open>app/workers/telephony_commands.py\<close>).

  \<open>tel_env\<close> holds what the code takes from libraries: the SHA-256 digest, \<open>fromisoformat\<close> and the
  text in which a timestamp is dumped. Each transaction is a function on the journals.
\<close>

section \<open>The command contract\<close>

datatype TelephonyCommandType = USER_APPLY | USER_DISABLE | PHONE_APPLY | PHONE_DISABLE
  | ENDPOINT_APPLY | ENDPOINT_DISABLE | CONTACT_REVOKE | CONTACTS_REVOKE_ALL
  | TARGET_RECONCILE | AGENT_RECONCILE | CAMPAIGN_RECONCILE

fun tel_type_value :: "TelephonyCommandType \<Rightarrow> string" where
  "tel_type_value USER_APPLY = ''telephony.vicidial.user.apply''"
| "tel_type_value USER_DISABLE = ''telephony.vicidial.user.disable''"
| "tel_type_value PHONE_APPLY = ''telephony.vicidial.phone.apply''"
| "tel_type_value PHONE_DISABLE = ''telephony.vicidial.phone.disable''"
| "tel_type_value ENDPOINT_APPLY = ''telephony.asterisk.endpoint.apply''"
| "tel_type_value ENDPOINT_DISABLE = ''telephony.asterisk.endpoint.disable''"
| "tel_type_value CONTACT_REVOKE = ''telephony.asterisk.contact.revoke''"
| "tel_type_value CONTACTS_REVOKE_ALL = ''telephony.asterisk.contacts.revoke_all''"
| "tel_type_value TARGET_RECONCILE = ''telephony.target.reconcile''"
| "tel_type_value AGENT_RECONCILE = ''telephony.agent.reconcile''"
| "tel_type_value CAMPAIGN_RECONCILE = ''telephony.campaign.reconcile''"

text \<open>
  The values of the column \<open>telephony_command_journal.state\<close>: those of the enumeration, and
  \<open>CANCELLED\<close>, which only \<open>cancel_command\<close> writes.
\<close>

datatype TelephonyCommandState = RECEIVED | VALIDATING | VALIDATED | POLICY_PENDING | POLICY_DENIED
  | POLICY_APPROVED | JOURNALED | ROUTE_RESOLVED | TARGET_ATTESTED | AUTHORIZED | DISPATCHING
  | DISPATCHED | OPERATION_REGISTERED | APPLYING | APPLIED | SUBMITTING | SUBMITTED
  | READBACK_PENDING | READBACK_VERIFIED | ODOO_RESULT_PENDING | ODOO_RESULT_DELIVERED | RECONCILED
  | SUCCEEDED | RECONCILIATION_REQUIRED | FAILED_TRANSIENT | FAILED_PERMANENT | CANCELLED

text \<open>\<open>MUTATION_ENDPOINTS\<close> and \<open>READBACK_ENDPOINTS\<close>.\<close>

fun MUTATION_ENDPOINTS :: "TelephonyCommandType \<Rightarrow> string" where
  "MUTATION_ENDPOINTS USER_APPLY = ''telephony.vicidial.users.apply''"
| "MUTATION_ENDPOINTS USER_DISABLE = ''telephony.vicidial.users.disable''"
| "MUTATION_ENDPOINTS PHONE_APPLY = ''telephony.vicidial.phones.apply''"
| "MUTATION_ENDPOINTS PHONE_DISABLE = ''telephony.vicidial.phones.disable''"
| "MUTATION_ENDPOINTS ENDPOINT_APPLY = ''telephony.asterisk.endpoints.apply''"
| "MUTATION_ENDPOINTS ENDPOINT_DISABLE = ''telephony.asterisk.endpoints.disable''"
| "MUTATION_ENDPOINTS CONTACT_REVOKE = ''telephony.asterisk.contacts.revoke''"
| "MUTATION_ENDPOINTS CONTACTS_REVOKE_ALL = ''telephony.asterisk.contacts.revoke_all''"
| "MUTATION_ENDPOINTS TARGET_RECONCILE = ''telephony.reconciliation.create''"
| "MUTATION_ENDPOINTS AGENT_RECONCILE = ''telephony.reconciliation.create''"
| "MUTATION_ENDPOINTS CAMPAIGN_RECONCILE = ''telephony.reconciliation.create''"

fun READBACK_ENDPOINTS :: "TelephonyCommandType \<Rightarrow> string" where
  "READBACK_ENDPOINTS USER_APPLY = ''telephony.vicidial.users.read''"
| "READBACK_ENDPOINTS USER_DISABLE = ''telephony.vicidial.users.read''"
| "READBACK_ENDPOINTS PHONE_APPLY = ''telephony.vicidial.phones.read''"
| "READBACK_ENDPOINTS PHONE_DISABLE = ''telephony.vicidial.phones.read''"
| "READBACK_ENDPOINTS ENDPOINT_APPLY = ''telephony.asterisk.endpoints.read''"
| "READBACK_ENDPOINTS ENDPOINT_DISABLE = ''telephony.asterisk.endpoints.read''"
| "READBACK_ENDPOINTS CONTACT_REVOKE = ''telephony.asterisk.contacts.list''"
| "READBACK_ENDPOINTS CONTACTS_REVOKE_ALL = ''telephony.asterisk.contacts.list''"
| "READBACK_ENDPOINTS TARGET_RECONCILE = ''telephony.reconciliation.read''"
| "READBACK_ENDPOINTS AGENT_RECONCILE = ''telephony.reconciliation.read''"
| "READBACK_ENDPOINTS CAMPAIGN_RECONCILE = ''telephony.reconciliation.read''"

definition LOGICAL_ENDPOINT_KEYS :: "string list" where
  "LOGICAL_ENDPOINT_KEYS =
     [''telephony.vicidial.users.read'', ''telephony.vicidial.users.apply'', ''telephony.vicidial.users.disable'',
      ''telephony.vicidial.phones.read'', ''telephony.vicidial.phones.apply'',
      ''telephony.vicidial.phones.disable'', ''telephony.vicidial.campaigns.read'',
      ''telephony.vicidial.runtime.read'', ''telephony.asterisk.endpoints.read'',
      ''telephony.asterisk.endpoints.apply'', ''telephony.asterisk.endpoints.disable'',
      ''telephony.asterisk.contacts.list'', ''telephony.asterisk.contacts.revoke'',
      ''telephony.asterisk.contacts.revoke_all'', ''telephony.asterisk.dialplan.read'',
      ''telephony.asterisk.runtime.read'', ''telephony.reconciliation.create'',
      ''telephony.reconciliation.read'', ''telephony.service.attest'']"

definition FORBIDDEN_PAYLOAD_KEYS :: "string list" where
  "FORBIDDEN_PAYLOAD_KEYS =
     [''extension'', ''server_b_ip'', ''adapter_base_url'', ''ami_address'', ''vicidial_database_host'',
      ''pjsip_context'', ''context_name'', ''trunk'', ''trunk_name'', ''telephone_number'',
      ''customer_number'', ''destination_number'']"

text \<open>
  \<open>PUBLIC_ID.fullmatch\<close>: the first hyphen ends the prefix, whose characters exclude it.
\<close>

definition public_id_match :: "string \<Rightarrow> bool" where
  "public_id_match s =
     (let p = takeWhile (\<lambda>c. c \<noteq> CHR ''-'') s; r = drop (length p + 1) s in
      length p < length s
      \<and> p \<noteq> [] \<and> is_upper_ascii (hd p)
      \<and> match_class (\<lambda>c. is_upper_ascii c \<or> is_digit c \<or> c = CHR ''_'') 1 15 (tl p)
      \<and> r \<noteq> [] \<and> is_ascii_alnum (hd r)
      \<and> match_class (\<lambda>c. is_ascii_alnum c \<or> one_of ''._:-'' c) 2 127 (tl r))"

record tel_payload =
  pl_endpoint_public_id :: "string option"
  pl_source_endpoint_public_id :: "string option"
  pl_destination_endpoint_public_id :: "string option"
  pl_agent_public_id :: "string option"
  pl_phone_public_id :: "string option"
  pl_call_public_id :: "string option"
  pl_contact_id :: "string option"
  pl_allocation_reservation_id :: string
  pl_desired_state_version :: int
  pl_state :: string
  pl_maximum_duration_seconds :: "int option"
  pl_purpose :: "string option"
  pl_reservation_generation :: "int option"
  pl_reservation_hash :: "string option"
  pl_desired_state_hash :: "string option"
  pl_context_key :: "string option"
  pl_external_route_allowed :: bool
  pl_transfer_allowed :: bool

text \<open>
  \<open>policy_decision_id\<close> is the canonical text of a UUID by its pattern, and is kept as the UUID.
\<close>

record tel_request =
  cr_schema_version :: string
  cr_command_public_id :: "string option"
  cr_originating_outbox_public_id :: "string option"
  cr_event_id :: "string option"
  cr_command_type :: TelephonyCommandType
  cr_aggregate_type :: string
  cr_aggregate_public_id :: string
  cr_aggregate_version :: int
  cr_environment :: string
  cr_organization_public_id :: string
  cr_business_unit_public_id :: string
  cr_campaign_public_id :: string
  cr_idempotency_key :: string
  cr_correlation_id :: string
  cr_causation_id :: string
  cr_policy_decision_id :: "uuid option"
  cr_policy_decision_hash :: string
  cr_requested_at :: "datetime option"
  cr_expires_at :: "datetime option"
  cr_payload :: tel_payload

record tel_env =
  te_sha256 :: "string \<Rightarrow> string"
  te_fromiso :: "string \<Rightarrow> datetime option"
  te_json_datetime :: "datetime \<Rightarrow> string"

definition removeprefix :: "string \<Rightarrow> string \<Rightarrow> string" where
  "removeprefix p s = (if startswith s p then drop (length p) s else s)"

definition json_opt :: "('a \<Rightarrow> json) \<Rightarrow> 'a option \<Rightarrow> json" where
  "json_opt f x = (case x of None \<Rightarrow> JNull | Some a \<Rightarrow> f a)"

definition opt_ok :: "('a \<Rightarrow> bool) \<Rightarrow> 'a option \<Rightarrow> bool" where
  "opt_ok p x \<longleftrightarrow> (case x of None \<Rightarrow> True | Some a \<Rightarrow> p a)"

definition len_in :: "nat \<Rightarrow> nat \<Rightarrow> string \<Rightarrow> bool" where
  "len_in lo hi s \<longleftrightarrow> lo \<le> length s \<and> length s \<le> hi"

definition sha_hex :: "string \<Rightarrow> bool" where
  "sha_hex s \<longleftrightarrow> match_class (\<lambda>c. is_digit c \<or> one_of ''abcdef'' c) 64 64 s"

definition sha_text :: "string \<Rightarrow> bool" where
  "sha_text s \<longleftrightarrow> sha_hex (removeprefix ''sha256:'' s)"

text \<open>The fields of \<open>payload.model_dump(mode="json")\<close>; \<open>exclude_none\<close> drops the nulls.\<close>

definition payload_dump :: "tel_payload \<Rightarrow> (string \<times> json) list" where
  "payload_dump p =
     [(''endpoint_public_id'', json_opt JStr (pl_endpoint_public_id p)),
      (''source_endpoint_public_id'', json_opt JStr (pl_source_endpoint_public_id p)),
      (''destination_endpoint_public_id'', json_opt JStr (pl_destination_endpoint_public_id p)),
      (''agent_public_id'', json_opt JStr (pl_agent_public_id p)),
      (''phone_public_id'', json_opt JStr (pl_phone_public_id p)),
      (''call_public_id'', json_opt JStr (pl_call_public_id p)),
      (''contact_id'', json_opt JStr (pl_contact_id p)),
      (''allocation_reservation_id'', JStr (pl_allocation_reservation_id p)),
      (''desired_state_version'', JInt (pl_desired_state_version p)),
      (''state'', JStr (pl_state p)),
      (''maximum_duration_seconds'', json_opt JInt (pl_maximum_duration_seconds p)),
      (''purpose'', json_opt JStr (pl_purpose p)),
      (''reservation_generation'', json_opt JInt (pl_reservation_generation p)),
      (''reservation_hash'', json_opt JStr (pl_reservation_hash p)),
      (''desired_state_hash'', json_opt JStr (pl_desired_state_hash p)),
      (''context_key'', json_opt JStr (pl_context_key p)),
      (''external_route_allowed'', JBool (pl_external_route_allowed p)),
      (''transfer_allowed'', JBool (pl_transfer_allowed p))]"

definition exclude_none :: "(string \<times> json) list \<Rightarrow> (string \<times> json) list" where
  "exclude_none kvs = filter (\<lambda>(k, v). v \<noteq> JNull) kvs"

definition payload_valid :: "tel_payload \<Rightarrow> unit result" where
  "payload_valid p =
     (let ids = [pl_endpoint_public_id p, pl_source_endpoint_public_id p,
                 pl_destination_endpoint_public_id p, pl_agent_public_id p, pl_phone_public_id p,
                 pl_call_public_id p] in
      if \<not> (list_all (opt_ok (len_in 0 144)) ids \<and> opt_ok (len_in 0 128) (pl_contact_id p)
             \<and> len_in 4 144 (pl_allocation_reservation_id p) \<and> 1 \<le> pl_desired_state_version p
             \<and> pl_state p \<in> {''DISABLED'', ''ENABLED''}
             \<and> opt_ok (\<lambda>n. 1 \<le> n \<and> n \<le> 300) (pl_maximum_duration_seconds p)
             \<and> opt_ok (len_in 0 128) (pl_purpose p) \<and> opt_ok (\<lambda>n. 1 \<le> n) (pl_reservation_generation p)
             \<and> opt_ok sha_text (pl_reservation_hash p) \<and> opt_ok sha_text (pl_desired_state_hash p)
             \<and> opt_ok (len_in 0 128) (pl_context_key p))
      then Inl (ValueError ''payload field'')
      else if list_all falsy ids then Inl (ValueError ''at least one target public ID is required'')
      else if list_ex (\<lambda>v. \<not> falsy v \<and> \<not> opt_ok public_id_match v) ids
      then Inl (ValueError ''invalid target public ID'')
      else Inr ())"

text \<open>The fields of \<open>command.model_dump(mode="json")\<close>.\<close>

definition request_dump :: "tel_env \<Rightarrow> tel_request \<Rightarrow> (string \<times> json) list" where
  "request_dump env r =
     [(''schema_version'', JStr (cr_schema_version r)),
      (''command_public_id'', json_opt JStr (cr_command_public_id r)),
      (''originating_outbox_public_id'', json_opt JStr (cr_originating_outbox_public_id r)),
      (''event_id'', json_opt JStr (cr_event_id r)),
      (''command_type'', JStr (tel_type_value (cr_command_type r))),
      (''aggregate_type'', JStr (cr_aggregate_type r)),
      (''aggregate_public_id'', JStr (cr_aggregate_public_id r)),
      (''aggregate_version'', JInt (cr_aggregate_version r)),
      (''environment'', JStr (cr_environment r)),
      (''organization_public_id'', JStr (cr_organization_public_id r)),
      (''business_unit_public_id'', JStr (cr_business_unit_public_id r)),
      (''campaign_public_id'', JStr (cr_campaign_public_id r)),
      (''idempotency_key'', JStr (cr_idempotency_key r)),
      (''correlation_id'', JStr (cr_correlation_id r)),
      (''causation_id'', JStr (cr_causation_id r)),
      (''policy_decision_id'', json_opt (\<lambda>u. JStr (str_uuid u)) (cr_policy_decision_id r)),
      (''policy_decision_hash'', JStr (cr_policy_decision_hash r)),
      (''requested_at'', json_opt (\<lambda>d. JStr (te_json_datetime env d)) (cr_requested_at r)),
      (''expires_at'', json_opt (\<lambda>d. JStr (te_json_datetime env d)) (cr_expires_at r)),
      (''payload'', JObj (payload_dump (cr_payload r)))]"

text \<open>The version and variant digits that the pattern of \<open>policy_decision_id\<close> asks for.\<close>

definition uuid_pattern :: "uuid \<Rightarrow> bool" where
  "uuid_pattern u \<longleftrightarrow> u < 2 ^ 128 \<and> one_of ''12345'' (str_uuid u ! 14) \<and> one_of ''89ab'' (str_uuid u ! 19)"

fun required_fields :: "TelephonyCommandType \<Rightarrow> tel_payload \<Rightarrow> (string \<times> string option) list" where
  "required_fields USER_APPLY p = [(''agent_public_id'', pl_agent_public_id p)]"
| "required_fields USER_DISABLE p = [(''agent_public_id'', pl_agent_public_id p)]"
| "required_fields PHONE_APPLY p = [(''phone_public_id'', pl_phone_public_id p)]"
| "required_fields PHONE_DISABLE p = [(''phone_public_id'', pl_phone_public_id p)]"
| "required_fields ENDPOINT_APPLY p = [(''endpoint_public_id'', pl_endpoint_public_id p)]"
| "required_fields ENDPOINT_DISABLE p = [(''endpoint_public_id'', pl_endpoint_public_id p)]"
| "required_fields CONTACT_REVOKE p =
     [(''endpoint_public_id'', pl_endpoint_public_id p), (''contact_id'', pl_contact_id p)]"
| "required_fields CONTACTS_REVOKE_ALL p = [(''endpoint_public_id'', pl_endpoint_public_id p)]"
| "required_fields _ p = []"

text \<open>
  \<open>TelephonyCommandRequest.model_validate\<close>: the field constraints, then the payload, then
  \<open>forbid_application_selected_resources\<close>, which reads the clock.
\<close>

definition request_fields :: "tel_request \<Rightarrow> bool" where
  "request_fields r \<longleftrightarrow>
     cr_schema_version r = ''1.0'' \<and> opt_ok (len_in 4 144) (cr_command_public_id r)
     \<and> opt_ok (len_in 4 144) (cr_originating_outbox_public_id r) \<and> opt_ok (len_in 4 144) (cr_event_id r)
     \<and> len_in 1 64 (cr_aggregate_type r) \<and> len_in 4 144 (cr_aggregate_public_id r)
     \<and> 1 \<le> cr_aggregate_version r
     \<and> cr_environment r \<in> {''staging'', ''test'', ''production''}
     \<and> len_in 0 144 (cr_organization_public_id r) \<and> len_in 4 144 (cr_business_unit_public_id r)
     \<and> len_in 4 144 (cr_campaign_public_id r) \<and> len_in 8 255 (cr_idempotency_key r)
     \<and> len_in 8 128 (cr_correlation_id r) \<and> len_in 1 128 (cr_causation_id r)
     \<and> opt_ok uuid_pattern (cr_policy_decision_id r) \<and> sha_hex (cr_policy_decision_hash r)"

definition command_window :: "instant \<Rightarrow> tel_request \<Rightarrow> unit result" where
  "command_window now r =
     (case (cr_requested_at r, cr_expires_at r) of
        (Some (Aware q), Some (Aware e)) \<Rightarrow>
          if e \<le> q then Inl (ValueError ''command expiry must follow request time'')
          else if e \<le> now then Inl (ValueError ''command is expired'')
          else Inr ()
      | (Some _, Some _) \<Rightarrow> Inl (ValueError ''command timestamps must be timezone-aware'')
      | _ \<Rightarrow> Inr ())"

definition request_valid :: "instant \<Rightarrow> tel_request \<Rightarrow> unit result" where
  "request_valid now r =
     (if \<not> request_fields r then Inl (ValueError ''command field'')
      else case payload_valid (cr_payload r) of Inl e \<Rightarrow> Inl e
      | Inr _ \<Rightarrow>
        (case command_window now r of Inl e \<Rightarrow> Inl e
         | Inr _ \<Rightarrow>
           if list_ex (\<lambda>(k, v). k \<in> set FORBIDDEN_PAYLOAD_KEYS) (exclude_none (payload_dump (cr_payload r)))
           then Inl (ValueError ''application-selected telephony resource is prohibited'')
           else
             let missing = map fst (filter (\<lambda>(k, v). falsy v)
                             (required_fields (cr_command_type r) (cr_payload r))) in
             if missing \<noteq> []
             then Inl (ValueError (tel_type_value (cr_command_type r) @ '' requires ''
                                   @ join '', '' (sort missing)))
             else Inr ()))"

definition payload_hash :: "tel_env \<Rightarrow> json \<Rightarrow> string" where
  "payload_hash env v = te_sha256 env (json_canonical v)"

definition request_hash :: "tel_env \<Rightarrow> tel_request \<Rightarrow> string" where
  "request_hash env r = payload_hash env (JObj (request_dump env r))"

definition policy_scope :: "tel_request \<Rightarrow> (string \<times> json) list" where
  "policy_scope r =
     [(''action'', JStr ''sync''), (''subject'', JStr (cr_aggregate_public_id r)),
      (''resource'', JStr (tel_type_value (cr_command_type r))),
      (''environment'', JStr (cr_environment r)), (''business_unit'', JStr (cr_business_unit_public_id r)),
      (''campaign'', JStr (cr_campaign_public_id r)),
      (''agent'', JStr (or_else (pl_agent_public_id (cr_payload r)) []))]"

text \<open>
  \<open>desired_state()\<close> of a request rebuilt from the journal, in which every field is set, so that
  \<open>exclude_unset\<close> drops nothing.
\<close>

definition tel_desired_state :: "tel_request \<Rightarrow> (string \<times> json) list" where
  "tel_desired_state r = exclude_none (payload_dump (cr_payload r))"

definition tel_target_system :: "tel_request \<Rightarrow> string" where
  "tel_target_system r =
     (if startswith (tel_type_value (cr_command_type r)) ''telephony.asterisk.'' then ''ASTERISK''
      else ''VICIDIAL'')"

definition tel_target_public_id :: "tel_request \<Rightarrow> string" where
  "tel_target_public_id r =
     or_else (pl_endpoint_public_id (cr_payload r))
       (or_else (pl_phone_public_id (cr_payload r))
         (or_else (pl_agent_public_id (cr_payload r)) (cr_aggregate_public_id r)))"

definition stable_idempotency_key :: "tel_env \<Rightarrow> tel_request \<Rightarrow> string" where
  "stable_idempotency_key env r =
     te_sha256 env (join [CHR 0x1F]
       [cr_environment r, tel_type_value (cr_command_type r), cr_aggregate_public_id r,
        str_int (pl_desired_state_version (cr_payload r)), tel_target_system r, tel_target_public_id r])"

definition normalized_actual_state ::
  "tel_request \<Rightarrow> (string \<times> json) list \<Rightarrow> (string \<times> json) list result" where
  "normalized_actual_state r actual =
     (case (case map_of actual ''desired_state'' of None \<Rightarrow> JObj actual | Some v \<Rightarrow> v) of
        JObj candidate \<Rightarrow>
          Inr (map (\<lambda>(k, _). (k, case map_of candidate k of None \<Rightarrow> JNull | Some v \<Rightarrow> v))
                 (tel_desired_state r))
      | _ \<Rightarrow> Inl (ValueError ''readback desired_state must be an object''))"

section \<open>The journals\<close>

text \<open>
  The columns that \<open>new_command_record\<close> copies from the request are read through \<open>cj_request\<close>,
  the request that \<open>request_json\<close> stores.
\<close>

record tel_command =
  cj_command_id :: uuid
  cj_command_public_id :: string
  cj_idempotency_hash :: string
  cj_request_hash :: string
  cj_request :: tel_request
  cj_state :: TelephonyCommandState
  cj_attempt_count :: int
  cj_next_attempt_at :: "instant option"
  cj_lease_owner :: "string option"
  cj_created_at :: instant
  cj_updated_at :: instant

definition new_command_record :: "tel_env \<Rightarrow> instant \<Rightarrow> uuid \<Rightarrow> tel_request \<Rightarrow> tel_command" where
  "new_command_record env now command_id r =
     \<lparr>cj_command_id = command_id,
      cj_command_public_id =
        or_else (cr_command_public_id r) (''CMD-'' @ take 32 (stable_idempotency_key env r)),
      cj_idempotency_hash = stable_idempotency_key env r, cj_request_hash = request_hash env r,
      cj_request = r, cj_state = POLICY_PENDING, cj_attempt_count = 0, cj_next_attempt_at = None,
      cj_lease_owner = None, cj_created_at = now, cj_updated_at = now\<rparr>"

record tel_operation =
  oj_operation_id :: uuid
  oj_operation_public_id :: string
  oj_command_id :: uuid
  oj_state :: string
  oj_adapter_service_key :: string
  oj_adapter_operation_id :: string
  oj_target_system :: string
  oj_target_resource_type :: string
  oj_target_public_id :: string
  oj_desired_state_version :: int
  oj_idempotency_hash :: string
  oj_transition_sequence :: int
  oj_endpoint_key :: string
  oj_readback_endpoint_key :: string
  oj_target_configuration_checksum :: string
  oj_target_attested :: bool
  oj_desired_hash :: string
  oj_actual_hash :: "string option"
  oj_readback_matches :: "bool option"
  oj_correlation_id :: string
  oj_response_json :: json
  oj_completed_at :: "instant option"

record tel_transition =
  ot_operation_id :: uuid
  ot_command_id :: uuid
  ot_sequence :: int
  ot_from_state :: string
  ot_to_state :: string
  ot_transition_hash :: string
  ot_binding :: json
  ot_occurred_at :: datetime

text \<open>The body of \<open>POST /telephony/results\<close>.\<close>

record tel_result_body =
  tm_result_public_id :: string
  tm_operation_public_id :: string
  tm_command_public_id :: string
  tm_target_system :: string
  tm_target_resource_type :: string
  tm_target_public_id :: string
  tm_application_status :: string
  tm_readback_status :: string
  tm_requested_state_version :: int
  tm_applied_state_version :: int
  tm_observed_state_version :: int
  tm_result_hash :: string
  tm_application_hash :: string
  tm_readback_hash :: string
  tm_adapter_service_key :: string
  tm_adapter_configuration_checksum :: string
  tm_applied_at :: datetime
  tm_readback_at :: datetime
  tm_safe_summary :: string
  tm_policy_hash :: string
  tm_correlation_id :: string

text \<open>
  A terminal result; \<open>rs_immutable\<close> is \<open>immutable_json\<close>, the dump of the body, through which the
  columns copied from the body are read.
\<close>

record tel_result =
  rs_operation_id :: uuid
  rs_command_id :: uuid
  rs_result_hash :: string
  rs_application_hash :: string
  rs_readback_hash :: string
  rs_policy_hash :: string
  rs_status :: string
  rs_reconciliation_status :: string
  rs_immutable :: tel_result_body

record tel_decision =
  pd_id :: uuid
  pd_allowed :: bool
  pd_correlation_id :: string
  pd_context :: "(string \<times> json) list"
  pd_created_at :: instant

text \<open>The body of \<open>POST /telephony/reconciliation/runs\<close> and the run it asks for.\<close>

record tel_run_body =
  rr_run_public_id :: string
  rr_command_public_id :: "string option"
  rr_environment :: string
  rr_aggregate_type :: string
  rr_aggregate_public_id :: string
  rr_target_system :: string
  rr_classification :: string
  rr_correlation_id :: string
  rr_evidence :: json

record tel_reconciliation_run =
  ru_body :: tel_run_body
  ru_command_id :: "uuid option"
  ru_status :: string

text \<open>
  The tables, and in \<open>tj_dispatched\<close> the commands handed to the dispatcher, in order: the calls
  by which the worker acts on the telephony systems.
\<close>

record tel_db =
  tj_commands :: "tel_command list"
  tj_operations :: "tel_operation list"
  tj_transitions :: "tel_transition list"
  tj_results :: "tel_result list"
  tj_runs :: "tel_reconciliation_run list"
  tj_decisions :: "tel_decision list"
  tj_dispatched :: "(uuid \<times> tel_request) list"

definition find_command :: "uuid \<Rightarrow> tel_db \<Rightarrow> tel_command option" where
  "find_command cid db = sql_first (\<lambda>c. cj_command_id c = cid) (tj_commands db)"

definition command_named :: "string \<Rightarrow> tel_db \<Rightarrow> tel_command option" where
  "command_named pid db = sql_first (\<lambda>c. cj_command_public_id c = pid) (tj_commands db)"

definition operation_of :: "uuid \<Rightarrow> tel_db \<Rightarrow> tel_operation option" where
  "operation_of cid db = sql_first (\<lambda>x. oj_command_id x = cid) (tj_operations db)"

definition find_decision :: "uuid \<Rightarrow> tel_db \<Rightarrow> tel_decision option" where
  "find_decision i db = sql_first (\<lambda>d. pd_id d = i) (tj_decisions db)"

definition update_command :: "uuid \<Rightarrow> (tel_command \<Rightarrow> tel_command) \<Rightarrow> tel_db \<Rightarrow> tel_db" where
  "update_command cid f db = db\<lparr>tj_commands := sql_update (\<lambda>c. cj_command_id c = cid) f (tj_commands db)\<rparr>"

definition update_operation :: "uuid \<Rightarrow> (tel_operation \<Rightarrow> tel_operation) \<Rightarrow> tel_db \<Rightarrow> tel_db" where
  "update_operation i f db =
     db\<lparr>tj_operations := sql_update (\<lambda>x. oj_operation_id x = i) f (tj_operations db)\<rparr>"

section \<open>Policy decisions\<close>

text \<open>Equality of two Python dicts with distinct keys.\<close>

definition same_dict :: "json option \<Rightarrow> (string \<times> json) list \<Rightarrow> bool" where
  "same_dict v kvs \<longleftrightarrow>
     (case v of Some (JObj xs) \<Rightarrow> length xs = length kvs \<and> set xs = set kvs | _ \<Rightarrow> False)"

text \<open>The expiration of a decision: \<open>None\<close> when it is no string or no ISO date.\<close>

definition decision_expiration :: "tel_env \<Rightarrow> tel_decision \<Rightarrow> datetime option" where
  "decision_expiration env d =
     (case map_of (pd_context d) ''expiration'' of Some (JStr s) \<Rightarrow> te_fromiso env s | _ \<Rightarrow> None)"

definition decision_open :: "instant \<Rightarrow> datetime \<Rightarrow> bool" where
  "decision_open now e \<longleftrightarrow> (case e of Naive _ \<Rightarrow> False | Aware t \<Rightarrow> now < t)"

definition decision_enforced :: "tel_decision \<Rightarrow> bool" where
  "decision_enforced d \<longleftrightarrow> pd_allowed d \<and> map_of (pd_context d) ''enforced'' = Some (JBool True)"

section \<open>The journal endpoints\<close>

definition aggregate_key :: "tel_request \<Rightarrow> string \<times> string \<times> string" where
  "aggregate_key r = (cr_environment r, cr_aggregate_type r, cr_aggregate_public_id r)"

definition latest_version :: "tel_request \<Rightarrow> tel_db \<Rightarrow> int option" where
  "latest_version r db =
     map_option (\<lambda>c. cr_aggregate_version (cj_request c))
       (first_by (\<lambda>c. - cr_aggregate_version (cj_request c))
         (filter (\<lambda>c. aggregate_key (cj_request c) = aggregate_key r) (tj_commands db)))"

definition chosen_decision :: "tel_request \<Rightarrow> tel_db \<Rightarrow> tel_decision option" where
  "chosen_decision r db =
     (case cr_policy_decision_id r of
        Some i \<Rightarrow> find_decision i db
      | None \<Rightarrow> first_by (\<lambda>d. - pd_created_at d)
                  (filter (\<lambda>d. pd_correlation_id d = cr_correlation_id r) (tj_decisions db)))"

text \<open>
  \<open>create_command\<close>. The transactions of one aggregate are serialised by the advisory lock, so a
  violated unique constraint is one of the public identifier or of the primary key. The answer is
  the row of the view, and whether it is replayed.
\<close>

definition tel_create_command ::
  "tel_env \<Rightarrow> instant \<Rightarrow> uuid \<Rightarrow> string \<Rightarrow> tel_request \<Rightarrow> (tel_db, tel_command \<times> bool) call" where
  "tel_create_command env now command_id header_key body db =
     (if \<not> is_ok (request_valid now body) then (Inl (HTTPException 422 ''request validation''), db)
      else if header_key \<noteq> cr_idempotency_key body
      then (Inl (HTTPException 400 ''header and command idempotency keys must match''), db)
      else case chosen_decision body db of
        None \<Rightarrow> (Inl (HTTPException 422 ''policy decision not found''), db)
      | Some d \<Rightarrow>
          let body = body\<lparr>cr_policy_decision_id := Some (pd_id d)\<rparr>;
              row = new_command_record env now command_id body in
          case sql_first (\<lambda>c. cj_idempotency_hash c = cj_idempotency_hash row) (tj_commands db) of
            Some old \<Rightarrow>
              if cj_request_hash old \<noteq> cj_request_hash row
              then (Inl (HTTPException 409 ''idempotency key conflict''), db)
              else (Inr (old, True), db)
          | None \<Rightarrow>
              if pd_correlation_id d \<noteq> cr_correlation_id body
              then (Inl (HTTPException 409 ''policy correlation mismatch''), db)
              else if payload_hash env (JObj (pd_context d)) \<noteq> cr_policy_decision_hash body
              then (Inl (HTTPException 409 ''policy decision hash mismatch''), db)
              else if \<not> same_dict (map_of (pd_context d) ''authorization_scope'') (policy_scope body)
              then (Inl (HTTPException 409 ''policy authorization scope mismatch''), db)
              else case decision_expiration env d of
                None \<Rightarrow> (Inl (HTTPException 409 ''policy expiration is invalid''), db)
              | Some e \<Rightarrow>
                  if \<not> decision_open now e then (Inl (HTTPException 409 ''policy decision expired''), db)
                  else if (case latest_version body db of None \<Rightarrow> False
                           | Some v \<Rightarrow> cr_aggregate_version body \<le> v)
                  then (Inl (HTTPException 409 ''stale or duplicate aggregate version''), db)
                  else
                    let row = row\<lparr>cj_state := if decision_enforced d then AUTHORIZED else POLICY_DENIED\<rparr> in
                    if sql_exists (\<lambda>c. cj_command_public_id c = cj_command_public_id row
                                       \<or> cj_command_id c = command_id) (tj_commands db)
                    then (Inl (HTTPException 409 ''concurrent command conflict''), db)
                    else (Inr (row, False), db\<lparr>tj_commands := tj_commands db @ [row]\<rparr>))"

definition tel_cancel_command :: "instant \<Rightarrow> string \<Rightarrow> (tel_db, tel_command) call" where
  "tel_cancel_command now pid db =
     (case command_named pid db of
        None \<Rightarrow> (Inl (HTTPException 404 ''command not found''), db)
      | Some c \<Rightarrow>
          if cj_state c \<in> {SUCCEEDED, RECONCILED, FAILED_PERMANENT}
          then (Inl (HTTPException 409 ''terminal command cannot be cancelled''), db)
          else
            let f = (\<lambda>c. c\<lparr>cj_state := CANCELLED, cj_lease_owner := None, cj_next_attempt_at := None,
                            cj_updated_at := now\<rparr>)
            in (Inr (f c), update_command (cj_command_id c) f db))"

text \<open>
  The bodies of the operation endpoints. The operations below are defined on every body, so what
  is shown of them does not depend on the length and pattern constraints of the fields.
\<close>

record tel_registration =
  rg_operation_public_id :: string
  rg_command_public_id :: string
  rg_adapter_service_key :: string
  rg_adapter_operation_id :: string
  rg_target_system :: string
  rg_target_resource_type :: string
  rg_target_public_id :: string
  rg_desired_state_version :: int
  rg_desired_state_hash :: string
  rg_idempotency_key :: string
  rg_correlation_id :: string

text \<open>The columns of \<open>immutable\<close>, compared with those of the operation already journalled.\<close>

definition registered_operation :: "tel_env \<Rightarrow> uuid \<Rightarrow> uuid \<Rightarrow> tel_registration \<Rightarrow> tel_operation" where
  "registered_operation env operation_id command_id b =
     \<lparr>oj_operation_id = operation_id, oj_operation_public_id = rg_operation_public_id b,
      oj_command_id = command_id, oj_state = ''REGISTERED'',
      oj_adapter_service_key = rg_adapter_service_key b,
      oj_adapter_operation_id = rg_adapter_operation_id b, oj_target_system = rg_target_system b,
      oj_target_resource_type = rg_target_resource_type b, oj_target_public_id = rg_target_public_id b,
      oj_desired_state_version = rg_desired_state_version b,
      oj_idempotency_hash = payload_hash env (JStr (rg_idempotency_key b)),
      oj_transition_sequence = 0, oj_endpoint_key = ''telephony.operation.registered'',
      oj_readback_endpoint_key = ''telephony.operation.readback'',
      oj_target_configuration_checksum = ''pending'', oj_target_attested = True,
      oj_desired_hash = removeprefix ''sha256:'' (rg_desired_state_hash b), oj_actual_hash = None,
      oj_readback_matches = None, oj_correlation_id = rg_correlation_id b, oj_response_json = JObj [],
      oj_completed_at = None\<rparr>"

definition same_binding :: "tel_operation \<Rightarrow> tel_operation \<Rightarrow> bool" where
  "same_binding x y \<longleftrightarrow>
     oj_operation_public_id x = oj_operation_public_id y
     \<and> oj_adapter_service_key x = oj_adapter_service_key y
     \<and> oj_adapter_operation_id x = oj_adapter_operation_id y
     \<and> oj_target_system x = oj_target_system y \<and> oj_target_resource_type x = oj_target_resource_type y
     \<and> oj_target_public_id x = oj_target_public_id y
     \<and> oj_desired_state_version x = oj_desired_state_version y
     \<and> oj_desired_hash x = oj_desired_hash y \<and> oj_correlation_id x = oj_correlation_id y"

definition register_operation ::
  "tel_env \<Rightarrow> instant \<Rightarrow> uuid \<Rightarrow> tel_registration \<Rightarrow> (tel_db, string \<times> string) call" where
  "register_operation env now operation_id b db =
     (case command_named (rg_command_public_id b) db of
        None \<Rightarrow> (Inl (HTTPException 404 ''command not found''), db)
      | Some c \<Rightarrow>
          let p = cr_payload (cj_request c) in
          if cr_correlation_id (cj_request c) \<noteq> rg_correlation_id b
             \<or> pl_desired_state_version p \<noteq> rg_desired_state_version b
             \<or> removeprefix ''sha256:'' (case pl_desired_state_hash p of None \<Rightarrow> [] | Some h \<Rightarrow> h)
                 \<notin> {[], removeprefix ''sha256:'' (rg_desired_state_hash b)}
          then (Inl (HTTPException 409 ''operation correlation binding mismatch''), db)
          else
            let row = registered_operation env operation_id (cj_command_id c) b in
            case sql_first (\<lambda>x. oj_operation_public_id x = rg_operation_public_id b
                               \<or> oj_command_id x = cj_command_id c
                               \<or> oj_idempotency_hash x = oj_idempotency_hash row) (tj_operations db) of
              Some prior \<Rightarrow>
                if \<not> same_binding prior row
                then (Inl (HTTPException 409 ''immutable operation binding conflict''), db)
                else (Inr (oj_operation_public_id prior, ''DUPLICATE''), db)
            | None \<Rightarrow>
                if sql_exists (\<lambda>x. oj_operation_id x = operation_id) (tj_operations db)
                then (Inl (IntegrityError ''telephony_operation_journal_pkey''), db)
                else (Inr (oj_operation_public_id row, ''NEW''),
                      update_command (cj_command_id c)
                        (\<lambda>c. c\<lparr>cj_state := OPERATION_REGISTERED, cj_updated_at := now\<rparr>)
                        (db\<lparr>tj_operations := tj_operations db @ [row]\<rparr>)))"

record tel_transition_body =
  tb_schema_version :: string
  tb_command_public_id :: string
  tb_state :: string
  tb_target_system :: string
  tb_target_resource_type :: string
  tb_target_public_id :: string
  tb_desired_state_version :: int
  tb_adapter_service_key :: string
  tb_environment :: string
  tb_correlation_id :: string
  tb_transition_sequence :: int
  tb_transition_hash :: string
  tb_occurred_at :: datetime

definition transition_binding :: "tel_env \<Rightarrow> tel_transition_body \<Rightarrow> json" where
  "transition_binding env b =
     JObj [(''schema_version'', JStr (tb_schema_version b)),
           (''command_public_id'', JStr (tb_command_public_id b)), (''state'', JStr (tb_state b)),
           (''target_system'', JStr (tb_target_system b)),
           (''target_resource_type'', JStr (tb_target_resource_type b)),
           (''target_public_id'', JStr (tb_target_public_id b)),
           (''desired_state_version'', JInt (tb_desired_state_version b)),
           (''adapter_service_key'', JStr (tb_adapter_service_key b)),
           (''environment'', JStr (tb_environment b)), (''correlation_id'', JStr (tb_correlation_id b)),
           (''transition_sequence'', JInt (tb_transition_sequence b)),
           (''occurred_at'', JStr (te_json_datetime env (tb_occurred_at b)))]"

definition OPERATION_TRANSITIONS :: "string \<Rightarrow> string set" where
  "OPERATION_TRANSITIONS s =
     (if s = ''REGISTERED'' then {''APPLYING'', ''FAILED''}
      else if s = ''APPLYING'' then {''APPLIED'', ''FAILED'', ''COMPENSATION_REQUIRED''}
      else if s = ''APPLIED'' then {''READBACK_PENDING'', ''COMPENSATION_REQUIRED''}
      else if s = ''READBACK_PENDING'' then {''READBACK_VERIFIED'', ''READBACK_MISMATCH'', ''FAILED''}
      else if s = ''READBACK_VERIFIED'' then {''SUCCEEDED''}
      else if s = ''READBACK_MISMATCH'' then {''COMPENSATION_REQUIRED'', ''FAILED''}
      else if s = ''COMPENSATION_REQUIRED'' then {''COMPENSATED'', ''FAILED''}
      else {})"

text \<open>The binding of a transition to its operation and command.\<close>

definition transition_mismatch :: "tel_env \<Rightarrow> tel_db \<Rightarrow> tel_operation \<Rightarrow> tel_transition_body \<Rightarrow> bool" where
  "transition_mismatch env db row b \<longleftrightarrow>
     (case find_command (oj_command_id row) db of
        None \<Rightarrow> True
      | Some c \<Rightarrow> cj_command_public_id c \<noteq> tb_command_public_id b
                  \<or> cr_environment (cj_request c) \<noteq> tb_environment b)
     \<or> oj_correlation_id row \<noteq> tb_correlation_id b
     \<or> oj_target_system row \<noteq> tb_target_system b
     \<or> oj_target_resource_type row \<noteq> tb_target_resource_type b
     \<or> oj_target_public_id row \<noteq> tb_target_public_id b
     \<or> oj_desired_state_version row \<noteq> tb_desired_state_version b
     \<or> oj_adapter_service_key row \<noteq> tb_adapter_service_key b
     \<or> payload_hash env (transition_binding env b) \<noteq> removeprefix ''sha256:'' (tb_transition_hash b)"

definition transition_operation ::
  "tel_env \<Rightarrow> instant \<Rightarrow> string \<Rightarrow> tel_transition_body \<Rightarrow> (tel_db, string \<times> string) call" where
  "transition_operation env now pid b db =
     (case sql_first (\<lambda>x. oj_operation_public_id x = pid) (tj_operations db) of
        None \<Rightarrow> (Inl (HTTPException 404 ''operation not found''), db)
      | Some row \<Rightarrow>
          let binding = transition_binding env b;
              hash = removeprefix ''sha256:'' (tb_transition_hash b) in
          if transition_mismatch env db row b
          then (Inl (HTTPException 409 ''operation transition binding mismatch''), db)
          else case sql_first (\<lambda>t. ot_operation_id t = oj_operation_id row
                   \<and> (ot_sequence t = tb_transition_sequence b \<or> ot_transition_hash t = hash))
                 (tj_transitions db) of
            Some prior \<Rightarrow>
              if ot_binding prior \<noteq> binding
              then (Inl (HTTPException 409 ''conflicting operation transition''), db)
              else (Inr (ot_to_state prior, ''DUPLICATE''), db)
          | None \<Rightarrow>
              if tb_transition_sequence b \<noteq> oj_transition_sequence row + 1
              then (Inl (HTTPException 409 ''out-of-order operation transition''), db)
              else if tb_state b \<notin> OPERATION_TRANSITIONS (oj_state row)
              then (Inl (HTTPException 409 ''invalid operation transition''), db)
              else
                (Inr (tb_state b, ''NEW''),
                 update_operation (oj_operation_id row)
                   (\<lambda>x. x\<lparr>oj_state := tb_state b, oj_transition_sequence := tb_transition_sequence b,
                          oj_completed_at :=
                            if tb_state b \<in> {''SUCCEEDED'', ''FAILED'', ''COMPENSATED''} then Some now
                            else oj_completed_at x\<rparr>)
                   (db\<lparr>tj_transitions := tj_transitions db @
                      [\<lparr>ot_operation_id = oj_operation_id row, ot_command_id = oj_command_id row,
                        ot_sequence = tb_transition_sequence b, ot_from_state = oj_state row,
                        ot_to_state = tb_state b, ot_transition_hash = hash, ot_binding = binding,
                        ot_occurred_at = tb_occurred_at b\<rparr>]\<rparr>)))"

text \<open>
  \<open>create_terminal_result\<close>: the unique constraint of \<open>operation_id\<close> refuses a second result of
  one operation.
\<close>

definition create_terminal_result :: "tel_result_body \<Rightarrow> (tel_db, tel_result \<times> bool) call" where
  "create_terminal_result b db =
     (case sql_first (\<lambda>r. tm_result_public_id (rs_immutable r) = tm_result_public_id b) (tj_results db) of
        Some prior \<Rightarrow>
          if rs_immutable prior \<noteq> b
          then (Inl (HTTPException 409 ''IMMUTABLE_RESULT_BINDING_CONFLICT''), db)
          else (Inr (prior, True), db)
      | None \<Rightarrow>
          (case (sql_first (\<lambda>x. oj_operation_public_id x = tm_operation_public_id b) (tj_operations db),
                 command_named (tm_command_public_id b) db) of
             (Some x, Some c) \<Rightarrow>
               if oj_command_id x \<noteq> cj_command_id c
                  \<or> cr_correlation_id (cj_request c) \<noteq> tm_correlation_id b
                  \<or> cr_policy_decision_hash (cj_request c) \<noteq> removeprefix ''sha256:'' (tm_policy_hash b)
                  \<or> oj_target_system x \<noteq> tm_target_system b
                  \<or> oj_target_resource_type x \<noteq> tm_target_resource_type b
                  \<or> oj_target_public_id x \<noteq> tm_target_public_id b
                  \<or> oj_desired_state_version x \<noteq> tm_requested_state_version b
                  \<or> oj_adapter_service_key x \<noteq> tm_adapter_service_key b
               then (Inl (HTTPException 409 ''terminal result binding mismatch''), db)
               else if sql_exists (\<lambda>r. rs_operation_id r = oj_operation_id x) (tj_results db)
               then (Inl (IntegrityError ''telephony_terminal_result_operation_id''), db)
               else
                 let verified = (tm_readback_status b = ''READBACK_VERIFIED'');
                     row = \<lparr>rs_operation_id = oj_operation_id x, rs_command_id = cj_command_id c,
                            rs_result_hash = removeprefix ''sha256:'' (tm_result_hash b),
                            rs_application_hash = removeprefix ''sha256:'' (tm_application_hash b),
                            rs_readback_hash = removeprefix ''sha256:'' (tm_readback_hash b),
                            rs_policy_hash = removeprefix ''sha256:'' (tm_policy_hash b),
                            rs_status = tm_application_status b,
                            rs_reconciliation_status =
                              if verified then ''IN_SYNC'' else ''RECONCILIATION_REQUIRED'',
                            rs_immutable = b\<rparr>
                 in (Inr (row, False),
                     update_operation (oj_operation_id x)
                       (\<lambda>x. x\<lparr>oj_state := if verified then ''ODOO_RESULT_PENDING'' else ''READBACK_MISMATCH''\<rparr>)
                       (db\<lparr>tj_results := tj_results db @ [row]\<rparr>))
           | _ \<Rightarrow> (Inl (HTTPException 409 ''terminal result binding mismatch''), db)))"

definition create_reconciliation_run :: "tel_run_body \<Rightarrow> (tel_db, string \<times> string \<times> string) call" where
  "create_reconciliation_run b db =
     (case sql_first (\<lambda>r. rr_run_public_id (ru_body r) = rr_run_public_id b) (tj_runs db) of
        Some prior \<Rightarrow> (Inr (rr_run_public_id (ru_body prior), ru_status prior, ''DUPLICATE''), db)
      | None \<Rightarrow>
          let add = (\<lambda>cid. (Inr (rr_run_public_id b, ''REQUESTED'', ''NEW''),
                       db\<lparr>tj_runs := tj_runs db @
                         [\<lparr>ru_body = b, ru_command_id = cid, ru_status = ''REQUESTED''\<rparr>]\<rparr>)) in
          if falsy (rr_command_public_id b) then add None
          else case command_named (or_else (rr_command_public_id b) []) db of
            None \<Rightarrow> (Inl (HTTPException 404 ''command not found''), db)
          | Some c \<Rightarrow> add (Some (cj_command_id c)))"

section \<open>The registry client\<close>

text \<open>
  The exceptions the worker tells apart. \<open>TelephonyReadbackPending\<close> is a subclass of
  \<open>TelephonyClientError\<close>.
\<close>

datatype tel_error =
    TelephonyClientError string
  | TelephonyReadbackPending string
  | HTTPStatusError int
  | TimeoutException
  | OtherException pyerr

text \<open>The fields of \<open>ResolutionRequest\<close> and \<open>ResolvedEndpoint\<close> that the client sets and reads.\<close>

record tel_resolution =
  rn_environment :: string
  rn_endpoint_key :: string
  rn_business_unit_public_id :: string
  rn_campaign_public_id :: string
  rn_mutation :: bool

record tel_route =
  rt_endpoint_id :: string
  rt_endpoint_version_id :: string
  rt_service_key :: string
  rt_endpoint_key :: string
  rt_method :: string
  rt_base_url :: string
  rt_path :: string
  rt_target_attestation_required :: bool
  rt_configuration_checksum :: string

text \<open>
  What a call of the common service client gives: a response with its status and decoded body
  (\<open>None\<close> when the body is no JSON), or an exception.
\<close>

datatype tel_answer = TelResponse int "json option" | TelRaises tel_error

text \<open>
  The endpoint registry and the common service client: \<open>sv_resolve\<close> resolves a route,
  \<open>sv_request_resolved\<close> sends a body with an idempotency key over a route, \<open>sv_request\<close> resolves
  and sends.
\<close>

record tel_service =
  sv_resolve :: "tel_resolution \<Rightarrow> tel_error + tel_route"
  sv_request_resolved :: "tel_route \<Rightarrow> json \<Rightarrow> string \<Rightarrow> tel_answer"
  sv_request :: "tel_resolution \<Rightarrow> json \<Rightarrow> string \<Rightarrow> tel_answer"

definition tel_resolution_for :: "tel_request \<Rightarrow> string \<Rightarrow> bool \<Rightarrow> tel_resolution" where
  "tel_resolution_for r endpoint_key mutation =
     \<lparr>rn_environment = cr_environment r, rn_endpoint_key = endpoint_key,
      rn_business_unit_public_id = cr_business_unit_public_id r,
      rn_campaign_public_id = cr_campaign_public_id r, rn_mutation = mutation\<rparr>"

text \<open>\<open>raise_for_status()\<close> and \<open>json()\<close> of a response.\<close>

definition answer_json :: "tel_answer \<Rightarrow> tel_error + json" where
  "answer_json a =
     (case a of
        TelRaises e \<Rightarrow> Inl e
      | TelResponse status body \<Rightarrow>
          if \<not> (200 \<le> status \<and> status < 300) then Inl (HTTPStatusError status)
          else case body of None \<Rightarrow> Inl (OtherException (ValueError ''json'')) | Some v \<Rightarrow> Inr v)"

definition attest :: "tel_env \<Rightarrow> tel_service \<Rightarrow> tel_route \<Rightarrow> string \<Rightarrow> string \<Rightarrow> string \<Rightarrow> tel_error + bool" where
  "attest env svc route environment endpoint_key correlation_id =
     (let identity = payload_hash env (JObj
            [(''service_key'', JStr (rt_service_key route)), (''endpoint_key'', JStr (rt_endpoint_key route)),
             (''endpoint_id'', JStr (rt_endpoint_id route)),
             (''endpoint_version_id'', JStr (rt_endpoint_version_id route)),
             (''configuration_checksum'', JStr (rt_configuration_checksum route)),
             (''method'', JStr (rt_method route)),
             (''base_url_hash'', JStr (payload_hash env (JStr (rt_base_url route)))),
             (''path_hash'', JStr (payload_hash env (JStr (rt_path route))))]);
          sent = [(''endpoint_key'', JStr endpoint_key),
                  (''configuration_checksum'', JStr (rt_configuration_checksum route)),
                  (''endpoint_version_id'', JStr (rt_endpoint_version_id route)),
                  (''route_identity_hash'', JStr identity)] in
      case answer_json (sv_request svc
             \<lparr>rn_environment = environment, rn_endpoint_key = ''telephony.service.attest'',
              rn_business_unit_public_id = [], rn_campaign_public_id = [], rn_mutation = False\<rparr>
             (JObj sent) correlation_id) of
        Inl e \<Rightarrow> Inl e
      | Inr (JObj v) \<Rightarrow>
          Inr (map_of v ''service_key'' = Some (JStr ''telephony-adapter'')
               \<and> list_all (\<lambda>(k, x). map_of v k = Some x) sent)
      | Inr _ \<Rightarrow> Inr False)"

text \<open>The dict a dispatch returns.\<close>

record tel_submission =
  sb_operation_public_id :: string
  sb_adapter_operation_id :: string
  sb_adapter_service_key :: string
  sb_endpoint_id :: string
  sb_endpoint_version_id :: string
  sb_endpoint_key :: string
  sb_readback_endpoint_key :: string
  sb_target_configuration_checksum :: string
  sb_target_attested :: bool
  sb_desired_hash :: string
  sb_ambiguous :: bool

definition command_ref :: "string \<Rightarrow> tel_request \<Rightarrow> string" where
  "command_ref command_id r = or_else (cr_command_public_id r) command_id"

definition dispatch_key :: "tel_env \<Rightarrow> string \<Rightarrow> tel_request \<Rightarrow> string \<Rightarrow> string \<Rightarrow> string" where
  "dispatch_key env command_id r endpoint_id version_id =
     payload_hash env (JObj
       [(''command_public_id'', JStr (command_ref command_id r)),
        (''resolved_endpoint_id'', JStr endpoint_id),
        (''endpoint_configuration_version'', JStr version_id)])"

definition client_dispatch ::
  "tel_env \<Rightarrow> tel_service \<Rightarrow> string \<Rightarrow> tel_request \<Rightarrow> tel_error + tel_submission" where
  "client_dispatch env svc command_id r =
     (let endpoint_key = MUTATION_ENDPOINTS (cr_command_type r) in
      case sv_resolve svc (tel_resolution_for r endpoint_key True) of
        Inl e \<Rightarrow> Inl e
      | Inr route \<Rightarrow>
          if \<not> rt_target_attestation_required route
          then Inl (TelephonyClientError ''telephony mutation route must require attestation'')
          else case attest env svc route (cr_environment r) endpoint_key (cr_correlation_id r) of
            Inl e \<Rightarrow> Inl e
          | Inr False \<Rightarrow> Inl (TelephonyClientError ''telephony target attestation failed'')
          | Inr True \<Rightarrow>
              let key = dispatch_key env command_id r (rt_endpoint_id route) (rt_endpoint_version_id route);
                  submission = (\<lambda>public_id adapter_id ambiguous.
                    \<lparr>sb_operation_public_id = public_id, sb_adapter_operation_id = adapter_id,
                     sb_adapter_service_key = rt_service_key route, sb_endpoint_id = rt_endpoint_id route,
                     sb_endpoint_version_id = rt_endpoint_version_id route, sb_endpoint_key = endpoint_key,
                     sb_readback_endpoint_key = READBACK_ENDPOINTS (cr_command_type r),
                     sb_target_configuration_checksum = rt_configuration_checksum route,
                     sb_target_attested = True,
                     sb_desired_hash = payload_hash env (JObj (tel_desired_state r)),
                     sb_ambiguous = ambiguous\<rparr>);
                  answer = sv_request_resolved svc route
                    (JObj ((''command_id'', JStr command_id) # request_dump env r)) key in
              if answer = TelRaises TimeoutException
              then Inr (submission (''OPR-'' @ take 32 key) key True)
              else case answer_json answer of
                Inl e \<Rightarrow> Inl e
              | Inr (JObj kvs) \<Rightarrow>
                  (case map_of kvs ''operation_id'' of
                     Some v \<Rightarrow>
                       if \<not> truthy v
                       then Inl (TelephonyClientError ''invalid telephony operation acknowledgement'')
                       else if 144 < length (py_str v)
                       then Inl (TelephonyClientError ''telephony operation ID is invalid'')
                       else Inr (submission
                              (''OPR-'' @ take 32 (payload_hash env (JObj
                                 [(''command_public_id'', JStr (command_ref command_id r)),
                                  (''adapter_operation_id'', JStr (py_str v))])))
                              (py_str v) False)
                   | None \<Rightarrow> Inl (TelephonyClientError ''invalid telephony operation acknowledgement''))
              | Inr _ \<Rightarrow> Inl (TelephonyClientError ''invalid telephony operation acknowledgement''))"

text \<open>The dict a readback returns, and what it reads of the operation.\<close>

record tel_readback =
  rb_actual :: json
  rb_actual_hash :: string
  rb_readback_matches :: bool

record tel_handle =
  hd_operation_id :: string
  hd_desired_hash :: string

definition client_readback ::
  "tel_env \<Rightarrow> tel_service \<Rightarrow> tel_request \<Rightarrow> tel_handle \<Rightarrow> tel_error + tel_readback" where
  "client_readback env svc r operation =
     (let answer = sv_request svc
            (tel_resolution_for r (READBACK_ENDPOINTS (cr_command_type r)) False)
            (JObj [(''operation_id'', JStr (hd_operation_id operation)),
                   (''aggregate_public_id'', JStr (cr_aggregate_public_id r)),
                   (''allocation_reservation_id'', JStr (pl_allocation_reservation_id (cr_payload r)))])
            (cr_idempotency_key r) in
      if (case answer of TelResponse status _ \<Rightarrow> status = 404 | _ \<Rightarrow> False)
      then Inl (TelephonyReadbackPending ''acknowledged telephony operation is not yet visible'')
      else case answer_json answer of
        Inl e \<Rightarrow> Inl e
      | Inr (JObj actual) \<Rightarrow>
          (case normalized_actual_state r actual of
             Inl (ValueError m) \<Rightarrow> Inl (TelephonyClientError m)
           | Inl e \<Rightarrow> Inl (OtherException e)
           | Inr normalized \<Rightarrow>
               let h = payload_hash env (JObj normalized) in
               Inr \<lparr>rb_actual = JObj actual, rb_actual_hash = h,
                    rb_readback_matches = (h = hd_desired_hash operation)\<rparr>)
      | Inr _ \<Rightarrow> Inl (TelephonyClientError ''invalid telephony readback''))"

section \<open>The worker\<close>

text \<open>The interface \<open>TelephonyDispatcher\<close>, and the registry client as one.\<close>

record tel_dispatcher =
  td_dispatch :: "string \<Rightarrow> tel_request \<Rightarrow> tel_error + tel_submission"
  td_readback :: "tel_request \<Rightarrow> tel_handle \<Rightarrow> tel_error + tel_readback"

definition service_dispatcher :: "tel_env \<Rightarrow> tel_service \<Rightarrow> tel_dispatcher" where
  "service_dispatcher env svc =
     \<lparr>td_dispatch = client_dispatch env svc, td_readback = client_readback env svc\<rparr>"

abbreviation LEASE_SECONDS :: int where "LEASE_SECONDS \<equiv> 120"

abbreviation TEL_MAX_ATTEMPTS :: int where "TEL_MAX_ATTEMPTS \<equiv> 8"

definition tel_due :: "instant \<Rightarrow> tel_command \<Rightarrow> bool" where
  "tel_due now c \<longleftrightarrow>
     (cj_state c \<in> {AUTHORIZED, FAILED_TRANSIENT, READBACK_PENDING}
      \<and> (case cj_next_attempt_at c of None \<Rightarrow> True | Some t \<Rightarrow> t \<le> now))
     \<or> (cj_state c = SUBMITTING \<and> (case cj_next_attempt_at c of None \<Rightarrow> False | Some t \<Rightarrow> t \<le> now))"

definition claim_authorized ::
  "instant \<Rightarrow> (uuid \<Rightarrow> bool) \<Rightarrow> string \<Rightarrow> string \<Rightarrow> tel_db \<Rightarrow> uuid option \<times> tel_db" where
  "claim_authorized now locked owner environment db =
     (case first_by cj_created_at
             (filter (\<lambda>c. cr_environment (cj_request c) = environment \<and> tel_due now c
                          \<and> \<not> locked (cj_command_id c)) (tj_commands db)) of
        None \<Rightarrow> (None, db)
      | Some c \<Rightarrow>
          (Some (cj_command_id c),
           update_command (cj_command_id c)
             (\<lambda>c. c\<lparr>cj_state := SUBMITTING, cj_attempt_count := cj_attempt_count c + 1,
                    cj_lease_owner := Some owner, cj_next_attempt_at := Some (now + secs LEASE_SECONDS),
                    cj_updated_at := now\<rparr>) db))"

text \<open>The guard that \<open>_renew_lease\<close>, \<open>_record_failure\<close>, \<open>_persist_submission\<close> and the finalisation share.\<close>

definition held :: "uuid \<Rightarrow> string \<Rightarrow> tel_db \<Rightarrow> bool" where
  "held cid owner db \<longleftrightarrow>
     (case find_command cid db of
        None \<Rightarrow> False
      | Some c \<Rightarrow> cj_state c = SUBMITTING \<and> cj_lease_owner c = Some owner)"

text \<open>One turn of the loop of \<open>_renew_lease\<close>: whether the loop goes on.\<close>

definition tel_renew_lease :: "instant \<Rightarrow> uuid \<Rightarrow> string \<Rightarrow> tel_db \<Rightarrow> bool \<times> tel_db" where
  "tel_renew_lease now cid owner db =
     (if \<not> held cid owner db then (False, db)
      else (True, update_command cid
              (\<lambda>c. c\<lparr>cj_next_attempt_at := Some (now + secs LEASE_SECONDS), cj_updated_at := now\<rparr>) db))"

text \<open>
  \<open>_run_while_lease\<close>: the answer of the call, unless the renewal of the lease ended first.
\<close>

definition run_while_lease :: "bool \<Rightarrow> tel_error + 'a \<Rightarrow> tel_error + 'a" where
  "run_while_lease stopped answer =
     (if stopped then Inl (OtherException (RuntimeError ''telephony command lease renewal stopped''))
      else answer)"

fun tel_permanent :: "tel_error \<Rightarrow> bool" where
  "tel_permanent (TelephonyReadbackPending _) = False"
| "tel_permanent (TelephonyClientError _) = True"
| "tel_permanent (HTTPStatusError status) = (400 \<le> status \<and> status < 500 \<and> status \<notin> {408, 409, 425, 429})"
| "tel_permanent _ = False"

definition validate_policy_for_dispatch ::
  "tel_env \<Rightarrow> instant \<Rightarrow> tel_request \<Rightarrow> tel_decision option \<Rightarrow> tel_error + unit" where
  "validate_policy_for_dispatch env now r decision =
     (case decision of
        None \<Rightarrow> Inl (TelephonyClientError ''telephony policy decision is unavailable'')
      | Some d \<Rightarrow>
          if pd_correlation_id d \<noteq> cr_correlation_id r
          then Inl (TelephonyClientError ''telephony policy correlation changed'')
          else if payload_hash env (JObj (pd_context d)) \<noteq> cr_policy_decision_hash r
          then Inl (TelephonyClientError ''telephony policy decision changed'')
          else if \<not> same_dict (map_of (pd_context d) ''authorization_scope'') (policy_scope r)
          then Inl (TelephonyClientError ''telephony policy scope changed'')
          else if \<not> decision_enforced d
          then Inl (TelephonyClientError ''telephony policy no longer authorizes dispatch'')
          else case decision_expiration env d of
            None \<Rightarrow> Inl (TelephonyClientError ''telephony policy expiration is invalid'')
          | Some e \<Rightarrow>
              if decision_open now e then Inr ()
              else Inl (TelephonyClientError ''telephony policy authorization expired''))"

definition failed_command :: "instant \<Rightarrow> tel_error \<Rightarrow> tel_command \<Rightarrow> tel_command" where
  "failed_command now e c =
     (let permanent = (tel_permanent e \<or> TEL_MAX_ATTEMPTS \<le> cj_attempt_count c) in
      c\<lparr>cj_state := if permanent then FAILED_PERMANENT else FAILED_TRANSIENT,
        cj_next_attempt_at :=
          if permanent then None
          else Some (now + secs (min 300 (2 ^ nat (min (cj_attempt_count c) 8)))),
        cj_lease_owner := None, cj_updated_at := now\<rparr>)"

definition tel_record_failure :: "instant \<Rightarrow> uuid \<Rightarrow> string \<Rightarrow> tel_error \<Rightarrow> tel_db \<Rightarrow> tel_db" where
  "tel_record_failure now cid owner e db =
     (if \<not> held cid owner db then db else update_command cid (failed_command now e) db)"

text \<open>
  \<open>_persist_submission\<close>: the operation of a command is journalled once; a repeated submission must
  name the same operation. The worker keeps its lease.
\<close>

definition submitted_operation ::
  "tel_env \<Rightarrow> uuid \<Rightarrow> uuid \<Rightarrow> tel_request \<Rightarrow> tel_submission \<Rightarrow> tel_operation" where
  "submitted_operation env operation_id cid r s =
     \<lparr>oj_operation_id = operation_id, oj_operation_public_id = sb_operation_public_id s,
      oj_command_id = cid, oj_state = if sb_ambiguous s then ''AMBIGUOUS'' else ''SUBMITTED'',
      oj_adapter_service_key = sb_adapter_service_key s,
      oj_adapter_operation_id = sb_adapter_operation_id s, oj_target_system = tel_target_system r,
      oj_target_resource_type =
        if \<not> falsy (pl_endpoint_public_id (cr_payload r)) then ''ENDPOINT''
        else if \<not> falsy (pl_phone_public_id (cr_payload r)) then ''PHONE'' else ''USER'',
      oj_target_public_id = tel_target_public_id r,
      oj_desired_state_version = pl_desired_state_version (cr_payload r),
      oj_idempotency_hash = dispatch_key env (str_uuid cid) r (sb_endpoint_id s) (sb_endpoint_version_id s),
      oj_transition_sequence = 0, oj_endpoint_key = sb_endpoint_key s,
      oj_readback_endpoint_key = sb_readback_endpoint_key s,
      oj_target_configuration_checksum = sb_target_configuration_checksum s,
      oj_target_attested = sb_target_attested s, oj_desired_hash = sb_desired_hash s,
      oj_actual_hash = None, oj_readback_matches = None, oj_correlation_id = cr_correlation_id r,
      oj_response_json = JObj [], oj_completed_at = None\<rparr>"

definition persist_submission ::
  "tel_env \<Rightarrow> instant \<Rightarrow> uuid \<Rightarrow> string \<Rightarrow> uuid \<Rightarrow> tel_request \<Rightarrow> tel_submission \<Rightarrow> (tel_db, unit) call" where
  "persist_submission env now cid owner operation_id r s db =
     (if \<not> held cid owner db
      then (Inl (RuntimeError ''telephony command submission ownership conflict''), db)
      else
        let row = submitted_operation env operation_id cid r s;
            keep = update_command cid
              (\<lambda>c. c\<lparr>cj_state := SUBMITTING, cj_next_attempt_at := Some (now + secs LEASE_SECONDS),
                     cj_lease_owner := Some owner, cj_updated_at := now\<rparr>) in
        case operation_of cid db of
          None \<Rightarrow>
            if sql_exists (\<lambda>x. oj_operation_id x = operation_id
                              \<or> oj_operation_public_id x = oj_operation_public_id row
                              \<or> oj_idempotency_hash x = oj_idempotency_hash row) (tj_operations db)
            then (Inl (IntegrityError ''telephony_operation_journal''), db)
            else (Inr (), keep (db\<lparr>tj_operations := tj_operations db @ [row]\<rparr>))
        | Some x \<Rightarrow>
            if oj_operation_public_id x \<noteq> sb_operation_public_id s
            then (Inl (RuntimeError ''adapter operation idempotency conflict''), db)
            else (Inr (), keep db))"

text \<open>
  The second transaction of \<open>dispatch_one\<close>: the request rebuilt and validated again from the
  journal, the operation already journalled, and otherwise the decision to check.
\<close>

definition load_claimed ::
  "instant \<Rightarrow> uuid \<Rightarrow> tel_db \<Rightarrow> tel_error + tel_request \<times> tel_handle option \<times> tel_decision option" where
  "load_claimed now cid db =
     (case find_command cid db of
        None \<Rightarrow> Inl (OtherException (RuntimeError ''claimed telephony command disappeared''))
      | Some c \<Rightarrow>
          (case request_valid now (cj_request c) of
             Inl e \<Rightarrow> Inl (OtherException e)
           | Inr _ \<Rightarrow>
               (case operation_of cid db of
                  Some x \<Rightarrow>
                    Inr (cj_request c, Some \<lparr>hd_operation_id = oj_operation_public_id x,
                                             hd_desired_hash = oj_desired_hash x\<rparr>, None)
                | None \<Rightarrow>
                    (case cr_policy_decision_id (cj_request c) of
                       None \<Rightarrow> Inl (OtherException (ValueError ''policy_decision_id''))
                     | Some i \<Rightarrow> Inr (cj_request c, None, find_decision i db)))))"

text \<open>The last transaction: the readback is recorded and the command leaves the worker.\<close>

definition finalize_dispatch ::
  "instant \<Rightarrow> uuid \<Rightarrow> string \<Rightarrow> tel_readback \<Rightarrow> (tel_db, TelephonyCommandState) call" where
  "finalize_dispatch now cid owner rb db =
     (case operation_of cid db of
        Some x \<Rightarrow>
          if held cid owner db
          then
            let state = (if rb_readback_matches rb then ODOO_RESULT_PENDING else RECONCILIATION_REQUIRED) in
            (Inr state,
             update_command cid
               (\<lambda>c. c\<lparr>cj_state := state, cj_next_attempt_at := None, cj_lease_owner := None,
                      cj_updated_at := now\<rparr>)
               (update_operation (oj_operation_id x)
                 (\<lambda>x. x\<lparr>oj_state := if rb_readback_matches rb then ''ODOO_RESULT_PENDING''
                                    else ''RECONCILIATION_REQUIRED'',
                        oj_actual_hash := Some (rb_actual_hash rb),
                        oj_readback_matches := Some (rb_readback_matches rb),
                        oj_response_json := rb_actual rb, oj_completed_at := Some now\<rparr>) db))
          else (Inl (RuntimeError ''telephony command finalization state conflict''), db)
      | None \<Rightarrow> (Inl (RuntimeError ''telephony command finalization state conflict''), db))"

text \<open>
  One run of \<open>dispatch_one\<close>: its owner token and the identifier of the operation it may journal,
  the rows other transactions lock, the times of its transactions, what other transactions (the
  renewals of the lease among them) commit between its own, and whether the renewal of the lease
  ended during the dispatch or the readback.
\<close>

record tel_schedule =
  sc_owner :: string
  sc_operation_id :: uuid
  sc_locked :: "uuid \<Rightarrow> bool"
  sc_clock :: "nat \<Rightarrow> instant"
  sc_others :: "nat \<Rightarrow> tel_db \<Rightarrow> tel_db"
  sc_stopped :: "nat \<Rightarrow> bool"

text \<open>The first half of the \<open>try\<close> block: the operation already journalled, or a new submission.\<close>

definition submit_claimed ::
  "tel_env \<Rightarrow> tel_dispatcher \<Rightarrow> tel_schedule \<Rightarrow> uuid \<Rightarrow> tel_request \<Rightarrow> tel_handle option \<Rightarrow> tel_decision option
   \<Rightarrow> tel_db \<Rightarrow> (tel_error + tel_handle) \<times> tel_db" where
  "submit_claimed env disp sc cid r operation decision db =
     (case operation of
        Some h \<Rightarrow> (Inr h, db)
      | None \<Rightarrow>
          (case validate_policy_for_dispatch env (sc_clock sc 2) r decision of
             Inl e \<Rightarrow> (Inl e, db)
           | Inr _ \<Rightarrow>
               let db = sc_others sc 1 (db\<lparr>tj_dispatched := tj_dispatched db @ [(cid, r)]\<rparr>) in
               (case run_while_lease (sc_stopped sc 0) (td_dispatch disp (str_uuid cid) r) of
                  Inl e \<Rightarrow> (Inl e, db)
                | Inr s \<Rightarrow>
                    (case persist_submission env (sc_clock sc 3) cid (sc_owner sc) (sc_operation_id sc) r s db of
                       (Inl e, db) \<Rightarrow> (Inl (OtherException e), db)
                     | (Inr _, db) \<Rightarrow>
                         (Inr \<lparr>hd_operation_id = sb_operation_public_id s,
                               hd_desired_hash = sb_desired_hash s\<rparr>, db)))))"

definition dispatch_one ::
  "tel_env \<Rightarrow> tel_dispatcher \<Rightarrow> tel_schedule \<Rightarrow> string \<Rightarrow> tel_db
   \<Rightarrow> (tel_error + (uuid \<times> string \<times> TelephonyCommandState) option) \<times> tel_db" where
  "dispatch_one env disp sc environment db =
     (case claim_authorized (sc_clock sc 0) (sc_locked sc) (sc_owner sc) environment db of
        (None, db) \<Rightarrow> (Inr None, db)
      | (Some cid, db) \<Rightarrow>
          let db = sc_others sc 0 db in
          (case load_claimed (sc_clock sc 1) cid db of
             Inl e \<Rightarrow> (Inl e, db)
           | Inr (r, operation, decision) \<Rightarrow>
               (case submit_claimed env disp sc cid r operation decision db of
                  (Inl e, db) \<Rightarrow> (Inl e, tel_record_failure (sc_clock sc 4) cid (sc_owner sc) e (sc_others sc 2 db))
                | (Inr h, db) \<Rightarrow>
                    let db = sc_others sc 2 db in
                    (case run_while_lease (sc_stopped sc 1) (td_readback disp r h) of
                       Inl e \<Rightarrow> (Inl e, tel_record_failure (sc_clock sc 4) cid (sc_owner sc) e db)
                     | Inr rb \<Rightarrow>
                         (case finalize_dispatch (sc_clock sc 4) cid (sc_owner sc) rb (sc_others sc 3 db) of
                            (Inl e, db) \<Rightarrow> (Inl (OtherException e), db)
                          | (Inr state, db) \<Rightarrow> (Inr (Some (cid, hd_operation_id h, state)), db))))))"

end
