(* ===== verification/Telephony_Properties.thy ===== *)
theory Telephony_Properties
  imports Telephony
begin

text \<open>
  The telephony journals under every interleaving of the API, the policy engine and any number of
  workers: uniqueness of the journal entries, leases and attempts, the transition log of an
  operation, and the authorisation of everything handed to the dispatcher.
\<close>

section \<open>Steps of the system\<close>

text \<open>
  Each rule is one committed transaction, with arguments of any value; \<open>dispatch\<close> is the call of
  the dispatcher, which a worker makes with the request of a journalled command and a decision it
  has found and validated. Decisions are only added.
\<close>

inductive tel_step :: "tel_env \<Rightarrow> tel_db \<Rightarrow> tel_db \<Rightarrow> bool" for env where
  decide: "pd_id d \<notin> pd_id ` set (tj_decisions s) \<Longrightarrow>
    tel_step env s (s\<lparr>tj_decisions := tj_decisions s @ [d]\<rparr>)"
| create: "tel_step env s (snd (tel_create_command env now i k b s))"
| cancel: "tel_step env s (snd (tel_cancel_command now pid s))"
| register: "tel_step env s (snd (register_operation env now i g s))"
| transition: "tel_step env s (snd (transition_operation env now pid tb s))"
| result: "tel_step env s (snd (create_terminal_result rb s))"
| run: "tel_step env s (snd (create_reconciliation_run rr s))"
| claim: "tel_step env s (snd (claim_authorized now locked owner environment s))"
| renew: "tel_step env s (snd (tel_renew_lease now cid owner s))"
| failure: "tel_step env s (tel_record_failure now cid owner e s)"
| dispatch: "find_command cid s = Some c \<Longrightarrow> cr_policy_decision_id (cj_request c) = Some i \<Longrightarrow>
    find_decision i s = Some d \<Longrightarrow>
    validate_policy_for_dispatch env now (cj_request c) (Some d) = Inr () \<Longrightarrow>
    tel_step env s (s\<lparr>tj_dispatched := tj_dispatched s @ [(cid, cj_request c)]\<rparr>)"
| persist: "tel_step env s (snd (persist_submission env now cid owner i r sb s))"
| finalize: "tel_step env s (snd (finalize_dispatch now cid owner back s))"

definition tel_empty :: tel_db where
  "tel_empty = \<lparr>tj_commands = [], tj_operations = [], tj_transitions = [], tj_results = [], tj_runs = [],
     tj_decisions = [], tj_dispatched = []\<rparr>"

text \<open>What no transaction changes of a command.\<close>

definition command_key :: "tel_command \<Rightarrow> uuid \<times> string \<times> string \<times> tel_request" where
  "command_key c = (cj_command_id c, cj_command_public_id c, cj_idempotency_hash c, cj_request c)"

definition operation_key :: "tel_operation \<Rightarrow> uuid \<times> uuid \<times> string" where
  "operation_key x = (oj_operation_id x, oj_command_id x, oj_operation_public_id x)"

section \<open>Invariants\<close>

definition version_key :: "tel_command \<Rightarrow> (string \<times> string \<times> string) \<times> int" where
  "version_key c = (aggregate_key (cj_request c), cr_aggregate_version (cj_request c))"

definition commands_unique :: "tel_command list \<Rightarrow> bool" where
  "commands_unique cs \<longleftrightarrow>
     distinct (map cj_command_id cs) \<and> distinct (map cj_command_public_id cs)
     \<and> distinct (map cj_idempotency_hash cs) \<and> distinct (map version_key cs)"

definition lease_sound :: "tel_command \<Rightarrow> bool" where
  "lease_sound c \<longleftrightarrow>
     0 \<le> cj_attempt_count c
     \<and> (cj_state c = SUBMITTING \<longrightarrow>
          cj_lease_owner c \<noteq> None \<and> cj_next_attempt_at c \<noteq> None \<and> 1 \<le> cj_attempt_count c)
     \<and> (cj_state c = FAILED_TRANSIENT \<longrightarrow> 1 \<le> cj_attempt_count c \<and> cj_attempt_count c < TEL_MAX_ATTEMPTS)"

definition operations_unique :: "tel_db \<Rightarrow> bool" where
  "operations_unique s \<longleftrightarrow>
     distinct (map oj_operation_id (tj_operations s)) \<and> distinct (map oj_command_id (tj_operations s))
     \<and> distinct (map oj_operation_public_id (tj_operations s))
     \<and> oj_command_id ` set (tj_operations s) \<subseteq> cj_command_id ` set (tj_commands s)"

definition log_of :: "tel_db \<Rightarrow> tel_operation \<Rightarrow> tel_transition list" where
  "log_of s x = filter (\<lambda>t. ot_operation_id t = oj_operation_id x) (tj_transitions s)"

definition logs_sound :: "tel_db \<Rightarrow> bool" where
  "logs_sound s \<longleftrightarrow>
     (\<forall>x\<in>set (tj_operations s). map ot_sequence (log_of s x) = [1..oj_transition_sequence x]
        \<and> 0 \<le> oj_transition_sequence x)
     \<and> (\<forall>t\<in>set (tj_transitions s). ot_to_state t \<in> OPERATION_TRANSITIONS (ot_from_state t)
          \<and> ot_operation_id t \<in> oj_operation_id ` set (tj_operations s))"

definition authorises :: "tel_env \<Rightarrow> tel_decision \<Rightarrow> tel_request \<Rightarrow> bool" where
  "authorises env d r \<longleftrightarrow>
     cr_policy_decision_id r = Some (pd_id d) \<and> pd_correlation_id d = cr_correlation_id r
     \<and> payload_hash env (JObj (pd_context d)) = cr_policy_decision_hash r
     \<and> same_dict (map_of (pd_context d) ''authorization_scope'') (policy_scope r)
     \<and> decision_enforced d"

definition dispatches_authorised :: "tel_env \<Rightarrow> tel_db \<Rightarrow> bool" where
  "dispatches_authorised env s \<longleftrightarrow>
     (\<forall>(cid, r)\<in>set (tj_dispatched s).
        (cid, r) \<in> (\<lambda>c. (cj_command_id c, cj_request c)) ` set (tj_commands s)
        \<and> (\<exists>d\<in>set (tj_decisions s). authorises env d r))"

definition tel_sound :: "tel_env \<Rightarrow> tel_db \<Rightarrow> bool" where
  "tel_sound env s \<longleftrightarrow>
     commands_unique (tj_commands s) \<and> list_all lease_sound (tj_commands s) \<and> operations_unique s
     \<and> logs_sound s \<and> distinct (map rs_operation_id (tj_results s)) \<and> dispatches_authorised env s"

section \<open>Elementary effects\<close>

text \<open>
  Every transaction is a sequence of these effects on single rows; that the invariant holds is
  shown for the effects.
\<close>

inductive tel_effect :: "tel_env \<Rightarrow> tel_db \<Rightarrow> tel_db \<Rightarrow> bool" for env where
  command_changed: "find_command cid s = Some c \<Longrightarrow> (lease_sound c \<Longrightarrow> lease_sound (f c)) \<Longrightarrow>
    (\<And>c. command_key (f c) = command_key c) \<Longrightarrow> tel_effect env s (update_command cid f s)"
| command_added: "cj_command_id c \<notin> cj_command_id ` set (tj_commands s) \<Longrightarrow>
    cj_command_public_id c \<notin> cj_command_public_id ` set (tj_commands s) \<Longrightarrow>
    cj_idempotency_hash c \<notin> cj_idempotency_hash ` set (tj_commands s) \<Longrightarrow>
    version_key c \<notin> version_key ` set (tj_commands s) \<Longrightarrow> lease_sound c \<Longrightarrow>
    tel_effect env s (s\<lparr>tj_commands := tj_commands s @ [c]\<rparr>)"
| operation_changed: "(\<And>x. operation_key (g x) = operation_key x) \<Longrightarrow>
    (\<And>x. oj_transition_sequence (g x) = oj_transition_sequence x) \<Longrightarrow>
    tel_effect env s (update_operation i g s)"
| operation_added: "oj_operation_id x \<notin> oj_operation_id ` set (tj_operations s) \<Longrightarrow>
    oj_command_id x \<notin> oj_command_id ` set (tj_operations s) \<Longrightarrow>
    oj_operation_public_id x \<notin> oj_operation_public_id ` set (tj_operations s) \<Longrightarrow>
    oj_command_id x \<in> cj_command_id ` set (tj_commands s) \<Longrightarrow> oj_transition_sequence x = 0 \<Longrightarrow>
    tel_effect env s (s\<lparr>tj_operations := tj_operations s @ [x]\<rparr>)"
| logged: "x \<in> set (tj_operations s) \<Longrightarrow> ot_operation_id t = oj_operation_id x \<Longrightarrow>
    ot_sequence t = oj_transition_sequence x + 1 \<Longrightarrow>
    ot_to_state t \<in> OPERATION_TRANSITIONS (ot_from_state t) \<Longrightarrow>
    (\<And>y. operation_key (g y) = operation_key y) \<Longrightarrow>
    (\<And>y. oj_transition_sequence (g y) = ot_sequence t) \<Longrightarrow>
    tel_effect env s (update_operation (oj_operation_id x) g (s\<lparr>tj_transitions := tj_transitions s @ [t]\<rparr>))"
| result_added: "rs_operation_id r \<notin> rs_operation_id ` set (tj_results s) \<Longrightarrow>
    tel_effect env s (s\<lparr>tj_results := tj_results s @ [r]\<rparr>)"
| runs_changed: "tel_effect env s (s\<lparr>tj_runs := rs\<rparr>)"
| decision_added: "tel_effect env s (s\<lparr>tj_decisions := tj_decisions s @ [d]\<rparr>)"
| dispatched: "find_command cid s = Some c \<Longrightarrow> d \<in> set (tj_decisions s) \<Longrightarrow>
    authorises env d (cj_request c) \<Longrightarrow>
    tel_effect env s (s\<lparr>tj_dispatched := tj_dispatched s @ [(cid, cj_request c)]\<rparr>)"

lemma find_command_Some: "find_command cid s = Some c \<Longrightarrow> c \<in> set (tj_commands s) \<and> cj_command_id c = cid"
  unfolding find_command_def by (rule sql_first_Some)

lemma command_named_Some:
  "command_named pid s = Some c \<Longrightarrow> c \<in> set (tj_commands s) \<and> cj_command_public_id c = pid"
  unfolding command_named_def by (rule sql_first_Some)

lemma find_decision_Some: "find_decision i s = Some d \<Longrightarrow> d \<in> set (tj_decisions s) \<and> pd_id d = i"
  unfolding find_decision_def by (rule sql_first_Some)

lemma operation_of_Some: "operation_of cid s = Some x \<Longrightarrow> x \<in> set (tj_operations s) \<and> oj_command_id x = cid"
  unfolding operation_of_def by (rule sql_first_Some)

lemma find_command_unique:
  assumes "distinct (map cj_command_id (tj_commands s))" "c \<in> set (tj_commands s)"
  shows "find_command (cj_command_id c) s = Some c"
proof (cases "find_command (cj_command_id c) s")
  case None
  with assms(2) show ?thesis by (auto simp: find_command_def sql_first_None)
next
  case (Some d)
  with find_command_Some[OF Some] distinct_key_unique[OF assms(1), of d c] assms(2) show ?thesis by simp
qed

lemma update_command_frame [frame, simp]:
  "tj_operations (update_command i f s) = tj_operations s"
  "tj_transitions (update_command i f s) = tj_transitions s"
  "tj_results (update_command i f s) = tj_results s"
  "tj_decisions (update_command i f s) = tj_decisions s"
  "tj_dispatched (update_command i f s) = tj_dispatched s"
  by (simp_all add: update_command_def)

lemma update_operation_frame [frame, simp]:
  "tj_commands (update_operation i g s) = tj_commands s"
  "tj_transitions (update_operation i g s) = tj_transitions s"
  "tj_results (update_operation i g s) = tj_results s"
  "tj_decisions (update_operation i g s) = tj_decisions s"
  "tj_dispatched (update_operation i g s) = tj_dispatched s"
  by (simp_all add: update_operation_def)

lemma command_columns:
  assumes "\<And>c. command_key (f c) = command_key c"
  shows "cj_command_id (f c) = cj_command_id c" "cj_command_public_id (f c) = cj_command_public_id c"
    "cj_idempotency_hash (f c) = cj_idempotency_hash c" "cj_request (f c) = cj_request c"
    "version_key (f c) = version_key c"
  using assms[of c] by (simp_all add: command_key_def version_key_def)

lemma operation_columns:
  assumes "\<And>x. operation_key (g x) = operation_key x"
  shows "oj_operation_id (g x) = oj_operation_id x" "oj_command_id (g x) = oj_command_id x"
    "oj_operation_public_id (g x) = oj_operation_public_id x"
  using assms[of x] by (simp_all add: operation_key_def)

lemma update_command_keys:
  assumes "\<And>c. k (f c) = k c"
  shows "map k (tj_commands (update_command i f s)) = map k (tj_commands s)"
    "k ` set (tj_commands (update_command i f s)) = k ` set (tj_commands s)"
proof -
  show m: "map k (tj_commands (update_command i f s)) = map k (tj_commands s)"
    using assms by (simp add: update_command_def sql_update_keys)
  show "k ` set (tj_commands (update_command i f s)) = k ` set (tj_commands s)"
    using arg_cong[OF m, of set] by simp
qed

lemma update_operation_keys:
  assumes "\<And>x. k (g x) = k x"
  shows "map k (tj_operations (update_operation i g s)) = map k (tj_operations s)"
    "k ` set (tj_operations (update_operation i g s)) = k ` set (tj_operations s)"
proof -
  show m: "map k (tj_operations (update_operation i g s)) = map k (tj_operations s)"
    using assms by (simp add: update_operation_def sql_update_keys)
  show "k ` set (tj_operations (update_operation i g s)) = k ` set (tj_operations s)"
    using arg_cong[OF m, of set] by simp
qed

lemma tel_sound_command_changed:
  assumes "tel_sound env s" "find_command cid s = Some c" "lease_sound c \<Longrightarrow> lease_sound (f c)"
    and f: "\<And>c. command_key (f c) = command_key c"
  shows "tel_sound env (update_command cid f s)"
proof -
  note cols = command_columns[of f, OF f]
  from assms(1) have s: "commands_unique (tj_commands s)" "list_all lease_sound (tj_commands s)"
    "operations_unique s" "logs_sound s" "distinct (map rs_operation_id (tj_results s))"
    "dispatches_authorised env s" by (auto simp: tel_sound_def)
  have u: "commands_unique (tj_commands (update_command cid f s))"
    using s(1) unfolding commands_unique_def by (simp only: update_command_keys(1)[of cj_command_id f, OF cols(1)]
      update_command_keys(1)[of cj_command_public_id f, OF cols(2)] update_command_keys(1)[of cj_idempotency_hash f, OF cols(3)]
      update_command_keys(1)[of version_key f, OF cols(5)])
  have "lease_sound (f r)" if "r \<in> set (tj_commands s)" "cj_command_id r = cid" for r
    using find_command_unique[of s r] s(1,2) assms(2,3) that by (auto simp: commands_unique_def list_all_iff)
  then have l: "list_all lease_sound (tj_commands (update_command cid f s))"
    using s(2) by (auto simp: update_command_def list_all_iff in_sql_update)
  have o: "operations_unique (update_command cid f s)"
    using s(3) unfolding operations_unique_def by (simp add: update_command_keys(2)[of cj_command_id f, OF cols(1)])
  have g: "logs_sound (update_command cid f s)"
    using s(4) by (simp add: logs_sound_def log_of_def)
  have "(\<lambda>c. (cj_command_id c, cj_request c)) (f c) = (\<lambda>c. (cj_command_id c, cj_request c)) c" for c
    by (simp add: cols)
  from update_command_keys(2)[of "\<lambda>c. (cj_command_id c, cj_request c)" f, OF this]
  have "dispatches_authorised env (update_command cid f s)"
    using s(6) by (simp add: dispatches_authorised_def)
  with u l o g s(5) show ?thesis by (simp add: tel_sound_def)
qed

lemma tel_sound_command_added:
  assumes "tel_sound env s" "cj_command_id c \<notin> cj_command_id ` set (tj_commands s)"
    "cj_command_public_id c \<notin> cj_command_public_id ` set (tj_commands s)"
    "cj_idempotency_hash c \<notin> cj_idempotency_hash ` set (tj_commands s)"
    "version_key c \<notin> version_key ` set (tj_commands s)" "lease_sound c"
  shows "tel_sound env (s\<lparr>tj_commands := tj_commands s @ [c]\<rparr>)"
  using assms unfolding tel_sound_def commands_unique_def operations_unique_def logs_sound_def
    log_of_def dispatches_authorised_def
  by (auto simp: split_beta)

lemma tel_sound_operation_added:
  assumes "tel_sound env s" "oj_operation_id x \<notin> oj_operation_id ` set (tj_operations s)"
    "oj_command_id x \<notin> oj_command_id ` set (tj_operations s)"
    "oj_operation_public_id x \<notin> oj_operation_public_id ` set (tj_operations s)"
    "oj_command_id x \<in> cj_command_id ` set (tj_commands s)" "oj_transition_sequence x = 0"
  shows "tel_sound env (s\<lparr>tj_operations := tj_operations s @ [x]\<rparr>)"
proof -
  from assms(1) have s: "operations_unique s" "logs_sound s" by (auto simp: tel_sound_def)
  then have t: "\<forall>t\<in>set (tj_transitions s). ot_operation_id t \<in> oj_operation_id ` set (tj_operations s)"
    by (simp add: logs_sound_def)
  have "filter (\<lambda>t. ot_operation_id t = oj_operation_id x) (tj_transitions s) = []"
    unfolding filter_empty_conv using t assms(2) by metis
  then have "logs_sound (s\<lparr>tj_operations := tj_operations s @ [x]\<rparr>)"
    using s(2) assms(6) by (auto simp: logs_sound_def log_of_def)
  moreover have "operations_unique (s\<lparr>tj_operations := tj_operations s @ [x]\<rparr>)"
    using s(1) assms(2-5) by (simp add: operations_unique_def)
  ultimately show ?thesis using assms(1) by (simp add: tel_sound_def dispatches_authorised_def)
qed

lemma tel_sound_operation_changed:
  assumes "tel_sound env s" and g: "\<And>x. operation_key (g x) = operation_key x"
    and q: "\<And>x. oj_transition_sequence (g x) = oj_transition_sequence x"
  shows "tel_sound env (update_operation i g s)"
proof -
  note cols = operation_columns[of g, OF g]
  have "operations_unique (update_operation i g s)"
    using assms(1) unfolding tel_sound_def operations_unique_def
    by (simp add: update_operation_keys[of oj_operation_id g, OF cols(1)] update_operation_keys[of oj_command_id g, OF cols(2)]
        update_operation_keys[of oj_operation_public_id g, OF cols(3)])
  moreover have "logs_sound (update_operation i g s)"
    using assms(1) unfolding tel_sound_def logs_sound_def log_of_def
    by (simp add: update_operation_keys(2)[of oj_operation_id g, OF cols(1)])
       (auto simp: update_operation_def in_sql_update cols q split: if_splits)
  ultimately show ?thesis
    using assms(1) by (simp add: tel_sound_def dispatches_authorised_def)
qed

lemma logs_sound_logged:
  assumes "operations_unique s" "logs_sound s" "x \<in> set (tj_operations s)"
    and t: "ot_operation_id t = oj_operation_id x" "ot_sequence t = oj_transition_sequence x + 1"
      "ot_to_state t \<in> OPERATION_TRANSITIONS (ot_from_state t)"
    and g: "\<And>y. operation_key (g y) = operation_key y" "\<And>y. oj_transition_sequence (g y) = ot_sequence t"
  shows "logs_sound (update_operation (oj_operation_id x) g (s\<lparr>tj_transitions := tj_transitions s @ [t]\<rparr>))"
    (is "logs_sound ?s")
proof -
  note cols = operation_columns[of g, OF g(1)]
  have ids: "oj_operation_id ` set (tj_operations ?s) = oj_operation_id ` set (tj_operations s)"
    using update_operation_keys(2)[of oj_operation_id g, OF cols(1)] by simp
  have log: "log_of ?s y = log_of s y @ (if oj_operation_id y = oj_operation_id x then [t] else [])" for y
    using t(1) by (auto simp: log_of_def)
  have "map ot_sequence (log_of ?s y) = [1..oj_transition_sequence y] \<and> 0 \<le> oj_transition_sequence y"
    if y: "y \<in> set (tj_operations ?s)" for y
  proof -
    from y obtain y0 where y0: "y0 \<in> set (tj_operations s)"
      "y = (if oj_operation_id y0 = oj_operation_id x then g y0 else y0)"
      by (auto simp: update_operation_def in_sql_update)
    have old: "map ot_sequence (log_of s y0) = [1..oj_transition_sequence y0]" "0 \<le> oj_transition_sequence y0"
      using assms(2) y0(1) by (auto simp: logs_sound_def)
    show ?thesis
    proof (cases "oj_operation_id y0 = oj_operation_id x")
      case True
      then have "y0 = x"
        using distinct_key_unique[of oj_operation_id "tj_operations s" y0 x] assms(1,3) y0(1)
        by (simp add: operations_unique_def)
      moreover from this True y0(2) have "y = g x" by simp
      ultimately show ?thesis
        using old by (simp add: log cols g(2) t(1,2) log_of_def upto_rec2)
    next
      case False
      with y0(2) have "y = y0" by simp
      with False old show ?thesis by (simp add: log)
    qed
  qed
  moreover have "ot_to_state u \<in> OPERATION_TRANSITIONS (ot_from_state u)
      \<and> ot_operation_id u \<in> oj_operation_id ` set (tj_operations ?s)" if "u \<in> set (tj_transitions ?s)" for u
  proof (cases "u = t")
    case True
    then show ?thesis using t assms(3) ids by simp
  next
    case False
    with that have "u \<in> set (tj_transitions s)" by simp
    then show ?thesis using assms(2) ids unfolding logs_sound_def by simp
  qed
  ultimately show ?thesis unfolding logs_sound_def by blast
qed

lemma tel_sound_logged:
  assumes "tel_sound env s" "x \<in> set (tj_operations s)"
    and t: "ot_operation_id t = oj_operation_id x" "ot_sequence t = oj_transition_sequence x + 1"
      "ot_to_state t \<in> OPERATION_TRANSITIONS (ot_from_state t)"
    and g: "\<And>y. operation_key (g y) = operation_key y" "\<And>y. oj_transition_sequence (g y) = ot_sequence t"
  shows "tel_sound env (update_operation (oj_operation_id x) g (s\<lparr>tj_transitions := tj_transitions s @ [t]\<rparr>))"
    (is "tel_sound env ?s")
proof -
  note cols = operation_columns[of g, OF g(1)]
  from assms(1) have s: "operations_unique s" "logs_sound s" by (auto simp: tel_sound_def)
  have "operations_unique ?s"
    using s(1) by (simp add: operations_unique_def update_operation_keys[of oj_operation_id g, OF cols(1)]
        update_operation_keys[of oj_command_id g, OF cols(2)]
        update_operation_keys[of oj_operation_public_id g, OF cols(3)])
  moreover from s assms(2) t g have "logs_sound ?s" by (rule logs_sound_logged)
  ultimately show ?thesis using assms(1) by (simp add: tel_sound_def dispatches_authorised_def)
qed

lemma tel_sound_dispatched:
  assumes "tel_sound env s" "find_command cid s = Some c" "d \<in> set (tj_decisions s)"
    "authorises env d (cj_request c)"
  shows "tel_sound env (s\<lparr>tj_dispatched := tj_dispatched s @ [(cid, cj_request c)]\<rparr>)"
proof -
  have "(cid, cj_request c) \<in> (\<lambda>c. (cj_command_id c, cj_request c)) ` set (tj_commands s)"
    using find_command_Some[OF assms(2)] by auto
  then have "dispatches_authorised env (s\<lparr>tj_dispatched := tj_dispatched s @ [(cid, cj_request c)]\<rparr>)"
    using assms(1,3,4) by (auto simp: tel_sound_def dispatches_authorised_def)
  then show ?thesis
    using assms(1) by (simp add: tel_sound_def operations_unique_def logs_sound_def log_of_def)
qed

lemma tel_sound_appended:
  assumes "tel_sound env s"
  shows "rs_operation_id r \<notin> rs_operation_id ` set (tj_results s) \<Longrightarrow>
      tel_sound env (s\<lparr>tj_results := tj_results s @ [r]\<rparr>)"
    and "tel_sound env (s\<lparr>tj_runs := ru\<rparr>)"
    and "tel_sound env (s\<lparr>tj_decisions := tj_decisions s @ [d]\<rparr>)"
  using assms by (auto simp: tel_sound_def operations_unique_def logs_sound_def log_of_def
      dispatches_authorised_def split_beta)

lemma tel_effect_sound: "tel_effect env s s' \<Longrightarrow> tel_sound env s \<Longrightarrow> tel_sound env s'"
  by (induction rule: tel_effect.induct)
     (blast intro: tel_sound_command_changed tel_sound_command_added tel_sound_operation_changed
       tel_sound_operation_added tel_sound_logged tel_sound_appended tel_sound_dispatched)+

lemma tel_effects_sound: "(tel_effect env)\<^sup>*\<^sup>* s s' \<Longrightarrow> tel_sound env s \<Longrightarrow> tel_sound env s'"
  by (induction rule: rtranclp_induct) (auto intro: tel_effect_sound)

section \<open>Transactions as effects\<close>

lemma find_command_ex: "c \<in> set (tj_commands s) \<Longrightarrow> \<exists>c'. find_command (cj_command_id c) s = Some c'"
  by (cases "find_command (cj_command_id c) s") (auto simp: find_command_def sql_first_None)

lemma find_command_frame:
  "find_command cid (s\<lparr>tj_operations := xs\<rparr>) = find_command cid s"
  "find_command cid (update_operation i g s) = find_command cid s"
  by (simp_all add: find_command_def)

lemma command_update_effect:
  assumes "c \<in> set (tj_commands s)" "\<And>c. lease_sound c \<Longrightarrow> lease_sound (f c)"
    "\<And>c. command_key (f c) = command_key c"
  shows "tel_effect env s (update_command (cj_command_id c) f s)"
proof -
  from find_command_ex[OF assms(1)] obtain c' where "find_command (cj_command_id c) s = Some c'" by blast
  then show ?thesis using assms(2,3) by (rule tel_effect.command_changed)
qed

lemma held_iff:
  "held cid owner s \<longleftrightarrow>
     (\<exists>c. find_command cid s = Some c \<and> cj_state c = SUBMITTING \<and> cj_lease_owner c = Some owner)"
  by (auto simp: held_def split: option.splits)

lemma held_update_effect:
  assumes "held cid owner s"
    "\<And>c. cj_state c = SUBMITTING \<Longrightarrow> cj_lease_owner c = Some owner \<Longrightarrow> lease_sound c \<Longrightarrow> lease_sound (f c)"
    "\<And>c. command_key (f c) = command_key c"
  shows "tel_effect env s (update_command cid f s)"
proof -
  from assms(1) obtain c where c: "find_command cid s = Some c" "cj_state c = SUBMITTING"
    "cj_lease_owner c = Some owner" by (auto simp: held_iff)
  show ?thesis by (rule tel_effect.command_changed[OF c(1)]) (use assms(2,3) c in auto)
qed

lemma latest_version_bound:
  assumes "c \<in> set (tj_commands s)" "aggregate_key (cj_request c) = aggregate_key r"
  obtains v where "latest_version r s = Some v" "cr_aggregate_version (cj_request c) \<le> v"
proof -
  let ?t = "filter (\<lambda>c. aggregate_key (cj_request c) = aggregate_key r) (tj_commands s)"
  have c: "c \<in> set ?t" using assms by simp
  then obtain m where m: "first_by (\<lambda>c. - cr_aggregate_version (cj_request c)) ?t = Some m"
    using first_by_None[of "\<lambda>c. - cr_aggregate_version (cj_request c)" ?t] by (metis empty_iff list.set(1) option.exhaust)
  from first_by_Some[OF m] c have "cr_aggregate_version (cj_request c) \<le> cr_aggregate_version (cj_request m)"
    by fastforce
  with m that show thesis by (simp add: latest_version_def)
qed

lemma version_fresh:
  assumes "\<not> (case latest_version r s of None \<Rightarrow> False | Some v \<Rightarrow> cr_aggregate_version r \<le> v)"
    "version_key c = (aggregate_key r, cr_aggregate_version r)"
  shows "version_key c \<notin> version_key ` set (tj_commands s)"
proof
  assume "version_key c \<in> version_key ` set (tj_commands s)"
  then obtain c' where c': "c' \<in> set (tj_commands s)" "version_key c' = version_key c" by force
  with assms(2) have "aggregate_key (cj_request c') = aggregate_key r"
    "cr_aggregate_version (cj_request c') = cr_aggregate_version r" by (simp_all add: version_key_def)
  with latest_version_bound[OF c'(1) this(1)] assms(1) show False by (metis option.simps(5))
qed

text \<open>A new command: what \<open>create_command\<close> has checked before it inserts the row.\<close>

definition created ::
  "tel_env \<Rightarrow> instant \<Rightarrow> uuid \<Rightarrow> tel_request \<Rightarrow> tel_decision \<Rightarrow> tel_command" where
  "created env now i b d =
     (new_command_record env now i (b\<lparr>cr_policy_decision_id := Some (pd_id d)\<rparr>))
       \<lparr>cj_state := if decision_enforced d then AUTHORIZED else POLICY_DENIED\<rparr>"

lemma tel_create_command_cases:
  obtains "snd (tel_create_command env now i k b s) = s"
  | d where "chosen_decision b s = Some d"
      "snd (tel_create_command env now i k b s) = s\<lparr>tj_commands := tj_commands s @ [created env now i b d]\<rparr>"
      "fst (tel_create_command env now i k b s) = Inr (created env now i b d, False)"
      "sql_first (\<lambda>c. cj_idempotency_hash c = cj_idempotency_hash (created env now i b d)) (tj_commands s) = None"
      "\<not> (case latest_version (cj_request (created env now i b d)) s of None \<Rightarrow> False
           | Some v \<Rightarrow> cr_aggregate_version (cj_request (created env now i b d)) \<le> v)"
      "\<not> sql_exists (\<lambda>c. cj_command_public_id c = cj_command_public_id (created env now i b d)
                        \<or> cj_command_id c = i) (tj_commands s)"
proof (cases "chosen_decision b s")
  case None
  then have "snd (tel_create_command env now i k b s) = s" by (simp add: tel_create_command_def)
  then show thesis by (rule that(1))
next
  case (Some d)
  define row where "row = new_command_record env now i (b\<lparr>cr_policy_decision_id := Some (pd_id d)\<rparr>)"
  have req: "cj_request row = b\<lparr>cr_policy_decision_id := Some (pd_id d)\<rparr>"
    by (simp add: row_def new_command_record_def)
  have cr: "created env now i b d = row\<lparr>cj_state := if decision_enforced d then AUTHORIZED else POLICY_DENIED\<rparr>"
    by (simp add: created_def row_def)
  note def = tel_create_command_def Some Let_def row_def[symmetric]
  show thesis
  proof (cases "snd (tel_create_command env now i k b s) = s")
    case True
    then show thesis by (rule that(1))
  next
    case False
    have c1: "is_ok (request_valid now b)" by (rule ccontr) (use False in \<open>simp add: def\<close>)
    have c2: "k = cr_idempotency_key b" by (rule ccontr) (use False in \<open>simp add: def c1\<close>)
    have c3: "sql_first (\<lambda>c. cj_idempotency_hash c = cj_idempotency_hash row) (tj_commands s) = None"
      by (rule ccontr) (use False in \<open>auto simp: def c1 c2\<close>)
    have c4: "pd_correlation_id d = cr_correlation_id b" by (rule ccontr) (use False in \<open>simp add: def c1 c2 c3\<close>)
    have c5: "payload_hash env (JObj (pd_context d)) = cr_policy_decision_hash b"
      by (rule ccontr) (use False in \<open>simp add: def c1 c2 c3 c4\<close>)
    have c6: "same_dict (map_of (pd_context d) ''authorization_scope'')
        (policy_scope (b\<lparr>cr_policy_decision_id := Some (pd_id d)\<rparr>))"
      by (rule ccontr) (use False in \<open>simp add: def c1 c2 c3 c4 c5\<close>)
    obtain e where c7: "decision_expiration env d = Some e"
      by (cases "decision_expiration env d") (use False in \<open>simp_all add: def c1 c2 c3 c4 c5 c6\<close>)
    have c8: "decision_open now e" by (rule ccontr) (use False in \<open>simp add: def c1 c2 c3 c4 c5 c6 c7\<close>)
    note checked = c1 c2 c3 c4 c5 c6 c7 c8
    have c9: "\<not> (case latest_version (b\<lparr>cr_policy_decision_id := Some (pd_id d)\<rparr>) s of None \<Rightarrow> False
        | Some v \<Rightarrow> cr_aggregate_version (b\<lparr>cr_policy_decision_id := Some (pd_id d)\<rparr>) \<le> v)"
      by (rule notI) (use False in \<open>simp add: def checked\<close>)
    have c10: "\<not> sql_exists (\<lambda>c. cj_command_public_id c = cj_command_public_id row \<or> cj_command_id c = i) (tj_commands s)"
      by (rule notI) (use False c9 in \<open>simp add: def checked\<close>)
    show thesis
      by (rule that(2)[OF Some]; simp only: cr) (use c3 c9 c10 in \<open>simp_all add: def checked req cong: option.case_cong\<close>)
  qed
qed

lemma tel_create_command_effect: "(tel_effect env)\<^sup>*\<^sup>* s (snd (tel_create_command env now i k b s))"
proof (cases rule: tel_create_command_cases[of env now i k b s])
  case 1
  then show ?thesis by simp
next
  case (2 d)
  let ?c = "created env now i b d"
  have "cj_command_id ?c = i" by (simp add: created_def new_command_record_def)
  moreover have "lease_sound ?c" by (simp add: created_def new_command_record_def lease_sound_def)
  moreover have "version_key ?c \<notin> version_key ` set (tj_commands s)"
    by (rule version_fresh[OF 2(5)]) (simp add: version_key_def)
  ultimately have "tel_effect env s (s\<lparr>tj_commands := tj_commands s @ [?c]\<rparr>)"
    using 2(4,6) by (intro tel_effect.command_added) (auto simp: sql_first_None sql_exists_iff)
  with 2(2) show ?thesis by simp
qed

lemma lease_sound_state:
  assumes "lease_sound c" "st \<noteq> SUBMITTING" "st \<noteq> FAILED_TRANSIENT"
  shows "lease_sound (c\<lparr>cj_state := st, cj_lease_owner := ow, cj_next_attempt_at := nx, cj_updated_at := t\<rparr>)"
    "lease_sound (c\<lparr>cj_state := st, cj_updated_at := t\<rparr>)"
    "lease_sound (c\<lparr>cj_state := st, cj_next_attempt_at := nx, cj_lease_owner := ow, cj_updated_at := t\<rparr>)"
  using assms by (simp_all add: lease_sound_def)

lemma tel_cancel_command_effect: "(tel_effect env)\<^sup>*\<^sup>* s (snd (tel_cancel_command now pid s))"
proof (cases "snd (tel_cancel_command now pid s) = s")
  case False
  then obtain c where c: "command_named pid s = Some c"
    by (cases "command_named pid s") (auto simp: tel_cancel_command_def)
  let ?f = "\<lambda>c. c\<lparr>cj_state := CANCELLED, cj_lease_owner := None, cj_next_attempt_at := None, cj_updated_at := now\<rparr>"
  have "snd (tel_cancel_command now pid s) = update_command (cj_command_id c) ?f s"
    using False c by (auto simp: tel_cancel_command_def Let_def split: if_splits)
  moreover have "tel_effect env s (update_command (cj_command_id c) ?f s)"
    by (rule command_update_effect)
       (use command_named_Some[OF c] in \<open>auto simp: lease_sound_state command_key_def\<close>)
  ultimately show ?thesis by simp
qed simp

lemma register_operation_effect: "(tel_effect env)\<^sup>*\<^sup>* s (snd (register_operation env now i g s))"
proof (cases "snd (register_operation env now i g s) = s")
  case False
  then obtain c where c: "command_named (rg_command_public_id g) s = Some c"
    by (cases "command_named (rg_command_public_id g) s") (auto simp: register_operation_def)
  let ?x = "registered_operation env i (cj_command_id c) g"
  let ?f = "\<lambda>c. c\<lparr>cj_state := OPERATION_REGISTERED, cj_updated_at := now\<rparr>"
  let ?s = "s\<lparr>tj_operations := tj_operations s @ [?x]\<rparr>"
  have n: "sql_first (\<lambda>x. oj_operation_public_id x = rg_operation_public_id g
      \<or> oj_command_id x = cj_command_id c \<or> oj_idempotency_hash x = oj_idempotency_hash ?x) (tj_operations s) = None"
    "\<not> sql_exists (\<lambda>x. oj_operation_id x = i) (tj_operations s)"
    "snd (register_operation env now i g s) = update_command (cj_command_id c) ?f ?s"
    using False c by (auto simp: register_operation_def Let_def split: if_splits option.splits)
  have cs: "c \<in> set (tj_commands s)" using command_named_Some[OF c] by simp
  have "tel_effect env s ?s"
    by (rule tel_effect.operation_added)
       (use n(1,2) cs in \<open>auto simp: registered_operation_def sql_first_None sql_exists_iff\<close>)
  moreover have "tel_effect env ?s (update_command (cj_command_id c) ?f ?s)"
    by (rule command_update_effect) (use cs in \<open>auto simp: lease_sound_state command_key_def\<close>)
  ultimately show ?thesis unfolding n(3) by (meson rtranclp.rtrancl_into_rtrancl rtranclp.rtrancl_refl)
qed simp

lemma transition_operation_cases:
  obtains "snd (transition_operation env now pid b s) = s"
  | x t g where "x \<in> set (tj_operations s)" "ot_operation_id t = oj_operation_id x"
      "ot_sequence t = oj_transition_sequence x + 1"
      "ot_to_state t \<in> OPERATION_TRANSITIONS (ot_from_state t)"
      "\<And>y. operation_key (g y) = operation_key y" "\<And>y. oj_transition_sequence (g y) = ot_sequence t"
      "snd (transition_operation env now pid b s) =
        update_operation (oj_operation_id x) g (s\<lparr>tj_transitions := tj_transitions s @ [t]\<rparr>)"
proof (cases "snd (transition_operation env now pid b s) = s")
  case True
  then show thesis by (rule that(1))
next
  case False
  then obtain x where x: "sql_first (\<lambda>x. oj_operation_public_id x = pid) (tj_operations s) = Some x"
    by (cases "sql_first (\<lambda>x. oj_operation_public_id x = pid) (tj_operations s)")
       (auto simp: transition_operation_def)
  let ?t = "\<lparr>ot_operation_id = oj_operation_id x, ot_command_id = oj_command_id x,
     ot_sequence = tb_transition_sequence b, ot_from_state = oj_state x, ot_to_state = tb_state b,
     ot_transition_hash = removeprefix ''sha256:'' (tb_transition_hash b),
     ot_binding = transition_binding env b, ot_occurred_at = tb_occurred_at b\<rparr>"
  let ?g = "\<lambda>y. y\<lparr>oj_state := tb_state b, oj_transition_sequence := tb_transition_sequence b,
     oj_completed_at := if tb_state b \<in> {''SUCCEEDED'', ''FAILED'', ''COMPENSATED''} then Some now
       else oj_completed_at y\<rparr>"
  note def = transition_operation_def x Let_def
  have c1: "\<not> transition_mismatch env s x b" by (rule notI) (use False in \<open>simp add: def\<close>)
  have c2: "sql_first (\<lambda>t. ot_operation_id t = oj_operation_id x \<and> (ot_sequence t = tb_transition_sequence b
      \<or> ot_transition_hash t = removeprefix ''sha256:'' (tb_transition_hash b))) (tj_transitions s) = None"
    by (rule ccontr) (use False in \<open>auto simp: def c1\<close>)
  have c3: "tb_transition_sequence b = oj_transition_sequence x + 1"
    by (rule ccontr) (use False in \<open>simp add: def c1 c2\<close>)
  have c4: "tb_state b \<in> OPERATION_TRANSITIONS (oj_state x)"
    by (rule ccontr) (use False in \<open>simp add: def c1 c2[unfolded c3] c3\<close>)
  have n: "snd (transition_operation env now pid b s) =
       update_operation (oj_operation_id x) ?g (s\<lparr>tj_transitions := tj_transitions s @ [?t]\<rparr>)"
    using c4 by (simp add: def c1 c2[unfolded c3] c3 cong: if_cong)
  show thesis
    by (rule that(2)[of x ?t ?g]) (use c3 c4 n sql_first_Some[OF x] in \<open>auto simp: operation_key_def\<close>)
qed

lemma transition_operation_effect: "(tel_effect env)\<^sup>*\<^sup>* s (snd (transition_operation env now pid b s))"
proof (cases rule: transition_operation_cases[of env now pid b s])
  case 1
  then show ?thesis by simp
next
  case (2 x t g)
  from tel_effect.logged[OF 2(1-6)] show ?thesis unfolding 2(7) by (rule r_into_rtranclp)
qed

lemma terminal_result_effect: "(tel_effect env)\<^sup>*\<^sup>* s (snd (create_terminal_result b s))"
proof (cases "snd (create_terminal_result b s) = s")
  case False
  let ?p = "sql_first (\<lambda>r. tm_result_public_id (rs_immutable r) = tm_result_public_id b) (tj_results s)"
  let ?x = "sql_first (\<lambda>x. oj_operation_public_id x = tm_operation_public_id b) (tj_operations s)"
  from False have c1: "?p = None" by (auto simp: create_terminal_result_def split: option.splits)
  from False obtain x c where c2: "?x = Some x" "command_named (tm_command_public_id b) s = Some c"
    by (auto simp: create_terminal_result_def c1 split: option.splits)
  have c3: "\<not> sql_exists (\<lambda>r. rs_operation_id r = oj_operation_id x) (tj_results s)"
    by (rule notI) (use False in \<open>auto simp: create_terminal_result_def c1 c2 split: if_splits\<close>)
  obtain row g where n: "rs_operation_id row = oj_operation_id x" "\<And>y. operation_key (g y) = operation_key y"
    "\<And>y. oj_transition_sequence (g y) = oj_transition_sequence y"
    "snd (create_terminal_result b s) = update_operation (oj_operation_id x) g (s\<lparr>tj_results := tj_results s @ [row]\<rparr>)"
  proof -
    let ?g = "\<lambda>x. x\<lparr>oj_state := if tm_readback_status b = ''READBACK_VERIFIED'' then ''ODOO_RESULT_PENDING''
       else ''READBACK_MISMATCH''\<rparr>"
    let ?r = "\<lparr>rs_operation_id = oj_operation_id x, rs_command_id = cj_command_id c,
       rs_result_hash = removeprefix ''sha256:'' (tm_result_hash b),
       rs_application_hash = removeprefix ''sha256:'' (tm_application_hash b),
       rs_readback_hash = removeprefix ''sha256:'' (tm_readback_hash b),
       rs_policy_hash = removeprefix ''sha256:'' (tm_policy_hash b), rs_status = tm_application_status b,
       rs_reconciliation_status = if tm_readback_status b = ''READBACK_VERIFIED'' then ''IN_SYNC''
         else ''RECONCILIATION_REQUIRED'', rs_immutable = b\<rparr>"
    show thesis
      by (rule that[of ?r ?g])
         (use False c3 in \<open>auto simp: create_terminal_result_def c1 c2 operation_key_def Let_def split: if_splits\<close>)
  qed
  have "tel_effect env s (s\<lparr>tj_results := tj_results s @ [row]\<rparr>)"
    by (rule tel_effect.result_added) (use c3 n(1) in \<open>auto simp: sql_exists_iff\<close>)
  moreover have "tel_effect env (s\<lparr>tj_results := tj_results s @ [row]\<rparr>)
      (update_operation (oj_operation_id x) g (s\<lparr>tj_results := tj_results s @ [row]\<rparr>))"
    using n(2,3) by (rule tel_effect.operation_changed)
  ultimately show ?thesis unfolding n(4) by (meson rtranclp.rtrancl_into_rtrancl rtranclp.rtrancl_refl)
qed simp

lemma reconciliation_run_effect: "(tel_effect env)\<^sup>*\<^sup>* s (snd (create_reconciliation_run b s))"
proof -
  have "snd (create_reconciliation_run b s) = s \<or> (\<exists>ru. snd (create_reconciliation_run b s) = s\<lparr>tj_runs := ru\<rparr>)"
    by (auto simp: create_reconciliation_run_def Let_def split: option.splits)
  then show ?thesis using tel_effect.runs_changed[of env s] by auto
qed

lemma tel_claim_effect: "(tel_effect env)\<^sup>*\<^sup>* s (snd (claim_authorized now locked owner environment s))"
proof (cases "fst (claim_authorized now locked owner environment s)")
  case None
  then show ?thesis by (auto simp: claim_authorized_def split: option.splits)
next
  case (Some cid)
  let ?t = "filter (\<lambda>c. cr_environment (cj_request c) = environment \<and> tel_due now c
              \<and> \<not> locked (cj_command_id c)) (tj_commands s)"
  from Some obtain c where c: "first_by cj_created_at ?t = Some c"
    by (auto simp: claim_authorized_def split: option.splits)
  let ?f = "\<lambda>c. c\<lparr>cj_state := SUBMITTING, cj_attempt_count := cj_attempt_count c + 1,
     cj_lease_owner := Some owner, cj_next_attempt_at := Some (now + secs LEASE_SECONDS), cj_updated_at := now\<rparr>"
  have "tel_effect env s (update_command (cj_command_id c) ?f s)"
    by (rule command_update_effect)
       (use first_by_Some[OF c] in \<open>auto simp: lease_sound_def command_key_def\<close>)
  then show ?thesis using c by (simp add: claim_authorized_def)
qed

lemma renew_effect: "(tel_effect env)\<^sup>*\<^sup>* s (snd (tel_renew_lease now cid owner s))"
proof (cases "held cid owner s")
  case True
  let ?f = "\<lambda>c. c\<lparr>cj_next_attempt_at := Some (now + secs LEASE_SECONDS), cj_updated_at := now\<rparr>"
  have "tel_effect env s (update_command cid ?f s)"
    by (rule held_update_effect[OF True]) (auto simp: lease_sound_def command_key_def)
  with True show ?thesis by (simp add: tel_renew_lease_def)
qed (simp add: tel_renew_lease_def)

lemma failure_effect: "(tel_effect env)\<^sup>*\<^sup>* s (tel_record_failure now cid owner e s)"
proof (cases "held cid owner s")
  case True
  have "tel_effect env s (update_command cid (failed_command now e) s)"
    by (rule held_update_effect[OF True]) (auto simp: failed_command_def lease_sound_def command_key_def Let_def)
  with True have "tel_effect env s (tel_record_failure now cid owner e s)" by (simp add: tel_record_failure_def)
  then show ?thesis by (rule r_into_rtranclp)
qed (simp add: tel_record_failure_def)

lemma persist_effect: "(tel_effect env)\<^sup>*\<^sup>* s (snd (persist_submission env now cid owner i r sb s))"
proof (cases "snd (persist_submission env now cid owner i r sb s) = s")
  case False
  let ?x = "submitted_operation env i cid r sb"
  let ?f = "\<lambda>c. c\<lparr>cj_state := SUBMITTING, cj_next_attempt_at := Some (now + secs LEASE_SECONDS),
     cj_lease_owner := Some owner, cj_updated_at := now\<rparr>"
  from False have h: "held cid owner s" by (auto simp: persist_submission_def split: if_splits)
  have keep: "tel_effect env u (update_command cid ?f u)" if "held cid owner u" for u
    by (rule held_update_effect[OF that]) (auto simp: lease_sound_def command_key_def)
  show ?thesis
  proof (cases "operation_of cid s")
    case None
    let ?s = "s\<lparr>tj_operations := tj_operations s @ [?x]\<rparr>"
    have n: "\<not> sql_exists (\<lambda>x. oj_operation_id x = i \<or> oj_operation_public_id x = oj_operation_public_id ?x
        \<or> oj_idempotency_hash x = oj_idempotency_hash ?x) (tj_operations s)"
      by (rule notI) (use False h None in \<open>simp add: persist_submission_def Let_def\<close>)
    then have eq: "snd (persist_submission env now cid owner i r sb s) = update_command cid ?f ?s"
      using h None by (simp add: persist_submission_def Let_def)
    have cid: "oj_command_id ?x = cid" "oj_operation_id ?x = i" "oj_transition_sequence ?x = 0"
      by (simp_all add: submitted_operation_def)
    from h obtain c where "find_command cid s = Some c" by (auto simp: held_iff)
    from find_command_Some[OF this] have "cid \<in> cj_command_id ` set (tj_commands s)" by auto
    moreover have "cid \<notin> oj_command_id ` set (tj_operations s)"
      using None by (auto simp: operation_of_def sql_first_None)
    ultimately have "tel_effect env s ?s"
      using n by (intro tel_effect.operation_added) (auto simp: cid sql_exists_iff)
    moreover have "held cid owner ?s" using h by (simp add: held_def find_command_frame)
    note keep[OF this]
    ultimately show ?thesis unfolding eq by (meson rtranclp.rtrancl_into_rtrancl rtranclp.rtrancl_refl)
  next
    case (Some x)
    then have "snd (persist_submission env now cid owner i r sb s) = update_command cid ?f s"
      using h False by (auto simp: persist_submission_def Let_def split: if_splits)
    with keep[OF h] show ?thesis by simp
  qed
qed simp

lemma finalize_effect: "(tel_effect env)\<^sup>*\<^sup>* s (snd (finalize_dispatch now cid owner rb s))"
proof (cases "snd (finalize_dispatch now cid owner rb s) = s")
  case False
  then obtain x where x: "operation_of cid s = Some x"
    by (cases "operation_of cid s") (simp_all add: finalize_dispatch_def)
  have h: "held cid owner s" by (rule ccontr) (use False x in \<open>simp add: finalize_dispatch_def\<close>)
  let ?st = "if rb_readback_matches rb then ODOO_RESULT_PENDING else RECONCILIATION_REQUIRED"
  let ?f = "\<lambda>c. c\<lparr>cj_state := ?st, cj_next_attempt_at := None, cj_lease_owner := None, cj_updated_at := now\<rparr>"
  let ?g = "\<lambda>x. x\<lparr>oj_state := if rb_readback_matches rb then ''ODOO_RESULT_PENDING'' else ''RECONCILIATION_REQUIRED'',
      oj_actual_hash := Some (rb_actual_hash rb), oj_readback_matches := Some (rb_readback_matches rb),
      oj_response_json := rb_actual rb, oj_completed_at := Some now\<rparr>"
  let ?s = "update_operation (oj_operation_id x) ?g s"
  have "tel_effect env s ?s"
    by (rule tel_effect.operation_changed) (simp_all add: operation_key_def)
  moreover have "held cid owner ?s" using h by (simp add: held_def find_command_frame)
  then have "tel_effect env ?s (update_command cid ?f ?s)"
    by (rule held_update_effect) (simp_all add: lease_sound_state command_key_def)
  moreover have eq: "snd (finalize_dispatch now cid owner rb s) = update_command cid ?f ?s"
    using x h by (simp only: finalize_dispatch_def Let_def option.simps if_True snd_conv)
  ultimately show ?thesis unfolding eq by (meson rtranclp.rtrancl_into_rtrancl rtranclp.rtrancl_refl)
qed simp

lemma validated_authorises:
  assumes "validate_policy_for_dispatch env now r (Some d) = Inr ()" "cr_policy_decision_id r = Some (pd_id d)"
  shows "authorises env d r"
  using assms by (auto simp: validate_policy_for_dispatch_def authorises_def split: if_splits)

lemmas transaction_effects = tel_create_command_effect tel_cancel_command_effect register_operation_effect
  transition_operation_effect terminal_result_effect reconciliation_run_effect tel_claim_effect
  renew_effect failure_effect persist_effect finalize_effect

lemma tel_step_effect: "tel_step env s s' \<Longrightarrow> (tel_effect env)\<^sup>*\<^sup>* s s'"
proof (induction rule: tel_step.induct)
  case (decide d s)
  show ?case by (rule r_into_rtranclp, rule tel_effect.decision_added)
next
  case (dispatch cid s c i d now)
  from find_decision_Some[OF dispatch(3)] dispatch(2,4)
  have "d \<in> set (tj_decisions s)" "authorises env d (cj_request c)" by (auto intro: validated_authorises)
  with dispatch(1) show ?case by (intro r_into_rtranclp tel_effect.dispatched)
qed (rule transaction_effects)+

lemma tel_empty_sound: "tel_sound env tel_empty"
  by (simp add: tel_sound_def tel_empty_def commands_unique_def operations_unique_def logs_sound_def
      dispatches_authorised_def)

lemma tel_steps_sound: "(tel_step env)\<^sup>*\<^sup>* s s' \<Longrightarrow> tel_sound env s \<Longrightarrow> tel_sound env s'"
  by (induction rule: rtranclp_induct) (auto dest: tel_step_effect intro: tel_effects_sound)

section \<open>A run of the worker\<close>

definition quiet :: "tel_env \<Rightarrow> tel_schedule \<Rightarrow> bool" where
  "quiet env sc \<longleftrightarrow> (\<forall>n u. (tel_step env)\<^sup>*\<^sup>* u (sc_others sc n u))"

lemma load_claimed_new:
  assumes "load_claimed now cid s = Inr (r, None, dec)"
  obtains c i where "find_command cid s = Some c" "r = cj_request c" "cr_policy_decision_id r = Some i"
    "dec = find_decision i s"
  using assms by (auto simp: load_claimed_def split: option.splits sum.splits)

lemma submit_claimed_steps:
  assumes "quiet env sc" "load_claimed now cid s = Inr (r, operation, dec)"
  shows "(tel_step env)\<^sup>*\<^sup>* s (snd (submit_claimed env disp sc cid r operation dec s))"
proof (cases "operation = None \<and> validate_policy_for_dispatch env (sc_clock sc 2) r dec = Inr ()")
  case False
  then show ?thesis by (auto simp: submit_claimed_def split: option.splits sum.splits)
next
  case True
  with assms(2) load_claimed_new obtain c i where c: "find_command cid s = Some c" "r = cj_request c"
    "cr_policy_decision_id r = Some i" "dec = find_decision i s" by blast
  from True c(4) obtain d where d: "find_decision i s = Some d"
    by (cases "find_decision i s") (auto simp: validate_policy_for_dispatch_def)
  let ?s1 = "s\<lparr>tj_dispatched := tj_dispatched s @ [(cid, r)]\<rparr>"
  let ?s2 = "sc_others sc 1 ?s1"
  have "tel_step env s ?s1"
    unfolding c(2) by (rule tel_step.dispatch[OF c(1) _ d]) (use True c d in auto)
  with assms(1) have two: "(tel_step env)\<^sup>*\<^sup>* s ?s2"
    unfolding quiet_def by (meson converse_rtranclp_into_rtranclp)
  show ?thesis
  proof (cases "run_while_lease (sc_stopped sc 0) (td_dispatch disp (str_uuid cid) r)")
    case (Inl e)
    with True two show ?thesis by (simp add: submit_claimed_def Let_def)
  next
    case (Inr sb)
    let ?p = "persist_submission env (sc_clock sc 3) cid (sc_owner sc) (sc_operation_id sc) r sb ?s2"
    have "snd (submit_claimed env disp sc cid r operation dec s) = snd ?p"
      using True Inr by (simp add: submit_claimed_def Let_def split: prod.split sum.split)
    moreover from two tel_step.persist have "(tel_step env)\<^sup>*\<^sup>* s (snd ?p)"
      by (rule rtranclp.rtrancl_into_rtrancl)
    ultimately show ?thesis by simp
  qed
qed

lemma dispatch_one_steps:
  assumes q: "quiet env sc"
  shows "(tel_step env)\<^sup>*\<^sup>* s (snd (dispatch_one env disp sc environment s))"
proof -
  have o: "(tel_step env)\<^sup>*\<^sup>* u v \<Longrightarrow> (tel_step env)\<^sup>*\<^sup>* u (sc_others sc n v)" for u v n
    using q unfolding quiet_def by (meson rtranclp_trans)
  obtain cl s1 where cl: "claim_authorized (sc_clock sc 0) (sc_locked sc) (sc_owner sc) environment s = (cl, s1)"
    by fastforce
  with tel_step.claim[of env s "sc_clock sc 0" "sc_locked sc" "sc_owner sc" environment]
  have s1: "(tel_step env)\<^sup>*\<^sup>* s s1" by simp
  note [simp] = dispatch_one_def cl Let_def
  show ?thesis
  proof (cases cl)
    case None
    with s1 show ?thesis by simp
  next
    case (Some cid)
    let ?s2 = "sc_others sc 0 s1"
    show ?thesis
    proof (cases "load_claimed (sc_clock sc 1) cid ?s2")
      case (Inl e)
      with Some o[OF s1] show ?thesis by simp
    next
      case (Inr l)
      then obtain r operation dec where l: "load_claimed (sc_clock sc 1) cid ?s2 = Inr (r, operation, dec)"
        by (cases l) auto
      obtain h s3 where h: "submit_claimed env disp sc cid r operation dec ?s2 = (h, s3)" by fastforce
      from submit_claimed_steps[OF q l, of disp] h o[OF s1, of 0]
      have s3: "(tel_step env)\<^sup>*\<^sup>* s s3" by (auto intro: rtranclp_trans)
      have f: "(tel_step env)\<^sup>*\<^sup>* s (tel_record_failure (sc_clock sc 4) cid (sc_owner sc) e (sc_others sc 2 s3))" for e
        using o[OF s3, of 2] tel_step.failure by (rule rtranclp.rtrancl_into_rtrancl)
      have g: "(tel_step env)\<^sup>*\<^sup>* s (snd (finalize_dispatch (sc_clock sc 4) cid (sc_owner sc) rb
          (sc_others sc 3 (sc_others sc 2 s3))))" for rb
        using o[OF o[OF s3, of 2], of 3] tel_step.finalize by (rule rtranclp.rtrancl_into_rtrancl)
      show ?thesis
      proof (cases h)
        case (Inl e)
        with Some l h f show ?thesis by simp
      next
        case (Inr hd)
        show ?thesis
        proof (cases "run_while_lease (sc_stopped sc 1) (td_readback disp r hd)")
          case (Inl e)
          with Some l h Inr f show ?thesis by simp
        next
          case rb: (Inr rb)
          show ?thesis using Some l h Inr rb g[of rb] by (simp split: prod.splits sum.splits) auto
        qed
      qed
    qed
  qed
qed

section \<open>Operations\<close>

text \<open>The transition table of operations: three states end an operation.\<close>

interpretation tel_life: transition_table OPERATION_TRANSITIONS "{''SUCCEEDED'', ''FAILED'', ''COMPENSATED''}"
  by unfold_locales (auto simp: OPERATION_TRANSITIONS_def)

lemma logged_never_leaves_end:
  assumes "tel_sound env s" "t \<in> set (tj_transitions s)"
  shows "ot_from_state t \<notin> {''SUCCEEDED'', ''FAILED'', ''COMPENSATED''}"
  using assms tel_life.terminal_only_last[of _ "ot_from_state t" "ot_to_state t"]
  by (metis (mono_tags, lifting) logs_sound_def rtranclp.rtrancl_refl tel_sound_def)

text \<open>
  \<open>register_operation\<close> does not look at the state of the command: registering the operation of a
  command that a worker holds takes the command from it, and no worker claims it again.
\<close>

lemma registration_ends_dispatch:
  assumes "register_operation env now i g s = (Inr (pid, ''NEW''), s')"
    and c: "command_named (rg_command_public_id g) s = Some c"
    and d: "distinct (map cj_command_id (tj_commands s))"
  shows "\<not> held (cj_command_id c) owner s'
    \<and> (\<exists>c'. find_command (cj_command_id c) s' = Some c' \<and> cj_state c' = OPERATION_REGISTERED
        \<and> (\<forall>t. \<not> tel_due t c'))"
proof -
  let ?f = "\<lambda>c. c\<lparr>cj_state := OPERATION_REGISTERED, cj_updated_at := now\<rparr>"
  obtain u where u: "s' = update_command (cj_command_id c) ?f u" "tj_commands u = tj_commands s"
    using assms(1) c by (auto simp: register_operation_def Let_def split: if_splits option.splits)
  have cs: "c \<in> set (tj_commands s)" using command_named_Some[OF c] by simp
  have "?f c \<in> set (tj_commands s')"
    using cs u sql_update_hit[of c "tj_commands s" "\<lambda>x. cj_command_id x = cj_command_id c" ?f]
    by (simp add: update_command_def)
  moreover have "distinct (map cj_command_id (tj_commands s'))"
    using d u update_command_keys(1)[of cj_command_id ?f "cj_command_id c" u] by simp
  ultimately have "find_command (cj_command_id c) s' = Some (?f c)"
    using find_command_unique[of s' "?f c"] by simp
  then show ?thesis by (simp add: held_def tel_due_def)
qed

text \<open>The client only asks the registry for logical endpoints.\<close>

lemma endpoints_logical:
  "MUTATION_ENDPOINTS k \<in> set LOGICAL_ENDPOINT_KEYS" "READBACK_ENDPOINTS k \<in> set LOGICAL_ENDPOINT_KEYS"
  by (cases k; simp add: LOGICAL_ENDPOINT_KEYS_def)+

section \<open>Expired commands\<close>




definition leased :: "instant \<Rightarrow> string \<Rightarrow> tel_command \<Rightarrow> tel_command" where
  "leased now owner c = c\<lparr>cj_state := SUBMITTING, cj_attempt_count := cj_attempt_count c + 1,
     cj_lease_owner := Some owner, cj_next_attempt_at := Some (now + secs LEASE_SECONDS), cj_updated_at := now\<rparr>"



section \<open>A command from request to result\<close>

definition demo_decision_id :: uuid where "demo_decision_id = 0x40008000000000000000"

definition demo_sha :: string where "demo_sha = replicate 64 (CHR ''0'')"

definition demo_tel_env :: tel_env where
  "demo_tel_env = \<lparr>te_sha256 = (\<lambda>_. demo_sha),
     te_fromiso = (\<lambda>s. if s = ''T'' then Some (Aware (secs 60)) else None), te_json_datetime = (\<lambda>_. ''D'')\<rparr>"

definition demo_tel_payload :: tel_payload where
  "demo_tel_payload = \<lparr>pl_endpoint_public_id = Some ''END-abc'', pl_source_endpoint_public_id = None,
     pl_destination_endpoint_public_id = None, pl_agent_public_id = None, pl_phone_public_id = None,
     pl_call_public_id = None, pl_contact_id = None, pl_allocation_reservation_id = ''RSV-1'',
     pl_desired_state_version = 1, pl_state = ''ENABLED'', pl_maximum_duration_seconds = None,
     pl_purpose = None, pl_reservation_generation = None, pl_reservation_hash = None,
     pl_desired_state_hash = None, pl_context_key = None, pl_external_route_allowed = False,
     pl_transfer_allowed = False\<rparr>"

definition demo_tel_request :: tel_request where
  "demo_tel_request = \<lparr>cr_schema_version = ''1.0'', cr_command_public_id = None,
     cr_originating_outbox_public_id = None, cr_event_id = None, cr_command_type = ENDPOINT_APPLY,
     cr_aggregate_type = ''endpoint'', cr_aggregate_public_id = ''END-abc'', cr_aggregate_version = 1,
     cr_environment = ''test'', cr_organization_public_id = [], cr_business_unit_public_id = ''BU-1'',
     cr_campaign_public_id = ''CMP-1'', cr_idempotency_key = ''key-00001'', cr_correlation_id = ''corr-0001'',
     cr_causation_id = ''c'', cr_policy_decision_id = Some demo_decision_id, cr_policy_decision_hash = demo_sha,
     cr_requested_at = Some (Aware 0), cr_expires_at = Some (Aware (secs 10)), cr_payload = demo_tel_payload\<rparr>"

definition demo_tel_decision :: tel_decision where
  "demo_tel_decision = \<lparr>pd_id = demo_decision_id, pd_allowed = True, pd_correlation_id = ''corr-0001'',
     pd_context = [(''authorization_scope'', JObj (policy_scope demo_tel_request)),
       (''enforced'', JBool True), (''expiration'', JStr ''T'')], pd_created_at = 0\<rparr>"

definition demo_tel_submission :: tel_submission where
  "demo_tel_submission = \<lparr>sb_operation_public_id = ''OPR-1'', sb_adapter_operation_id = ''a'',
     sb_adapter_service_key = ''telephony-adapter'', sb_endpoint_id = ''e'', sb_endpoint_version_id = ''v'',
     sb_endpoint_key = ''telephony.asterisk.endpoints.apply'',
     sb_readback_endpoint_key = ''telephony.asterisk.endpoints.read'', sb_target_configuration_checksum = ''c'',
     sb_target_attested = True, sb_desired_hash = demo_sha, sb_ambiguous = False\<rparr>"

definition demo_tel_dispatcher :: tel_dispatcher where
  "demo_tel_dispatcher = \<lparr>td_dispatch = (\<lambda>_ _. Inr demo_tel_submission),
     td_readback = (\<lambda>_ _. Inr \<lparr>rb_actual = JObj [], rb_actual_hash = demo_sha, rb_readback_matches = True\<rparr>)\<rparr>"

definition demo_tel_schedule :: "instant \<Rightarrow> tel_schedule" where
  "demo_tel_schedule t = \<lparr>sc_owner = ''w'', sc_operation_id = 5, sc_locked = (\<lambda>_. False), sc_clock = (\<lambda>_. t),
     sc_others = (\<lambda>_ u. u), sc_stopped = (\<lambda>_. False)\<rparr>"

definition demo_tel_start :: tel_db where
  "demo_tel_start = tel_empty\<lparr>tj_decisions := [demo_tel_decision]\<rparr>"

definition demo_tel_created :: tel_db where
  "demo_tel_created = snd (tel_create_command demo_tel_env 0 7 ''key-00001'' demo_tel_request demo_tel_start)"

lemma demo_uuid_pattern: "uuid_pattern demo_decision_id"
proof -
  have "hex_pos 32 0x40008000000000000000 = ''00000000000040008000000000000000''" by code_simp
  then have "hex_digits 32 demo_decision_id = ''00000000000040008000000000000000''"
    unfolding hex_digits_code demo_decision_id_def of_nat_numeral .
  then show ?thesis
    by (simp add: uuid_pattern_def str_uuid_def Let_def one_of_def) (simp add: demo_decision_id_def)
qed

lemma demo_request_valid: "t < secs 10 \<Longrightarrow> request_valid t demo_tel_request = Inr ()"
proof -
  assume t: "t < secs 10"
  have "sha_hex demo_sha" by code_simp
  then have f: "request_fields demo_tel_request"
    using demo_uuid_pattern by (simp add: request_fields_def demo_tel_request_def opt_ok_def len_in_def)
  have p: "payload_valid demo_tel_payload = Inr ()" by code_simp
  have w: "command_window t demo_tel_request = Inr ()"
    using t by (simp add: command_window_def demo_tel_request_def secs_def)
  have x: "\<not> list_ex (\<lambda>(k, v). k \<in> set FORBIDDEN_PAYLOAD_KEYS) (exclude_none (payload_dump demo_tel_payload))"
    by code_simp
  show ?thesis
    using f p w x by (simp add: request_valid_def) (simp add: demo_tel_request_def demo_tel_payload_def)
qed

lemma demo_tel_created_eq:
  "demo_tel_created = demo_tel_start\<lparr>tj_commands := [created demo_tel_env 0 7 demo_tel_request demo_tel_decision]\<rparr>"
proof -
  have v: "request_valid 0 demo_tel_request = Inr ()" by (rule demo_request_valid) (simp add: secs_def)
  have d: "chosen_decision demo_tel_request demo_tel_start = Some demo_tel_decision"
    by (simp add: chosen_decision_def find_decision_def sql_first_def demo_tel_start_def tel_empty_def
        demo_tel_decision_def demo_tel_request_def)
  have r: "demo_tel_request\<lparr>cr_policy_decision_id := Some (pd_id demo_tel_decision)\<rparr> = demo_tel_request"
    by (simp add: demo_tel_request_def demo_tel_decision_def)
  have "same_dict (map_of (pd_context demo_tel_decision) ''authorization_scope'') (policy_scope demo_tel_request)"
    "decision_expiration demo_tel_env demo_tel_decision = Some (Aware (secs 60))"
    "payload_hash demo_tel_env (JObj (pd_context demo_tel_decision)) = cr_policy_decision_hash demo_tel_request"
    "pd_correlation_id demo_tel_decision = cr_correlation_id demo_tel_request"
    "tj_commands demo_tel_start = []" "cr_idempotency_key demo_tel_request = ''key-00001''"
    by (simp_all add: same_dict_def demo_tel_decision_def decision_expiration_def demo_tel_env_def payload_hash_def
        demo_tel_request_def demo_tel_start_def tel_empty_def)
  then show ?thesis
    by (simp add: demo_tel_created_def tel_create_command_def v d r Let_def created_def sql_first_def sql_exists_def
        decision_open_def latest_version_def secs_def)
qed

lemma demo_tel_reachable: "(tel_step demo_tel_env)\<^sup>*\<^sup>* tel_empty demo_tel_created"
proof -
  have "tel_step demo_tel_env tel_empty demo_tel_start"
    using tel_step.decide[of demo_tel_decision tel_empty demo_tel_env]
    by (simp add: demo_tel_start_def tel_empty_def)
  moreover have "tel_step demo_tel_env demo_tel_start demo_tel_created"
    unfolding demo_tel_created_def by (rule tel_step.create)
  ultimately show ?thesis by (meson converse_rtranclp_into_rtranclp rtranclp.rtrancl_refl)
qed

lemma demo_dispatch:
  "let s = snd (dispatch_one demo_tel_env demo_tel_dispatcher (demo_tel_schedule (secs 1)) ''test'' demo_tel_created)
   in map cj_state (tj_commands s) = [ODOO_RESULT_PENDING] \<and> tj_dispatched s = [(7, demo_tel_request)]
      \<and> map oj_state (tj_operations s) = [''ODOO_RESULT_PENDING'']"
proof -
  let ?sc = "demo_tel_schedule (secs 1)"
  have v: "request_valid (secs 1) demo_tel_request = Inr ()" by (rule demo_request_valid) (simp add: secs_def)
  have r: "demo_tel_request\<lparr>cr_policy_decision_id := Some demo_decision_id\<rparr> = demo_tel_request"
    by (simp add: demo_tel_request_def)
  define c where "c = created demo_tel_env 0 7 demo_tel_request demo_tel_decision"
  have c: "cj_command_id c = 7" "cj_request c = demo_tel_request" "cj_state c = AUTHORIZED"
    "cj_next_attempt_at c = None"
    by (simp_all add: c_def created_def new_command_record_def r decision_enforced_def demo_tel_decision_def)
  let ?s1 = "demo_tel_start\<lparr>tj_commands := [leased (secs 1) ''w'' c]\<rparr>"
  have cl: "claim_authorized (secs 1) (\<lambda>_. False) ''w'' ''test'' demo_tel_created = (Some 7, ?s1)"
    unfolding demo_tel_created_eq c_def[symmetric]
    by (simp add: claim_authorized_def c tel_due_def update_command_def leased_def)
       (simp add: demo_tel_request_def)
  have l: "load_claimed (secs 1) 7 ?s1 = Inr (demo_tel_request, None, Some demo_tel_decision)"
  proof -
    have "cr_policy_decision_id demo_tel_request = Some (pd_id demo_tel_decision)"
      by (simp add: demo_tel_request_def demo_tel_decision_def)
    with v show ?thesis
      by (simp add: load_claimed_def find_command_def sql_first_def leased_def c operation_of_def
          find_decision_def demo_tel_start_def tel_empty_def)
  qed
  have p: "validate_policy_for_dispatch demo_tel_env (secs 1) demo_tel_request (Some demo_tel_decision) = Inr ()"
    by (simp add: validate_policy_for_dispatch_def same_dict_def demo_tel_decision_def decision_expiration_def
        demo_tel_env_def payload_hash_def decision_enforced_def decision_open_def secs_def)
       (simp add: demo_tel_request_def)
  define s1 where "s1 = ?s1"
  have s1: "find_command 7 s1 = Some (leased (secs 1) ''w'' c)" "tj_operations s1 = []" "tj_dispatched s1 = []"
    "tj_commands s1 = [leased (secs 1) ''w'' c]"
    by (simp_all add: s1_def find_command_def sql_first_def leased_def c demo_tel_start_def tel_empty_def)
  note evaluate = dispatch_one_def demo_tel_schedule_def cl[folded s1_def] l[folded s1_def] submit_claimed_def p
    Let_def run_while_lease_def demo_tel_dispatcher_def persist_submission_def held_def find_command_def
    sql_first_def leased_def c operation_of_def sql_exists_def update_command_def finalize_dispatch_def
    submitted_operation_def update_operation_def
  show ?thesis by (simp add: evaluate s1)
qed

text \<open>
  No field of a payload has a forbidden name, so the check of the forbidden names never fires.
\<close>

lemma forbidden_keys_never_present:
  "\<not> list_ex (\<lambda>(k, v). k \<in> set FORBIDDEN_PAYLOAD_KEYS) (exclude_none (payload_dump p))"
proof -
  have names: "map fst (payload_dump p) = map fst (payload_dump q)" for q by (simp add: payload_dump_def)
  have "list_all (\<lambda>k. k \<notin> set FORBIDDEN_PAYLOAD_KEYS) (map fst (payload_dump demo_tel_payload))"
    by code_simp
  then have "\<forall>k\<in>set (map fst (payload_dump p)). k \<notin> set FORBIDDEN_PAYLOAD_KEYS"
    unfolding names[of demo_tel_payload] by (simp only: list_all_iff)
  then show ?thesis by (force simp: list_ex_iff exclude_none_def)
qed

section \<open>Properties\<close>

text \<open>
  C39. The telephony journals stay sound whatever transactions the API, the policy engine and any
  number of workers interleave, and a run of \<open>dispatch_one\<close> between whose transactions others commit
  keeps them so. No two commands share an identifier, an idempotency hash, or the version of an
  aggregate; a command in submission has an owner and a lease, and one that waits for a retry has
  failed fewer than eight times; a command has at most one operation and an operation at most one
  terminal result; the transition log of an operation is numbered 1, 2, ... without gaps up to its
  sequence, each entry a step of the transition table; and every command handed to the dispatcher is
  one of the journal, authorised by a stored, enforced decision with its correlation, hash and scope.
\<close>

theorem telephony_journal_sound:
  assumes "(tel_step env)\<^sup>*\<^sup>* tel_empty s" and "quiet env sc"
  shows "tel_sound env s \<and> tel_sound env (snd (dispatch_one env disp sc environment s))"
proof -
  from assms(1) tel_empty_sound have "tel_sound env s" by (rule tel_steps_sound)
  moreover from dispatch_one_steps[OF assms(2)] this
  have "tel_sound env (snd (dispatch_one env disp sc environment s))" by (rule tel_steps_sound)
  ultimately show ?thesis ..
qed

theorem telephony_journal_sound_witness:
  "tel_sound demo_tel_env demo_tel_created
   \<and> tel_sound demo_tel_env
       (snd (dispatch_one demo_tel_env demo_tel_dispatcher (demo_tel_schedule (secs 1)) ''test'' demo_tel_created))
   \<and> tj_dispatched
       (snd (dispatch_one demo_tel_env demo_tel_dispatcher (demo_tel_schedule (secs 1)) ''test'' demo_tel_created))
     = [(7, demo_tel_request)]"
proof -
  have "quiet demo_tel_env (demo_tel_schedule (secs 1))" by (simp add: quiet_def demo_tel_schedule_def)
  from telephony_journal_sound[OF demo_tel_reachable this, of demo_tel_dispatcher "''test''"] demo_dispatch
  show ?thesis by (simp add: Let_def)
qed



end
