(* ===== verification/Spec2Isabelle.thy ===== *)
theory Spec2Isabelle
  imports Ai_Properties Tts_Jobs Callback_Properties Orders Lead_Properties Outbox_Properties
    Telephony_Properties
begin

text \<open>
  Verification of the Codestra middleware, a FastAPI service with its workers on PostgreSQL. The
  service stands between Odoo, n8n, AI and speech providers and the telephony systems. It accepts
  work over HTTP, keeps it in tables, and lets workers claim it under leases, act on a remote system
  and record the outcome. Most of the code answers the same few questions: is a request accepted
  once, does only the holder of a lease act, do states move along a table, does a failure end in a
  retry or a dead letter. The development models these parts and shows what the answers are.

  \<^bold>\<open>How the code is modelled.\<close> A table is the list of its rows, a row a record with the columns, and
  each SQL statement a function on the list (\<open>sql_update\<close>, \<open>sql_first\<close>, \<open>first_by\<close> of \<open>Prelude\<close>). A
  transaction is one function from the database to a result and a database; rows that another
  transaction has locked are a predicate that \<open>SKIP LOCKED\<close> passes over; the time of a transaction
  and fresh UUIDs are arguments. An exception is a value: \<open>pyerr\<close>, \<open>apply_error\<close>, \<open>lead_error\<close> or
  \<open>tel_error\<close>, with the HTTP status where there is one. In-memory services keep the assignments made
  before a raise, database transactions roll back. Concurrency is a step relation: every transaction
  is a step with arguments of any value, so that a property of reachable states holds for every
  interleaving of any number of workers and requests. Records of parameters (\<open>ai_env\<close>, \<open>cb_env\<close>,
  \<open>order_env\<close>, \<open>apply_env\<close>, \<open>client_env\<close>, \<open>lead_env\<close>, \<open>tel_env\<close>) stand for what is not in the repository: digests and
  HMAC, \<open>json.loads\<close>, \<open>fromisoformat\<close>, dumps of pydantic, HTTP transports. Nothing is assumed of
  them beyond the hypotheses a theorem names, and each of those has a witness.

  \<^bold>\<open>Theories.\<close>

  \<^item> \<open>Prelude\<close>: exceptions, instants in microseconds, JSON, SQL statements, and the interfaces as
    locales: \<open>transition_table\<close> (terminal states absorb), \<open>fenced_store\<close> (a worker with a superseded
    token is shut out for ever), \<open>idempotency_ledger\<close> with \<open>replaying_ledger\<close> and \<open>shared_ledger\<close> (the
    first answer under a key is the only one, also among other steps of the system).
  \<^item> \<open>Python\<close>: strings on Latin-1 characters, patterns, number and UUID text, \<open>json.dumps\<close>, dicts,
    \<open>datetime\<close> and \<open>isoformat\<close>, \<open>str\<close> and truth of JSON values, with code equations.
  \<^item> \<open>Ai_Contracts\<close>, \<open>Ai_Store\<close>, \<open>Ai_Jobs\<close>, \<open>Ai_Orchestration\<close>, \<open>Ai_Worker\<close>: the AI job platform
    (\<open>app/core/ai_contracts.py\<close>, \<open>ai_jobs.py\<close>, \<open>ai_orchestration.py\<close>, \<open>app/api/internal/ai_jobs.py\<close>,
    \<open>app/api/v1/ai_console.py\<close>, \<open>ai_commands.py\<close>, the decisions of \<open>app/workers/openai_jobs.py\<close>, and
    the tables of migrations 0030 to 0032, together the record \<open>ai_db\<close>). \<open>Ai_Safety\<close> has the step
    relation \<open>ai_step\<close> and the invariants and interprets \<open>fenced_store\<close> (\<open>ai_fence\<close>) and the ledgers
    (\<open>ai_ledger\<close>, \<open>ai_shared\<close>) on it; \<open>Ai_Properties\<close> has C1 to C8.
  \<^item> \<open>Tts_Jobs\<close>: text-to-speech jobs (\<open>app/core/tts_jobs.py\<close>, migration 0033), with \<open>tts_life\<close>,
    \<open>tts_fence\<close> and \<open>tts_ledger\<close>; C9 to C12.
  \<^item> \<open>Callbacks\<close>: the callback registry (\<open>app/core/callbacks.py\<close>, \<open>callback_rls.py\<close>,
    \<open>app/api/v1/callbacks.py\<close>), its row-level security (migration 0052), the scheduler
    (\<open>app/callback_scheduler.py\<close>) and the popup worker (\<open>app/workers/callback_realtime.py\<close>).
    \<open>Callback_Safety\<close> has steps and invariants, with \<open>cb_life\<close>; \<open>Callback_Properties\<close> has
    \<open>cb_ledger\<close>, \<open>cb_shared\<close> and C13 to C20.
  \<^item> \<open>Orders\<close>: approved orders (\<open>app/order_orchestration.py\<close>, \<open>app/api/v1/orders.py\<close>); C21 to C23.
  \<^item> \<open>Odoo_Apply\<close>: the signed Odoo contract for leads and its client
    (\<open>app/adapters/odoo/lead_automation.py\<close>), with \<open>odoo_ledger\<close>; C24 to C27.
  \<^item> \<open>Lead_Automation\<close>: the lead service (\<open>app/core/lead_automation.py\<close>), its signed callback
    (\<open>app/core/lead_callback_auth.py\<close>) and endpoints (\<open>app/api/v1/lead_automation.py\<close>), on top of the
    contract of \<open>Odoo_Apply\<close>. \<open>Lead_Properties\<close> has the steps, \<open>intake_ledger\<close> and C28 to C33.
  \<^item> \<open>Outbox\<close>: redaction and retry policy (\<open>app/core/reliability.py\<close>), the outbox transactions and the
    maintenance cycle (\<open>app/workers/outbox.py\<close>, \<open>dead_letter.py\<close>, \<open>reconciliation.py\<close>,
    \<open>scheduler.py\<close>), the leases of integration deliveries (\<open>delivery.py\<close>) and the delivery of scraped
    leads (\<open>scraper_odoo_delivery.py\<close>), which composes an outbox row with the client of
    \<open>Odoo_Apply\<close>. \<open>Outbox_Properties\<close> has C34 to C38.
  \<^item> \<open>Telephony\<close>: the telephony commands (\<open>app/core/telephony_commands.py\<close>, \<open>app/api/v1/commands.py\<close>,
    \<open>app/adapters/telephony/client.py\<close>, \<open>app/workers/telephony_commands.py\<close>) on the five journals of
    \<open>app/db/models.py\<close> (\<open>tel_db\<close>). \<open>Telephony_Properties\<close> has the steps, the effects they are made of,
    \<open>tel_life\<close>, and C39 and C40.

  \<^bold>\<open>What is shown.\<close> Numbers are those of the properties.

  \<^item> Invariants of all reachable states: attempts and finished AI jobs (C2, C3), the life cycle of speech jobs (C10), one
    event for every version of a callback (C13), the walk of states along the tables (C14, C28), the
    order store (C21), the lead service (C29), outbox rows (C36), the telephony journals (C39).
  \<^item> Who may act: superseded workers are shut out (C1, C11), a claim takes the first job that the
    admission rules allow (C4, C5), a provider is asked once (C9), deliveries of an entity go out one
    at a time and in order (C37), callers do not touch callbacks of others (C17), finished callbacks
    are not reminded (C15), only admitted leads reach the outbox (C32), only authorised commands reach the telephony adapter (C39).
  \<^item> Idempotency: one answer per key (C6, C16, C31), one application per payload (C27), one acceptance
    per signature (C25, C33); a signature binds every field (C24).
  \<^item> Totality and bounds: attempts of the Odoo client (C26), normal forms (C19), counters (C20),
    redaction at any depth (C34).
  \<^item> What the code does and does not mean to: C7, C8, C12, C18, C22, C23, C30, C35, C38 and C40 prove
    the behaviour, and the findings of the manifest say what a comment, a document or the rest of the
    code expects instead.

  \<^bold>\<open>Recursion and bounds.\<close> All definitions are total. The loops over rows, deliveries and JSON values
  are structural. The retry loop of the Odoo client recurs on the attempts that remain, which start
  at the configured maximum, so no fuel is chosen; the popup worker handles the rows it selected at
  the start. Functions on text that consume a varying part of their input have termination proofs
  by its length. The endless polling loops of the processes are not definitions: a property about
  repeated polling is stated for every number of runs (C12, C40).

  \<^bold>\<open>Not modelled.\<close>

  \<^item> Configuration (\<open>app/core/config.py\<close>), process entry points and HTTP glue: declarations and wiring;
    a setting that an operation reads is an argument of its definition.
  \<^item> The WebSocket gateway and the webphone, the Qwen polling worker, e-mail, publishing and provider
    clients, recordings: input and output with remote processes; the server's side of their
    protocols, where it keeps state, is in the AI and callback theories.
  \<^item> Sales intake and social publishing: their behaviour lies in SQL searches and in remote
    publishers; only the delivery of a scraped lead is modelled.
  \<^item> n8n transport and runtime, quarantine and event intake: Redis streams, NATS JetStream and schema
    files that the build installs.
  \<^item> The policy engine, the controller and the allocation of telephony resources: a stored decision
    is a row of the telephony model, any row may be added, and how it is made is left open.
  \<^item> The endpoint registry and the common service client: parameters of the telephony client, which
    reaches them through an interface.
  \<^item> Of modelled parts: the HTTP calls of the OpenAI worker, the Redis wake-up queue of the scraper
    delivery, gauges and log lines, the read endpoints that look up one row, the rewriting of the
    older telephony envelope, and of \<open>app/db/models.py\<close> and the migrations every table that no
    modelled operation reads.
\<close>

end
